(* ===== verification/Prelude.thy ===== *)
theory Prelude
  imports Main "HOL-Library.Word" "HOL-Library.Char_ord" "HOL-Library.List_Lexorder"
begin

section \<open>Shared vocabulary of the StreamWeave services\<close>

text \<open>
  What the three Go services share: byte strings with the operations of package
  \<^verbatim>\<open>strings\<close> that the sources call, the anchored regular expressions
  they validate identifiers with, instants, fixed-width integers, error values with
  their \<^verbatim>\<open>errors.Is\<close> chain, and tables as lists of rows.  The lemma collection
  \<open>row_simps\<close> (selection and update of rows) carries the proofs about queries.
\<close>

named_theorems row_simps \<open>selection and update of table rows\<close>

subsection \<open>Bytes and strings\<close>

text \<open>
  A Go string is a sequence of bytes; \<^typ>\<open>string\<close> is a list of 8-bit
  characters, so \<^verbatim>\<open>len\<close> is \<^const>\<open>length\<close>.
\<close>

abbreviation byte :: "char \<Rightarrow> nat" where
  "byte c \<equiv> of_char c"

definition between :: "char \<Rightarrow> char \<Rightarrow> char \<Rightarrow> bool" where
  "between lo hi c \<longleftrightarrow> byte lo \<le> byte c \<and> byte c \<le> byte hi"

lemma int_byte: "int (byte c) = of_char c"
  by (cases c) simp

lemma between_code [code]: "between lo hi c \<longleftrightarrow> (of_char lo :: int) \<le> of_char c \<and> (of_char c :: int) \<le> of_char hi"
  unfolding between_def int_byte [symmetric] by simp

definition is_upper :: "char \<Rightarrow> bool" where
  "is_upper c \<longleftrightarrow> between CHR ''A'' CHR ''Z'' c"

definition is_lower :: "char \<Rightarrow> bool" where
  "is_lower c \<longleftrightarrow> between CHR ''a'' CHR ''z'' c"

definition is_digit :: "char \<Rightarrow> bool" where
  "is_digit c \<longleftrightarrow> between CHR ''0'' CHR ''9'' c"

definition is_alnum :: "char \<Rightarrow> bool" where
  "is_alnum c \<longleftrightarrow> is_upper c \<or> is_lower c \<or> is_digit c"

text \<open>The classes on the bits of a byte, for evaluation.\<close>

lemma is_lower_code [code]:
  "is_lower (Char b0 b1 b2 b3 b4 b5 b6 b7) \<longleftrightarrow>
     \<not> b7 \<and> b6 \<and> b5 \<and> (b0 \<or> b1 \<or> b2 \<or> b3 \<or> b4) \<and> \<not> (b4 \<and> b3 \<and> (b2 \<or> b1 \<and> b0))"
  by (cases b0; cases b1; cases b2; cases b3; cases b4; cases b5; cases b6; cases b7)
     (simp_all add: is_lower_def between_def)

lemma is_upper_code [code]:
  "is_upper (Char b0 b1 b2 b3 b4 b5 b6 b7) \<longleftrightarrow>
     \<not> b7 \<and> b6 \<and> \<not> b5 \<and> (b0 \<or> b1 \<or> b2 \<or> b3 \<or> b4) \<and> \<not> (b4 \<and> b3 \<and> (b2 \<or> b1 \<and> b0))"
  by (cases b0; cases b1; cases b2; cases b3; cases b4; cases b5; cases b6; cases b7)
     (simp_all add: is_upper_def between_def)

lemma is_digit_code [code]:
  "is_digit (Char b0 b1 b2 b3 b4 b5 b6 b7) \<longleftrightarrow> \<not> b7 \<and> \<not> b6 \<and> b5 \<and> b4 \<and> \<not> (b3 \<and> (b2 \<or> b1))"
  by (cases b0; cases b1; cases b2; cases b3; cases b4; cases b5; cases b6; cases b7)
     (simp_all add: is_digit_def between_def)

definition HasPrefix :: "string \<Rightarrow> string \<Rightarrow> bool" where
  "HasPrefix s p \<longleftrightarrow> take (length p) s = p"

definition HasSuffix :: "string \<Rightarrow> string \<Rightarrow> bool" where
  "HasSuffix s p \<longleftrightarrow> length p \<le> length s \<and> drop (length s - length p) s = p"

definition TrimPrefix :: "string \<Rightarrow> string \<Rightarrow> string" where
  "TrimPrefix s p = (if HasPrefix s p then drop (length p) s else s)"

definition TrimSuffix :: "string \<Rightarrow> string \<Rightarrow> string" where
  "TrimSuffix s p = (if HasSuffix s p then take (length s - length p) s else s)"

lemma HasPrefix_append [simp]: "HasPrefix (p @ s) p"
  by (simp add: HasPrefix_def)

lemma HasPrefix_iff: "HasPrefix s p \<longleftrightarrow> (\<exists>r. s = p @ r)"
  unfolding HasPrefix_def by (metis append_eq_conv_conj append_take_drop_id)

lemma TrimPrefix_append [simp]: "TrimPrefix (p @ s) p = s"
  by (simp add: TrimPrefix_def)

lemma TrimPrefix_id: "HasPrefix s p \<Longrightarrow> p @ TrimPrefix s p = s"
  by (auto simp: HasPrefix_iff)

text \<open>
  \<^verbatim>\<open>unicode.IsSpace\<close>, as the UTF-8 encodings of the white space code
  points.  No encoding is a proper prefix of another one and none starts inside a
  multi-byte character, so trimming and splitting by code point is trimming and splitting
  by these byte sequences, on malformed input too.
\<close>

definition utf8_spaces :: "string list" where
  "utf8_spaces =
     [[CHR 0x20], [CHR 0x09], [CHR 0x0A], [CHR 0x0B], [CHR 0x0C], [CHR 0x0D],
      [CHR 0xC2, CHR 0x85], [CHR 0xC2, CHR 0xA0], [CHR 0xE1, CHR 0x9A, CHR 0x80],
      [CHR 0xE2, CHR 0x80, CHR 0x80], [CHR 0xE2, CHR 0x80, CHR 0x81],
      [CHR 0xE2, CHR 0x80, CHR 0x82], [CHR 0xE2, CHR 0x80, CHR 0x83],
      [CHR 0xE2, CHR 0x80, CHR 0x84], [CHR 0xE2, CHR 0x80, CHR 0x85],
      [CHR 0xE2, CHR 0x80, CHR 0x86], [CHR 0xE2, CHR 0x80, CHR 0x87],
      [CHR 0xE2, CHR 0x80, CHR 0x88], [CHR 0xE2, CHR 0x80, CHR 0x89],
      [CHR 0xE2, CHR 0x80, CHR 0x8A], [CHR 0xE2, CHR 0x80, CHR 0xA8],
      [CHR 0xE2, CHR 0x80, CHR 0xA9], [CHR 0xE2, CHR 0x80, CHR 0xAF],
      [CHR 0xE2, CHR 0x81, CHR 0x9F], [CHR 0xE3, CHR 0x80, CHR 0x80]]"

lemma utf8_spaces_nonempty: "e \<in> set utf8_spaces \<Longrightarrow> e \<noteq> []"
  by (auto simp: utf8_spaces_def)

text \<open>\<open>strip encs s\<close> drops leading members of \<open>encs\<close> while there is one.\<close>

function strip :: "string list \<Rightarrow> string \<Rightarrow> string" where
  "strip encs s =
     (case find (\<lambda>e. e \<noteq> [] \<and> HasPrefix s e) encs of
        None \<Rightarrow> s
      | Some e \<Rightarrow> strip encs (drop (length e) s))"
  by pat_completeness auto
termination
proof (relation "measure (\<lambda>(encs, s). length s)", simp)
  fix encs :: "string list" and s e
  assume "find (\<lambda>e. e \<noteq> [] \<and> HasPrefix s e) encs = Some e"
  then have "e \<noteq> []" and "HasPrefix s e" by (auto simp: find_Some_iff)
  then show "((encs, drop (length e) s), (encs, s)) \<in> measure (\<lambda>(encs, s). length s)"
    by (auto simp: HasPrefix_iff)
qed

declare strip.simps [simp del]

definition TrimSpace :: "string \<Rightarrow> string" where
  "TrimSpace s = rev (strip (map rev utf8_spaces) (rev (strip utf8_spaces s)))"

function fields_from :: "string \<Rightarrow> string \<Rightarrow> string list" where
  "fields_from cur [] = (if cur = [] then [] else [rev cur])"
| "fields_from cur (c # s) =
     (case find (\<lambda>e. e \<noteq> [] \<and> HasPrefix (c # s) e) utf8_spaces of
        None \<Rightarrow> fields_from (c # cur) s
      | Some e \<Rightarrow>
          (if cur = [] then [] else [rev cur]) @ fields_from [] (drop (length e) (c # s)))"
  by pat_completeness auto
termination
proof (relation "measure (\<lambda>(cur, s). length s)", simp, simp)
  fix c s and e :: string
  assume "find (\<lambda>e. e \<noteq> [] \<and> HasPrefix (c # s) e) utf8_spaces = Some e"
  then have "e \<noteq> []" by (auto simp: find_Some_iff)
  then show "(([], drop (length e) (c # s)), (cur, c # s)) \<in> measure (\<lambda>(cur, s). length s)"
    for cur :: string by (cases e) auto
qed

declare fields_from.simps [simp del]

definition Fields :: "string \<Rightarrow> string list" where
  "Fields s = fields_from [] s"

text \<open>\<^verbatim>\<open>strings.Split\<close> on a one-byte separator, and \<^verbatim>\<open>strings.Join\<close>.\<close>

fun SplitOn :: "char \<Rightarrow> string \<Rightarrow> string list" where
  "SplitOn sep [] = [[]]"
| "SplitOn sep (c # s) =
     (if c = sep then [] # SplitOn sep s
      else (case SplitOn sep s of [] \<Rightarrow> [[c]] | w # ws \<Rightarrow> (c # w) # ws))"

fun JoinWith :: "string \<Rightarrow> string list \<Rightarrow> string" where
  "JoinWith sep [] = []"
| "JoinWith sep [w] = w"
| "JoinWith sep (w # v # ws) = w @ sep @ JoinWith sep (v # ws)"

lemma SplitOn_nonempty [simp]: "SplitOn sep s \<noteq> []"
  by (induction s) (auto split: list.splits)

lemma JoinWith_SplitOn: "JoinWith [sep] (SplitOn sep s) = s"
proof (induction s)
  case (Cons c s)
  then show ?case
    by (cases "SplitOn sep s"; cases "tl (SplitOn sep s)") auto
qed simp

lemma SplitOn_no_sep: "sep \<notin> set s \<Longrightarrow> SplitOn sep s = [s]"
  by (induction s) auto

lemma SplitOn_append: "sep \<notin> set a \<Longrightarrow> SplitOn sep (a @ sep # b) = a # SplitOn sep b"
  by (induction a) auto

text \<open>Trimming twice, and the words of words joined by spaces.\<close>

lemma find_prefix_strip: "find (\<lambda>e. e \<noteq> [] \<and> HasPrefix (strip encs s) e) encs = None"
proof (induction encs s rule: strip.induct)
  case (1 encs s)
  then show ?case
    by (cases "find (\<lambda>e. e \<noteq> [] \<and> HasPrefix s e) encs") (simp_all add: strip.simps [of encs s])
qed

lemma strip_stays: "find (\<lambda>e. e \<noteq> [] \<and> HasPrefix s e) encs = None \<Longrightarrow> strip encs s = s"
  by (simp add: strip.simps)

lemma HasPrefix_shorter: "HasPrefix s e \<Longrightarrow> HasPrefix (s @ t) e"
  by (auto simp: HasPrefix_iff)

lemma strip_suffix: "\<exists>t. s = t @ strip encs s"
proof (induction encs s rule: strip.induct)
  case (1 encs s)
  show ?case
  proof (cases "find (\<lambda>e. e \<noteq> [] \<and> HasPrefix s e) encs")
    case (Some e)
    from 1 [OF Some] obtain t where "drop (length e) s = t @ strip encs (drop (length e) s)" by blast
    then have "s = (take (length e) s @ t) @ strip encs s"
      using Some by (simp add: strip.simps [of encs s])
    then show ?thesis by blast
  qed (simp add: strip.simps)
qed

lemma TrimSpace_idem [simp]: "TrimSpace (TrimSpace s) = TrimSpace s"
proof -
  let ?u = "strip utf8_spaces s" and ?R = "map rev utf8_spaces"
  let ?v = "strip ?R (rev ?u)"
  obtain t where "rev ?u = t @ ?v" using strip_suffix by blast
  then have u: "?u = rev ?v @ rev t" by (metis rev_append rev_rev_ident)
  have "find (\<lambda>e. e \<noteq> [] \<and> HasPrefix (rev ?v) e) utf8_spaces = None"
    using find_prefix_strip [of utf8_spaces s] HasPrefix_shorter [of "rev ?v" _ "rev t"]
    unfolding u [symmetric] find_None_iff by metis
  then have "strip utf8_spaces (rev ?v) = rev ?v" by (rule strip_stays)
  moreover have "strip ?R ?v = ?v" by (rule strip_stays [OF find_prefix_strip])
  ultimately show ?thesis by (simp add: TrimSpace_def)
qed

lemma space_alone: "e \<in> set utf8_spaces \<Longrightarrow> CHR '' '' \<notin> set (tl e)"
  by (auto simp: utf8_spaces_def)

lemma prefix_before_space:
  assumes "e \<in> set utf8_spaces" "w \<noteq> []"
  shows "HasPrefix (w @ CHR '' '' # r) e \<longleftrightarrow> HasPrefix w e"
proof
  assume p: "HasPrefix (w @ CHR '' '' # r) e"
  then obtain x where x: "w @ CHR '' '' # r = e @ x" by (metis HasPrefix_def append_take_drop_id)
  have "length e \<le> length w"
  proof (rule ccontr)
    assume "\<not> length e \<le> length w"
    then have l: "length w < length e" by simp
    have "e ! length w = CHR '' ''" using x l by (metis nth_append nth_append_length)
    moreover have "e ! length w = tl e ! (length w - 1)" using l assms(2) by (cases e) (auto simp: nth_Cons')
    moreover have "length w - 1 < length (tl e)" using l assms(2) by (cases w) auto
    ultimately have "CHR '' '' \<in> set (tl e)" by (metis nth_mem)
    with space_alone [OF assms(1)] show False by simp
  qed
  with p show "HasPrefix w e" by (simp add: HasPrefix_def)
qed (simp add: HasPrefix_shorter)

lemma fields_from_space: "fields_from cur (w @ CHR '' '' # r) = fields_from cur w @ fields_from [] r"
proof (induction cur w rule: fields_from.induct)
  case (1 cur)
  have "find (\<lambda>e. e \<noteq> [] \<and> HasPrefix (CHR '' '' # r) e) utf8_spaces = Some '' ''"
    by (simp add: utf8_spaces_def HasPrefix_def)
  then show ?case by (simp add: fields_from.simps)
next
  case (2 cur c w)
  have same: "find (\<lambda>e. e \<noteq> [] \<and> HasPrefix (c # w @ CHR '' '' # r) e) utf8_spaces
      = find (\<lambda>e. e \<noteq> [] \<and> HasPrefix (c # w) e) utf8_spaces"
    by (rule find_cong) (use prefix_before_space [of _ "c # w"] in auto)
  show ?case
  proof (cases "find (\<lambda>e. e \<noteq> [] \<and> HasPrefix (c # w) e) utf8_spaces")
    case None
    with 2(1) same show ?thesis by (simp add: fields_from.simps)
  next
    case (Some e)
    then have "HasPrefix (c # w) e" "e \<noteq> []" by (auto simp: find_Some_iff)
    then have "length e \<le> length (c # w)" unfolding HasPrefix_def by (metis length_take min.cobounded1)
    then have "drop (length e) (c # w @ CHR '' '' # r) = drop (length e) (c # w) @ CHR '' '' # r"
      by (metis append_Cons append_eq_append_conv2 drop_append diff_is_0_eq drop0)
    with 2(2) [OF Some] same Some show ?thesis by (simp add: fields_from.simps)
  qed
qed

lemma Fields_JoinWith: "Fields (JoinWith '' '' ws) = concat (map Fields ws)"
proof (induction ws rule: induct_list012)
  case (3 w v ws)
  then show ?case by (simp add: Fields_def fields_from_space)
qed (simp_all add: Fields_def fields_from.simps)

definition plain_char :: "char \<Rightarrow> bool" where
  "plain_char c \<longleftrightarrow> list_all (\<lambda>e. e = [] \<or> hd e \<noteq> c \<and> last e \<noteq> c) utf8_spaces"

lemma no_space_prefix:
  assumes "plain_char c"
  shows "find (\<lambda>e. e \<noteq> [] \<and> HasPrefix (c # s) e) utf8_spaces = None"
    and "find (\<lambda>e. e \<noteq> [] \<and> HasPrefix (c # s) e) (map rev utf8_spaces) = None"
proof -
  have "hd e = c" if "e \<noteq> []" "HasPrefix (c # s) e" for e
    using that by (cases e) (auto simp: HasPrefix_def)
  then show "find (\<lambda>e. e \<noteq> [] \<and> HasPrefix (c # s) e) utf8_spaces = None"
    and "find (\<lambda>e. e \<noteq> [] \<and> HasPrefix (c # s) e) (map rev utf8_spaces) = None"
    using assms by (fastforce simp: find_None_iff plain_char_def list_all_iff hd_rev)+
qed

lemma fields_from_word: "list_all plain_char w \<Longrightarrow> cur \<noteq> [] \<or> w \<noteq> [] \<Longrightarrow> fields_from cur w = [rev cur @ w]"
  by (induction w arbitrary: cur) (simp_all add: fields_from.simps no_space_prefix)

lemma Fields_word: "list_all plain_char w \<Longrightarrow> w \<noteq> [] \<Longrightarrow> Fields w = [w]"
  by (simp add: Fields_def fields_from_word)

lemma strip_word: "list_all plain_char w \<Longrightarrow> strip utf8_spaces w = w \<and> strip (map rev utf8_spaces) w = w"
  using no_space_prefix
  by (cases w) (auto intro!: strip_stays simp: find_None_iff HasPrefix_def)

lemma TrimSpace_word: "list_all plain_char w \<Longrightarrow> TrimSpace w = w"
  by (simp add: TrimSpace_def strip_word list_all_rev)

text \<open>
  \<^verbatim>\<open>strings.ToUpper\<close> and \<^verbatim>\<open>strings.ToLower\<close>: the ASCII letters,
  and the four non-ASCII letters whose case mapping is an ASCII letter (dotless i and
  long s upwards, dotted capital I and the Kelvin sign downwards).  Case mappings between
  non-ASCII letters leave the bytes non-ASCII and are not distinguished: the callers match
  the result against ASCII patterns or ASCII constants.
\<close>

definition upper_byte :: "char \<Rightarrow> char" where
  "upper_byte c = (if is_lower c then char_of (byte c - 32) else c)"

definition lower_byte :: "char \<Rightarrow> char" where
  "lower_byte c = (if is_upper c then char_of (byte c + 32) else c)"

lemma upper_byte_code [code]:
  "upper_byte (Char b0 b1 b2 b3 b4 b5 b6 b7) =
     Char b0 b1 b2 b3 b4 (b5 \<and> \<not> is_lower (Char b0 b1 b2 b3 b4 b5 b6 b7)) b6 b7"
  by (cases b0; cases b1; cases b2; cases b3; cases b4; cases b5; cases b6; cases b7)
     (simp_all add: upper_byte_def is_lower_code char_of_def bit_0)

lemma lower_byte_code [code]:
  "lower_byte (Char b0 b1 b2 b3 b4 b5 b6 b7) =
     Char b0 b1 b2 b3 b4 (b5 \<or> is_upper (Char b0 b1 b2 b3 b4 b5 b6 b7)) b6 b7"
  by (cases b0; cases b1; cases b2; cases b3; cases b4; cases b5; cases b6; cases b7)
     (simp_all add: lower_byte_def is_upper_code char_of_def bit_0)

fun ToUpper :: "string \<Rightarrow> string" where
  "ToUpper [] = []"
| "ToUpper [c] = [upper_byte c]"
| "ToUpper (c # d # s) =
     (if c = CHR 0xC4 \<and> d = CHR 0xB1 then CHR ''I'' # ToUpper s
      else if c = CHR 0xC5 \<and> d = CHR 0xBF then CHR ''S'' # ToUpper s
      else upper_byte c # ToUpper (d # s))"

fun ToLower :: "string \<Rightarrow> string" where
  "ToLower [] = []"
| "ToLower [c] = [lower_byte c]"
| "ToLower [c, d] =
     (if c = CHR 0xC4 \<and> d = CHR 0xB0 then [CHR ''i'']
      else [lower_byte c, lower_byte d])"
| "ToLower (c # d # e # s) =
     (if c = CHR 0xC4 \<and> d = CHR 0xB0 then CHR ''i'' # ToLower (e # s)
      else if c = CHR 0xE2 \<and> d = CHR 0x84 \<and> e = CHR 0xAA then CHR ''k'' # ToLower s
      else lower_byte c # ToLower (d # e # s))"

subsection \<open>Anchored patterns\<close>

text \<open>\<open>^pre[A-Za-z0-9]+$\<close>, the shape of every identifier of the platform.\<close>

definition tagged_id :: "string \<Rightarrow> string \<Rightarrow> bool" where
  "tagged_id pre s \<longleftrightarrow>
     HasPrefix s pre \<and> drop (length pre) s \<noteq> [] \<and> list_all is_alnum (drop (length pre) s)"

text \<open>\<open>^[class]{lo,hi}$\<close>.\<close>

definition class_between :: "(char \<Rightarrow> bool) \<Rightarrow> nat \<Rightarrow> nat \<Rightarrow> string \<Rightarrow> bool" where
  "class_between p lo hi s \<longleftrightarrow> lo \<le> length s \<and> length s \<le> hi \<and> list_all p s"

definition key_char :: "char \<Rightarrow> bool" where
  "key_char c \<longleftrightarrow> is_alnum c \<or> c \<in> {CHR ''.'', CHR ''_'', CHR '':'', CHR ''-''}"

text \<open>\<open>^[A-Z][A-Z0-9_]{lo,hi}$\<close>, reason and failure codes.\<close>

definition code_pattern :: "nat \<Rightarrow> nat \<Rightarrow> string \<Rightarrow> bool" where
  "code_pattern lo hi s \<longleftrightarrow>
     (case s of [] \<Rightarrow> False
      | c # r \<Rightarrow> is_upper c \<and> class_between (\<lambda>d. is_upper d \<or> is_digit d \<or> d = CHR ''_'') lo hi r)"

lemma tagged_id_nonempty: "tagged_id pre s \<Longrightarrow> s \<noteq> []"
  by (auto simp: tagged_id_def)

lemma tagged_id_append: "tagged_id pre (pre @ r) \<longleftrightarrow> r \<noteq> [] \<and> list_all is_alnum r"
  by (simp add: tagged_id_def)

subsection \<open>Instants\<close>

text \<open>
  A \<^verbatim>\<open>time.Time\<close>: nanoseconds since Go's zero time, and whether its
  location is UTC (the domain compares \<^verbatim>\<open>Location()\<close> with
  \<^verbatim>\<open>time.UTC\<close>).
\<close>

record gotime =
  instant :: int
  utc :: bool

definition zero_time :: gotime where
  "zero_time = \<lparr>instant = 0, utc = True\<rparr>"

definition IsZero :: "gotime \<Rightarrow> bool" where
  "IsZero t \<longleftrightarrow> instant t = 0"

definition UTC :: "gotime \<Rightarrow> gotime" where
  "UTC t = t\<lparr>utc := True\<rparr>"

definition After :: "gotime \<Rightarrow> gotime \<Rightarrow> bool" where
  "After a b \<longleftrightarrow> instant b < instant a"

definition Before :: "gotime \<Rightarrow> gotime \<Rightarrow> bool" where
  "Before a b \<longleftrightarrow> instant a < instant b"

definition plus_ns :: "gotime \<Rightarrow> int \<Rightarrow> gotime" where
  "plus_ns t d = t\<lparr>instant := instant t + d\<rparr>"

definition seconds :: "int \<Rightarrow> int" where
  "seconds n = n * 1000000000"

definition minutes :: "int \<Rightarrow> int" where
  "minutes n = seconds (60 * n)"

definition hours :: "int \<Rightarrow> int" where
  "hours n = minutes (60 * n)"

lemma utc_UTC [simp]: "utc (UTC t)" and instant_UTC [simp]: "instant (UTC t) = instant t"
  by (simp_all add: UTC_def)

subsection \<open>Fixed-width integers\<close>

text \<open>
  Signed 64-bit arithmetic as \<^typ>\<open>int\<close> with the two's complement wrap written
  out; \<^verbatim>\<open>uint64\<close> versions are \<open>64 word\<close>.
\<close>

definition wrap64 :: "int \<Rightarrow> int" where
  "wrap64 n = (n + 2 ^ 63) mod 2 ^ 64 - 2 ^ 63"

definition in_int64 :: "int \<Rightarrow> bool" where
  "in_int64 n \<longleftrightarrow> - (2 ^ 63) \<le> n \<and> n < 2 ^ 63"

definition in_int32 :: "int \<Rightarrow> bool" where
  "in_int32 n \<longleftrightarrow> - (2 ^ 31) \<le> n \<and> n < 2 ^ 31"

definition wrap32 :: "int \<Rightarrow> int" where
  "wrap32 n = (n + 2 ^ 31) mod 2 ^ 32 - 2 ^ 31"

lemma wrap32_id: "in_int32 n \<Longrightarrow> wrap32 n = n"
  by (simp add: wrap32_def in_int32_def)

lemma wrap64_id: "in_int64 n \<Longrightarrow> wrap64 n = n"
  by (simp add: wrap64_def in_int64_def)

lemma in_int64_wrap64: "in_int64 (wrap64 n)"
proof -
  have "0 \<le> (n + 2 ^ 63) mod 2 ^ 64" and "(n + 2 ^ 63) mod 2 ^ 64 < (2 :: int) ^ 64"
    by simp_all
  then show ?thesis by (simp add: wrap64_def in_int64_def)
qed

text \<open>\<^verbatim>\<open>int64(v)\<close> and \<^verbatim>\<open>uint64(n)\<close>.\<close>

definition int64_of :: "64 word \<Rightarrow> int" where
  "int64_of v = sint v"

definition uint64_of :: "int \<Rightarrow> 64 word" where
  "uint64_of n = word_of_int n"

lemma int64_of_uint64_of: "in_int64 n \<Longrightarrow> int64_of (uint64_of n) = n"
  by (simp add: int64_of_def uint64_of_def in_int64_def sint_sbintrunc' signed_take_bit_int_eq_self)

lemma int64_of_inj: "int64_of v = int64_of w \<longleftrightarrow> v = w"
  unfolding int64_of_def by (metis scast_id of_int_sint)

lemma in_int64_int64_of: "in_int64 (int64_of v)"
  using sint_range_size [of v] by (simp add: in_int64_def int64_of_def word_size)

subsection \<open>Error values\<close>

text \<open>
  A Go error is the list of sentinel errors in its chain (what
  \<^verbatim>\<open>errors.Is\<close> finds) and its message.
\<close>

datatype 'k goerr = GoErr (sentinels: "'k list") (errText: string)

definition errIs :: "'k goerr \<Rightarrow> 'k \<Rightarrow> bool" where
  "errIs e k \<longleftrightarrow> k \<in> set (sentinels e)"

text \<open>\<^verbatim>\<open>errors.Join\<close> of two errors.\<close>

definition errJoin :: "'k goerr \<Rightarrow> 'k goerr \<Rightarrow> 'k goerr" where
  "errJoin a b = GoErr (sentinels a @ sentinels b) (errText a @ [CHR 0x0A] @ errText b)"

lemma errIs_GoErr [simp]: "errIs (GoErr ks t) k \<longleftrightarrow> k \<in> set ks"
  by (simp add: errIs_def)

lemma errIs_errJoin [simp]: "errIs (errJoin a b) k \<longleftrightarrow> errIs a k \<or> errIs b k"
  by (simp add: errIs_def errJoin_def)

subsection \<open>Tables\<close>

text \<open>
  A table is the list of its rows.  \<open>update_where\<close> is
  \<^verbatim>\<open>UPDATE ... WHERE\<close>; its row count is the number of selected rows.
\<close>

definition select_one :: "('r \<Rightarrow> bool) \<Rightarrow> 'r list \<Rightarrow> 'r option" where
  "select_one p t = find p t"

definition update_where :: "('r \<Rightarrow> bool) \<Rightarrow> ('r \<Rightarrow> 'r) \<Rightarrow> 'r list \<Rightarrow> 'r list" where
  "update_where p f t = map (\<lambda>r. if p r then f r else r) t"

definition count_where :: "('r \<Rightarrow> bool) \<Rightarrow> 'r list \<Rightarrow> nat" where
  "count_where p t = length (filter p t)"

definition keyed :: "('r \<Rightarrow> 'k) \<Rightarrow> 'r list \<Rightarrow> bool" where
  "keyed k t \<longleftrightarrow> distinct (map k t)"

lemma select_one_Some: "select_one p t = Some r \<Longrightarrow> r \<in> set t \<and> p r"
  by (auto simp: select_one_def find_Some_iff)

lemma select_one_None [row_simps]: "select_one p t = None \<longleftrightarrow> (\<forall>r \<in> set t. \<not> p r)"
  by (auto simp: select_one_def find_None_iff)

lemma select_one_simps [row_simps]:
  "select_one p [] = None"
  "select_one p (r # t) = (if p r then Some r else select_one p t)"
  by (simp_all add: select_one_def)

lemma select_one_append [row_simps]:
  "select_one p (t @ u) = (case select_one p t of Some r \<Rightarrow> Some r | None \<Rightarrow> select_one p u)"
  by (induction t) (auto simp: row_simps)

lemma select_one_key:
  "keyed k t \<Longrightarrow> r \<in> set t \<Longrightarrow> select_one (\<lambda>x. k x = k r) t = Some r"
  by (induction t) (auto simp: keyed_def row_simps image_iff)

lemma set_update_where:
  "x \<in> set (update_where p f t) \<longleftrightarrow> (\<exists>r \<in> set t. x = (if p r then f r else r))"
  by (auto simp: update_where_def)

lemma update_where_none [row_simps]: "\<forall>r \<in> set t. \<not> p r \<Longrightarrow> update_where p f t = t"
  by (simp add: update_where_def map_idI)

lemma map_update_where: "(\<And>r. g (f r) = g r) \<Longrightarrow> map g (update_where p f t) = map g t"
  by (simp add: update_where_def)

lemma keyed_update_where: "(\<And>r. k (f r) = k r) \<Longrightarrow> keyed k (update_where p f t) = keyed k t"
  by (simp add: keyed_def map_update_where)

lemma keyed_snoc: "keyed k (t @ [r]) \<longleftrightarrow> keyed k t \<and> select_one (\<lambda>x. k x = k r) t = None"
  by (auto simp: keyed_def row_simps image_iff)

lemma keyed_inj: "keyed k t \<Longrightarrow> a \<in> set t \<Longrightarrow> b \<in> set t \<Longrightarrow> k a = k b \<Longrightarrow> a = b"
  by (auto simp: keyed_def distinct_map dest: inj_onD)

lemma select_one_update_where:
  assumes "\<And>r. q (f r) = q r"
  shows "select_one q (update_where p f t) =
    map_option (\<lambda>r. if p r then f r else r) (select_one q t)"
  by (induction t) (auto simp: row_simps update_where_def assms)

lemma count_where_update: "count_where p t = 0 \<longleftrightarrow> (\<forall>r \<in> set t. \<not> p r)"
  by (auto simp: count_where_def filter_empty_conv)

lemma count_where_key: "keyed k t \<Longrightarrow> (\<And>r. p r \<Longrightarrow> k r = c) \<Longrightarrow> count_where p t \<le> 1"
proof (induction t)
  case (Cons a t)
  then show ?case
  proof (cases "p a")
    case True
    with Cons.prems have "\<forall>r \<in> set t. \<not> p r" by (force simp: keyed_def)
    then show ?thesis using True by (simp add: count_where_def filter_False)
  qed (auto simp: count_where_def keyed_def)
qed (simp add: count_where_def)

end
