(* ===== verification/Codec.thy ===== *)
theory Codec
  imports Prelude
begin

section \<open>Encodings\<close>

text \<open>
  The encodings the services exchange data in: decimal and hexadecimal numerals, unpadded
  URL-safe base64, and JSON values with the struct decoding rules of
  \<^verbatim>\<open>encoding/json\<close>.  A JSON number keeps its literal, because the decoder
  reads integers from it.  The text syntax of JSON, the RFC 3339 layout and the
  cryptographic primitives are the functions of a record \<open>golib\<close>, an argument of
  the definitions that use them; the round-trip laws a property relies on are named
  predicates of that record.
\<close>

subsection \<open>Numerals\<close>

definition digit_char :: "nat \<Rightarrow> char" where
  "digit_char n = char_of (48 + n)"

fun nat_text :: "nat \<Rightarrow> string" where
  "nat_text n = (if n < 10 then [digit_char n] else nat_text (n div 10) @ [digit_char (n mod 10)])"

declare nat_text.simps [simp del]

definition int_text :: "int \<Rightarrow> string" where
  "int_text n = (if n < 0 then CHR ''-'' # nat_text (nat (- n)) else nat_text (nat n))"

definition digits_value :: "string \<Rightarrow> nat" where
  "digits_value s = foldl (\<lambda>acc c. acc * 10 + (byte c - 48)) 0 s"

definition ParseNat :: "string \<Rightarrow> nat option" where
  "ParseNat s = (if s \<noteq> [] \<and> list_all is_digit s then Some (digits_value s) else None)"

text \<open>\<^verbatim>\<open>strconv.ParseInt(s, 10, 64)\<close>, \<^verbatim>\<open>Atoi\<close> and \<^verbatim>\<open>ParseUint(s, 10, 64)\<close>.\<close>

definition ParseInt :: "string \<Rightarrow> int option" where
  "ParseInt s =
     (let (neg, body) =
        (case s of
           [] \<Rightarrow> (False, s)
         | c # r \<Rightarrow> if c = CHR ''-'' then (True, r) else if c = CHR ''+'' then (False, r) else (False, s))
      in case ParseNat body of
           None \<Rightarrow> None
         | Some n \<Rightarrow>
             (let v = (if neg then - int n else int n) in if in_int64 v then Some v else None))"

definition ParseUint :: "string \<Rightarrow> nat option" where
  "ParseUint s =
     (case ParseNat s of None \<Rightarrow> None | Some n \<Rightarrow> if n < 2 ^ 64 then Some n else None)"

lemma byte_digit_char: "n < 10 \<Longrightarrow> byte (digit_char n) = 48 + n"
  by (simp add: digit_char_def)

lemma is_digit_digit_char: "n < 10 \<Longrightarrow> is_digit (digit_char n)"
  by (simp add: is_digit_def between_def byte_digit_char)

lemma nat_text_nonempty: "nat_text n \<noteq> []"
  by (subst nat_text.simps) simp

lemma nat_text_digits: "list_all is_digit (nat_text n) \<and> nat_text n \<noteq> []"
  by (induction n rule: nat_text.induct)
     (simp add: nat_text_nonempty, subst nat_text.simps, simp add: is_digit_digit_char)

lemma digits_value_snoc: "digits_value (s @ [c]) = digits_value s * 10 + (byte c - 48)"
  by (simp add: digits_value_def)

lemma digits_value_nat_text: "digits_value (nat_text n) = n"
proof (induction n rule: nat_text.induct)
  case (1 n)
  show ?case
  proof (cases "n < 10")
    case True
    then show ?thesis
      by (subst nat_text.simps) (simp add: digits_value_def byte_digit_char)
  next
    case False
    then show ?thesis
      using 1 by (subst nat_text.simps) (simp add: digits_value_snoc byte_digit_char)
  qed
qed

lemma ParseNat_nat_text: "ParseNat (nat_text n) = Some n"
  by (simp add: ParseNat_def nat_text_digits digits_value_nat_text)

lemma nat_text_head:
  obtains c r where "nat_text n = c # r" "c \<noteq> CHR ''-''" "c \<noteq> CHR ''+''"
proof (cases "nat_text n")
  case (Cons c r)
  then have "is_digit c" using nat_text_digits [of n] by simp
  then have "c \<noteq> CHR ''-''" "c \<noteq> CHR ''+''" by (auto simp: is_digit_def between_def)
  with Cons that show ?thesis by blast
qed (use nat_text_digits [of n] in simp)

lemma ParseInt_int_text: "in_int64 n \<Longrightarrow> ParseInt (int_text n) = Some n"
proof -
  assume r: "in_int64 n"
  show ?thesis
  proof (cases "n < 0")
    case True
    then show ?thesis using r by (simp add: ParseInt_def int_text_def ParseNat_nat_text)
  next
    case False
    obtain c t where "nat_text (nat n) = c # t" "c \<noteq> CHR ''-''" "c \<noteq> CHR ''+''"
      by (rule nat_text_head)
    then have "ParseInt (nat_text (nat n)) = Some n"
      using False r ParseNat_nat_text [of "nat n"] by (simp add: ParseInt_def)
    then show ?thesis using False by (simp add: int_text_def)
  qed
qed

subsection \<open>Hexadecimal and base64\<close>

definition hex_digit :: "nat \<Rightarrow> char" where
  "hex_digit n = (if n < 10 then char_of (48 + n) else char_of (87 + n))"

definition hex_encode :: "string \<Rightarrow> string" where
  "hex_encode s = concat (map (\<lambda>c. [hex_digit (byte c div 16), hex_digit (byte c mod 16)]) s)"

text \<open>Evaluation by integers and a table.\<close>

lemma hex_digit_code [code]:
  "hex_digit n = (if n < 16 then ''0123456789abcdef'' ! n else char_of (87 + n))"
proof (cases "n < 16")
  case True
  have "list_all (\<lambda>n. hex_digit n = ''0123456789abcdef'' ! n) [0, 1, 2, 3, 4, 5, 6, 7, 8, 9, 10, 11, 12, 13, 14, 15]"
    by code_simp
  moreover have "[0 ..< 16] = [0, 1, 2, 3, 4, 5, 6, 7, 8, 9, 10, 11, 12, 13, 14, 15::nat]"
    by (simp add: upt_rec)
  ultimately have "\<forall>n \<in> set [0 ..< 16]. hex_digit n = ''0123456789abcdef'' ! n" by (simp only: list_all_iff)
  then show ?thesis using True by simp
qed (simp add: hex_digit_def)

lemma hex_encode_code [code]:
  "hex_encode s = concat (map (\<lambda>c. [hex_digit (nat (of_char c div 16)), hex_digit (nat (of_char c mod 16))]) s)"
proof -
  have "byte c div 16 = nat (of_char c div 16)" "byte c mod 16 = nat (of_char c mod 16)" for c
    by (metis int_byte nat_int of_nat_div of_nat_mod of_nat_numeral)+
  then show ?thesis by (simp add: hex_encode_def)
qed

definition b64_char :: "nat \<Rightarrow> char" where
  "b64_char n =
     (if n < 26 then char_of (65 + n)
      else if n < 52 then char_of (71 + n)
      else if n < 62 then char_of (n - 4)
      else if n = 62 then CHR ''-'' else CHR ''_'')"

definition b64_value :: "char \<Rightarrow> nat option" where
  "b64_value c =
     (if is_upper c then Some (byte c - 65)
      else if is_lower c then Some (byte c - 71)
      else if is_digit c then Some (byte c + 4)
      else if c = CHR ''-'' then Some 62
      else if c = CHR ''_'' then Some 63
      else None)"

fun b64_groups :: "nat list \<Rightarrow> nat list" where
  "b64_groups [] = []"
| "b64_groups [a] = [a div 4, a mod 4 * 16]"
| "b64_groups [a, b] = [a div 4, a mod 4 * 16 + b div 16, b mod 16 * 4]"
| "b64_groups (a # b # c # r) =
     [a div 4, a mod 4 * 16 + b div 16, b mod 16 * 4 + c div 64, c mod 64] @ b64_groups r"

fun b64_bytes :: "nat list \<Rightarrow> nat list option" where
  "b64_bytes [] = Some []"
| "b64_bytes [p] = None"
| "b64_bytes [p, q] = Some [p * 4 + q div 16]"
| "b64_bytes [p, q, r] = Some [p * 4 + q div 16, q mod 16 * 16 + r div 4]"
| "b64_bytes (p # q # r # t # vs) =
     map_option (\<lambda>bs. [p * 4 + q div 16, q mod 16 * 16 + r div 4, r mod 4 * 64 + t] @ bs)
       (b64_bytes vs)"

fun traverse :: "('a \<Rightarrow> 'b option) \<Rightarrow> 'a list \<Rightarrow> 'b list option" where
  "traverse f [] = Some []"
| "traverse f (x # xs) =
     (case f x of None \<Rightarrow> None | Some y \<Rightarrow> map_option ((#) y) (traverse f xs))"

text \<open>
  \<^verbatim>\<open>base64.RawURLEncoding\<close>; the decoder skips carriage returns and line
  feeds and does not check the unused low bits.
\<close>

definition b64_encode :: "string \<Rightarrow> string" where
  "b64_encode s = map b64_char (b64_groups (map of_char s))"

definition b64_decode :: "string \<Rightarrow> string option" where
  "b64_decode s =
     (case traverse b64_value (filter (\<lambda>c. c \<noteq> CHR 0x0A \<and> c \<noteq> CHR 0x0D) s) of
        None \<Rightarrow> None
      | Some vs \<Rightarrow> map_option (map char_of) (b64_bytes vs))"

lemma b64_value_char: "n < 64 \<Longrightarrow> b64_value (b64_char n) = Some n"
  by (auto simp: b64_value_def b64_char_def is_upper_def is_lower_def is_digit_def between_def)

lemma b64_char_not_break: "n < 64 \<Longrightarrow> b64_char n \<noteq> CHR 0x0A \<and> b64_char n \<noteq> CHR 0x0D"
proof -
  assume "n < 64"
  then have "b64_value (b64_char n) \<noteq> None" by (simp add: b64_value_char)
  then show ?thesis
    by (auto simp: b64_value_def is_upper_def is_lower_def is_digit_def between_def)
qed

lemma b64_char_not_dot: "n < 64 \<Longrightarrow> b64_char n \<noteq> CHR ''.''"
proof -
  assume "n < 64"
  then have "b64_value (b64_char n) \<noteq> None" by (simp add: b64_value_char)
  then show ?thesis
    by (auto simp: b64_value_def is_upper_def is_lower_def is_digit_def between_def)
qed

lemma b64_groups_small: "\<forall>b \<in> set bs. b < 256 \<Longrightarrow> \<forall>g \<in> set (b64_groups bs). g < 64"
  by (induction bs rule: b64_groups.induct) (auto simp: less_mult_imp_div_less)

lemma b64_bytes_groups: "\<forall>b \<in> set bs. b < 256 \<Longrightarrow> b64_bytes (b64_groups bs) = Some bs"
proof (induction bs rule: b64_groups.induct)
  case (4 a b c r)
  then have "b div 16 < 16" "c div 64 < 4" by auto
  then have "(a mod 4 * 16 + b div 16) div 16 = a mod 4" "(a mod 4 * 16 + b div 16) mod 16 = b div 16"
    "(b mod 16 * 4 + c div 64) div 4 = b mod 16" "(b mod 16 * 4 + c div 64) mod 4 = c div 64"
    by simp_all
  then show ?case using 4 by simp
next
  case (3 a b)
  then have "b div 16 < 16" by auto
  then have "(a mod 4 * 16 + b div 16) div 16 = a mod 4" "(a mod 4 * 16 + b div 16) mod 16 = b div 16"
    by simp_all
  then show ?case by simp
qed simp_all

lemma traverse_map: "\<forall>x \<in> set xs. f (g x) = Some x \<Longrightarrow> traverse f (map g xs) = Some xs"
  by (induction xs) auto

lemma b64_decode_encode: "b64_decode (b64_encode s) = Some s"
proof -
  let ?bs = "map of_char s :: nat list"
  have small: "\<forall>b \<in> set ?bs. b < 256" by auto
  note g = b64_groups_small [OF small]
  have keep: "filter (\<lambda>c. c \<noteq> CHR 0x0A \<and> c \<noteq> CHR 0x0D) (map b64_char gs) = map b64_char gs"
    if "\<forall>g \<in> set gs. g < 64" for gs
    using that by (induction gs) (use b64_char_not_break in auto)
  have "traverse b64_value (map b64_char (b64_groups ?bs)) = Some (b64_groups ?bs)"
    by (rule traverse_map) (use g in \<open>simp add: b64_value_char\<close>)
  then show ?thesis
    by (simp add: b64_decode_def b64_encode_def keep [OF g] b64_bytes_groups [OF small] map_idI)
qed

lemma b64_encode_no_dot: "CHR ''.'' \<notin> set (b64_encode s)"
proof
  assume "CHR ''.'' \<in> set (b64_encode s)"
  then obtain g where "g \<in> set (b64_groups (map of_char s))" "b64_char g = CHR ''.''"
    by (auto simp: b64_encode_def)
  moreover have "\<forall>b \<in> set (map of_char s :: nat list). b < 256" by auto
  ultimately show False using b64_groups_small b64_char_not_dot by blast
qed

subsection \<open>JSON values\<close>

datatype json =
    JNull
  | JBool bool
  | JNum string
  | JStr string
  | JArr "json list"
  | JObj "(string \<times> json) list"

definition jint :: "int \<Rightarrow> json" where
  "jint n = JNum (int_text n)"

text \<open>The parts of the standard library that stay abstract.\<close>

record golib =
  jsonParse :: "string \<Rightarrow> json option"
  jsonPrint :: "json \<Rightarrow> string"
  sha256 :: "string \<Rightarrow> string"
  hmac256 :: "string \<Rightarrow> string \<Rightarrow> string"
  edVerify :: "string \<Rightarrow> string \<Rightarrow> string \<Rightarrow> bool"
  timeText :: "gotime \<Rightarrow> string"
  jsonTime :: "string \<Rightarrow> gotime option"
  parseRFC3339Nano :: "string \<Rightarrow> gotime option"

definition jtime :: "golib \<Rightarrow> gotime \<Rightarrow> json" where
  "jtime lib t = JStr (timeText lib t)"

definition json_roundtrip :: "golib \<Rightarrow> json \<Rightarrow> bool" where
  "json_roundtrip lib v \<longleftrightarrow> jsonParse lib (jsonPrint lib v) = Some v"

definition time_roundtrip :: "golib \<Rightarrow> gotime \<Rightarrow> bool" where
  "time_roundtrip lib t \<longleftrightarrow> jsonTime lib (timeText lib t) = Some t"

subsection \<open>Decoding into structs\<close>

text \<open>
  The case folding of field names: ASCII letters, the long s and the Kelvin sign.
\<close>

fun foldName :: "string \<Rightarrow> string" where
  "foldName [] = []"
| "foldName [c] = [upper_byte c]"
| "foldName [c, d] =
     (if c = CHR 0xC5 \<and> d = CHR 0xBF then [CHR ''S''] else [upper_byte c, upper_byte d])"
| "foldName (c # d # e # s) =
     (if c = CHR 0xC5 \<and> d = CHR 0xBF then CHR ''S'' # foldName (e # s)
      else if c = CHR 0xE2 \<and> d = CHR 0x84 \<and> e = CHR 0xAA then CHR ''K'' # foldName s
      else upper_byte c # foldName (d # e # s))"

type_synonym 'a field = "string \<times> (json \<Rightarrow> 'a \<Rightarrow> 'a option)"

fun decode_fields :: "'a field list \<Rightarrow> (string \<times> json) list \<Rightarrow> bool \<times> 'a \<Rightarrow> bool \<times> 'a" where
  "decode_fields fs [] st = st"
| "decode_fields fs ((k, v) # kvs) (ok, x) =
     (case find (\<lambda>f. foldName (fst f) = foldName k) fs of
        None \<Rightarrow> decode_fields fs kvs (ok, x)
      | Some f \<Rightarrow>
          (case snd f v x of
             None \<Rightarrow> decode_fields fs kvs (False, x)
           | Some y \<Rightarrow> decode_fields fs kvs (ok, y)))"

text \<open>
  \<^verbatim>\<open>json.Unmarshal\<close> into a struct: whether there was no error, and the
  struct.  A member of the wrong type is reported but the other members are decoded; null
  leaves the struct alone; later duplicates win.
\<close>

definition decode_struct :: "'a field list \<Rightarrow> json \<Rightarrow> 'a \<Rightarrow> bool \<times> 'a" where
  "decode_struct fs j x =
     (case j of JNull \<Rightarrow> (True, x) | JObj kvs \<Rightarrow> decode_fields fs kvs (True, x) | _ \<Rightarrow> (False, x))"

text \<open>The decoder with \<^verbatim>\<open>DisallowUnknownFields\<close>: a member without a field is an error.\<close>

definition known_members :: "'a field list \<Rightarrow> json \<Rightarrow> bool" where
  "known_members fs j =
     (case j of
        JObj kvs \<Rightarrow> list_all (\<lambda>(k, v). list_ex (\<lambda>f. foldName (fst f) = foldName k) fs) kvs
      | _ \<Rightarrow> True)"

definition decode_strict :: "'a field list \<Rightarrow> json \<Rightarrow> 'a \<Rightarrow> bool \<times> 'a" where
  "decode_strict fs j x =
     (case decode_struct fs j x of (ok, y) \<Rightarrow> (ok \<and> known_members fs j, y))"

definition dec_str :: "(string \<Rightarrow> 'a \<Rightarrow> 'a) \<Rightarrow> json \<Rightarrow> 'a \<Rightarrow> 'a option" where
  "dec_str upd j x = (case j of JNull \<Rightarrow> Some x | JStr s \<Rightarrow> Some (upd s x) | _ \<Rightarrow> None)"

definition dec_int :: "(int \<Rightarrow> bool) \<Rightarrow> (int \<Rightarrow> 'a \<Rightarrow> 'a) \<Rightarrow> json \<Rightarrow> 'a \<Rightarrow> 'a option" where
  "dec_int inRange upd j x =
     (case j of
        JNull \<Rightarrow> Some x
      | JNum lit \<Rightarrow>
          (case ParseInt lit of
             None \<Rightarrow> None
           | Some n \<Rightarrow> if inRange n then Some (upd n x) else None)
      | _ \<Rightarrow> None)"

definition dec_uint64 :: "(64 word \<Rightarrow> 'a \<Rightarrow> 'a) \<Rightarrow> json \<Rightarrow> 'a \<Rightarrow> 'a option" where
  "dec_uint64 upd j x =
     (case j of
        JNull \<Rightarrow> Some x
      | JNum lit \<Rightarrow> (case ParseUint lit of None \<Rightarrow> None | Some n \<Rightarrow> Some (upd (of_nat n) x))
      | _ \<Rightarrow> None)"

definition dec_time :: "golib \<Rightarrow> (gotime \<Rightarrow> 'a \<Rightarrow> 'a) \<Rightarrow> json \<Rightarrow> 'a \<Rightarrow> 'a option" where
  "dec_time lib upd j x =
     (case j of
        JNull \<Rightarrow> Some x
      | JStr s \<Rightarrow> (case jsonTime lib s of None \<Rightarrow> None | Some t \<Rightarrow> Some (upd t x))
      | _ \<Rightarrow> None)"

text \<open>
  Decoding a JSON array of structs into a slice, each element from the zero value (the
  decoder reuses the elements of an earlier array when an object repeats the member; such
  objects are outside the model), and its strict form.
\<close>

definition decode_slice :: "'a field list \<Rightarrow> 'a \<Rightarrow> json \<Rightarrow> bool \<times> 'a list" where
  "decode_slice fs zero j =
     (case j of
        JNull \<Rightarrow> (True, [])
      | JArr js \<Rightarrow>
          (let ds = map (\<lambda>e. decode_struct fs e zero) js in (list_all fst ds, map snd ds))
      | _ \<Rightarrow> (False, []))"

definition decode_slice_strict :: "'a field list \<Rightarrow> 'a \<Rightarrow> json \<Rightarrow> bool \<times> 'a list" where
  "decode_slice_strict fs zero j =
     (case decode_slice fs zero j of (ok, xs) \<Rightarrow>
        (ok \<and> (case j of JArr js \<Rightarrow> list_all (known_members fs) js | _ \<Rightarrow> True), xs))"

subsection \<open>Key set documents\<close>

text \<open>The key document the services fetch: the members of a key, all strings.\<close>

record quote_jwk =
  jk_KTY :: string
  jk_CRV :: string
  jk_KID :: string
  jk_Use :: string
  jk_Alg :: string
  jk_X :: string

definition zero_jwk :: quote_jwk where
  "zero_jwk = \<lparr>jk_KTY = '''', jk_CRV = '''', jk_KID = '''', jk_Use = '''', jk_Alg = '''', jk_X = ''''\<rparr>"

definition jwk_fields :: "quote_jwk field list" where
  "jwk_fields =
     [(''kty'', dec_str (\<lambda>s x. x\<lparr>jk_KTY := s\<rparr>)), (''crv'', dec_str (\<lambda>s x. x\<lparr>jk_CRV := s\<rparr>)),
      (''kid'', dec_str (\<lambda>s x. x\<lparr>jk_KID := s\<rparr>)), (''use'', dec_str (\<lambda>s x. x\<lparr>jk_Use := s\<rparr>)),
      (''alg'', dec_str (\<lambda>s x. x\<lparr>jk_Alg := s\<rparr>)), (''x'', dec_str (\<lambda>s x. x\<lparr>jk_X := s\<rparr>))]"

definition document_fields :: "quote_jwk list field list" where
  "document_fields =
     [(''keys'', \<lambda>j ks. case decode_slice jwk_fields zero_jwk j of
                          (ok, ds) \<Rightarrow> if ok then Some ds else None)]"

end
