(* ===== verification/Settings.thy ===== *)
theory Settings
  imports Codec
begin

section \<open>Settings\<close>

text \<open>
  The helpers the three \<^verbatim>\<open>config.go\<close> files share: reading variables with
  fallbacks, and validation as a sequence of guards of which the first that holds gives the
  error.  URL, duration and mail address parsing are parameters (\<open>netlib\<close>).
\<close>

type_synonym settings = "string \<Rightarrow> string option"

record url =
  Scheme :: string
  Host :: string
  URLQuery :: "string \<Rightarrow> string list"

record netlib =
  urlParse :: "string \<Rightarrow> url option"
  durationParse :: "string \<Rightarrow> int option"
  mailAddress :: "string \<Rightarrow> string option"

definition blank :: "string \<Rightarrow> bool" where
  "blank v \<longleftrightarrow> TrimSpace v = ''''"

text \<open>A variable that is set and not blank.\<close>

definition present :: "settings \<Rightarrow> string \<Rightarrow> string option" where
  "present source key =
     (case source key of None \<Rightarrow> None | Some v \<Rightarrow> if blank v then None else Some v)"

definition setting :: "settings \<Rightarrow> string \<Rightarrow> string \<Rightarrow> string" where
  "setting source key fallback = (case present source key of None \<Rightarrow> fallback | Some v \<Rightarrow> v)"

definition duration_setting :: "netlib \<Rightarrow> settings \<Rightarrow> string \<Rightarrow> int \<Rightarrow> int" where
  "duration_setting nl source key fallback =
     (case present source key of
        None \<Rightarrow> fallback
      | Some v \<Rightarrow> (case durationParse nl v of None \<Rightarrow> - 1 | Some d \<Rightarrow> d))"

definition integer_setting :: "settings \<Rightarrow> string \<Rightarrow> int \<Rightarrow> int" where
  "integer_setting source key fallback =
     (case present source key of
        None \<Rightarrow> fallback
      | Some v \<Rightarrow> (case ParseInt v of None \<Rightarrow> - 1 | Some n \<Rightarrow> n))"

text \<open>\<^verbatim>\<open>strconv.ParseBool\<close>.\<close>

definition ParseBool :: "string \<Rightarrow> bool option" where
  "ParseBool v =
     (if v \<in> {''1'', ''t'', ''T'', ''TRUE'', ''true'', ''True''} then Some True
      else if v \<in> {''0'', ''f'', ''F'', ''FALSE'', ''false'', ''False''} then Some False
      else None)"

definition boolean_setting :: "settings \<Rightarrow> string \<Rightarrow> bool \<Rightarrow> bool" where
  "boolean_setting source key fallback =
     (case present source key of
        None \<Rightarrow> fallback
      | Some v \<Rightarrow> (case ParseBool v of None \<Rightarrow> False | Some b \<Rightarrow> b))"

definition validateBoolean :: "settings \<Rightarrow> string \<Rightarrow> string option" where
  "validateBoolean source key =
     (case present source key of
        None \<Rightarrow> None
      | Some v \<Rightarrow> (case ParseBool v of None \<Rightarrow> Some (key @ '' must be a boolean'') | Some _ \<Rightarrow> None))"

definition csv_setting :: "settings \<Rightarrow> string \<Rightarrow> string list \<Rightarrow> string list" where
  "csv_setting source key fallback =
     (case present source key of
        None \<Rightarrow> fallback
      | Some raw \<Rightarrow> map TrimSpace (filter (\<lambda>v. \<not> blank v) (SplitOn CHR '','' raw)))"

fun first_error :: "(bool \<times> string) list \<Rightarrow> string option" where
  "first_error [] = None"
| "first_error ((bad, msg) # gs) = (if bad then Some msg else first_error gs)"

lemma first_error_None: "first_error gs = None \<longleftrightarrow> (\<forall>g \<in> set gs. \<not> fst g)"
  by (induction gs rule: first_error.induct) auto

declare first_error.simps [simp del]

definition bad_http_url :: "netlib \<Rightarrow> string \<Rightarrow> bool" where
  "bad_http_url nl raw =
     (case urlParse nl raw of
        None \<Rightarrow> True
      | Some u \<Rightarrow> (Scheme u \<noteq> ''http'' \<and> Scheme u \<noteq> ''https'') \<or> Host u = '''')"

definition isHTTPS :: "string \<Rightarrow> bool" where
  "isHTTPS raw = HasPrefix (ToLower raw) ''https://''"

definition isRediss :: "string \<Rightarrow> bool" where
  "isRediss raw = HasPrefix (ToLower raw) ''rediss://''"

definition query_value :: "url \<Rightarrow> string \<Rightarrow> string" where
  "query_value u k = (case URLQuery u k of [] \<Rightarrow> '''' | v # _ \<Rightarrow> v)"

end
