(* ===== verification/Orders_Domain.thy ===== *)
theory Orders_Domain
  imports Prelude
begin

section \<open>Orders: the order aggregate\<close>

text \<open>
  \<^verbatim>\<open>apps/orders/internal/domain/orders/models.go\<close> and
  \<^verbatim>\<open>errors.go\<close>: the value types of the aggregate, the construction of an
  order, the status machine, pricing from a quote and confirmation.  A method of
  \<^verbatim>\<open>*Order\<close> takes the pointer as an option (\<^const>\<open>None\<close> is
  nil) and returns the domain error or the updated aggregate; every method assigns to the
  aggregate only after its last error return, so an error leaves the pointee as it was.
  The step relation \<open>order_step\<close> collects the operations of the aggregate; the
  lemmas after it are about the orders it reaches from \<open>NewOrder\<close>.
\<close>

subsection \<open>Constants, statuses and values\<close>

definition MaxItems :: nat where "MaxItems = 100"
definition MaxQuantity :: int where "MaxQuantity = 1000"
definition MaxTotalMinor :: int where "MaxTotalMinor = 1000000000"
definition InitialVersion :: "64 word" where "InitialVersion = 1"

text \<open>
  \<^verbatim>\<open>Status\<close> is a string type with six declared values; any other string
  is \<open>OtherStatus\<close>.
\<close>

datatype status =
    StatusPending | StatusConfirmed | StatusCancelReq | StatusCancelled | StatusCompleted
  | StatusFailed | OtherStatus string

definition status_text :: "status \<Rightarrow> string" where
  "status_text s =
     (case s of
        StatusPending \<Rightarrow> ''PENDING''
      | StatusConfirmed \<Rightarrow> ''CONFIRMED''
      | StatusCancelReq \<Rightarrow> ''CANCEL_REQUESTED''
      | StatusCancelled \<Rightarrow> ''CANCELLED''
      | StatusCompleted \<Rightarrow> ''COMPLETED''
      | StatusFailed \<Rightarrow> ''FAILED''
      | OtherStatus t \<Rightarrow> t)"

definition status_of :: "string \<Rightarrow> status" where
  "status_of t =
     (if t = ''PENDING'' then StatusPending
      else if t = ''CONFIRMED'' then StatusConfirmed
      else if t = ''CANCEL_REQUESTED'' then StatusCancelReq
      else if t = ''CANCELLED'' then StatusCancelled
      else if t = ''COMPLETED'' then StatusCompleted
      else if t = ''FAILED'' then StatusFailed
      else OtherStatus t)"

definition known_status :: "status \<Rightarrow> bool" where
  "known_status s \<longleftrightarrow>
     s \<in> {StatusPending, StatusConfirmed, StatusCancelReq, StatusCancelled, StatusCompleted,
          StatusFailed}"

definition IsTerminal :: "status \<Rightarrow> bool" where
  "IsTerminal s \<longleftrightarrow> s = StatusCancelled \<or> s = StatusCompleted \<or> s = StatusFailed"

record item =
  ProductID :: string
  Quantity :: int
  UnitPriceMinor :: "int option"
  LineTotalMinor :: "int option"
  QuoteID :: "string option"
  QuoteVersion :: "int option"

record order =
  ID :: string
  CustomerID :: string
  Currency :: string
  Items :: "item list"
  TotalMinor :: "int option"
  ReservationID :: "string option"
  PaymentID :: "string option"
  ShipmentID :: "string option"
  FailureCode :: "string option"
  InventoryReleased :: bool
  PaymentRefunded :: bool
  Status :: status
  Version :: "64 word"
  CreatedAt :: gotime
  UpdatedAt :: gotime

datatype domain_error =
    ErrInvalidOrderID | ErrInvalidCustomerID | ErrInvalidProductID | ErrInvalidCurrency
  | ErrEmptyOrder | ErrTooManyItems | ErrInvalidQuantity | ErrDuplicateProduct
  | ErrInvalidTransition | ErrTerminalOrder | ErrInvalidTimestamp | ErrInvalidMoney
  | ErrMoneyOverflow | ErrPricesAlreadySet | ErrMissingPrereq | ErrStaleVersion

subsection \<open>Identifiers\<close>

definition ValidOrderID :: "string \<Rightarrow> bool" where
  "ValidOrderID v = tagged_id ''ord_'' v"

definition ValidCustomerID :: "string \<Rightarrow> bool" where
  "ValidCustomerID v = tagged_id ''usr_'' v"

definition ValidProductID :: "string \<Rightarrow> bool" where
  "ValidProductID v = tagged_id ''prd_'' v"

definition ValidQuoteID :: "string \<Rightarrow> bool" where
  "ValidQuoteID v = tagged_id ''qte_'' v"

definition ValidReservationID :: "string \<Rightarrow> bool" where
  "ValidReservationID v = tagged_id ''res_'' v"

definition ValidPaymentID :: "string \<Rightarrow> bool" where
  "ValidPaymentID v = tagged_id ''pay_'' v"

definition ValidShipmentID :: "string \<Rightarrow> bool" where
  "ValidShipmentID v = tagged_id ''shp_'' v"

definition currencyPattern :: "string \<Rightarrow> bool" where
  "currencyPattern v = class_between is_upper 3 3 v"

definition bad_time :: "gotime \<Rightarrow> bool" where
  "bad_time now \<longleftrightarrow> IsZero now \<or> \<not> utc now"

subsection \<open>Construction\<close>

text \<open>The validation loop of \<^verbatim>\<open>NewOrder\<close>, with its set of products seen so far.\<close>

fun check_items :: "string set \<Rightarrow> item list \<Rightarrow> domain_error option" where
  "check_items seen [] = None"
| "check_items seen (it # its) =
     (if \<not> ValidProductID (ProductID it) then Some ErrInvalidProductID
      else if Quantity it < 1 \<or> MaxQuantity < Quantity it then Some ErrInvalidQuantity
      else if ProductID it \<in> seen then Some ErrDuplicateProduct
      else check_items (insert (ProductID it) seen) its)"

definition blank_item :: "item \<Rightarrow> item" where
  "blank_item it =
     \<lparr>ProductID = ProductID it, Quantity = Quantity it, UnitPriceMinor = None,
      LineTotalMinor = None, QuoteID = None, QuoteVersion = None\<rparr>"

definition NewOrder ::
  "string \<Rightarrow> string \<Rightarrow> string \<Rightarrow> item list \<Rightarrow> gotime \<Rightarrow> domain_error + order" where
  "NewOrder oid customerID currency0 items now =
     (let currency = ToUpper (TrimSpace currency0) in
      if \<not> ValidOrderID oid then Inl ErrInvalidOrderID
      else if \<not> ValidCustomerID customerID then Inl ErrInvalidCustomerID
      else if \<not> currencyPattern currency then Inl ErrInvalidCurrency
      else if length items = 0 then Inl ErrEmptyOrder
      else if MaxItems < length items then Inl ErrTooManyItems
      else (case check_items {} items of
              Some e \<Rightarrow> Inl e
            | None \<Rightarrow>
                if bad_time now then Inl ErrInvalidTimestamp
                else Inr \<lparr>ID = oid, CustomerID = customerID, Currency = currency,
                          Items = map blank_item items, TotalMinor = None,
                          ReservationID = None, PaymentID = None, ShipmentID = None,
                          FailureCode = None, InventoryReleased = False,
                          PaymentRefunded = False, Status = StatusPending,
                          Version = InitialVersion, CreatedAt = now, UpdatedAt = now\<rparr>))"

subsection \<open>Transitions\<close>

definition allowedTransition :: "status \<Rightarrow> status \<Rightarrow> bool" where
  "allowedTransition from to =
     (case from of
        StatusPending \<Rightarrow> to = StatusConfirmed \<or> to = StatusCancelReq \<or> to = StatusFailed
      | StatusConfirmed \<Rightarrow> to = StatusCancelReq \<or> to = StatusCompleted \<or> to = StatusFailed
      | StatusCancelReq \<Rightarrow> to = StatusCancelled \<or> to = StatusFailed
      | _ \<Rightarrow> False)"

fun TransitionIfVersion ::
  "order option \<Rightarrow> 64 word \<Rightarrow> status \<Rightarrow> gotime \<Rightarrow> domain_error + order" where
  "TransitionIfVersion None expectedVersion to now = Inl ErrInvalidTransition"
| "TransitionIfVersion (Some ord) expectedVersion to now =
     (if Version ord \<noteq> expectedVersion then Inl ErrStaleVersion
      else if IsTerminal (Status ord) then Inl ErrTerminalOrder
      else if bad_time now then Inl ErrInvalidTimestamp
      else if to = StatusConfirmed then Inl ErrMissingPrereq
      else if \<not> allowedTransition (Status ord) to then Inl ErrInvalidTransition
      else Inr (ord\<lparr>Status := to, Version := Version ord + 1, UpdatedAt := now\<rparr>))"

definition Transition :: "order \<Rightarrow> status \<Rightarrow> gotime \<Rightarrow> domain_error + order" where
  "Transition ord to now = TransitionIfVersion (Some ord) (Version ord) to now"

text \<open>
  The pricing loop of \<^verbatim>\<open>ApplyQuote\<close>: \<open>tot\<close> is the running sum, the
  result is the final sum with the unit price and line total of each item.
\<close>

fun quote_lines ::
  "(string \<Rightarrow> int option) \<Rightarrow> item list \<Rightarrow> int \<Rightarrow> domain_error + (int \<times> (int \<times> int) list)" where
  "quote_lines prices [] tot = Inr (tot, [])"
| "quote_lines prices (it # its) tot =
     (case prices (ProductID it) of
        None \<Rightarrow> Inl ErrInvalidMoney
      | Some price \<Rightarrow>
          if price < 0 \<or> MaxTotalMinor < price then Inl ErrInvalidMoney
          else if price \<noteq> 0 \<and> MaxTotalMinor div price < Quantity it then Inl ErrMoneyOverflow
          else
            (let lineTotal = wrap64 (Quantity it * price) in
             if wrap64 (MaxTotalMinor - lineTotal) < tot then Inl ErrMoneyOverflow
             else (case quote_lines prices its (wrap64 (tot + lineTotal)) of
                     Inl e \<Rightarrow> Inl e
                   | Inr (t, ls) \<Rightarrow> Inr (t, (price, lineTotal) # ls))))"

definition price_item :: "string \<Rightarrow> int \<Rightarrow> item \<Rightarrow> int \<times> int \<Rightarrow> item" where
  "price_item quoteID quoteVersion it line =
     it\<lparr>UnitPriceMinor := Some (fst line), LineTotalMinor := Some (snd line),
        QuoteID := Some quoteID, QuoteVersion := Some quoteVersion\<rparr>"

fun ApplyQuote ::
  "order option \<Rightarrow> string \<Rightarrow> int \<Rightarrow> (string \<Rightarrow> int option) \<Rightarrow> gotime \<Rightarrow> domain_error + order" where
  "ApplyQuote None quoteID quoteVersion prices now = Inl ErrInvalidTransition"
| "ApplyQuote (Some ord) quoteID quoteVersion prices now =
     (if Status ord \<noteq> StatusPending \<or> TotalMinor ord \<noteq> None then Inl ErrPricesAlreadySet
      else if \<not> ValidQuoteID quoteID \<or> quoteVersion < 1 then Inl ErrInvalidMoney
      else if bad_time now then Inl ErrInvalidTimestamp
      else (case quote_lines prices (Items ord) 0 of
              Inl e \<Rightarrow> Inl e
            | Inr (tot, ls) \<Rightarrow>
                Inr (ord\<lparr>Items := map2 (price_item quoteID quoteVersion) (Items ord) ls,
                         TotalMinor := Some tot, Version := Version ord + 1,
                         UpdatedAt := now\<rparr>)))"

definition transitionWithoutPrerequisite ::
  "order \<Rightarrow> status \<Rightarrow> gotime \<Rightarrow> domain_error + order" where
  "transitionWithoutPrerequisite ord to now =
     (if IsTerminal (Status ord) then Inl ErrTerminalOrder
      else if bad_time now then Inl ErrInvalidTimestamp
      else if \<not> allowedTransition (Status ord) to then Inl ErrInvalidTransition
      else Inr (ord\<lparr>Status := to, Version := Version ord + 1, UpdatedAt := now\<rparr>))"

definition Confirm ::
  "order option \<Rightarrow> bool \<Rightarrow> bool \<Rightarrow> 64 word \<Rightarrow> gotime \<Rightarrow> domain_error + order" where
  "Confirm ptr inventoryReserved paymentAuthorized expectedVersion now =
     (if \<not> inventoryReserved \<or> \<not> paymentAuthorized then Inl ErrMissingPrereq
      else (case ptr of
              None \<Rightarrow> Inl ErrMissingPrereq
            | Some ord \<Rightarrow>
                if TotalMinor ord = None then Inl ErrMissingPrereq
                else if Version ord \<noteq> expectedVersion then Inl ErrStaleVersion
                else transitionWithoutPrerequisite ord StatusConfirmed now))"

subsection \<open>Aggregate invariant and step relation\<close>

definition item_ok :: "item \<Rightarrow> bool" where
  "item_ok it \<longleftrightarrow> ValidProductID (ProductID it) \<and> 1 \<le> Quantity it \<and> Quantity it \<le> MaxQuantity"

definition item_unpriced :: "item \<Rightarrow> bool" where
  "item_unpriced it \<longleftrightarrow>
     UnitPriceMinor it = None \<and> LineTotalMinor it = None \<and> QuoteID it = None
     \<and> QuoteVersion it = None"

definition item_priced :: "string \<Rightarrow> int \<Rightarrow> item \<Rightarrow> bool" where
  "item_priced q v it \<longleftrightarrow>
     QuoteID it = Some q \<and> QuoteVersion it = Some v
     \<and> (case UnitPriceMinor it of
          None \<Rightarrow> False
        | Some p \<Rightarrow> 0 \<le> p \<and> LineTotalMinor it = Some (Quantity it * p))"

definition line_sum :: "item list \<Rightarrow> int" where
  "line_sum its = sum_list (map (\<lambda>it. case LineTotalMinor it of None \<Rightarrow> 0 | Some n \<Rightarrow> n) its)"

definition prices_match :: "int option \<Rightarrow> item list \<Rightarrow> bool" where
  "prices_match tot its =
     (case tot of
        None \<Rightarrow> list_all item_unpriced its
      | Some t \<Rightarrow>
          0 \<le> t \<and> t \<le> MaxTotalMinor \<and> t = line_sum its
          \<and> (case its of
               [] \<Rightarrow> True
             | it # _ \<Rightarrow>
                 (case (QuoteID it, QuoteVersion it) of
                    (Some q, Some v) \<Rightarrow>
                      ValidQuoteID q \<and> 1 \<le> v \<and> list_all (item_priced q v) its
                  | _ \<Rightarrow> False)))"

definition pricing_ok :: "order \<Rightarrow> bool" where
  "pricing_ok ord = prices_match (TotalMinor ord) (Items ord)"

definition order_wf :: "order \<Rightarrow> bool" where
  "order_wf ord \<longleftrightarrow>
     ValidOrderID (ID ord) \<and> ValidCustomerID (CustomerID ord) \<and> currencyPattern (Currency ord)
     \<and> Items ord \<noteq> [] \<and> length (Items ord) \<le> MaxItems \<and> list_all item_ok (Items ord)
     \<and> distinct (map ProductID (Items ord)) \<and> known_status (Status ord)
     \<and> \<not> bad_time (CreatedAt ord) \<and> \<not> bad_time (UpdatedAt ord) \<and> pricing_ok ord
     \<and> (Status ord \<in> {StatusConfirmed, StatusCompleted} \<longrightarrow> TotalMinor ord \<noteq> None)"

text \<open>One successful call of a mutating method of the aggregate.\<close>

inductive order_step :: "order \<Rightarrow> order \<Rightarrow> bool" where
  step_transition: "TransitionIfVersion (Some a) v to now = Inr b \<Longrightarrow> order_step a b"
| step_quote: "ApplyQuote (Some a) q v prices now = Inr b \<Longrightarrow> order_step a b"
| step_confirm: "Confirm (Some a) res pay v now = Inr b \<Longrightarrow> order_step a b"

inductive_cases order_stepE: "order_step a b"

text \<open>\<open>order_reach n a\<close>: \<open>a\<close> is a new order after \<open>n\<close> successful calls.\<close>

inductive order_reach :: "nat \<Rightarrow> order \<Rightarrow> bool" where
  reach_new: "NewOrder i c cur its now = Inr a \<Longrightarrow> order_reach 0 a"
| reach_step: "order_reach n a \<Longrightarrow> order_step a b \<Longrightarrow> order_reach (Suc n) b"

subsection \<open>Statuses and construction\<close>

lemma status_of_text: "known_status s \<Longrightarrow> status_of (status_text s) = s"
  by (auto simp: known_status_def status_text_def status_of_def)

lemma status_text_of [simp]: "status_text (status_of t) = t"
  by (simp add: status_text_def status_of_def)

lemma allowed_not_terminal: "allowedTransition a b \<Longrightarrow> \<not> IsTerminal a"
  by (auto simp: allowedTransition_def IsTerminal_def split: status.splits)

lemma allowed_known: "allowedTransition a b \<Longrightarrow> known_status a \<and> known_status b"
  by (auto simp: allowedTransition_def known_status_def split: status.splits)

lemma check_items_None_iff:
  "check_items seen its = None \<longleftrightarrow>
     list_all item_ok its \<and> distinct (map ProductID its) \<and> seen \<inter> set (map ProductID its) = {}"
  by (induction its arbitrary: seen) (auto simp: item_ok_def)

lemma blank_item_simps [simp]:
  "ProductID (blank_item it) = ProductID it" "Quantity (blank_item it) = Quantity it"
  "item_unpriced (blank_item it)" "item_ok (blank_item it) = item_ok it"
  by (simp_all add: blank_item_def item_unpriced_def item_ok_def)

lemma list_all_map_blank [simp]:
  "list_all item_ok (map blank_item its) = list_all item_ok its"
  "list_all item_unpriced (map blank_item its)"
  "map ProductID (map blank_item its) = map ProductID its"
  by (induction its) auto

lemma NewOrder_InrD:
  assumes "NewOrder i c cur its now = Inr a"
  shows "ValidOrderID i" "ValidCustomerID c" "currencyPattern (ToUpper (TrimSpace cur))"
    "its \<noteq> []" "length its \<le> MaxItems" "check_items {} its = None" "\<not> bad_time now"
    "a = \<lparr>ID = i, CustomerID = c, Currency = ToUpper (TrimSpace cur),
          Items = map blank_item its, TotalMinor = None, ReservationID = None,
          PaymentID = None, ShipmentID = None, FailureCode = None,
          InventoryReleased = False, PaymentRefunded = False, Status = StatusPending,
          Version = InitialVersion, CreatedAt = now, UpdatedAt = now\<rparr>"
  using assms by (auto simp: NewOrder_def Let_def split: if_splits option.splits)

lemma NewOrder_wf:
  assumes "NewOrder i c cur its now = Inr a"
  shows "order_wf a"
  using NewOrder_InrD [OF assms]
  by (simp add: order_wf_def check_items_None_iff pricing_ok_def prices_match_def known_status_def
    del: list.map_comp map_map)

subsection \<open>Pricing\<close>

definition quote_total :: "(string \<Rightarrow> int option) \<Rightarrow> item list \<Rightarrow> int" where
  "quote_total prices its = sum_list (map (\<lambda>it. Quantity it * the (prices (ProductID it))) its)"

definition quotable :: "(string \<Rightarrow> int option) \<Rightarrow> item list \<Rightarrow> bool" where
  "quotable prices its \<longleftrightarrow> (\<forall>it \<in> set its. \<exists>p. prices (ProductID it) = Some p \<and> 0 \<le> p)"

lemma quote_total_simps [simp]:
  "quote_total prices [] = 0"
  "quote_total prices (it # its) =
     Quantity it * the (prices (ProductID it)) + quote_total prices its"
  by (simp_all add: quote_total_def)

lemma quotable_simps [simp]:
  "quotable prices []"
  "quotable prices (it # its) \<longleftrightarrow>
     (\<exists>p. prices (ProductID it) = Some p \<and> 0 \<le> p) \<and> quotable prices its"
  by (auto simp: quotable_def)

lemma quote_total_nonneg: "quotable prices its \<Longrightarrow> list_all item_ok its \<Longrightarrow> 0 \<le> quote_total prices its"
  by (induction its) (auto simp: item_ok_def)

lemma int_div_less_iff:
  fixes m p q :: int
  assumes "0 < p"
  shows "m div p < q \<longleftrightarrow> m < q * p"
proof
  assume "m div p < q"
  then have "(m div p + 1) * p \<le> q * p" using assms by simp
  moreover have "(m div p + 1) * p = p * (m div p) + p" by (simp add: algebra_simps)
  moreover have "m = p * (m div p) + m mod p" by simp
  ultimately show "m < q * p" using pos_mod_bound [OF assms, of m] by linarith
next
  assume "m < q * p"
  show "m div p < q"
  proof (rule ccontr)
    assume "\<not> m div p < q"
    then have "q * p \<le> (m div p) * p" using assms by simp
    also have "\<dots> \<le> m" using assms by (simp add: minus_mod_eq_div_mult [symmetric])
    finally show False using \<open>m < q * p\<close> by simp
  qed
qed

text \<open>The guard by division is the guard on the product.\<close>

lemma line_guard:
  fixes p q :: int
  assumes "0 \<le> p" "1 \<le> q"
  shows "(p > MaxTotalMinor \<or> (p \<noteq> 0 \<and> MaxTotalMinor div p < q)) \<longleftrightarrow> MaxTotalMinor < q * p"
proof (cases "p = 0")
  case False
  then have "MaxTotalMinor div p < q \<longleftrightarrow> MaxTotalMinor < q * p"
    using assms by (simp add: int_div_less_iff)
  moreover have "p \<le> q * p" using assms by (simp add: mult_le_cancel_right1)
  ultimately show ?thesis using False by linarith
qed (simp add: MaxTotalMinor_def)

lemma in_int64_small: "- 2000000000 \<le> n \<Longrightarrow> n \<le> 2000000000 \<Longrightarrow> in_int64 n"
  by (simp add: in_int64_def)

lemma quote_lines_ok:
  assumes "list_all item_ok its" "0 \<le> tot" "tot \<le> MaxTotalMinor"
    and "quotable prices its" "tot + quote_total prices its \<le> MaxTotalMinor"
  shows "quote_lines prices its tot =
    Inr (tot + quote_total prices its,
         map (\<lambda>it. (the (prices (ProductID it)), Quantity it * the (prices (ProductID it)))) its)"
  using assms
proof (induction its arbitrary: tot)
  case (Cons it its)
  then obtain p where p: "prices (ProductID it) = Some p" "0 \<le> p" by auto
  let ?l = "Quantity it * p"
  have q: "1 \<le> Quantity it" using Cons.prems by (simp add: item_ok_def)
  have rest: "0 \<le> quote_total prices its" using Cons.prems by (simp add: quote_total_nonneg)
  have l: "0 \<le> ?l" "tot + ?l + quote_total prices its \<le> MaxTotalMinor"
    using p q Cons.prems by simp_all
  then have "\<not> MaxTotalMinor < ?l" using Cons.prems rest by linarith
  then have guards: "\<not> MaxTotalMinor < p" "\<not> (p \<noteq> 0 \<and> MaxTotalMinor div p < Quantity it)"
    using line_guard [OF p(2) q] by blast+
  have w: "wrap64 ?l = ?l" "wrap64 (MaxTotalMinor - ?l) = MaxTotalMinor - ?l"
    "wrap64 (tot + ?l) = tot + ?l"
    using l Cons.prems rest by (auto intro!: wrap64_id in_int64_small simp: MaxTotalMinor_def)
  have "quote_lines prices its (tot + ?l) = Inr (tot + ?l + quote_total prices its,
         map (\<lambda>it. (the (prices (ProductID it)), Quantity it * the (prices (ProductID it)))) its)"
    using Cons.prems l rest by (intro Cons.IH) auto
  then show ?case using p guards w l rest by (auto simp: Let_def algebra_simps)
qed simp

lemma quote_lines_InrD:
  assumes "list_all item_ok its" "0 \<le> tot" "tot \<le> MaxTotalMinor"
    and "quote_lines prices its tot = Inr r"
  shows "quotable prices its \<and> tot + quote_total prices its \<le> MaxTotalMinor"
  using assms
proof (induction its arbitrary: tot r)
  case (Cons it its)
  from Cons.prems(4) obtain p where p: "prices (ProductID it) = Some p" "0 \<le> p"
    and g: "\<not> MaxTotalMinor < p" "\<not> (p \<noteq> 0 \<and> MaxTotalMinor div p < Quantity it)"
    by (auto split: option.splits if_splits)
  let ?l = "Quantity it * p"
  have q: "1 \<le> Quantity it" using Cons.prems by (simp add: item_ok_def)
  have l: "0 \<le> ?l" "?l \<le> MaxTotalMinor" using g p q line_guard [OF p(2) q] by auto
  have w: "wrap64 ?l = ?l" "wrap64 (MaxTotalMinor - ?l) = MaxTotalMinor - ?l"
    "wrap64 (tot + ?l) = tot + ?l"
    using l Cons.prems by (auto intro!: wrap64_id in_int64_small simp: MaxTotalMinor_def)
  obtain r' where "quote_lines prices its (tot + ?l) = Inr r'" and "tot + ?l \<le> MaxTotalMinor"
    using Cons.prems(4) p g w by (auto simp: Let_def split: sum.splits if_splits)
  then have "quotable prices its \<and> tot + ?l + quote_total prices its \<le> MaxTotalMinor"
    using Cons.prems l by (intro Cons.IH) auto
  then show ?case using p by simp
qed simp

lemma ApplyQuote_InrD:
  assumes "ApplyQuote (Some a) q v prices now = Inr b"
  obtains tot ls where "quote_lines prices (Items a) 0 = Inr (tot, ls)"
    "Status a = StatusPending" "TotalMinor a = None" "ValidQuoteID q" "1 \<le> v" "\<not> bad_time now"
    "b = a\<lparr>Items := map2 (price_item q v) (Items a) ls, TotalMinor := Some tot,
           Version := Version a + 1, UpdatedAt := now\<rparr>"
  using assms by (force split: if_splits sum.splits)

definition quoted_item :: "string \<Rightarrow> int \<Rightarrow> (string \<Rightarrow> int option) \<Rightarrow> item \<Rightarrow> item" where
  "quoted_item q v prices it =
     price_item q v it (the (prices (ProductID it)), Quantity it * the (prices (ProductID it)))"

lemma map2_quoted_item:
  "map2 (price_item q v) its
     (map (\<lambda>it. (the (prices (ProductID it)), Quantity it * the (prices (ProductID it)))) its)
   = map (quoted_item q v prices) its"
  by (induction its) (simp_all add: quoted_item_def)

lemma ApplyQuote_Inr_iff:
  assumes it: "list_all item_ok (Items ord)"
  shows "ApplyQuote (Some ord) q v prices now = Inr ord' \<longleftrightarrow>
     Status ord = StatusPending \<and> TotalMinor ord = None \<and> ValidQuoteID q \<and> 1 \<le> v
     \<and> \<not> bad_time now \<and> quotable prices (Items ord)
     \<and> quote_total prices (Items ord) \<le> MaxTotalMinor
     \<and> ord' = ord\<lparr>Items := map (quoted_item q v prices) (Items ord),
                  TotalMinor := Some (quote_total prices (Items ord)),
                  Version := Version ord + 1, UpdatedAt := now\<rparr>" (is "?l \<longleftrightarrow> ?r")
proof -
  have max0: "(0 :: int) \<le> MaxTotalMinor" by (simp add: MaxTotalMinor_def)
  note ok = quote_lines_ok [OF it order_refl max0]
  show ?thesis
  proof
    assume ?l
    then obtain tot ls where ql: "quote_lines prices (Items ord) 0 = Inr (tot, ls)"
      and rest: "Status ord = StatusPending" "TotalMinor ord = None" "ValidQuoteID q" "1 \<le> v"
        "\<not> bad_time now"
        "ord' = ord\<lparr>Items := map2 (price_item q v) (Items ord) ls, TotalMinor := Some tot,
           Version := Version ord + 1, UpdatedAt := now\<rparr>"
      by (rule ApplyQuote_InrD)
    from quote_lines_InrD [OF it order_refl max0 ql] ok [of prices] ql rest show ?r
      by (simp add: map2_quoted_item)
  next
    assume r: ?r
    then have "quote_lines prices (Items ord) 0 = Inr (quote_total prices (Items ord),
         map (\<lambda>it. (the (prices (ProductID it)), Quantity it * the (prices (ProductID it))))
           (Items ord))"
      using ok [of prices] by simp
    with r show ?l by (simp add: map2_quoted_item)
  qed
qed

lemma price_item_simps [simp]:
  "ProductID (price_item q v it l) = ProductID it" "Quantity (price_item q v it l) = Quantity it"
  "item_ok (price_item q v it l) = item_ok it"
  "LineTotalMinor (price_item q v it l) = Some (snd l)"
  "UnitPriceMinor (price_item q v it l) = Some (fst l)"
  "QuoteID (price_item q v it l) = Some q" "QuoteVersion (price_item q v it l) = Some v"
  by (simp_all add: price_item_def item_ok_def)

lemma line_sum_simps [simp]:
  "line_sum [] = 0"
  "line_sum (it # its) = (case LineTotalMinor it of None \<Rightarrow> 0 | Some n \<Rightarrow> n) + line_sum its"
  by (simp_all add: line_sum_def)

subsection \<open>Preservation\<close>

lemma quoted_item_simps [simp]:
  "ProductID (quoted_item q v prices it) = ProductID it"
  "Quantity (quoted_item q v prices it) = Quantity it"
  "item_ok (quoted_item q v prices it) = item_ok it"
  by (simp_all add: quoted_item_def)

lemma quoted_items_simps [simp]:
  "list_all item_ok (map (quoted_item q v prices) its) = list_all item_ok its"
  "map ProductID (map (quoted_item q v prices) its) = map ProductID its"
  by (induction its) auto

lemma prices_match_quoted:
  assumes "list_all item_ok its" "quotable prices its" "quote_total prices its \<le> MaxTotalMinor"
    "ValidQuoteID q" "1 \<le> v"
  shows "prices_match (Some (quote_total prices its)) (map (quoted_item q v prices) its)"
proof -
  have sum: "line_sum (map (quoted_item q v prices) xs) = quote_total prices xs" for xs
    by (induction xs) (auto simp: quoted_item_def)
  have "list_all (item_priced q v) (map (quoted_item q v prices) its)"
    using assms(2) by (auto simp: list_all_iff item_priced_def quotable_def quoted_item_def)
  then show ?thesis
    using assms quote_total_nonneg [OF assms(2,1)] sum [of its]
    by (cases its) (auto simp: prices_match_def quoted_item_def)
qed

lemma ApplyQuote_wf:
  assumes "order_wf ord" "ApplyQuote (Some ord) q v prices now = Inr ord'"
  shows "order_wf ord'"
proof -
  have it: "list_all item_ok (Items ord)" using assms(1) by (simp add: order_wf_def)
  note eff = assms(2) [unfolded ApplyQuote_Inr_iff [OF it]]
  then show ?thesis
    using assms(1) prices_match_quoted [OF it]
    by (auto simp: order_wf_def pricing_ok_def simp del: map_map)
qed

lemma TransitionIfVersion_InrD:
  assumes "TransitionIfVersion (Some a) v to now = Inr b"
  shows "v = Version a" "allowedTransition (Status a) to" "to \<noteq> StatusConfirmed"
    "\<not> bad_time now" "b = a\<lparr>Status := to, Version := Version a + 1, UpdatedAt := now\<rparr>"
  using assms by (auto split: if_splits)

lemma Confirm_InrD:
  assumes "Confirm (Some a) res pay v now = Inr b"
  shows "res" "pay" "TotalMinor a \<noteq> None" "v = Version a"
    "allowedTransition (Status a) StatusConfirmed" "\<not> bad_time now"
    "b = a\<lparr>Status := StatusConfirmed, Version := Version a + 1, UpdatedAt := now\<rparr>"
  using assms by (auto simp: Confirm_def transitionWithoutPrerequisite_def split: if_splits)

lemma status_update_wf:
  assumes "order_wf a" "known_status s" "\<not> bad_time now"
    and "s \<in> {StatusConfirmed, StatusCompleted} \<Longrightarrow> TotalMinor a \<noteq> None"
  shows "order_wf (a\<lparr>Status := s, Version := v, UpdatedAt := now\<rparr>)"
  using assms by (auto simp: order_wf_def pricing_ok_def)

lemma Transition_wf:
  assumes "order_wf a" "TransitionIfVersion (Some a) v to now = Inr b"
  shows "order_wf b"
proof -
  note d = TransitionIfVersion_InrD [OF assms(2)]
  have "to = StatusCompleted \<Longrightarrow> Status a = StatusConfirmed"
    using d(2) by (auto simp: allowedTransition_def split: status.splits)
  then have "to \<in> {StatusConfirmed, StatusCompleted} \<Longrightarrow> TotalMinor a \<noteq> None"
    using d(3) assms(1) by (auto simp: order_wf_def)
  then show ?thesis
    unfolding d(5) using status_update_wf [OF assms(1)] allowed_known [OF d(2)] d(4) by blast
qed

lemma Confirm_wf:
  assumes "order_wf a" "Confirm (Some a) res pay v now = Inr b"
  shows "order_wf b"
  unfolding Confirm_InrD(7) [OF assms(2)]
  by (rule status_update_wf [OF assms(1)])
     (use Confirm_InrD(3,6) [OF assms(2)] in \<open>simp_all add: known_status_def\<close>)

lemma order_step_wf: "order_step a b \<Longrightarrow> order_wf a \<Longrightarrow> order_wf b"
  by (induction rule: order_step.induct) (rule Transition_wf ApplyQuote_wf Confirm_wf, assumption+)+

text \<open>What every step has in common, whichever method made it.\<close>

lemma order_step_cases:
  assumes "order_step a b"
  obtains (status) to now where "allowedTransition (Status a) to"
      "b = a\<lparr>Status := to, Version := Version a + 1, UpdatedAt := now\<rparr>"
  | (quote) its tot now where "Status a = StatusPending" "TotalMinor a = None"
      "b = a\<lparr>Items := its, TotalMinor := Some tot, Version := Version a + 1, UpdatedAt := now\<rparr>"
  using assms
proof (cases rule: order_step.cases)
  case (step_transition v to now)
  show ?thesis
    by (rule status [OF TransitionIfVersion_InrD(2,5) [OF step_transition]])
next
  case (step_quote q v prices now)
  then show ?thesis by (rule ApplyQuote_InrD) (rule quote)
next
  case (step_confirm res pay v now)
  show ?thesis by (rule status [OF Confirm_InrD(5,7) [OF step_confirm]])
qed

lemma order_step_effect:
  assumes "order_step a b"
  shows "\<not> IsTerminal (Status a)" "Version b = Version a + 1"
    "ID b = ID a \<and> CustomerID b = CustomerID a \<and> Currency b = Currency a \<and> CreatedAt b = CreatedAt a"
    "Status b = Status a \<or> allowedTransition (Status a) (Status b)"
    "TotalMinor a \<noteq> None \<Longrightarrow> TotalMinor b = TotalMinor a \<and> Items b = Items a"
  using assms
  by (cases rule: order_step_cases; simp add: IsTerminal_def allowed_not_terminal [unfolded IsTerminal_def])+

lemma order_reach_invariant:
  "order_reach n a \<Longrightarrow> order_wf a \<and> Version a = InitialVersion + of_nat n"
proof (induction rule: order_reach.induct)
  case (reach_new i c cur its now a)
  then show ?case using NewOrder_wf [OF reach_new] NewOrder_InrD(8) [OF reach_new] by simp
next
  case (reach_step n a b)
  then show ?case
    using order_step_wf [OF reach_step(2)] order_step_effect(2) [OF reach_step(2)] by simp
qed

end
