(* ===== verification/Effects.thy ===== *)
theory Effects
  imports Prelude
begin

section \<open>Database sessions\<close>

text \<open>
  The computations of the database adapters.  A session holds the committed contents of a
  database (\<open>durable\<close>), the contents the open transaction sees (\<open>work\<close>), and a
  counter of the effects performed.  The environment fixes, for the effect with a given
  number, whether the statement or commit fails, whether a failed commit was applied all
  the same (the acknowledgement was lost), which UUID is generated, what the clock
  shows, what an HTTP request returns, which random bytes are read and whether the message
  broker reports an error; and how the driver stores and scans timestamps.  Every theorem
  that quantifies over the environment therefore covers a failure of any statement at any point.
  A Go function that returns early with an error after \<^verbatim>\<open>BeginTx\<close> rolls
  back: \<open>durable\<close> is untouched, and the next \<open>beginTx\<close> discards \<open>work\<close>.
\<close>

named_theorems wp_rules \<open>weakest-precondition equations of computations\<close>

subsection \<open>Failures\<close>

datatype fault = ServerError string string | ConnError string

datatype dberr = ErrNoRows | PgError string string | DriverError string

definition db_fault :: "fault \<Rightarrow> dberr" where
  "db_fault f = (case f of ServerError c m \<Rightarrow> PgError c m | ConnError m \<Rightarrow> DriverError m)"

definition dberr_text :: "dberr \<Rightarrow> string" where
  "dberr_text d =
     (case d of ErrNoRows \<Rightarrow> ''sql: no rows in result set'' | PgError c m \<Rightarrow> m | DriverError m \<Rightarrow> m)"

subsection \<open>Environment, session and computations\<close>

record env =
  failAt :: "nat \<Rightarrow> fault option"
  ackLost :: "nat \<Rightarrow> bool"
  uuidAt :: "nat \<Rightarrow> string"
  nowAt :: "nat \<Rightarrow> gotime"
  httpAt :: "nat \<Rightarrow> (int \<times> string) option"
  brokerErr :: "nat \<Rightarrow> string option"
  randAt :: "nat \<Rightarrow> nat \<Rightarrow> string"
  pgTime :: "int \<Rightarrow> int"
  scanUTC :: bool

record 'd session =
  work :: 'd
  durable :: 'd
  tick :: nat

type_synonym ('s, 'e, 'a) act = "env \<Rightarrow> 's \<Rightarrow> ('e + 'a) \<times> 's"

text \<open>A query reads the clock of the server and the tables, and fails or returns a result.\<close>

type_synonym ('d, 'a) query = "env \<Rightarrow> gotime \<Rightarrow> 'd \<Rightarrow> dberr + ('a \<times> 'd)"

definition ret :: "'a \<Rightarrow> ('s, 'e, 'a) act" where
  "ret x = (\<lambda>env s. (Inr x, s))"

definition throw :: "'e \<Rightarrow> ('s, 'e, 'a) act" where
  "throw e = (\<lambda>env s. (Inl e, s))"

definition bindA :: "('s, 'e, 'a) act \<Rightarrow> ('a \<Rightarrow> ('s, 'e, 'b) act) \<Rightarrow> ('s, 'e, 'b) act" where
  "bindA m f = (\<lambda>env s. case m env s of (Inl e, s') \<Rightarrow> (Inl e, s') | (Inr x, s') \<Rightarrow> f x env s')"

text \<open>\<open>onErr h m\<close> maps the error of \<open>m\<close>.\<close>

definition onErr :: "('e \<Rightarrow> 'f) \<Rightarrow> ('s, 'e, 'a) act \<Rightarrow> ('s, 'f, 'a) act" where
  "onErr h m = (\<lambda>env s. case m env s of (Inl e, s') \<Rightarrow> (Inl (h e), s') | (Inr x, s') \<Rightarrow> (Inr x, s'))"

text \<open>
  \<open>tryA m\<close> hands the error of \<open>m\<close> to the program; \<open>zoom\<close> runs a
  computation on a part of the state.
\<close>

definition tryA :: "('s, 'e, 'a) act \<Rightarrow> ('s, 'f, 'e + 'a) act" where
  "tryA m = (\<lambda>env s. case m env s of (res, s') \<Rightarrow> (Inr res, s'))"

definition zoom :: "('s \<Rightarrow> 't) \<Rightarrow> ('t \<Rightarrow> 's \<Rightarrow> 's) \<Rightarrow> ('t, 'e, 'a) act \<Rightarrow> ('s, 'e, 'a) act" where
  "zoom get put m = (\<lambda>env s. case m env (get s) of (res, t) \<Rightarrow> (res, put t s))"

fun forA :: "'x list \<Rightarrow> ('x \<Rightarrow> ('s, 'e, unit) act) \<Rightarrow> ('s, 'e, unit) act" where
  "forA [] f = ret ()"
| "forA (x # xs) f = bindA (f x) (\<lambda>_. forA xs f)"

definition tickOn :: "('d, 'm) session_scheme \<Rightarrow> ('d, 'm) session_scheme" where
  "tickOn s = s\<lparr>tick := Suc (tick s)\<rparr>"

definition newUUID :: "(('d, 'm) session_scheme, 'e, string) act" where
  "newUUID = (\<lambda>env s. (Inr (uuidAt env (tick s)), tickOn s))"

definition clockNow :: "(('d, 'm) session_scheme, 'e, gotime) act" where
  "clockNow = (\<lambda>env s. (Inr (nowAt env (tick s)), tickOn s))"

text \<open>\<^verbatim>\<open>crypto/rand\<close>, which does not return errors.\<close>

definition randBytes :: "nat \<Rightarrow> (('d, 'm) session_scheme, 'e, string) act" where
  "randBytes n = (\<lambda>env s. (Inr (randAt env (tick s) n), tickOn s))"

text \<open>The response of an HTTP request: status and body, or no response.\<close>

definition httpGet :: "(('d, 'm) session_scheme, 'e, (int \<times> string) option) act" where
  "httpGet = (\<lambda>env s. (Inr (httpAt env (tick s)), tickOn s))"

definition getEnv :: "(('d, 'm) session_scheme, 'e, env) act" where
  "getEnv = (\<lambda>env s. (Inr env, s))"

text \<open>
  \<open>runQ\<close> runs a statement in the open transaction and hands its error to the
  program; \<open>stmt\<close> is the common shape \<^verbatim>\<open>if err != nil { return h(err) }\<close>.
\<close>

definition runQ :: "('d, 'a) query \<Rightarrow> (('d, 'm) session_scheme, 'e, dberr + 'a) act" where
  "runQ q = (\<lambda>env s.
     case failAt env (tick s) of
       Some f \<Rightarrow> (Inr (Inl (db_fault f)), tickOn s)
     | None \<Rightarrow>
         (case q env (nowAt env (tick s)) (work s) of
            Inl d \<Rightarrow> (Inr (Inl d), tickOn s)
          | Inr (x, w) \<Rightarrow> (Inr (Inr x), tickOn (s\<lparr>work := w\<rparr>))))"

definition stmt :: "(dberr \<Rightarrow> 'e) \<Rightarrow> ('d, 'a) query \<Rightarrow> (('d, 'm) session_scheme, 'e, 'a) act" where
  "stmt h q = bindA (runQ q) (\<lambda>r. case r of Inl d \<Rightarrow> throw (h d) | Inr x \<Rightarrow> ret x)"

text \<open>A statement outside a transaction is its own transaction.\<close>

definition autoQ :: "(dberr \<Rightarrow> 'e) \<Rightarrow> ('d, 'a) query \<Rightarrow> (('d, 'm) session_scheme, 'e, 'a) act" where
  "autoQ h q = (\<lambda>env s.
     case q env (nowAt env (tick s)) (durable s) of
       Inl d \<Rightarrow>
         (Inl (h (case failAt env (tick s) of Some f \<Rightarrow> db_fault f | None \<Rightarrow> d)), tickOn s)
     | Inr (x, w) \<Rightarrow>
         (case failAt env (tick s) of
            None \<Rightarrow> (Inr x, tickOn (s\<lparr>durable := w\<rparr>))
          | Some f \<Rightarrow>
              (Inl (h (db_fault f)),
               tickOn (if ackLost env (tick s) then s\<lparr>durable := w\<rparr> else s))))"

definition beginTx :: "(dberr \<Rightarrow> 'e) \<Rightarrow> (('d, 'm) session_scheme, 'e, unit) act" where
  "beginTx h = (\<lambda>env s.
     case failAt env (tick s) of
       Some f \<Rightarrow> (Inl (h (db_fault f)), tickOn s)
     | None \<Rightarrow> (Inr (), tickOn (s\<lparr>work := durable s\<rparr>)))"

definition commitTx :: "(dberr \<Rightarrow> 'e) \<Rightarrow> (('d, 'm) session_scheme, 'e, unit) act" where
  "commitTx h = (\<lambda>env s.
     case failAt env (tick s) of
       Some f \<Rightarrow>
         (Inl (h (db_fault f)),
          tickOn (if ackLost env (tick s) then s\<lparr>durable := work s\<rparr> else s))
     | None \<Rightarrow> (Inr (), tickOn (s\<lparr>durable := work s\<rparr>)))"

subsection \<open>Weakest preconditions\<close>

text \<open>
  \<open>wp env m Q E s\<close>: run from \<open>s\<close>, \<open>m\<close> returns a result and a
  session satisfying \<open>Q\<close> or an error and a session satisfying \<open>E\<close>.
\<close>

definition wp ::
  "env \<Rightarrow> ('s, 'e, 'a) act \<Rightarrow> ('a \<Rightarrow> 's \<Rightarrow> bool) \<Rightarrow> ('e \<Rightarrow> 's \<Rightarrow> bool) \<Rightarrow> 's \<Rightarrow> bool" where
  "wp env m Q E s = (case m env s of (Inr x, s') \<Rightarrow> Q x s' | (Inl e, s') \<Rightarrow> E e s')"

lemma wp_ret [wp_rules]: "wp env (ret x) Q E s = Q x s"
  by (simp add: wp_def ret_def)

lemma wp_throw [wp_rules]: "wp env (throw e) Q E s = E e s"
  by (simp add: wp_def throw_def)

lemma wp_bindA [wp_rules]: "wp env (bindA m f) Q E s = wp env m (\<lambda>x. wp env (f x) Q E) E s"
  by (simp add: wp_def bindA_def split: prod.splits sum.splits)

lemma wp_onErr [wp_rules]: "wp env (onErr h m) Q E s = wp env m Q (\<lambda>e. E (h e)) s"
  by (simp add: wp_def onErr_def split: prod.splits sum.splits)

lemma wp_tryA [wp_rules]: "wp env (tryA m) Q E s = wp env m (\<lambda>x. Q (Inr x)) (\<lambda>e. Q (Inl e)) s"
  by (auto simp: wp_def tryA_def split: prod.splits sum.splits)

lemma wp_zoom [wp_rules]:
  "wp env (zoom get put m) Q E s
     = wp env m (\<lambda>x t. Q x (put t s)) (\<lambda>e t. E e (put t s)) (get s)"
  by (auto simp: wp_def zoom_def split: prod.splits sum.splits)

lemma wp_newUUID [wp_rules]: "wp env newUUID Q E s = Q (uuidAt env (tick s)) (tickOn s)"
  by (simp add: wp_def newUUID_def)

lemma wp_clockNow [wp_rules]: "wp env clockNow Q E s = Q (nowAt env (tick s)) (tickOn s)"
  by (simp add: wp_def clockNow_def)

lemma wp_randBytes [wp_rules]:
  "wp env (randBytes n) Q E s = Q (randAt env (tick s) n) (tickOn s)"
  by (simp add: wp_def randBytes_def)

lemma wp_httpGet [wp_rules]: "wp env httpGet Q E s = Q (httpAt env (tick s)) (tickOn s)"
  by (simp add: wp_def httpGet_def)

lemma wp_getEnv [wp_rules]: "wp env getEnv Q E s = Q env s"
  by (simp add: wp_def getEnv_def)

lemma wp_forA [wp_rules]:
  "wp env (forA [] f) Q E s = Q () s"
  "wp env (forA (x # xs) f) Q E s = wp env (f x) (\<lambda>_. wp env (forA xs f) Q E) E s"
  by (simp_all add: wp_rules)

lemma tickOn_simps [simp]:
  "work (tickOn s) = work s" "durable (tickOn s) = durable s" "tick (tickOn s) = Suc (tick s)"
  by (simp_all add: tickOn_def)

lemma wp_mono:
  assumes "wp env m Q E s" "\<And>x s'. Q x s' \<Longrightarrow> Q' x s'" "\<And>e s'. E e s' \<Longrightarrow> E' e s'"
  shows "wp env m Q' E' s"
  using assms by (auto simp: wp_def split: prod.splits sum.splits)

lemma wp_conj:
  "wp env m Q E s \<Longrightarrow> wp env m Q' E' s \<Longrightarrow>
   wp env m (\<lambda>x s. Q x s \<and> Q' x s) (\<lambda>e s. E e s \<and> E' e s) s"
  by (auto simp: wp_def split: prod.splits sum.splits)

lemma wp_run: "wp env m Q E s \<Longrightarrow> m env s = (Inr x, s') \<Longrightarrow> Q x s'"
  and wp_run_err: "wp env m Q E s \<Longrightarrow> m env s = (Inl e, s') \<Longrightarrow> E e s'"
  by (simp_all add: wp_def)

lemma wp_I:
  assumes "\<And>x s'. m env s = (Inr x, s') \<Longrightarrow> Q x s'" "\<And>e s'. m env s = (Inl e, s') \<Longrightarrow> E e s'"
  shows "wp env m Q E s"
  using assms by (auto simp: wp_def split: prod.splits sum.splits)

text \<open>
  Statement rules: a failing statement leaves both copies of the database as they were.
\<close>

lemma wp_stmt:
  assumes "\<And>x w. q env (nowAt env (tick s)) (work s) = Inr (x, w) \<Longrightarrow>
    Q x (tickOn (s\<lparr>work := w\<rparr>))"
    and "\<And>d. E (h d) (tickOn s)"
  shows "wp env (stmt h q) Q E s"
  using assms
  by (auto simp: wp_def stmt_def bindA_def runQ_def throw_def ret_def split: option.splits sum.splits)

lemma wp_stmt_ok [wp_rules]:
  "failAt env (tick s) = None \<Longrightarrow>
   wp env (stmt h q) Q E s =
     (case q env (nowAt env (tick s)) (work s) of
        Inl d \<Rightarrow> E (h d) (tickOn s)
      | Inr (x, w) \<Rightarrow> Q x (tickOn (s\<lparr>work := w\<rparr>)))"
  by (auto simp: wp_def stmt_def bindA_def runQ_def throw_def ret_def split: sum.splits)

lemma wp_beginTx:
  assumes "Q () (tickOn (s\<lparr>work := durable s\<rparr>))" and "\<And>d. E (h d) (tickOn s)"
  shows "wp env (beginTx h) Q E s"
  using assms by (auto simp: wp_def beginTx_def split: option.splits)

lemma wp_commitTx:
  assumes "Q () (tickOn (s\<lparr>durable := work s\<rparr>))" and "\<And>d. E (h d) (tickOn s)"
    and "\<And>d. E (h d) (tickOn (s\<lparr>durable := work s\<rparr>))"
  shows "wp env (commitTx h) Q E s"
  using assms by (auto simp: wp_def commitTx_def split: option.splits)

lemma wp_tx_ok [wp_rules]:
  "failAt env (tick s) = None \<Longrightarrow> wp env (beginTx h) Q E s = Q () (tickOn (s\<lparr>work := durable s\<rparr>))"
  "failAt env (tick s) = None \<Longrightarrow> wp env (commitTx h) Q E s = Q () (tickOn (s\<lparr>durable := work s\<rparr>))"
  by (simp_all add: wp_def beginTx_def commitTx_def)

lemma wp_autoQ:
  assumes "\<And>x w. q env (nowAt env (tick s)) (durable s) = Inr (x, w) \<Longrightarrow>
      Q x (tickOn (s\<lparr>durable := w\<rparr>)) \<and> (\<forall>d. E (h d) (tickOn (s\<lparr>durable := w\<rparr>)))"
    and "\<And>d. E (h d) (tickOn s)"
  shows "wp env (autoQ h q) Q E s"
  using assms by (auto simp: wp_def autoQ_def split: option.splits sum.splits)

lemma wp_forA_inv:
  assumes "I xs s" "\<And>x ys s. I (x # ys) s \<Longrightarrow> wp env (f x) (\<lambda>_ s'. I ys s') E s"
    and "\<And>s. I [] s \<Longrightarrow> Q () s"
  shows "wp env (forA xs f) Q E s"
  using assms(1)
proof (induction xs arbitrary: s)
  case Nil
  then show ?case by (simp add: wp_rules assms(3))
next
  case (Cons x xs)
  have "wp env (f x) (\<lambda>_. wp env (forA xs f) Q E) E s"
    by (rule wp_mono [OF assms(2) [OF Cons.prems]]) (auto intro: Cons.IH)
  then show ?case by (simp add: wp_rules)
qed

subsection \<open>Frames\<close>

text \<open>
  \<open>keeps R m\<close>: a run of \<open>m\<close>, successful or not, relates the sessions before
  and after by \<open>R\<close>.  The composition rules hold for every preorder.
\<close>

definition keeps :: "('s \<Rightarrow> 's \<Rightarrow> bool) \<Rightarrow> ('s, 'e, 'a) act \<Rightarrow> bool" where
  "keeps R m \<longleftrightarrow> (\<forall>env s. R s (snd (m env s)))"

lemma keepsD: "keeps R m \<Longrightarrow> m env s = (res, s') \<Longrightarrow> R s s'"
  by (metis keeps_def snd_conv)

lemma keeps_wp: "keeps R m \<Longrightarrow> wp env m (\<lambda>_. R s) (\<lambda>_. R s) s"
  by (auto simp: wp_def keeps_def split: prod.splits sum.splits) (metis snd_conv)+

locale session_frame =
  fixes R :: "'s \<Rightarrow> 's \<Rightarrow> bool"
  assumes refl: "R s s" and trans: "R s t \<Longrightarrow> R t u \<Longrightarrow> R s u"
begin

lemma keeps_ret: "keeps R (ret x)"
  by (simp add: keeps_def ret_def refl)

lemma keeps_throw: "keeps R (throw e)"
  by (simp add: keeps_def throw_def refl)

lemma keeps_bind:
  assumes "keeps R m" "\<And>x. keeps R (f x)"
  shows "keeps R (bindA m f)"
  unfolding keeps_def
proof (intro allI)
  fix env s
  obtain res t where m: "m env s = (res, t)" by fastforce
  have "R s t" using keepsD [OF assms(1) m] .
  moreover have "R t (snd (f x env t))" for x using assms(2) by (simp add: keeps_def)
  ultimately show "R s (snd (bindA m f env s))"
    by (cases res) (auto simp: bindA_def m intro: trans)
qed

lemma keeps_if: "(c \<Longrightarrow> keeps R m) \<Longrightarrow> (\<not> c \<Longrightarrow> keeps R m') \<Longrightarrow> keeps R (if c then m else m')"
  by simp

lemma keeps_let: "keeps R (f x) \<Longrightarrow> keeps R (let y = x in f y)"
  by simp

lemma keeps_option: "keeps R m \<Longrightarrow> (\<And>x. keeps R (f x)) \<Longrightarrow>
    keeps R (case v of None \<Rightarrow> m | Some x \<Rightarrow> f x)"
  by (cases v) simp_all

lemma keeps_sum: "(\<And>x. keeps R (f x)) \<Longrightarrow> (\<And>x. keeps R (g x)) \<Longrightarrow>
    keeps R (case v of Inl x \<Rightarrow> f x | Inr x \<Rightarrow> g x)"
  by (cases v) simp_all

lemma keeps_pair: "(\<And>x y. keeps R (f x y)) \<Longrightarrow> keeps R (case v of (x, y) \<Rightarrow> f x y)"
  by (cases v) simp

lemma keeps_list: "keeps R m \<Longrightarrow> (\<And>x xs. keeps R (f x xs)) \<Longrightarrow>
    keeps R (case v of [] \<Rightarrow> m | x # xs \<Rightarrow> f x xs)"
  by (cases v) simp_all

lemma keeps_for: "(\<And>x. keeps R (f x)) \<Longrightarrow> keeps R (forA xs f)"
  by (induction xs) (auto intro: keeps_ret keeps_bind)

lemma keeps_try: "keeps R m \<Longrightarrow> keeps R (tryA m)"
  by (auto simp: keeps_def tryA_def split: prod.splits) (metis snd_conv)

lemmas keeps_rules = keeps_try keeps_ret keeps_throw keeps_bind keeps_if keeps_let keeps_option
  keeps_sum keeps_pair keeps_list keeps_for

end

lemma keeps_zoom:
  assumes "keeps R m" "\<And>s t. R (get s) t \<Longrightarrow> R' s (put t s)"
  shows "keeps R' (zoom get put m)"
  using assms by (auto simp: keeps_def zoom_def split: prod.splits) (metis snd_conv)

lemma wp_cases:
  "wp env m Q (\<lambda>_ _. False) s \<Longrightarrow> m env s = (res, s') \<Longrightarrow> \<exists>x. res = Inr x \<and> Q x s'"
  by (cases res) (auto simp: wp_def)

lemma wp_any: "(\<And>x s'. Q x s') \<Longrightarrow> (\<And>e s'. E e s') \<Longrightarrow> wp env m Q E s"
  by (auto simp: wp_def split: prod.splits sum.splits)

lemma wp_True [simp]: "wp env m (\<lambda>_ _. True) (\<lambda>_ _. True) s"
  by (rule wp_any) simp_all

lemma keepsI:
  assumes "\<And>env s. wp env m (\<lambda>_. R s) (\<lambda>_. R s) s"
  shows "keeps R m"
proof -
  have "R s (snd (m env s))" for env s
    using assms [of env s] by (auto simp: wp_def split: prod.splits sum.splits)
  then show ?thesis by (simp add: keeps_def)
qed

lemma if_both: "B \<Longrightarrow> A \<Longrightarrow> if c then A else B"
  by simp

lemma wp_tag:
  "wp env m (\<lambda>_. P) E s \<Longrightarrow> wp env (bindA m (\<lambda>x. ret (f x))) (\<lambda>_. P) E s"
  unfolding wp_bindA by (erule wp_mono) (simp_all add: wp_ret)

lemma wp_both:
  "wp env m (\<lambda>_. P) (\<lambda>_. P) s \<Longrightarrow> m env s = (res, s') \<Longrightarrow> P s'"
  by (cases res) (auto simp: wp_def)

lemma keeps_total:
  assumes "keeps R m" "wp env m (\<lambda>_ _. True) (\<lambda>_ _. False) s"
  shows "wp env m (\<lambda>_. R s) (\<lambda>_ _. False) s"
  using wp_conj [OF keeps_wp [OF assms(1)] assms(2)] by (rule wp_mono) auto

lemma wp_bind_any:
  "(\<And>x t. wp env (f x) Q (\<lambda>_ _. True) t) \<Longrightarrow> wp env (bindA m f) Q (\<lambda>_ _. True) s"
  unfolding wp_bindA by (rule wp_mono [where Q = "\<lambda>_ _. True" and E = "\<lambda>_ _. True"]) simp_all

subsection \<open>Timestamps and errors of statements\<close>

text \<open>
  What the server stores of a time and what the driver returns for it; the errors of violated
  constraints.
\<close>

definition ts :: "env \<Rightarrow> gotime \<Rightarrow> int" where
  "ts env t = pgTime env (instant t)"

definition scan_ts :: "env \<Rightarrow> int \<Rightarrow> gotime" where
  "scan_ts env n = \<lparr>instant = n, utc = scanUTC env\<rparr>"

definition check_violation :: dberr where
  "check_violation = PgError ''23514'' ''check constraint violated''"

definition unique_violation :: dberr where
  "unique_violation = PgError ''23505'' ''duplicate key value''"

definition fk_violation :: dberr where
  "fk_violation = PgError ''23503'' ''foreign key violated''"

definition out_of_range :: dberr where
  "out_of_range = PgError ''22003'' ''integer out of range''"

definition bad_limit :: dberr where
  "bad_limit = PgError ''2201W'' ''LIMIT must not be negative''"

end
