(* ===== verification/Orders_Ports.thy ===== *)
theory Orders_Ports
  imports Orders_Domain Effects
begin

section \<open>Orders: application ports and errors\<close>

text \<open>
  \<^verbatim>\<open>apps/orders/internal/application/orders/ports.go\<close> and
  \<^verbatim>\<open>errors.go\<close>: the actor, the result of a creation and the sentinel errors
  of the application layer.  An error of the Orders service carries sentinels of the
  application and of the domain.
\<close>

datatype app_error =
    ErrInvalidDependency | ErrUnauthorized | ErrForbidden | ErrNotFound | ErrInvalidInput
  | ErrInvalidCursor | ErrIdempotencyConflict | ErrConflict | ErrDependency

datatype sentinel = App app_error | Dom domain_error

type_synonym oerr = "sentinel goerr"

definition app_text :: "app_error \<Rightarrow> string" where
  "app_text k =
     (case k of
        ErrInvalidDependency \<Rightarrow> ''orders application dependencies are required''
      | ErrUnauthorized \<Rightarrow> ''orders authentication is required''
      | ErrForbidden \<Rightarrow> ''orders operation is forbidden''
      | ErrNotFound \<Rightarrow> ''order was not found''
      | ErrInvalidInput \<Rightarrow> ''order input is invalid''
      | ErrInvalidCursor \<Rightarrow> ''order cursor is invalid''
      | ErrIdempotencyConflict \<Rightarrow> ''idempotency key was reused with different input''
      | ErrConflict \<Rightarrow> ''order operation conflicts with current state''
      | ErrDependency \<Rightarrow> ''orders dependency is unavailable'')"

definition dom_text :: "domain_error \<Rightarrow> string" where
  "dom_text k =
     (case k of
        ErrInvalidOrderID \<Rightarrow> ''invalid order id''
      | ErrInvalidCustomerID \<Rightarrow> ''invalid customer id''
      | ErrInvalidProductID \<Rightarrow> ''invalid product id''
      | ErrInvalidCurrency \<Rightarrow> ''invalid currency''
      | ErrEmptyOrder \<Rightarrow> ''order must contain at least one item''
      | ErrTooManyItems \<Rightarrow> ''order contains too many items''
      | ErrInvalidQuantity \<Rightarrow> ''item quantity is invalid''
      | ErrDuplicateProduct \<Rightarrow> ''order contains a duplicate product''
      | ErrInvalidTransition \<Rightarrow> ''invalid order transition''
      | ErrTerminalOrder \<Rightarrow> ''terminal order cannot transition''
      | ErrInvalidTimestamp \<Rightarrow> ''order timestamp must be UTC''
      | ErrInvalidMoney \<Rightarrow> ''money amount is invalid''
      | ErrMoneyOverflow \<Rightarrow> ''money amount exceeds order limit''
      | ErrPricesAlreadySet \<Rightarrow> ''order prices are already set''
      | ErrMissingPrereq \<Rightarrow> ''order confirmation prerequisites are missing''
      | ErrStaleVersion \<Rightarrow> ''order aggregate version is stale'')"

definition app_err :: "app_error \<Rightarrow> oerr" where
  "app_err k = GoErr [App k] (app_text k)"

definition dom_err :: "domain_error \<Rightarrow> oerr" where
  "dom_err k = GoErr [Dom k] (dom_text k)"

text \<open>\<^verbatim>\<open>fmt.Errorf("%w: msg", sentinel)\<close>.\<close>

definition wrap_err :: "app_error \<Rightarrow> string \<Rightarrow> oerr" where
  "wrap_err k msg = GoErr [App k] (app_text k @ '': '' @ msg)"

lemma errIs_simps [simp]:
  "errIs (app_err k) (App k') \<longleftrightarrow> k' = k" "\<not> errIs (app_err k) (Dom d)"
  "errIs (wrap_err k m) (App k') \<longleftrightarrow> k' = k" "\<not> errIs (wrap_err k m) (Dom d)"
  "errIs (dom_err d) (Dom d') \<longleftrightarrow> d' = d" "\<not> errIs (dom_err d) (App k)"
  by (auto simp: app_err_def dom_err_def wrap_err_def)

record actor =
  Subject :: string
  Type :: string
  Scopes :: "string list"

definition HasScope :: "actor \<Rightarrow> string \<Rightarrow> bool" where
  "HasScope a scope = list_ex (\<lambda>candidate. candidate = scope) (Scopes a)"

record create_result =
  ResultOrder :: order
  Replayed :: bool
  ResponseStatus :: string
  ResponseAt :: gotime

text \<open>\<^verbatim>\<open>mapError\<close> of the Postgres adapter, on driver errors and on mapped errors.\<close>

definition mapError :: "dberr \<Rightarrow> oerr" where
  "mapError d =
     (case d of
        ErrNoRows \<Rightarrow> app_err ErrNotFound
      | PgError code m \<Rightarrow>
          if code = ''23505'' then app_err ErrConflict else wrap_err ErrDependency m
      | DriverError m \<Rightarrow> wrap_err ErrDependency m)"

definition mapError_mapped :: "oerr \<Rightarrow> oerr" where
  "mapError_mapped e = wrap_err ErrDependency (errText e)"

text \<open>A failing database never looks like a caller error other than the mapped kinds.\<close>

lemma mapError_kind:
  "errIs (mapError d) (App k) \<Longrightarrow> k \<in> {ErrNotFound, ErrConflict, ErrDependency}"
  by (auto simp: mapError_def split: dberr.splits if_splits)

end
