(* ===== verification/Orders_Queries.thy ===== *)
theory Orders_Queries
  imports Orders_Domain Effects Codec "HOL-Library.Product_Lexorder"
begin

section \<open>Orders: tables and queries\<close>

text \<open>
  \<^verbatim>\<open>apps/orders/internal/adapters/outbound/postgres/generated\<close>: the rows of
  \<^verbatim>\<open>models.go\<close> and one query per statement of
  \<^verbatim>\<open>orders.sql.go\<close>, over the tables and constraints of
  \<^verbatim>\<open>database/orders/migrations\<close>.  A query returns the error the server
  reports (23514 for a CHECK, 23505 for a primary key or UNIQUE, 23503 for a foreign key,
  22003 for integer overflow, 2201W for a negative LIMIT) or its result and the new tables.  A timestamp column
  holds the instant the driver stores.  Text is compared by bytes: the only ordered text is
  the order id, as a tie breaker, and any collation would do.
\<close>

subsection \<open>Rows\<close>

record order_row =
  o_id :: string
  o_customer_id :: string
  o_currency :: string
  o_total_minor :: "int option"
  o_status :: string
  o_failure_code :: "string option"
  o_reservation_id :: "string option"
  o_payment_id :: "string option"
  o_shipment_id :: "string option"
  o_aggregate_version :: int
  o_created_at :: int
  o_updated_at :: int
  o_inventory_released :: bool
  o_payment_refunded :: bool

record item_row =
  i_order_id :: string
  i_line_number :: int
  i_product_id :: string
  i_quantity :: int
  i_unit_price_minor :: "int option"
  i_line_total_minor :: "int option"
  i_quote_id :: "string option"
  i_quote_version :: "int option"

record saga_row =
  s_id :: string
  s_order_id :: string
  s_phase :: string
  s_version :: int
  s_failure_class :: "string option"
  s_created_at :: int
  s_updated_at :: int

record inbox_row =
  b_consumer_group :: string
  b_message_id :: string
  b_message_type :: string
  b_payload_hash :: string
  b_received_at :: int
  b_processed_at :: "int option"
  b_status :: string
  b_attempts :: int
  b_next_attempt_at :: "int option"
  b_last_error :: "string option"
  b_correlation_id :: string
  b_causation_id :: "string option"

record outbox_row =
  x_id :: string
  x_topic :: string
  x_partition_key :: string
  x_message_type :: string
  x_aggregate_type :: string
  x_aggregate_id :: string
  x_payload :: json
  x_headers :: json
  x_created_at :: int
  x_published_at :: "int option"
  x_attempts :: int
  x_next_attempt_at :: int
  x_lease_owner :: "string option"
  x_lease_until :: "int option"
  x_last_error :: "string option"

record idem_row =
  k_actor_id :: string
  k_operation :: string
  k_key :: string
  k_request_hash :: string
  k_status :: string
  k_resource_id :: "string option"
  k_response_status :: "int option"
  k_response_body :: "json option"
  k_created_at :: int
  k_expires_at :: int

record orders_db =
  orders :: "order_row list"
  order_items :: "item_row list"
  saga_instances :: "saga_row list"
  inbox_messages :: "inbox_row list"
  outbox_events :: "outbox_row list"
  idempotency_records :: "idem_row list"

subsection \<open>Keys and constraints\<close>

definition item_key :: "item_row \<Rightarrow> string \<times> int" where
  "item_key r = (i_order_id r, i_line_number r)"

definition inbox_key :: "inbox_row \<Rightarrow> string \<times> string" where
  "inbox_key r = (b_consumer_group r, b_message_id r)"

definition idem_key :: "idem_row \<Rightarrow> string \<times> string \<times> string" where
  "idem_key r = (k_actor_id r, k_operation r, k_key r)"

definition money_check :: "int option \<Rightarrow> bool" where
  "money_check v = (case v of None \<Rightarrow> True | Some n \<Rightarrow> 0 \<le> n \<and> n \<le> 1000000000)"

definition order_check :: "order_row \<Rightarrow> bool" where
  "order_check r \<longleftrightarrow>
     tagged_id ''ord_'' (o_id r) \<and> tagged_id ''usr_'' (o_customer_id r)
     \<and> class_between is_upper 3 3 (o_currency r) \<and> money_check (o_total_minor r)
     \<and> o_status r \<in> {''PENDING'', ''CONFIRMED'', ''CANCEL_REQUESTED'', ''CANCELLED'', ''COMPLETED'',
                     ''FAILED''}
     \<and> (case o_failure_code r of None \<Rightarrow> True | Some c \<Rightarrow> code_pattern 1 63 c)
     \<and> 0 < o_aggregate_version r"

definition item_check :: "item_row \<Rightarrow> bool" where
  "item_check r \<longleftrightarrow>
     0 < i_line_number r \<and> i_line_number r \<le> 100 \<and> tagged_id ''prd_'' (i_product_id r)
     \<and> 1 \<le> i_quantity r \<and> i_quantity r \<le> 1000
     \<and> money_check (i_unit_price_minor r) \<and> money_check (i_line_total_minor r)
     \<and> (case i_quote_id r of None \<Rightarrow> True | Some q \<Rightarrow> tagged_id ''qte_'' q)
     \<and> (case i_quote_version r of None \<Rightarrow> True | Some v \<Rightarrow> 0 < v)"

text \<open>
  An \<^verbatim>\<open>UPDATE orders\<close> that adds one to the version of the selected rows.
\<close>

definition update_orders ::
  "(order_row \<Rightarrow> bool) \<Rightarrow> (order_row \<Rightarrow> order_row) \<Rightarrow> orders_db \<Rightarrow> dberr + (int \<times> orders_db)" where
  "update_orders p f db =
     (let bump = (\<lambda>r. (f r)\<lparr>o_aggregate_version := o_aggregate_version r + 1\<rparr>);
          chosen = filter p (orders db)
      in if \<not> list_all (\<lambda>r. in_int64 (o_aggregate_version r + 1)) chosen then Inl out_of_range
         else if \<not> list_all (\<lambda>r. order_check (bump r)) chosen then Inl check_violation
         else Inr (int (length chosen), db\<lparr>orders := update_where p bump (orders db)\<rparr>))"

subsection \<open>Orders, items and sagas\<close>

definition q_InsertOrder ::
  "string \<Rightarrow> string \<Rightarrow> string \<Rightarrow> int option \<Rightarrow> string \<Rightarrow> int \<Rightarrow> gotime \<Rightarrow> (orders_db, unit) query" where
  "q_InsertOrder oid customerID currency totalMinor status version createdAt = (\<lambda>env now db.
     let r = \<lparr>o_id = oid, o_customer_id = customerID, o_currency = currency,
              o_total_minor = totalMinor, o_status = status, o_failure_code = None,
              o_reservation_id = None, o_payment_id = None, o_shipment_id = None,
              o_aggregate_version = version, o_created_at = ts env createdAt,
              o_updated_at = ts env createdAt, o_inventory_released = False,
              o_payment_refunded = False\<rparr>
     in if \<not> order_check r then Inl check_violation
        else if select_one (\<lambda>x. o_id x = oid) (orders db) \<noteq> None then Inl unique_violation
        else Inr ((), db\<lparr>orders := orders db @ [r]\<rparr>))"

definition q_InsertOrderItem :: "item_row \<Rightarrow> (orders_db, unit) query" where
  "q_InsertOrderItem r = (\<lambda>env now db.
     if \<not> item_check r then Inl check_violation
     else if select_one (\<lambda>x. item_key x = item_key r) (order_items db) \<noteq> None
          \<or> select_one (\<lambda>x. i_order_id x = i_order_id r \<and> i_product_id x = i_product_id r)
              (order_items db) \<noteq> None
       then Inl unique_violation
     else if select_one (\<lambda>x. o_id x = i_order_id r) (orders db) = None then Inl fk_violation
     else Inr ((), db\<lparr>order_items := order_items db @ [r]\<rparr>))"

definition q_InsertSaga :: "string \<Rightarrow> string \<Rightarrow> string \<Rightarrow> gotime \<Rightarrow> (orders_db, unit) query" where
  "q_InsertSaga sid orderID phase createdAt = (\<lambda>env now db.
     let r = \<lparr>s_id = sid, s_order_id = orderID, s_phase = phase, s_version = 1,
              s_failure_class = None, s_created_at = ts env createdAt,
              s_updated_at = ts env createdAt\<rparr>
     in if select_one (\<lambda>x. s_id x = sid) (saga_instances db) \<noteq> None
          \<or> select_one (\<lambda>x. s_order_id x = orderID) (saga_instances db) \<noteq> None
          then Inl unique_violation
        else if select_one (\<lambda>x. o_id x = orderID) (orders db) = None then Inl fk_violation
        else Inr ((), db\<lparr>saga_instances := saga_instances db @ [r]\<rparr>))"

definition q_GetOrder :: "string \<Rightarrow> (orders_db, order_row) query" where
  "q_GetOrder oid = (\<lambda>env now db.
     case select_one (\<lambda>r. o_id r = oid) (orders db) of
       None \<Rightarrow> Inl ErrNoRows | Some r \<Rightarrow> Inr (r, db))"

definition q_GetOrderItems :: "string \<Rightarrow> (orders_db, item_row list) query" where
  "q_GetOrderItems oid = (\<lambda>env now db.
     Inr (sort_key i_line_number (filter (\<lambda>r. i_order_id r = oid) (order_items db)), db))"

definition q_GetSagaByOrderID :: "string \<Rightarrow> (orders_db, saga_row) query" where
  "q_GetSagaByOrderID oid = (\<lambda>env now db.
     case select_one (\<lambda>r. s_order_id r = oid) (saga_instances db) of
       None \<Rightarrow> Inl ErrNoRows | Some r \<Rightarrow> Inr (r, db))"

definition q_UpdateSagaPhase :: "string \<Rightarrow> string \<Rightarrow> gotime \<Rightarrow> (orders_db, unit) query" where
  "q_UpdateSagaPhase sid phase at = (\<lambda>env now db.
     if list_all (\<lambda>r. in_int64 (s_version r + 1)) (filter (\<lambda>r. s_id r = sid) (saga_instances db))
     then Inr ((), db\<lparr>saga_instances :=
            update_where (\<lambda>r. s_id r = sid)
              (\<lambda>r. r\<lparr>s_phase := phase, s_version := s_version r + 1, s_updated_at := ts env at\<rparr>)
              (saga_instances db)\<rparr>)
     else Inl out_of_range)"

definition coalesce :: "'a option \<Rightarrow> 'a option \<Rightarrow> 'a option" where
  "coalesce a b = (case a of Some x \<Rightarrow> Some x | None \<Rightarrow> b)"

definition q_UpdateOrderWorkflowState ::
  "string \<Rightarrow> string \<Rightarrow> string option \<Rightarrow> string option \<Rightarrow> string option \<Rightarrow> string option
   \<Rightarrow> int option \<Rightarrow> gotime \<Rightarrow> int \<Rightarrow> (orders_db, int) query" where
  "q_UpdateOrderWorkflowState oid status failure reservation payment shipment totalMinor at version =
     (\<lambda>env now db.
        update_orders (\<lambda>r. o_id r = oid \<and> o_aggregate_version r = version)
          (\<lambda>r. r\<lparr>o_status := status, o_failure_code := coalesce failure (o_failure_code r),
                 o_reservation_id := coalesce reservation (o_reservation_id r),
                 o_payment_id := coalesce payment (o_payment_id r),
                 o_shipment_id := coalesce shipment (o_shipment_id r),
                 o_total_minor := coalesce totalMinor (o_total_minor r),
                 o_updated_at := ts env at\<rparr>) db)"

definition q_MarkInventoryReleased :: "string \<Rightarrow> gotime \<Rightarrow> int \<Rightarrow> (orders_db, int) query" where
  "q_MarkInventoryReleased oid at version = (\<lambda>env now db.
     update_orders
       (\<lambda>r. o_id r = oid \<and> o_aggregate_version r = version \<and> \<not> o_inventory_released r)
       (\<lambda>r. r\<lparr>o_inventory_released := True, o_updated_at := ts env at\<rparr>) db)"

definition q_MarkPaymentRefunded :: "string \<Rightarrow> gotime \<Rightarrow> int \<Rightarrow> (orders_db, int) query" where
  "q_MarkPaymentRefunded oid at version = (\<lambda>env now db.
     update_orders
       (\<lambda>r. o_id r = oid \<and> o_aggregate_version r = version \<and> \<not> o_payment_refunded r)
       (\<lambda>r. r\<lparr>o_payment_refunded := True, o_updated_at := ts env at\<rparr>) db)"

text \<open>
  \<^verbatim>\<open>UpdateOrderCancellation\<close> returns the updated row, or no rows.
\<close>

definition q_UpdateOrderCancellation :: "string \<Rightarrow> int \<Rightarrow> gotime \<Rightarrow> (orders_db, order_row) query" where
  "q_UpdateOrderCancellation oid version at = (\<lambda>env now db.
     let p = (\<lambda>r. o_id r = oid \<and> o_aggregate_version r = version
                  \<and> o_status r \<in> {''PENDING'', ''CONFIRMED''})
     in case update_orders p
               (\<lambda>r. r\<lparr>o_status := ''CANCEL_REQUESTED'', o_updated_at := ts env at\<rparr>) db of
          Inl d \<Rightarrow> Inl d
        | Inr (n, db') \<Rightarrow>
            (if select_one p (orders db) = None then Inl ErrNoRows
             else case select_one (\<lambda>r. o_id r = oid) (orders db') of
                    None \<Rightarrow> Inl ErrNoRows
                  | Some r \<Rightarrow> Inr (r, db')))"

definition q_UpdateOrderItemQuote ::
  "string \<Rightarrow> string \<Rightarrow> int option \<Rightarrow> int option \<Rightarrow> string option \<Rightarrow> int option
   \<Rightarrow> (orders_db, unit) query" where
  "q_UpdateOrderItemQuote oid productID price lineTotal quoteID quoteVersion = (\<lambda>env now db.
     let p = (\<lambda>r. i_order_id r = oid \<and> i_product_id r = productID);
         f = (\<lambda>r. r\<lparr>i_unit_price_minor := price, i_line_total_minor := lineTotal,
                    i_quote_id := quoteID, i_quote_version := quoteVersion\<rparr>)
     in if list_all (\<lambda>r. item_check (f r)) (filter p (order_items db))
        then Inr ((), db\<lparr>order_items := update_where p f (order_items db)\<rparr>)
        else Inl check_violation)"

definition list_key :: "order_row \<Rightarrow> int \<times> string" where
  "list_key r = (o_created_at r, o_id r)"

definition before_cursor :: "int option \<Rightarrow> string option \<Rightarrow> order_row \<Rightarrow> bool" where
  "before_cursor at cid r =
     (case at of
        None \<Rightarrow> True
      | Some t \<Rightarrow>
          o_created_at r < t
          \<or> (o_created_at r = t \<and> (case cid of None \<Rightarrow> False | Some i \<Rightarrow> o_id r < i)))"

definition q_ListOrders ::
  "string \<Rightarrow> string \<Rightarrow> gotime option \<Rightarrow> string option \<Rightarrow> int \<Rightarrow> (orders_db, order_row list) query" where
  "q_ListOrders customerID status cursorAt cursorID pageSize = (\<lambda>env now db.
     if pageSize < 0 then Inl bad_limit
     else Inr (take (nat pageSize)
                 (rev (sort_key list_key
                    (filter (\<lambda>r. o_customer_id r = customerID \<and> (status = '''' \<or> o_status r = status)
                                 \<and> before_cursor (map_option (ts env) cursorAt) cursorID r)
                       (orders db)))), db))"

subsection \<open>Idempotency records\<close>

definition q_InsertIdempotency ::
  "string \<Rightarrow> string \<Rightarrow> string \<Rightarrow> string \<Rightarrow> string option \<Rightarrow> int option \<Rightarrow> json option
   \<Rightarrow> gotime \<Rightarrow> gotime \<Rightarrow> (orders_db, int) query" where
  "q_InsertIdempotency actorID operation key requestHash resourceID responseStatus responseBody
     createdAt expiresAt = (\<lambda>env now db.
     if select_one (\<lambda>r. idem_key r = (actorID, operation, key)) (idempotency_records db) \<noteq> None
     then Inr (0, db)
     else Inr (1, db\<lparr>idempotency_records := idempotency_records db @
            [\<lparr>k_actor_id = actorID, k_operation = operation, k_key = key,
              k_request_hash = requestHash, k_status = ''COMPLETED'', k_resource_id = resourceID,
              k_response_status = responseStatus, k_response_body = responseBody,
              k_created_at = ts env createdAt, k_expires_at = ts env expiresAt\<rparr>]\<rparr>))"

definition q_GetIdempotency :: "string \<Rightarrow> string \<Rightarrow> string \<Rightarrow> (orders_db, idem_row) query" where
  "q_GetIdempotency actorID operation key = (\<lambda>env now db.
     case select_one (\<lambda>r. idem_key r = (actorID, operation, key)) (idempotency_records db) of
       None \<Rightarrow> Inl ErrNoRows | Some r \<Rightarrow> Inr (r, db))"

definition q_UpdateIdempotencyResponse ::
  "string \<Rightarrow> string \<Rightarrow> string \<Rightarrow> string option \<Rightarrow> json option \<Rightarrow> (orders_db, unit) query" where
  "q_UpdateIdempotencyResponse actorID operation key resourceID responseBody = (\<lambda>env now db.
     Inr ((), db\<lparr>idempotency_records :=
       update_where (\<lambda>r. idem_key r = (actorID, operation, key))
         (\<lambda>r. r\<lparr>k_resource_id := resourceID, k_response_body := responseBody\<rparr>)
         (idempotency_records db)\<rparr>))"

subsection \<open>Inbox\<close>

definition q_InsertInbox ::
  "string \<Rightarrow> string \<Rightarrow> string \<Rightarrow> string \<Rightarrow> gotime \<Rightarrow> string \<Rightarrow> string option
   \<Rightarrow> (orders_db, int) query" where
  "q_InsertInbox consumerGroup messageID messageType payloadHash receivedAt correlationID causationID =
     (\<lambda>env now db.
     if select_one (\<lambda>r. inbox_key r = (consumerGroup, messageID)) (inbox_messages db) \<noteq> None
     then Inr (0, db)
     else Inr (1, db\<lparr>inbox_messages := inbox_messages db @
            [\<lparr>b_consumer_group = consumerGroup, b_message_id = messageID,
              b_message_type = messageType, b_payload_hash = payloadHash,
              b_received_at = ts env receivedAt, b_processed_at = None, b_status = ''RECEIVED'',
              b_attempts = 1, b_next_attempt_at = None, b_last_error = None,
              b_correlation_id = correlationID, b_causation_id = causationID\<rparr>]\<rparr>))"

definition q_GetInbox :: "string \<Rightarrow> string \<Rightarrow> (orders_db, inbox_row) query" where
  "q_GetInbox consumerGroup messageID = (\<lambda>env now db.
     case select_one (\<lambda>r. inbox_key r = (consumerGroup, messageID)) (inbox_messages db) of
       None \<Rightarrow> Inl ErrNoRows | Some r \<Rightarrow> Inr (r, db))"

definition q_MarkInboxProcessed :: "string \<Rightarrow> string \<Rightarrow> gotime \<Rightarrow> (orders_db, unit) query" where
  "q_MarkInboxProcessed consumerGroup messageID at = (\<lambda>env now db.
     Inr ((), db\<lparr>inbox_messages :=
       update_where (\<lambda>r. inbox_key r = (consumerGroup, messageID))
         (\<lambda>r. r\<lparr>b_status := ''PROCESSED'', b_processed_at := Some (ts env at),
                b_last_error := None\<rparr>)
         (inbox_messages db)\<rparr>))"

definition q_MarkInboxDeadLetter :: "string \<Rightarrow> string \<Rightarrow> string \<Rightarrow> (orders_db, unit) query" where
  "q_MarkInboxDeadLetter consumerGroup messageID lastError = (\<lambda>env now db.
     Inr ((), db\<lparr>inbox_messages :=
       update_where (\<lambda>r. inbox_key r = (consumerGroup, messageID))
         (\<lambda>r. r\<lparr>b_status := ''DLQ'', b_last_error := Some lastError, b_next_attempt_at := None\<rparr>)
         (inbox_messages db)\<rparr>))"

text \<open>Insert with status RETRY, or on conflict count one more attempt; returns the attempts.\<close>

definition q_RecordInboxFailure ::
  "string \<Rightarrow> string \<Rightarrow> string \<Rightarrow> string \<Rightarrow> gotime \<Rightarrow> string \<Rightarrow> string option \<Rightarrow> string
   \<Rightarrow> gotime \<Rightarrow> (orders_db, int \<times> string) query" where
  "q_RecordInboxFailure consumerGroup messageID messageType payloadHash receivedAt correlationID
     causationID lastError nextAttemptAt = (\<lambda>env now db.
     case select_one (\<lambda>r. inbox_key r = (consumerGroup, messageID)) (inbox_messages db) of
       None \<Rightarrow>
         Inr ((1, ''RETRY''), db\<lparr>inbox_messages := inbox_messages db @
            [\<lparr>b_consumer_group = consumerGroup, b_message_id = messageID,
              b_message_type = messageType, b_payload_hash = payloadHash,
              b_received_at = ts env receivedAt, b_processed_at = None, b_status = ''RETRY'',
              b_attempts = 1, b_next_attempt_at = Some (ts env nextAttemptAt),
              b_last_error = Some lastError, b_correlation_id = correlationID,
              b_causation_id = causationID\<rparr>]\<rparr>)
     | Some old \<Rightarrow>
         (if in_int32 (b_attempts old + 1) then
            Inr ((b_attempts old + 1, ''RETRY''), db\<lparr>inbox_messages :=
              update_where (\<lambda>r. inbox_key r = (consumerGroup, messageID))
                (\<lambda>r. r\<lparr>b_status := ''RETRY'', b_attempts := b_attempts r + 1,
                       b_last_error := Some lastError,
                       b_next_attempt_at := Some (ts env nextAttemptAt)\<rparr>)
                (inbox_messages db)\<rparr>)
          else Inl out_of_range))"

definition q_CountPendingInbox :: "(orders_db, int) query" where
  "q_CountPendingInbox = (\<lambda>env now db.
     Inr (int (count_where (\<lambda>r. b_status r \<in> {''RECEIVED'', ''RETRY''}) (inbox_messages db)), db))"

subsection \<open>Outbox\<close>

definition q_InsertOutbox ::
  "string \<Rightarrow> string \<Rightarrow> string \<Rightarrow> string \<Rightarrow> string \<Rightarrow> string \<Rightarrow> json \<Rightarrow> json \<Rightarrow> gotime
   \<Rightarrow> (orders_db, unit) query" where
  "q_InsertOutbox xid topic partitionKey messageType aggregateType aggregateID payload headers
     createdAt = (\<lambda>env now db.
     if select_one (\<lambda>r. x_id r = xid) (outbox_events db) \<noteq> None then Inl unique_violation
     else Inr ((), db\<lparr>outbox_events := outbox_events db @
            [\<lparr>x_id = xid, x_topic = topic, x_partition_key = partitionKey,
              x_message_type = messageType, x_aggregate_type = aggregateType,
              x_aggregate_id = aggregateID, x_payload = payload, x_headers = headers,
              x_created_at = ts env createdAt, x_published_at = None, x_attempts = 0,
              x_next_attempt_at = ts env createdAt, x_lease_owner = None, x_lease_until = None,
              x_last_error = None\<rparr>]\<rparr>))"

definition pending :: "int \<Rightarrow> outbox_row \<Rightarrow> bool" where
  "pending now r \<longleftrightarrow> x_published_at r = None \<and> x_next_attempt_at r \<le> now"

definition claimable :: "int \<Rightarrow> outbox_row \<Rightarrow> bool" where
  "claimable now r \<longleftrightarrow>
     pending now r \<and> (case x_lease_until r of None \<Rightarrow> True | Some u \<Rightarrow> u < now)"

text \<open>
  The claim of a batch: the oldest claimable rows, at most the limit, get the lease and are
  returned.  Statements run one at a time, so no candidate is locked by another claim.
\<close>

definition claim_ids :: "int \<Rightarrow> int \<Rightarrow> outbox_row list \<Rightarrow> string list" where
  "claim_ids now limit t =
     map x_id (take (nat limit) (sort_key x_created_at (filter (claimable now) t)))"

definition q_ClaimPendingOutbox ::
  "string \<Rightarrow> gotime \<Rightarrow> int \<Rightarrow> (orders_db, outbox_row list) query" where
  "q_ClaimPendingOutbox owner until limit = (\<lambda>env now db.
     if limit < 0 then Inl bad_limit
     else
       (let ids = claim_ids (ts env now) limit (outbox_events db);
            t = update_where (\<lambda>r. x_id r \<in> set ids)
                  (\<lambda>r. r\<lparr>x_lease_owner := Some owner, x_lease_until := Some (ts env until)\<rparr>)
                  (outbox_events db)
        in Inr (filter (\<lambda>r. x_id r \<in> set ids) t, db\<lparr>outbox_events := t\<rparr>)))"

definition q_ListPendingOutbox :: "int \<Rightarrow> (orders_db, outbox_row list) query" where
  "q_ListPendingOutbox limit = (\<lambda>env now db.
     if limit < 0 then Inl bad_limit
     else Inr (take (nat limit)
                 (sort_key x_created_at (filter (pending (ts env now)) (outbox_events db))), db))"

text \<open>An \<^verbatim>\<open>UPDATE outbox_events\<close> of an unpublished row that counts one attempt.\<close>

definition update_outbox ::
  "string \<Rightarrow> (outbox_row \<Rightarrow> outbox_row) \<Rightarrow> orders_db \<Rightarrow> dberr + (unit \<times> orders_db)" where
  "update_outbox xid f db =
     (let p = (\<lambda>r. x_id r = xid \<and> x_published_at r = None)
      in if list_all (\<lambda>r. in_int32 (x_attempts r + 1)) (filter p (outbox_events db))
         then Inr ((), db\<lparr>outbox_events :=
                update_where p (\<lambda>r. (f r)\<lparr>x_attempts := x_attempts r + 1\<rparr>) (outbox_events db)\<rparr>)
         else Inl out_of_range)"

definition q_MarkOutboxPublished :: "string \<Rightarrow> gotime \<Rightarrow> (orders_db, unit) query" where
  "q_MarkOutboxPublished xid at = (\<lambda>env now db.
     update_outbox xid (\<lambda>r. r\<lparr>x_published_at := Some (ts env at), x_lease_owner := None,
                              x_lease_until := None, x_last_error := None\<rparr>) db)"

definition q_MarkOutboxFailed :: "string \<Rightarrow> string \<Rightarrow> gotime \<Rightarrow> (orders_db, unit) query" where
  "q_MarkOutboxFailed xid lastError nextAttemptAt = (\<lambda>env now db.
     update_outbox xid (\<lambda>r. r\<lparr>x_last_error := Some lastError,
                              x_next_attempt_at := ts env nextAttemptAt, x_lease_owner := None,
                              x_lease_until := None\<rparr>) db)"

definition q_CountPendingOutbox :: "(orders_db, int) query" where
  "q_CountPendingOutbox = (\<lambda>env now db.
     Inr (int (count_where (\<lambda>r. x_published_at r = None) (outbox_events db)), db))"

end
