(* ===== verification/Orders_Quote.thy ===== *)
theory Orders_Quote
  imports Orders_Ports Orders_Queries
begin

section \<open>Orders: signed quotes\<close>

text \<open>
  \<^verbatim>\<open>apps/orders/internal/adapters/outbound/postgres/quote.go\<close>: verification
  of the detached EdDSA signature on Inventory's quote, with the verifier's cache of
  public keys.  The cache is part of the session of the Orders adapter; the key set
  endpoint answers through the environment.
\<close>

record quote_item =
  qi_ProductID :: string
  qi_Quantity :: int
  qi_UnitPriceMinor :: int
  qi_LineTotalMinor :: int

record signed_quote =
  sq_OrderID :: string
  sq_ReservationID :: string
  sq_QuoteID :: string
  sq_QuoteVersion :: int
  sq_Currency :: string
  sq_Items :: "quote_item list"
  sq_QuoteExpiresAt :: string

text \<open>The session of the adapter: the database session and the verifier's fields.\<close>

record orders_session = "orders_db session" +
  qv_keys :: "string \<Rightarrow> string option"
  qv_loaded :: gotime

type_synonym 'a oact = "(orders_session, oerr, 'a) act"

definition zero_quote_item :: quote_item where
  "zero_quote_item =
     \<lparr>qi_ProductID = '''', qi_Quantity = 0, qi_UnitPriceMinor = 0, qi_LineTotalMinor = 0\<rparr>"

definition quote_item_fields :: "quote_item field list" where
  "quote_item_fields =
     [(''product_id'', dec_str (\<lambda>s x. x\<lparr>qi_ProductID := s\<rparr>)),
      (''quantity'', dec_int in_int32 (\<lambda>n x. x\<lparr>qi_Quantity := n\<rparr>)),
      (''unit_price_minor'', dec_int in_int64 (\<lambda>n x. x\<lparr>qi_UnitPriceMinor := n\<rparr>)),
      (''line_total_minor'', dec_int in_int64 (\<lambda>n x. x\<lparr>qi_LineTotalMinor := n\<rparr>))]"

definition quote_item_json :: "quote_item \<Rightarrow> json" where
  "quote_item_json x =
     JObj [(''product_id'', JStr (qi_ProductID x)), (''quantity'', jint (qi_Quantity x)),
           (''unit_price_minor'', jint (qi_UnitPriceMinor x)),
           (''line_total_minor'', jint (qi_LineTotalMinor x))]"

definition quote_json :: "signed_quote \<Rightarrow> json" where
  "quote_json q =
     JObj [(''order_id'', JStr (sq_OrderID q)), (''reservation_id'', JStr (sq_ReservationID q)),
           (''quote_id'', JStr (sq_QuoteID q)), (''quote_version'', jint (sq_QuoteVersion q)),
           (''currency'', JStr (sq_Currency q)),
           (''items'', JArr (map quote_item_json (sq_Items q))),
           (''quote_expires_at'', JStr (sq_QuoteExpiresAt q))]"

subsection \<open>Key set documents\<close>

text \<open>The keys a document contributes: 32-byte Ed25519 signature keys, by key id.\<close>

fun document_keys :: "quote_jwk list \<Rightarrow> (string \<Rightarrow> string option) \<Rightarrow> string \<Rightarrow> string option" where
  "document_keys [] keys = keys"
| "document_keys (k # ks) keys =
     (if jk_KTY k \<noteq> ''OKP'' \<or> jk_CRV k \<noteq> ''Ed25519'' \<or> jk_Use k \<noteq> ''sig'' \<or> jk_Alg k \<noteq> ''EdDSA''
      then document_keys ks keys
      else (case b64_decode (jk_X k) of
              None \<Rightarrow> document_keys ks keys
            | Some x \<Rightarrow>
                if length x = 32 then document_keys ks (keys(jk_KID k \<mapsto> x))
                else document_keys ks keys))"

definition parse_document :: "golib \<Rightarrow> int \<times> string \<Rightarrow> (string \<Rightarrow> string option) option" where
  "parse_document lib response =
     (if fst response \<noteq> 200 then None
      else (case jsonParse lib (take 1048576 (snd response)) of
              None \<Rightarrow> None
            | Some j \<Rightarrow>
                (case decode_struct document_fields j [] of
                   (ok, ks) \<Rightarrow> if ok then Some (document_keys ks Map.empty) else None)))"

subsection \<open>Keys and verification\<close>

definition setKeys :: "(string \<Rightarrow> string option) \<Rightarrow> gotime \<Rightarrow> unit oact" where
  "setKeys keys t = (\<lambda>env s. (Inr (), s\<lparr>qv_keys := keys, qv_loaded := t\<rparr>))"

definition getKeys :: "((string \<Rightarrow> string option) \<times> gotime) oact" where
  "getKeys = (\<lambda>env s. (Inr (qv_keys s, qv_loaded s), s))"

lemma wp_getKeys [wp_rules]: "wp env getKeys Q E s = Q (qv_keys s, qv_loaded s) s"
  by (simp add: wp_def getKeys_def)

lemma wp_setKeys [wp_rules]:
  "wp env (setKeys keys t) Q E s = Q () (s\<lparr>qv_keys := keys, qv_loaded := t\<rparr>)"
  by (simp add: wp_def setKeys_def)

definition fetch_keys :: "golib \<Rightarrow> string \<Rightarrow> string option oact" where
  "fetch_keys lib keyID =
     bindA httpGet (\<lambda>response.
     case (case response of None \<Rightarrow> None | Some r \<Rightarrow> parse_document lib r) of
       None \<Rightarrow> ret None
     | Some keys \<Rightarrow>
         bindA clockNow (\<lambda>now.
         bindA (setKeys keys now) (\<lambda>_.
         ret (keys keyID))))"

definition quote_key :: "golib \<Rightarrow> string \<Rightarrow> string option oact" where
  "quote_key lib keyID =
     bindA getKeys (\<lambda>(keys, loaded).
     case keys keyID of
       None \<Rightarrow> fetch_keys lib keyID
     | Some key \<Rightarrow>
         bindA clockNow (\<lambda>now.
         if instant now - instant loaded < minutes 5 then ret (Some key)
         else fetch_keys lib keyID))"

definition header_fields :: "(string \<times> string) field list" where
  "header_fields =
     [(''alg'', dec_str (\<lambda>s (a, k). (s, k))), (''kid'', dec_str (\<lambda>s (a, k). (a, s)))]"

definition valid_header :: "golib \<Rightarrow> string \<Rightarrow> string \<Rightarrow> bool" where
  "valid_header lib part keyID =
     (case b64_decode part of
        None \<Rightarrow> False
      | Some bytes \<Rightarrow>
          (case jsonParse lib bytes of
             None \<Rightarrow> False
           | Some j \<Rightarrow> decode_struct header_fields j ('''', '''') = (True, (''EdDSA'', keyID))))"

text \<open>\<open>url\<close> is \<^const>\<open>None\<close> for a nil verifier.\<close>

definition quote_Verify ::
  "golib \<Rightarrow> string option \<Rightarrow> signed_quote \<Rightarrow> string \<Rightarrow> string \<Rightarrow> gotime \<Rightarrow> unit oact" where
  "quote_Verify lib url quote keyID detachedJWS now =
     (if url = None \<or> TrimSpace (the url) = '''' \<or> keyID = ''''
      then throw (wrap_err ErrConflict ''quote verification is not configured'')
      else
        case parseRFC3339Nano lib (sq_QuoteExpiresAt quote) of
          None \<Rightarrow> throw (wrap_err ErrConflict ''quote expired or invalid'')
        | Some expiresAt \<Rightarrow>
            if \<not> After expiresAt (UTC now)
            then throw (wrap_err ErrConflict ''quote expired or invalid'')
            else
              (case SplitOn CHR ''.'' detachedJWS of
                 [p0, p1, p2] \<Rightarrow>
                   if p1 \<noteq> '''' then throw (wrap_err ErrConflict ''quote signature is not detached JWS'')
                   else if \<not> valid_header lib p0 keyID
                   then throw (wrap_err ErrConflict ''quote signature header is invalid'')
                   else
                     (case b64_decode p2 of
                        None \<Rightarrow> throw (wrap_err ErrConflict ''quote signature is invalid'')
                      | Some signature \<Rightarrow>
                          if length signature \<noteq> 64
                          then throw (wrap_err ErrConflict ''quote signature is invalid'')
                          else
                            bindA (quote_key lib keyID) (\<lambda>publicKey.
                            case publicKey of
                              None \<Rightarrow>
                                throw (wrap_err ErrConflict ''quote signature verification failed'')
                            | Some pk \<Rightarrow>
                                if edVerify lib pk
                                     (p0 @ ''.'' @ b64_encode (jsonPrint lib (quote_json quote)))
                                     signature
                                then ret ()
                                else throw (wrap_err ErrConflict
                                              ''quote signature verification failed'')))
               | _ \<Rightarrow> throw (wrap_err ErrConflict ''quote signature is not detached JWS'')))"

subsection \<open>Soundness of the verification\<close>

text \<open>
  The key a verification uses was in the cache for less than five minutes or comes from
  the document just fetched.
\<close>

definition trusted_key :: "golib \<Rightarrow> env \<Rightarrow> orders_session \<Rightarrow> string \<Rightarrow> string \<Rightarrow> bool" where
  "trusted_key gl env s keyID pk \<longleftrightarrow>
     (qv_keys s keyID = Some pk \<and> instant (nowAt env (tick s)) - instant (qv_loaded s) < minutes 5)
     \<or> (\<exists>n r keys. n \<in> {tick s, Suc (tick s)} \<and> httpAt env n = Some r
          \<and> parse_document gl r = Some keys \<and> keys keyID = Some pk)"

lemma wp_fetch_keys:
  "wp env (fetch_keys gl keyID)
     (\<lambda>k s'. work s' = work s \<and> durable s' = durable s
        \<and> (\<forall>pk. k = Some pk \<longrightarrow> (\<exists>r keys. httpAt env (tick s) = Some r
             \<and> parse_document gl r = Some keys \<and> keys keyID = Some pk)))
     (\<lambda>_ s'. durable s' = durable s) s"
  unfolding fetch_keys_def by (auto simp: wp_rules split: option.splits)

lemma wp_quote_key:
  "wp env (quote_key gl keyID)
     (\<lambda>k s'. work s' = work s \<and> durable s' = durable s
        \<and> (\<forall>pk. k = Some pk \<longrightarrow> trusted_key gl env s keyID pk))
     (\<lambda>_ s'. durable s' = durable s) s"
  unfolding quote_key_def trusted_key_def
  by (auto simp: wp_rules split: option.splits intro!: wp_mono [OF wp_fetch_keys])

text \<open>An accepted quote is unexpired and signed by a trusted key over exactly its content.\<close>

definition quote_signed :: "golib \<Rightarrow> env \<Rightarrow> orders_session \<Rightarrow> signed_quote \<Rightarrow> string \<Rightarrow> string \<Rightarrow> gotime \<Rightarrow> bool" where
  "quote_signed gl env s quote keyID jws now \<longleftrightarrow>
     (\<exists>expiresAt p0 p2 signature pk.
        parseRFC3339Nano gl (sq_QuoteExpiresAt quote) = Some expiresAt \<and> After expiresAt now
        \<and> SplitOn CHR ''.'' jws = [p0, '''', p2] \<and> valid_header gl p0 keyID
        \<and> b64_decode p2 = Some signature \<and> trusted_key gl env s keyID pk
        \<and> edVerify gl pk (p0 @ ''.'' @ b64_encode (jsonPrint gl (quote_json quote))) signature)"

lemma wp_quote_Verify:
  "wp env (quote_Verify gl url quote keyID jws now)
     (\<lambda>_ s'. work s' = work s \<and> durable s' = durable s
        \<and> quote_signed gl env s quote keyID jws now)
     (\<lambda>_ s'. durable s' = durable s) s"
  unfolding quote_Verify_def quote_signed_def
  by (auto simp: wp_rules After_def split: option.splits list.splits
    intro!: wp_mono [OF wp_quote_key]) blast

end
