(* ===== verification/Orders_Store.thy ===== *)
theory Orders_Store
  imports Orders_Quote
begin

section \<open>Orders: the Postgres store\<close>

text \<open>
  \<^verbatim>\<open>apps/orders/internal/adapters/outbound/postgres/store.go\<close>: creation with
  idempotency, listing with signed cursors, cancellation, the outbox and inbox operations
  of the relay, and the application of dependency facts with its compensations.  Each
  method is the sequence of statements, UUIDs and clock readings of the Go method, in its
  order.  \<^verbatim>\<open>json.Marshal\<close> of the payloads does not fail: they hold
  strings, integers and clock readings.
\<close>

record store_cfg =
  lib :: golib
  quoteURL :: "string option"
  cursorSecret :: string

record fact_envelope =
  fe_EventID :: string
  fe_EventType :: string
  fe_AggregateID :: string
  fe_AggregateType :: string
  fe_AggregateVersion :: "64 word"
  fe_SagaID :: string
  fe_CorrelationID :: string
  fe_CausationID :: string
  fe_OperationID :: string
  fe_Producer :: string
  fe_SchemaVersion :: int
  fe_OccurredAt :: gotime
  fe_Data :: "string \<Rightarrow> json option"

record outbox_event =
  oe_ID :: string
  oe_Topic :: string
  oe_PartitionKey :: string
  oe_MessageType :: string
  oe_AggregateType :: string
  oe_AggregateID :: string
  oe_Payload :: json
  oe_Headers :: json
  oe_Attempts :: int

record cursor_value =
  cv_CustomerID :: string
  cv_Status :: string
  cv_CreatedAt :: gotime
  cv_ID :: string

record accepted_response =
  ar_OrderID :: string
  ar_Status :: string
  ar_CreatedAt :: gotime

subsection \<open>Conversions\<close>

definition nullString :: "string \<Rightarrow> string option" where
  "nullString v = (if v = '''' then None else Some v)"

text \<open>The \<^verbatim>\<open>String\<close> field of a \<^verbatim>\<open>sql.NullString\<close>.\<close>

definition nullable_text :: "string option \<Rightarrow> string" where
  "nullable_text v = (case v of None \<Rightarrow> '''' | Some s \<Rightarrow> s)"

definition nullTime :: "gotime \<Rightarrow> gotime option" where
  "nullTime t = (if IsZero t then None else Some t)"

definition orderFromFields :: "env \<Rightarrow> order_row \<Rightarrow> order" where
  "orderFromFields env r =
     \<lparr>ID = o_id r, CustomerID = o_customer_id r, Currency = o_currency r, Items = [],
      TotalMinor = o_total_minor r, ReservationID = o_reservation_id r,
      PaymentID = o_payment_id r, ShipmentID = o_shipment_id r,
      FailureCode = o_failure_code r, InventoryReleased = o_inventory_released r,
      PaymentRefunded = o_payment_refunded r, Status = status_of (o_status r),
      Version = uint64_of (o_aggregate_version r), CreatedAt = scan_ts env (o_created_at r),
      UpdatedAt = scan_ts env (o_updated_at r)\<rparr>"

definition item_of_row :: "item_row \<Rightarrow> item" where
  "item_of_row r =
     \<lparr>ProductID = i_product_id r, Quantity = i_quantity r, UnitPriceMinor = i_unit_price_minor r,
      LineTotalMinor = i_line_total_minor r, QuoteID = i_quote_id r,
      QuoteVersion = i_quote_version r\<rparr>"

text \<open>A query runs on the open transaction or directly on the pool.\<close>

datatype conn = OnTx | OnDB

definition onQ :: "conn \<Rightarrow> (orders_db, 'a) query \<Rightarrow> 'a oact" where
  "onQ c q = (case c of OnTx \<Rightarrow> stmt mapError q | OnDB \<Rightarrow> autoQ mapError q)"

definition loadOrder :: "conn \<Rightarrow> string \<Rightarrow> order oact" where
  "loadOrder c oid =
     bindA getEnv (\<lambda>env.
     bindA (onQ c (q_GetOrder oid)) (\<lambda>row.
     bindA (onQ c (q_GetOrderItems oid)) (\<lambda>items.
     ret ((orderFromFields env row)\<lparr>Items := map item_of_row items\<rparr>))))"

definition FindByID :: "string \<Rightarrow> order oact" where
  "FindByID oid = loadOrder OnDB oid"

subsection \<open>Payloads\<close>

definition topicFor :: "string \<Rightarrow> string" where
  "topicFor messageType =
     (if HasPrefix messageType ''commerce.order.'' then ''commerce.order.events.v1''
      else if HasPrefix messageType ''commerce.inventory.'' then ''commerce.inventory.commands.v1''
      else if HasPrefix messageType ''commerce.payment.'' then ''commerce.payment.commands.v1''
      else ''commerce.fulfillment.commands.v1'')"

definition operationSuffix :: "string \<Rightarrow> string" where
  "operationSuffix v =
     (if CHR '':'' \<in> set v then rev (takeWhile (\<lambda>c. c \<noteq> CHR '':'') (rev v)) else v)"

definition juint :: "64 word \<Rightarrow> json" where
  "juint v = JNum (nat_text (unat v))"

definition orderItemsPayload :: "order \<Rightarrow> json" where
  "orderItemsPayload ord =
     JArr (map (\<lambda>it. JObj [(''product_id'', JStr (ProductID it)), (''quantity'', jint (Quantity it))])
            (Items ord))"

definition command_aggregate :: "string \<Rightarrow> string" where
  "command_aggregate commandType =
     (if commandType = ''commerce.inventory.release.v1'' then ''inventory''
      else if commandType \<in> {''commerce.payment.authorize.v1'', ''commerce.payment.refund.v1''}
        then ''payment''
      else if commandType = ''commerce.fulfillment.create.v1'' then ''fulfillment''
      else ''order'')"

text \<open>Members of a map are marshalled in the order of their names.\<close>

definition commandPayload ::
  "store_cfg \<Rightarrow> string \<Rightarrow> order \<Rightarrow> string \<Rightarrow> string \<Rightarrow> string \<Rightarrow> json \<Rightarrow> json oact" where
  "commandPayload cfg commandType ord sagaID causation operation data =
     bindA newUUID (\<lambda>u.
     bindA clockNow (\<lambda>now.
     ret (JObj
       [(''aggregate_id'', JStr (ID ord)),
        (''aggregate_type'', JStr (command_aggregate commandType)),
        (''aggregate_version'', juint (Version ord)),
        (''causation_id'', JStr causation),
        (''command_id'', JStr (''cmd_'' @ u)),
        (''command_type'', JStr commandType),
        (''correlation_id'', JStr (ID ord)),
        (''data'', data),
        (''issued_at'', jtime (lib cfg) (UTC now)),
        (''operation_id'', JStr (''ord_'' @ TrimPrefix (ID ord) ''ord_'' @ '':''
                               @ operationSuffix operation)),
        (''producer'', JStr ''orders''),
        (''saga_id'', JStr sagaID),
        (''schema_version'', jint 1)])))"

definition event_json ::
  "store_cfg \<Rightarrow> string \<Rightarrow> string \<Rightarrow> order \<Rightarrow> string \<Rightarrow> string \<Rightarrow> gotime \<Rightarrow> string \<Rightarrow> json \<Rightarrow> json" where
  "event_json cfg eventID eventType ord sagaID causation occurredAt operation data =
     JObj
       [(''event_id'', JStr eventID),
        (''event_type'', JStr eventType),
        (''aggregate_type'', JStr ''order''),
        (''aggregate_id'', JStr (ID ord)),
        (''aggregate_version'', juint (Version ord)),
        (''saga_id'', JStr sagaID),
        (''correlation_id'', JStr (ID ord)),
        (''causation_id'', JStr causation),
        (''occurred_at'', jtime (lib cfg) occurredAt),
        (''producer'', JStr ''orders''),
        (''schema_version'', jint 1),
        (''operation_id'', JStr operation),
        (''data'', data)]"

definition eventPayloadFor ::
  "store_cfg \<Rightarrow> string \<Rightarrow> order \<Rightarrow> string \<Rightarrow> string \<Rightarrow> string \<Rightarrow> json \<Rightarrow> json oact" where
  "eventPayloadFor cfg eventType ord sagaID causation operation data =
     bindA newUUID (\<lambda>u.
     bindA clockNow (\<lambda>now.
     ret (event_json cfg (''evt_'' @ u) eventType ord sagaID causation (UTC now) operation data)))"

definition eventPayloadWithID ::
  "store_cfg \<Rightarrow> string \<Rightarrow> string \<Rightarrow> order \<Rightarrow> string \<Rightarrow> string \<Rightarrow> string \<Rightarrow> string \<Rightarrow> json" where
  "eventPayloadWithID cfg eventID eventType ord sagaID causation operation reason =
     (let data =
        (if eventType = ''commerce.order.cancellation_requested.v1''
         then JObj [(''order_id'', JStr (ID ord)), (''reason_code'', JStr reason)]
         else JObj [(''currency'', JStr (Currency ord)), (''customer_id'', JStr (CustomerID ord)),
                    (''items'', orderItemsPayload ord), (''order_id'', JStr (ID ord))])
      in event_json cfg eventID eventType ord sagaID causation (UpdatedAt ord) operation data)"

definition json_headers :: json where
  "json_headers = JObj [(''content-type'', JStr ''application/json'')]"

definition insertOutbox :: "string \<Rightarrow> string \<Rightarrow> json \<Rightarrow> gotime \<Rightarrow> unit oact" where
  "insertOutbox messageType orderID payload at =
     bindA newUUID (\<lambda>u.
     stmt mapError (q_InsertOutbox u (topicFor messageType) orderID messageType ''order'' orderID
       payload json_headers at))"

definition accepted_json :: "store_cfg \<Rightarrow> accepted_response \<Rightarrow> json" where
  "accepted_json cfg a =
     JObj [(''order_id'', JStr (ar_OrderID a)), (''status'', JStr (ar_Status a)),
           (''created_at'', jtime (lib cfg) (ar_CreatedAt a))]"

definition accepted_fields :: "store_cfg \<Rightarrow> accepted_response field list" where
  "accepted_fields cfg =
     [(''order_id'', dec_str (\<lambda>s x. x\<lparr>ar_OrderID := s\<rparr>)),
      (''status'', dec_str (\<lambda>s x. x\<lparr>ar_Status := s\<rparr>)),
      (''created_at'', dec_time (lib cfg) (\<lambda>t x. x\<lparr>ar_CreatedAt := t\<rparr>))]"

subsection \<open>Create\<close>

definition replay_create :: "store_cfg \<Rightarrow> string \<Rightarrow> string \<Rightarrow> string \<Rightarrow> string \<Rightarrow> create_result oact" where
  "replay_create cfg actorID operation key requestHash =
     bindA (stmt mapError (q_GetIdempotency actorID operation key)) (\<lambda>rec.
     if k_request_hash rec \<noteq> requestHash then throw (app_err ErrIdempotencyConflict)
     else
       bindA (onErr mapError_mapped (loadOrder OnTx (nullable_text (k_resource_id rec)))) (\<lambda>replayed.
       bindA (commitTx mapError) (\<lambda>_.
       let accepted0 = \<lparr>ar_OrderID = ID replayed, ar_Status = status_text (Status replayed),
                        ar_CreatedAt = CreatedAt replayed\<rparr>;
           accepted = (case k_response_body rec of
                         None \<Rightarrow> accepted0
                       | Some body \<Rightarrow> snd (decode_struct (accepted_fields cfg) body accepted0))
       in ret \<lparr>ResultOrder = replayed, Replayed = True, ResponseStatus = ar_Status accepted,
               ResponseAt = ar_CreatedAt accepted\<rparr>)))"

definition numbered_items :: "order \<Rightarrow> item_row list" where
  "numbered_items ord =
     map (\<lambda>(n, it). \<lparr>i_order_id = ID ord, i_line_number = int n + 1, i_product_id = ProductID it,
                     i_quantity = Quantity it, i_unit_price_minor = None,
                     i_line_total_minor = None, i_quote_id = None, i_quote_version = None\<rparr>)
       (enumerate 0 (Items ord))"

definition insert_new_order :: "store_cfg \<Rightarrow> order \<Rightarrow> create_result oact" where
  "insert_new_order cfg ord =
     bindA (stmt mapError (q_InsertOrder (ID ord) (CustomerID ord) (Currency ord) None
              (status_text (Status ord)) (int64_of (Version ord)) (CreatedAt ord))) (\<lambda>_.
     bindA (forA (numbered_items ord) (\<lambda>r. stmt mapError (q_InsertOrderItem r))) (\<lambda>_.
     bindA newUUID (\<lambda>u1. let sagaID = ''sag_'' @ u1 in
     bindA (stmt mapError (q_InsertSaga sagaID (ID ord) ''INVENTORY_RESERVATION_PENDING''
              (CreatedAt ord))) (\<lambda>_.
     bindA newUUID (\<lambda>u2. let createdEventID = ''evt_'' @ u2 in
     bindA newUUID (\<lambda>u3.
     let payload = eventPayloadWithID cfg createdEventID ''commerce.order.created.v1'' ord sagaID
                     (''cmd_'' @ u3) (''ord_'' @ TrimPrefix (ID ord) ''ord_'' @ '':create'') '''' in
     bindA newUUID (\<lambda>u4.
     bindA (stmt mapError (q_InsertOutbox u4 ''commerce.order.events.v1'' (ID ord)
              ''commerce.order.created.v1'' ''order'' (ID ord) payload json_headers
              (CreatedAt ord))) (\<lambda>_.
     bindA (commandPayload cfg ''commerce.inventory.reserve.v1'' ord sagaID createdEventID
              (ID ord @ '':reserve'')
              (JObj [(''currency'', JStr (Currency ord)), (''customer_id'', JStr (CustomerID ord)),
                     (''items'', orderItemsPayload ord), (''order_id'', JStr (ID ord))])) (\<lambda>reserve.
     bindA (insertOutbox ''commerce.inventory.reserve.v1'' (ID ord) reserve (CreatedAt ord)) (\<lambda>_.
     bindA (commitTx mapError) (\<lambda>_.
     ret \<lparr>ResultOrder = ord, Replayed = False, ResponseStatus = status_text (Status ord),
          ResponseAt = CreatedAt ord\<rparr>)))))))))))"

definition Store_Create ::
  "store_cfg \<Rightarrow> string \<Rightarrow> order \<Rightarrow> string \<Rightarrow> string \<Rightarrow> string \<Rightarrow> create_result oact" where
  "Store_Create cfg actorID ord operation key requestHash =
     bindA (beginTx mapError) (\<lambda>_.
     let body = accepted_json cfg \<lparr>ar_OrderID = ID ord, ar_Status = status_text (Status ord),
                                   ar_CreatedAt = CreatedAt ord\<rparr> in
     bindA (stmt mapError (q_InsertIdempotency actorID operation key requestHash (Some (ID ord))
              (Some 202) (Some body) (CreatedAt ord) (plus_ns (CreatedAt ord) (hours 48)))) (\<lambda>inserted.
     if inserted = 0 then replay_create cfg actorID operation key requestHash
     else insert_new_order cfg ord))"

subsection \<open>Cursors and List\<close>

definition cursor_json :: "store_cfg \<Rightarrow> cursor_value \<Rightarrow> json" where
  "cursor_json cfg v =
     JObj [(''customer_id'', JStr (cv_CustomerID v)), (''status'', JStr (cv_Status v)),
           (''created_at'', jtime (lib cfg) (cv_CreatedAt v)), (''id'', JStr (cv_ID v))]"

definition cursor_fields :: "store_cfg \<Rightarrow> cursor_value field list" where
  "cursor_fields cfg =
     [(''customer_id'', dec_str (\<lambda>s x. x\<lparr>cv_CustomerID := s\<rparr>)),
      (''status'', dec_str (\<lambda>s x. x\<lparr>cv_Status := s\<rparr>)),
      (''created_at'', dec_time (lib cfg) (\<lambda>t x. x\<lparr>cv_CreatedAt := t\<rparr>)),
      (''id'', dec_str (\<lambda>s x. x\<lparr>cv_ID := s\<rparr>))]"

definition zero_cursor :: cursor_value where
  "zero_cursor = \<lparr>cv_CustomerID = '''', cv_Status = '''', cv_CreatedAt = zero_time, cv_ID = ''''\<rparr>"

definition encodeCursor :: "store_cfg \<Rightarrow> cursor_value \<Rightarrow> string" where
  "encodeCursor cfg v = b64_encode (jsonPrint (lib cfg) (cursor_json cfg v))"

definition encodeSignedCursor :: "store_cfg \<Rightarrow> cursor_value \<Rightarrow> string" where
  "encodeSignedCursor cfg v =
     (let encoded = encodeCursor cfg v in
      if cursorSecret cfg = '''' then encoded
      else encoded @ ''.'' @ b64_encode (hmac256 (lib cfg) (cursorSecret cfg) encoded))"

definition decodeCursor :: "store_cfg \<Rightarrow> string \<Rightarrow> cursor_value option" where
  "decodeCursor cfg v =
     (case b64_decode v of
        None \<Rightarrow> None
      | Some data \<Rightarrow>
          if 1024 < length data then None
          else (case jsonParse (lib cfg) data of
                  None \<Rightarrow> None
                | Some j \<Rightarrow>
                    (case decode_struct (cursor_fields cfg) j zero_cursor of
                       (ok, r) \<Rightarrow>
                         if \<not> ok \<or> cv_CustomerID r = '''' \<or> cv_ID r = '''' \<or> IsZero (cv_CreatedAt r)
                         then None else Some r)))"

definition decodeSignedCursor :: "store_cfg \<Rightarrow> string \<Rightarrow> cursor_value option" where
  "decodeSignedCursor cfg v =
     (if cursorSecret cfg = '''' then decodeCursor cfg v
      else (case SplitOn CHR ''.'' v of
              [p0, p1] \<Rightarrow>
                if 128 < length p1 then None
                else (case b64_decode p1 of
                        None \<Rightarrow> None
                      | Some supplied \<Rightarrow>
                          if supplied \<noteq> hmac256 (lib cfg) (cursorSecret cfg) p0 then None
                          else decodeCursor cfg p0)
            | _ \<Rightarrow> None))"

fun load_orders :: "string list \<Rightarrow> order list oact" where
  "load_orders [] = ret []"
| "load_orders (i # is) =
     bindA (loadOrder OnDB i) (\<lambda>ord. bindA (load_orders is) (\<lambda>ords. ret (ord # ords)))"

definition list_cursor :: "store_cfg \<Rightarrow> string \<Rightarrow> string \<Rightarrow> string \<Rightarrow> cursor_value option" where
  "list_cursor cfg customerID status cursor =
     (if cursor = '''' then Some zero_cursor
      else (case decodeSignedCursor cfg cursor of
              None \<Rightarrow> None
            | Some d \<Rightarrow>
                if cv_CustomerID d \<noteq> customerID \<or> cv_Status d \<noteq> status then None else Some d))"

definition Store_List ::
  "store_cfg \<Rightarrow> string \<Rightarrow> string \<Rightarrow> string \<Rightarrow> int \<Rightarrow> (order list \<times> string) oact" where
  "Store_List cfg customerID status cursor limit =
     (case list_cursor cfg customerID status cursor of
        None \<Rightarrow> throw (app_err ErrInvalidCursor)
      | Some c \<Rightarrow>
          bindA (autoQ mapError (q_ListOrders customerID status (nullTime (cv_CreatedAt c))
                   (nullString (cv_ID c)) (wrap32 (limit + 1)))) (\<lambda>rows.
          let hasMore = limit < int (length rows);
              rows = (if hasMore then take (nat limit) rows else rows) in
          bindA (load_orders (map o_id rows)) (\<lambda>ords.
          if \<not> hasMore \<or> ords = [] then ret (ords, '''')
          else
            (let z = last ords in
             ret (ords, encodeSignedCursor cfg
                    \<lparr>cv_CustomerID = customerID, cv_Status = status, cv_CreatedAt = CreatedAt z,
                     cv_ID = ID z\<rparr>)))))"

subsection \<open>Workflow updates and compensation\<close>

definition updateWorkflowAtVersion ::
  "order \<Rightarrow> status \<Rightarrow> string \<Rightarrow> string \<Rightarrow> string \<Rightarrow> string \<Rightarrow> int option \<Rightarrow> 64 word \<Rightarrow> gotime
   \<Rightarrow> unit oact" where
  "updateWorkflowAtVersion ord status failure reservation payment shipment totalMinor
     expectedVersion now =
     (if status \<noteq> Status ord \<and> IsTerminal (Status ord) then ret ()
      else
        bindA (stmt mapError (q_UpdateOrderWorkflowState (ID ord) (status_text status)
                 (nullString failure) (nullString reservation) (nullString payment)
                 (nullString shipment) totalMinor now (int64_of expectedVersion))) (\<lambda>rows.
        if rows \<noteq> 1 then throw (app_err ErrConflict) else ret ()))"

definition updateWorkflow ::
  "order \<Rightarrow> status \<Rightarrow> string \<Rightarrow> string \<Rightarrow> string \<Rightarrow> string \<Rightarrow> int option \<Rightarrow> gotime \<Rightarrow> unit oact" where
  "updateWorkflow ord status failure reservation payment shipment totalMinor now =
     updateWorkflowAtVersion ord status failure reservation payment shipment totalMinor
       (Version ord) now"

definition release_needed :: "order \<Rightarrow> string \<Rightarrow> bool" where
  "release_needed ord failedEvent \<longleftrightarrow>
     failedEvent \<in> {''commerce.payment.failed.v1'', ''commerce.fulfillment.failed.v1'',
                    ''commerce.order.cancellation_requested.v1''}
     \<and> (case ReservationID ord of None \<Rightarrow> False | Some r \<Rightarrow> ValidReservationID r)"

definition refund_needed :: "order \<Rightarrow> string \<Rightarrow> bool" where
  "refund_needed ord failedEvent \<longleftrightarrow>
     failedEvent \<in> {''commerce.fulfillment.failed.v1'', ''commerce.order.cancellation_requested.v1''}
     \<and> (case PaymentID ord of None \<Rightarrow> False | Some p \<Rightarrow> ValidPaymentID p) \<and> TotalMinor ord \<noteq> None"

definition insertCompensationCommands ::
  "store_cfg \<Rightarrow> order \<Rightarrow> string \<Rightarrow> string \<Rightarrow> string \<Rightarrow> gotime \<Rightarrow> unit oact" where
  "insertCompensationCommands cfg ord sagaID causation failedEvent at =
     bindA
       (if release_needed ord failedEvent then
          bindA (commandPayload cfg ''commerce.inventory.release.v1'' ord sagaID causation
                   (ID ord @ '':release-inventory'')
                   (JObj [(''order_id'', JStr (ID ord)),
                          (''reservation_id'', JStr (the (ReservationID ord)))])) (\<lambda>release.
          insertOutbox ''commerce.inventory.release.v1'' (ID ord) release at)
        else ret ()) (\<lambda>_.
     if refund_needed ord failedEvent then
       bindA (commandPayload cfg ''commerce.payment.refund.v1'' ord sagaID causation
                (ID ord @ '':refund-payment'')
                (JObj [(''amount_minor'', jint (the (TotalMinor ord))),
                       (''currency'', JStr (Currency ord)), (''order_id'', JStr (ID ord)),
                       (''payment_id'', JStr (the (PaymentID ord)))])) (\<lambda>refund.
       insertOutbox ''commerce.payment.refund.v1'' (ID ord) refund at)
     else ret ())"

subsection \<open>RequestCancellation\<close>

definition replay_cancel :: "string \<Rightarrow> string \<Rightarrow> string \<Rightarrow> string \<Rightarrow> order oact" where
  "replay_cancel actorID operation key requestHash =
     bindA (stmt mapError (q_GetIdempotency actorID operation key)) (\<lambda>rec.
     if k_request_hash rec \<noteq> requestHash then throw (app_err ErrIdempotencyConflict)
     else
       bindA (loadOrder OnTx (nullable_text (k_resource_id rec))) (\<lambda>ord.
       bindA (commitTx mapError) (\<lambda>_. ret ord)))"

definition cancel_order ::
  "store_cfg \<Rightarrow> string \<Rightarrow> string \<Rightarrow> string \<Rightarrow> string \<Rightarrow> string \<Rightarrow> 64 word \<Rightarrow> gotime \<Rightarrow> order oact" where
  "cancel_order cfg actorID orderID operation key reason expectedVersion at =
     bindA getEnv (\<lambda>env.
     bindA (stmt mapError (q_UpdateOrderCancellation orderID (int64_of expectedVersion) at)) (\<lambda>row.
     bindA (stmt mapError (q_GetSagaByOrderID orderID)) (\<lambda>saga.
     bindA newUUID (\<lambda>u1. let eventID = ''evt_'' @ u1; ord = orderFromFields env row;
         body = accepted_json cfg \<lparr>ar_OrderID = o_id row, ar_Status = o_status row,
                                   ar_CreatedAt = scan_ts env (o_updated_at row)\<rparr> in
     bindA (stmt mapError (q_UpdateIdempotencyResponse actorID operation key (Some (o_id row))
              (Some body))) (\<lambda>_.
     bindA newUUID (\<lambda>u2.
     let payload = eventPayloadWithID cfg eventID ''commerce.order.cancellation_requested.v1'' ord
                     (s_id saga) (''cmd_'' @ u2)
                     (''ord_'' @ TrimPrefix orderID ''ord_'' @ '':cancel'') reason in
     bindA newUUID (\<lambda>u3.
     bindA (stmt mapError (q_InsertOutbox u3 ''commerce.order.events.v1'' orderID
              ''commerce.order.cancellation_requested.v1'' ''order'' orderID payload
              (JObj [(''reason_code'', JStr reason)]) at)) (\<lambda>_.
     bindA (stmt mapError (q_UpdateSagaPhase (s_id saga) ''CANCELLATION_REQUESTED'' at)) (\<lambda>_.
     bindA (insertCompensationCommands cfg ord (s_id saga) eventID
              ''commerce.order.cancellation_requested.v1'' at) (\<lambda>_.
     bindA (commitTx mapError) (\<lambda>_.
     ret ord)))))))))))"

definition RequestCancellation ::
  "store_cfg \<Rightarrow> string \<Rightarrow> string \<Rightarrow> string \<Rightarrow> string \<Rightarrow> string \<Rightarrow> string \<Rightarrow> 64 word \<Rightarrow> gotime
   \<Rightarrow> order oact" where
  "RequestCancellation cfg actorID orderID operation key requestHash reason expectedVersion at =
     bindA (beginTx mapError) (\<lambda>_.
     bindA (stmt mapError (q_InsertIdempotency actorID operation key requestHash None (Some 202) None
              at (plus_ns at (hours 48)))) (\<lambda>inserted.
     if inserted = 0 then replay_cancel actorID operation key requestHash
     else cancel_order cfg actorID orderID operation key reason expectedVersion at))"

subsection \<open>Outbox and inbox bookkeeping\<close>

definition event_of_row :: "outbox_row \<Rightarrow> outbox_event" where
  "event_of_row r =
     \<lparr>oe_ID = x_id r, oe_Topic = x_topic r, oe_PartitionKey = x_partition_key r,
      oe_MessageType = x_message_type r, oe_AggregateType = x_aggregate_type r,
      oe_AggregateID = x_aggregate_id r, oe_Payload = x_payload r, oe_Headers = x_headers r,
      oe_Attempts = x_attempts r\<rparr>"

definition PendingOutbox :: "int \<Rightarrow> outbox_event list oact" where
  "PendingOutbox limit =
     bindA (autoQ mapError (q_ListPendingOutbox (wrap32 limit))) (\<lambda>rows. ret (map event_of_row rows))"

definition ClaimPendingOutbox :: "string \<Rightarrow> int \<Rightarrow> gotime \<Rightarrow> outbox_event list oact" where
  "ClaimPendingOutbox owner limit until =
     bindA (autoQ mapError (q_ClaimPendingOutbox owner until (wrap32 limit))) (\<lambda>rows.
     ret (map event_of_row rows))"

definition MarkOutboxPublished :: "string \<Rightarrow> gotime \<Rightarrow> unit oact" where
  "MarkOutboxPublished xid at = autoQ mapError (q_MarkOutboxPublished xid at)"

definition MarkOutboxFailed :: "string \<Rightarrow> string \<Rightarrow> gotime \<Rightarrow> unit oact" where
  "MarkOutboxFailed xid reason retryAt = autoQ mapError (q_MarkOutboxFailed xid reason retryAt)"

definition PendingOutboxCount :: "int oact" where
  "PendingOutboxCount = autoQ mapError q_CountPendingOutbox"

definition MarkFactDeadLetter :: "string \<Rightarrow> string \<Rightarrow> string \<Rightarrow> unit oact" where
  "MarkFactDeadLetter consumerGroup messageID reason =
     autoQ mapError (q_MarkInboxDeadLetter consumerGroup messageID reason)"

subsection \<open>Fact envelopes\<close>

definition zero_envelope :: fact_envelope where
  "zero_envelope =
     \<lparr>fe_EventID = '''', fe_EventType = '''', fe_AggregateID = '''', fe_AggregateType = '''',
      fe_AggregateVersion = 0, fe_SagaID = '''', fe_CorrelationID = '''', fe_CausationID = '''',
      fe_OperationID = '''', fe_Producer = '''', fe_SchemaVersion = 0, fe_OccurredAt = zero_time,
      fe_Data = Map.empty\<rparr>"

definition dec_data :: "json \<Rightarrow> fact_envelope \<Rightarrow> fact_envelope option" where
  "dec_data j e =
     (case j of
        JNull \<Rightarrow> Some (e\<lparr>fe_Data := Map.empty\<rparr>)
      | JObj kvs \<Rightarrow> Some (e\<lparr>fe_Data := foldl (\<lambda>m (k, v). m(k \<mapsto> v)) (fe_Data e) kvs\<rparr>)
      | _ \<Rightarrow> None)"

definition envelope_fields :: "golib \<Rightarrow> fact_envelope field list" where
  "envelope_fields gl =
     [(''event_id'', dec_str (\<lambda>s e. e\<lparr>fe_EventID := s\<rparr>)),
      (''event_type'', dec_str (\<lambda>s e. e\<lparr>fe_EventType := s\<rparr>)),
      (''aggregate_id'', dec_str (\<lambda>s e. e\<lparr>fe_AggregateID := s\<rparr>)),
      (''aggregate_type'', dec_str (\<lambda>s e. e\<lparr>fe_AggregateType := s\<rparr>)),
      (''aggregate_version'', dec_uint64 (\<lambda>v e. e\<lparr>fe_AggregateVersion := v\<rparr>)),
      (''saga_id'', dec_str (\<lambda>s e. e\<lparr>fe_SagaID := s\<rparr>)),
      (''correlation_id'', dec_str (\<lambda>s e. e\<lparr>fe_CorrelationID := s\<rparr>)),
      (''causation_id'', dec_str (\<lambda>s e. e\<lparr>fe_CausationID := s\<rparr>)),
      (''operation_id'', dec_str (\<lambda>s e. e\<lparr>fe_OperationID := s\<rparr>)),
      (''producer'', dec_str (\<lambda>s e. e\<lparr>fe_Producer := s\<rparr>)),
      (''schema_version'', dec_int in_int64 (\<lambda>n e. e\<lparr>fe_SchemaVersion := n\<rparr>)),
      (''occurred_at'', dec_time gl (\<lambda>t e. e\<lparr>fe_OccurredAt := t\<rparr>)),
      (''data'', dec_data)]"

definition decode_envelope :: "golib \<Rightarrow> string \<Rightarrow> fact_envelope option" where
  "decode_envelope gl payload =
     (case jsonParse gl payload of
        None \<Rightarrow> None
      | Some j \<Rightarrow>
          (case decode_struct (envelope_fields gl) j zero_envelope of
             (ok, e) \<Rightarrow> if ok then Some e else None))"

definition rawString :: "json option \<Rightarrow> string" where
  "rawString v = (case v of Some (JStr s) \<Rightarrow> s | _ \<Rightarrow> '''')"

definition rawInt64 :: "json option \<Rightarrow> oerr + int" where
  "rawInt64 v =
     (case v of
        Some JNull \<Rightarrow> Inr 0
      | Some (JNum lit) \<Rightarrow>
          (case ParseInt lit of
             None \<Rightarrow> Inl (wrap_err ErrConflict ''invalid number'') | Some n \<Rightarrow> Inr n)
      | _ \<Rightarrow> Inl (wrap_err ErrConflict ''invalid number''))"

definition validFactIdentity :: "fact_envelope \<Rightarrow> bool" where
  "validFactIdentity e =
     (if fe_EventType e \<in> {''commerce.inventory.reserved.v1'', ''commerce.inventory.rejected.v1'',
                           ''commerce.inventory.released.v1''}
      then fe_AggregateType e = ''inventory'' \<and> fe_Producer e = ''inventory''
      else if fe_EventType e \<in> {''commerce.payment.authorized.v1'', ''commerce.payment.failed.v1'',
                                ''commerce.payment.refunded.v1''}
      then fe_AggregateType e = ''payment'' \<and> fe_Producer e = ''payments''
      else if fe_EventType e \<in> {''commerce.fulfillment.completed.v1'',
                                ''commerce.fulfillment.failed.v1''}
      then fe_AggregateType e = ''fulfillment'' \<and> fe_Producer e = ''fulfillment''
      else False)"

definition RecordFactFailure ::
  "store_cfg \<Rightarrow> string \<Rightarrow> string \<Rightarrow> string \<Rightarrow> gotime \<Rightarrow> (bool \<times> int) oact" where
  "RecordFactFailure cfg consumerGroup payload reason retryAt =
     (case decode_envelope (lib cfg) payload of
        None \<Rightarrow> ret (True, 0)
      | Some e \<Rightarrow>
          if fe_EventID e = '''' \<or> fe_EventType e = '''' \<or> fe_CorrelationID e = '''' then ret (True, 0)
          else
            bindA (beginTx mapError) (\<lambda>_.
            bindA clockNow (\<lambda>now.
            bindA (stmt mapError (q_RecordInboxFailure consumerGroup (fe_EventID e) (fe_EventType e)
                     (hex_encode (sha256 (lib cfg) payload)) (UTC now) (fe_CorrelationID e)
                     (nullString (fe_CausationID e)) (take 512 reason) retryAt)) (\<lambda>(attempts, status).
            bindA (commitTx mapError) (\<lambda>_.
            ret (8 \<le> attempts, attempts))))))"

subsection \<open>Application of facts\<close>

definition bump :: "order \<Rightarrow> order" where
  "bump ord = ord\<lparr>Version := Version ord + 1\<rparr>"

definition markInventoryReleased :: "order \<Rightarrow> gotime \<Rightarrow> order oact" where
  "markInventoryReleased ord now =
     (if InventoryReleased ord then ret ord
      else
        bindA (stmt mapError (q_MarkInventoryReleased (ID ord) now (int64_of (Version ord)))) (\<lambda>rows.
        if rows \<noteq> 1 then throw (app_err ErrConflict)
        else ret (ord\<lparr>InventoryReleased := True, Version := Version ord + 1, UpdatedAt := now\<rparr>)))"

definition markPaymentRefunded :: "order \<Rightarrow> gotime \<Rightarrow> order oact" where
  "markPaymentRefunded ord now =
     (if PaymentRefunded ord then ret ord
      else
        bindA (stmt mapError (q_MarkPaymentRefunded (ID ord) now (int64_of (Version ord)))) (\<lambda>rows.
        if rows \<noteq> 1 then throw (app_err ErrConflict)
        else ret (ord\<lparr>PaymentRefunded := True, Version := Version ord + 1, UpdatedAt := now\<rparr>)))"

definition compensated :: "order \<Rightarrow> bool" where
  "compensated ord \<longleftrightarrow>
     \<not> ((ReservationID ord \<noteq> None \<and> \<not> InventoryReleased ord)
        \<or> (PaymentID ord \<noteq> None \<and> \<not> PaymentRefunded ord))"

definition maybeCompleteCancellation ::
  "store_cfg \<Rightarrow> order \<Rightarrow> string \<Rightarrow> string \<Rightarrow> gotime \<Rightarrow> unit oact" where
  "maybeCompleteCancellation cfg ord sagaID causation now =
     (if Status ord \<noteq> StatusCancelReq then ret ()
      else if \<not> compensated ord then ret ()
      else
        bindA (updateWorkflow ord StatusCancelled '''' '''' '''' '''' (TotalMinor ord) now) (\<lambda>_.
        let ord = bump ord in
        bindA (eventPayloadFor cfg ''commerce.order.cancelled.v1'' ord sagaID causation
                 (ID ord @ '':cancelled'')
                 (JObj [(''order_id'', JStr (ID ord)),
                        (''reason_code'', JStr ''CUSTOMER_REQUESTED'')])) (\<lambda>payload.
        bindA (insertOutbox ''commerce.order.cancelled.v1'' (ID ord) payload now) (\<lambda>_.
        stmt mapError (q_UpdateSagaPhase sagaID ''CANCELLED'' now)))))"

definition applyInventoryReleased :: "store_cfg \<Rightarrow> order \<Rightarrow> fact_envelope \<Rightarrow> gotime \<Rightarrow> unit oact" where
  "applyInventoryReleased cfg ord e now =
     (if ReservationID ord = None \<or> rawString (fe_Data e ''reservation_id'') \<noteq> the (ReservationID ord)
      then throw (wrap_err ErrConflict ''reservation reference mismatch'')
      else if IsTerminal (Status ord) \<and> InventoryReleased ord then ret ()
      else
        bindA (markInventoryReleased ord now) (\<lambda>ord.
        maybeCompleteCancellation cfg ord (fe_SagaID e) (fe_EventID e) now))"

definition applyPaymentRefunded :: "store_cfg \<Rightarrow> order \<Rightarrow> fact_envelope \<Rightarrow> gotime \<Rightarrow> unit oact" where
  "applyPaymentRefunded cfg ord e now =
     (if PaymentID ord = None \<or> rawString (fe_Data e ''payment_id'') \<noteq> the (PaymentID ord)
      then throw (wrap_err ErrConflict ''payment reference mismatch'')
      else if IsTerminal (Status ord) \<and> PaymentRefunded ord then ret ()
      else
        bindA (markPaymentRefunded ord now) (\<lambda>ord.
        maybeCompleteCancellation cfg ord (fe_SagaID e) (fe_EventID e) now))"

text \<open>
  The loop over the quote's lines: unit prices and quantities by product, or the first
  violation.
\<close>

fun check_quote_lines ::
  "quote_item list \<Rightarrow> (string \<Rightarrow> int option) \<Rightarrow> (string \<Rightarrow> int option)
   \<Rightarrow> oerr + ((string \<Rightarrow> int option) \<times> (string \<Rightarrow> int option))" where
  "check_quote_lines [] prices quantities = Inr (prices, quantities)"
| "check_quote_lines (l # ls) prices quantities =
     (if \<not> ValidProductID (qi_ProductID l) \<or> qi_Quantity l < 1 \<or> qi_UnitPriceMinor l < 0
         \<or> qi_LineTotalMinor l < 0
      then Inl (wrap_err ErrConflict ''invalid quote line'')
      else if prices (qi_ProductID l) \<noteq> None
      then Inl (wrap_err ErrConflict ''duplicate quote product'')
      else if qi_UnitPriceMinor l \<noteq> 0 \<and> (2 ^ 63 - 1) div qi_UnitPriceMinor l < qi_Quantity l
      then Inl (wrap_err ErrConflict ''quote line overflow'')
      else if qi_LineTotalMinor l \<noteq> wrap64 (qi_UnitPriceMinor l * qi_Quantity l)
      then Inl (wrap_err ErrConflict ''quote line total mismatch'')
      else check_quote_lines ls (prices(qi_ProductID l \<mapsto> qi_UnitPriceMinor l))
             (quantities(qi_ProductID l \<mapsto> qi_Quantity l)))"

definition quantity_of :: "(string \<Rightarrow> int option) \<Rightarrow> string \<Rightarrow> int" where
  "quantity_of quantities p = (case quantities p of None \<Rightarrow> 0 | Some n \<Rightarrow> n)"

definition decode_quote_items :: "json option \<Rightarrow> quote_item list option" where
  "decode_quote_items v =
     (case v of
        None \<Rightarrow> None
      | Some j \<Rightarrow>
          (case decode_slice quote_item_fields zero_quote_item j of
             (ok, ls) \<Rightarrow> if ok then Some ls else None))"

definition update_quoted_items :: "order \<Rightarrow> unit oact" where
  "update_quoted_items ord =
     forA (Items ord) (\<lambda>it.
       stmt mapError (q_UpdateOrderItemQuote (ID ord) (ProductID it) (UnitPriceMinor it)
         (LineTotalMinor it) (QuoteID it) (QuoteVersion it)))"

text \<open>A reservation for a pending order: verify and apply the quote, ask for the payment.\<close>

definition store_quote ::
  "store_cfg \<Rightarrow> order \<Rightarrow> fact_envelope \<Rightarrow> string \<Rightarrow> 64 word \<Rightarrow> gotime \<Rightarrow> unit oact" where
  "store_quote cfg ord e reservationID expectedVersion now =
     bindA (update_quoted_items ord) (\<lambda>_.
     let ord = ord\<lparr>Version := expectedVersion\<rparr> in
     bindA (updateWorkflow ord StatusPending '''' reservationID '''' '''' (TotalMinor ord) now) (\<lambda>_.
     let ord = (bump ord)\<lparr>ReservationID := Some reservationID\<rparr> in
     bindA (commandPayload cfg ''commerce.payment.authorize.v1'' ord (fe_SagaID e) (fe_EventID e)
              (ID ord @ '':authorize-payment'')
              (JObj [(''amount_minor'', jint (the (TotalMinor ord))),
                     (''currency'', JStr (Currency ord)), (''order_id'', JStr (ID ord))])) (\<lambda>command.
     insertOutbox ''commerce.payment.authorize.v1'' (ID ord) command now)))"

definition apply_quote_fact ::
  "store_cfg \<Rightarrow> order \<Rightarrow> fact_envelope \<Rightarrow> string \<Rightarrow> gotime \<Rightarrow> unit oact" where
  "apply_quote_fact cfg ord e reservationID now =
     (let currency = rawString (fe_Data e ''currency'');
          quoteID = rawString (fe_Data e ''quote_id'')
      in
      if currency \<noteq> Currency ord then throw (wrap_err ErrConflict ''quote currency mismatch'')
      else case rawInt64 (fe_Data e ''quote_version'') of Inl err \<Rightarrow> throw err | Inr quoteVersion \<Rightarrow>
      if fe_OperationID e \<noteq> ID ord @ '':reserve''
      then throw (wrap_err ErrConflict ''reservation operation mismatch'')
      else case decode_quote_items (fe_Data e ''items'') of
        None \<Rightarrow> throw (wrap_err ErrConflict ''quote items mismatch'')
      | Some ls \<Rightarrow>
      if length ls \<noteq> length (Items ord) then throw (wrap_err ErrConflict ''quote items mismatch'')
      else
        bindA (quote_Verify (lib cfg) (quoteURL cfg)
                 \<lparr>sq_OrderID = ID ord, sq_ReservationID = reservationID, sq_QuoteID = quoteID,
                  sq_QuoteVersion = quoteVersion, sq_Currency = currency, sq_Items = ls,
                  sq_QuoteExpiresAt = rawString (fe_Data e ''quote_expires_at'')\<rparr>
                 (rawString (fe_Data e ''quote_key_id'')) (rawString (fe_Data e ''quote_signature''))
                 now) (\<lambda>_.
        case check_quote_lines ls Map.empty Map.empty of
          Inl err \<Rightarrow> throw err
        | Inr (prices, quantities) \<Rightarrow>
            if \<not> list_all (\<lambda>it. quantity_of quantities (ProductID it) = Quantity it) (Items ord)
            then throw (wrap_err ErrConflict ''quote quantity mismatch'')
            else (case ApplyQuote (Some ord) quoteID quoteVersion prices now of
                    Inl d \<Rightarrow> throw (dom_err d)
                  | Inr quoted \<Rightarrow> store_quote cfg quoted e reservationID (Version ord) now)))"

definition applyInventoryReserved :: "store_cfg \<Rightarrow> order \<Rightarrow> fact_envelope \<Rightarrow> gotime \<Rightarrow> unit oact" where
  "applyInventoryReserved cfg ord e now =
     (if IsTerminal (Status ord) then ret ()
      else
        let reservationID = rawString (fe_Data e ''reservation_id'') in
        if \<not> ValidReservationID reservationID
        then throw (wrap_err ErrConflict ''reservation reference is invalid'')
        else if fe_OperationID e \<noteq> ID ord @ '':reserve''
        then throw (wrap_err ErrConflict ''reservation operation mismatch'')
        else if Status ord = StatusCancelReq then
          (let ord = ord\<lparr>ReservationID := Some reservationID\<rparr> in
           bindA (updateWorkflow ord StatusCancelReq '''' reservationID '''' '''' (TotalMinor ord) now) (\<lambda>_.
           insertCompensationCommands cfg (bump ord) (fe_SagaID e) (fe_EventID e)
             ''commerce.order.cancellation_requested.v1'' now))
        else if Status ord \<noteq> StatusPending then ret ()
        else apply_quote_fact cfg ord e reservationID now)"

definition confirm_order ::
  "store_cfg \<Rightarrow> order \<Rightarrow> fact_envelope \<Rightarrow> string \<Rightarrow> gotime \<Rightarrow> unit oact" where
  "confirm_order cfg ord e paymentID now =
     bindA (updateWorkflow ord StatusConfirmed '''' '''' paymentID '''' (TotalMinor ord) now) (\<lambda>_.
     let ord = (bump ord)\<lparr>PaymentID := Some paymentID\<rparr> in
     if ReservationID ord = None \<or> ReservationID ord = Some ''''
     then throw (wrap_err ErrConflict ''reservation reference missing'')
     else
       bindA (eventPayloadFor cfg ''commerce.order.confirmed.v1'' ord (fe_SagaID e) (fe_EventID e)
                (ID ord @ '':confirm'')
                (JObj [(''order_id'', JStr (ID ord)), (''payment_id'', JStr paymentID),
                       (''reservation_id'', JStr (the (ReservationID ord)))])) (\<lambda>confirmed.
       bindA (insertOutbox ''commerce.order.confirmed.v1'' (ID ord) confirmed now) (\<lambda>_.
       bindA (commandPayload cfg ''commerce.fulfillment.create.v1'' ord (fe_SagaID e) (fe_EventID e)
                (ID ord @ '':create-fulfillment'')
                (JObj [(''currency'', JStr (Currency ord)), (''customer_id'', JStr (CustomerID ord)),
                       (''items'', orderItemsPayload ord), (''order_id'', JStr (ID ord)),
                       (''reservation_id'', JStr (the (ReservationID ord)))])) (\<lambda>command.
       insertOutbox ''commerce.fulfillment.create.v1'' (ID ord) command now))))"

definition applyPaymentAuthorized :: "store_cfg \<Rightarrow> order \<Rightarrow> fact_envelope \<Rightarrow> gotime \<Rightarrow> unit oact" where
  "applyPaymentAuthorized cfg ord e now =
     (if IsTerminal (Status ord) \<or> Status ord = StatusConfirmed then ret ()
      else if (case (rawInt64 (fe_Data e ''amount_minor''), TotalMinor ord) of
                 (Inr amount, Some t) \<Rightarrow> amount \<noteq> t | _ \<Rightarrow> True)
              \<or> rawString (fe_Data e ''currency'') \<noteq> Currency ord
      then throw (wrap_err ErrConflict ''payment amount mismatch'')
      else
        let paymentID = rawString (fe_Data e ''payment_id'') in
        if \<not> ValidPaymentID paymentID
        then throw (wrap_err ErrConflict ''payment reference missing'')
        else if Status ord = StatusCancelReq then
          (let ord = ord\<lparr>PaymentID := Some paymentID\<rparr> in
           bindA (updateWorkflow ord StatusCancelReq '''' '''' paymentID '''' (TotalMinor ord) now) (\<lambda>_.
           insertCompensationCommands cfg (bump ord) (fe_SagaID e) (fe_EventID e)
             ''commerce.order.cancellation_requested.v1'' now))
        else confirm_order cfg ord e paymentID now)"

subsection \<open>ProcessFact\<close>

definition fail_order :: "store_cfg \<Rightarrow> order \<Rightarrow> fact_envelope \<Rightarrow> gotime \<Rightarrow> unit oact" where
  "fail_order cfg ord e now =
     (let r = rawString (fe_Data e ''reason_code'');
          reason = (if r = '''' then ''DOWNSTREAM_REJECTED'' else r) in
      bindA (updateWorkflow ord StatusFailed reason '''' '''' '''' (TotalMinor ord) now) (\<lambda>_.
      let ord = bump ord in
      bindA (eventPayloadFor cfg ''commerce.order.failed.v1'' ord (fe_SagaID e) (fe_EventID e)
               (ID ord @ '':failed'')
               (JObj [(''failure_class'', JStr ''dependency''), (''order_id'', JStr (ID ord)),
                      (''reason_code'', JStr reason)])) (\<lambda>failed.
      bindA (insertOutbox ''commerce.order.failed.v1'' (ID ord) failed now) (\<lambda>_.
      insertCompensationCommands cfg ord (fe_SagaID e) (fe_EventID e) (fe_EventType e) now))))"

definition cancel_rejected :: "store_cfg \<Rightarrow> order \<Rightarrow> fact_envelope \<Rightarrow> gotime \<Rightarrow> unit oact" where
  "cancel_rejected cfg ord e now =
     bindA (if fe_EventType e = ''commerce.inventory.rejected.v1'' then markInventoryReleased ord now
            else if fe_EventType e = ''commerce.payment.failed.v1'' then markPaymentRefunded ord now
            else ret ord) (\<lambda>ord.
     bindA (insertCompensationCommands cfg ord (fe_SagaID e) (fe_EventID e) (fe_EventType e) now) (\<lambda>_.
     maybeCompleteCancellation cfg ord (fe_SagaID e) (fe_EventID e) now))"

definition complete_order :: "store_cfg \<Rightarrow> order \<Rightarrow> fact_envelope \<Rightarrow> gotime \<Rightarrow> unit oact" where
  "complete_order cfg ord e now =
     (let shipmentID = rawString (fe_Data e ''shipment_id'') in
      if \<not> ValidShipmentID shipmentID
      then throw (wrap_err ErrConflict ''shipment reference missing'')
      else
        bindA (updateWorkflow ord StatusCompleted '''' '''' '''' shipmentID (TotalMinor ord) now) (\<lambda>_.
        let ord = bump ord in
        bindA (eventPayloadFor cfg ''commerce.order.completed.v1'' ord (fe_SagaID e) (fe_EventID e)
                 (ID ord @ '':complete'')
                 (JObj [(''order_id'', JStr (ID ord)), (''shipment_id'', JStr shipmentID)])) (\<lambda>payload.
        insertOutbox ''commerce.order.completed.v1'' (ID ord) payload now)))"

definition apply_fact :: "store_cfg \<Rightarrow> order \<Rightarrow> fact_envelope \<Rightarrow> gotime \<Rightarrow> unit oact" where
  "apply_fact cfg ord e now =
     (if fe_EventType e = ''commerce.inventory.reserved.v1''
      then applyInventoryReserved cfg ord e now
      else if fe_EventType e = ''commerce.inventory.released.v1''
      then applyInventoryReleased cfg ord e now
      else if fe_EventType e = ''commerce.payment.refunded.v1''
      then applyPaymentRefunded cfg ord e now
      else if fe_EventType e \<in> {''commerce.inventory.rejected.v1'', ''commerce.payment.failed.v1'',
                                ''commerce.fulfillment.failed.v1''}
      then if Status ord = StatusCancelReq then cancel_rejected cfg ord e now
           else if IsTerminal (Status ord) then ret ()
           else fail_order cfg ord e now
      else if fe_EventType e = ''commerce.payment.authorized.v1''
      then applyPaymentAuthorized cfg ord e now
      else if fe_EventType e = ''commerce.fulfillment.completed.v1''
      then if IsTerminal (Status ord) then ret () else complete_order cfg ord e now
      else throw (wrap_err ErrConflict (''unsupported event '' @ fe_EventType e)))"

definition invalid_envelope :: "fact_envelope \<Rightarrow> bool" where
  "invalid_envelope e \<longleftrightarrow>
     fe_EventID e = '''' \<or> fe_AggregateID e = '''' \<or> fe_EventType e = '''' \<or> fe_AggregateType e = ''''
     \<or> fe_Producer e = '''' \<or> fe_SchemaVersion e \<noteq> 1"

text \<open>The transaction of a fact: inbox identity, application, inbox status, commit.\<close>

definition settle_fact :: "store_cfg \<Rightarrow> string \<Rightarrow> fact_envelope \<Rightarrow> string \<Rightarrow> unit oact" where
  "settle_fact cfg consumerGroup e orderID =
     bindA (loadOrder OnTx orderID) (\<lambda>ord.
     bindA clockNow (\<lambda>t. let now = UTC t in
     bindA (apply_fact cfg ord e now) (\<lambda>_.
     bindA (stmt mapError (q_MarkInboxProcessed consumerGroup (fe_EventID e) now)) (\<lambda>_.
     commitTx mapError))))"

definition fact_tx ::
  "store_cfg \<Rightarrow> string \<Rightarrow> string \<Rightarrow> fact_envelope \<Rightarrow> string \<Rightarrow> unit oact" where
  "fact_tx cfg consumerGroup payload e orderID =
     bindA (beginTx mapError) (\<lambda>_.
     bindA clockNow (\<lambda>received.
     bindA (stmt mapError (q_InsertInbox consumerGroup (fe_EventID e) (fe_EventType e)
              (hex_encode (sha256 (lib cfg) payload)) (UTC received) (fe_CorrelationID e)
              (nullString (fe_CausationID e)))) (\<lambda>inserted.
     if inserted = 0 then
       bindA (stmt mapError (q_GetInbox consumerGroup (fe_EventID e))) (\<lambda>rec.
       if b_status rec = ''PROCESSED'' \<or> b_status rec = ''DLQ'' then ret ()
       else settle_fact cfg consumerGroup e orderID)
     else settle_fact cfg consumerGroup e orderID)))"

definition ProcessFact :: "store_cfg \<Rightarrow> string \<Rightarrow> string \<Rightarrow> unit oact" where
  "ProcessFact cfg consumerGroup payload =
     (case decode_envelope (lib cfg) payload of
        None \<Rightarrow> throw (wrap_err ErrConflict ''invalid event envelope'')
      | Some e \<Rightarrow>
          if invalid_envelope e then throw (wrap_err ErrConflict ''invalid event envelope'')
          else
            let orderID = rawString (fe_Data e ''order_id'') in
            if \<not> ValidOrderID orderID \<or> fe_CorrelationID e \<noteq> orderID \<or> \<not> validFactIdentity e
            then throw (wrap_err ErrConflict ''invalid fact identity'')
            else fact_tx cfg consumerGroup payload e orderID)"

end
