(* ===== verification/Orders_Integrity.thy ===== *)
theory Orders_Integrity
  imports Orders_Store
begin

section \<open>Orders: integrity of the stored orders\<close>

text \<open>
  The invariant of the Orders tables and the evolution of a stored order, and their
  preservation by every method of the store under any pattern of statement and commit
  failures.  The key lemma is about \<open>updateWorkflow\<close>: with an order whose fields
  agree with the row of its version, the update either fails or rewrites exactly that row.
\<close>

subsection \<open>Rows\<close>

definition status_terminal :: "order_row \<Rightarrow> bool" where
  "status_terminal r \<longleftrightarrow> IsTerminal (status_of (o_status r))"

definition row_compensated :: "order_row \<Rightarrow> bool" where
  "row_compensated r \<longleftrightarrow>
     (o_reservation_id r \<noteq> None \<longrightarrow> o_inventory_released r)
     \<and> (o_payment_id r \<noteq> None \<longrightarrow> o_payment_refunded r)"

text \<open>
  A stored order satisfies its column constraints; a confirmed order has its total, payment
  and reservation; a cancelled order has every acquired resource given back.
\<close>

definition row_ok :: "order_row \<Rightarrow> bool" where
  "row_ok r \<longleftrightarrow>
     order_check r \<and> in_int64 (o_aggregate_version r)
     \<and> (o_status r = ''CONFIRMED'' \<longrightarrow>
          o_total_minor r \<noteq> None \<and> o_payment_id r \<noteq> None \<and> o_reservation_id r \<noteq> None)
     \<and> (o_status r = ''CANCELLED'' \<longrightarrow> row_compensated r)"

text \<open>
  What no operation changes, and what only grows: identity and creation are fixed, the
  version increases, a terminal status and an assigned total are final, references are
  never erased, compensation flags are never reset.
\<close>

definition grows :: "'a option \<Rightarrow> 'a option \<Rightarrow> bool" where
  "grows a b \<longleftrightarrow> (a \<noteq> None \<longrightarrow> b \<noteq> None)"

definition row_evolves :: "order_row \<Rightarrow> order_row \<Rightarrow> bool" where
  "row_evolves r r' \<longleftrightarrow>
     o_id r' = o_id r \<and> o_customer_id r' = o_customer_id r \<and> o_currency r' = o_currency r
     \<and> o_created_at r' = o_created_at r
     \<and> (r' = r \<or> o_aggregate_version r < o_aggregate_version r')
     \<and> (status_terminal r \<longrightarrow> o_status r' = o_status r)
     \<and> (o_total_minor r \<noteq> None \<longrightarrow> o_total_minor r' = o_total_minor r)
     \<and> grows (o_reservation_id r) (o_reservation_id r')
     \<and> grows (o_payment_id r) (o_payment_id r')
     \<and> (o_inventory_released r \<longrightarrow> o_inventory_released r')
     \<and> (o_payment_refunded r \<longrightarrow> o_payment_refunded r')"

lemma row_evolves_refl [simp]: "row_evolves r r"
  by (simp add: row_evolves_def grows_def)

lemma row_evolves_trans:
  assumes ab: "row_evolves a b" and bc: "row_evolves b c"
  shows "row_evolves a c"
proof -
  note a = ab [unfolded row_evolves_def] and b = bc [unfolded row_evolves_def]
  have "b = a \<or> o_aggregate_version a < o_aggregate_version b"
    and "c = b \<or> o_aggregate_version b < o_aggregate_version c" using a b by blast+
  then have "c = a \<or> o_aggregate_version a < o_aggregate_version c" by auto
  moreover have "status_terminal a \<longrightarrow> o_status c = o_status a"
    using a b unfolding status_terminal_def by metis
  moreover have "o_total_minor a \<noteq> None \<longrightarrow> o_total_minor c = o_total_minor a" using a b by metis
  ultimately show ?thesis using a b by (simp add: row_evolves_def grows_def)
qed

subsection \<open>Tables\<close>

definition stored_items :: "orders_db \<Rightarrow> string \<Rightarrow> item list" where
  "stored_items db oid =
     map item_of_row (sort_key i_line_number (filter (\<lambda>r. i_order_id r = oid) (order_items db)))"

text \<open>The order as the store loads it.\<close>

definition stored_order :: "env \<Rightarrow> orders_db \<Rightarrow> order_row \<Rightarrow> order" where
  "stored_order env db r = (orderFromFields env r)\<lparr>Items := stored_items db (o_id r)\<rparr>"

definition items_ok :: "orders_db \<Rightarrow> order_row \<Rightarrow> bool" where
  "items_ok db r \<longleftrightarrow>
     (let its = stored_items db (o_id r) in
      its \<noteq> [] \<and> length its \<le> MaxItems \<and> list_all item_ok its \<and> distinct (map ProductID its)
      \<and> prices_match (o_total_minor r) its)"

definition orders_inv :: "orders_db \<Rightarrow> bool" where
  "orders_inv db \<longleftrightarrow>
     keyed o_id (orders db) \<and> (\<forall>r \<in> set (orders db). row_ok r \<and> items_ok db r)
     \<and> (\<forall>i \<in> set (order_items db). \<exists>r \<in> set (orders db). o_id r = i_order_id i)"

definition db_evolves :: "orders_db \<Rightarrow> orders_db \<Rightarrow> bool" where
  "db_evolves db db' \<longleftrightarrow> (\<forall>r \<in> set (orders db). \<exists>r' \<in> set (orders db'). row_evolves r r')"

lemma db_evolves_refl [simp]: "db_evolves db db"
  by (auto simp: db_evolves_def intro: row_evolves_refl)

lemma db_evolves_trans: "db_evolves a b \<Longrightarrow> db_evolves b c \<Longrightarrow> db_evolves a c"
  unfolding db_evolves_def by (meson row_evolves_trans)

text \<open>The invariant looks at the orders and their items only.\<close>

lemma inv_frame [simp]:
  "orders_inv (db\<lparr>outbox_events := x\<rparr>) = orders_inv db"
  "orders_inv (db\<lparr>inbox_messages := i\<rparr>) = orders_inv db"
  "orders_inv (db\<lparr>saga_instances := g\<rparr>) = orders_inv db"
  "orders_inv (db\<lparr>idempotency_records := k\<rparr>) = orders_inv db"
  "db_evolves base (db\<lparr>outbox_events := x\<rparr>) = db_evolves base db"
  "db_evolves base (db\<lparr>inbox_messages := i\<rparr>) = db_evolves base db"
  "db_evolves base (db\<lparr>saga_instances := g\<rparr>) = db_evolves base db"
  "db_evolves base (db\<lparr>idempotency_records := k\<rparr>) = db_evolves base db"
  by (simp_all add: orders_inv_def items_ok_def stored_items_def db_evolves_def)

subsection \<open>Agreement of an order with its row\<close>

definition agrees :: "order \<Rightarrow> order_row \<Rightarrow> bool" where
  "agrees ord r \<longleftrightarrow>
     Status ord = status_of (o_status r) \<and> TotalMinor ord = o_total_minor r
     \<and> ReservationID ord = o_reservation_id r \<and> PaymentID ord = o_payment_id r
     \<and> InventoryReleased ord = o_inventory_released r \<and> PaymentRefunded ord = o_payment_refunded r"

text \<open>
  The optimistic-lock assumption: if the stored version is the order's version, so is the
  stored content.  It says nothing about a stale order.
\<close>

definition in_step :: "order \<Rightarrow> orders_db \<Rightarrow> bool" where
  "in_step ord db \<longleftrightarrow>
     (\<forall>r \<in> set (orders db). o_id r = ID ord \<and> o_aggregate_version r = int64_of (Version ord)
        \<longrightarrow> agrees ord r)"

lemma in_step_frame [simp]:
  "in_step ord (db\<lparr>outbox_events := x\<rparr>) = in_step ord db"
  "in_step ord (db\<lparr>inbox_messages := i\<rparr>) = in_step ord db"
  "in_step ord (db\<lparr>saga_instances := g\<rparr>) = in_step ord db"
  "in_step ord (db\<lparr>order_items := its\<rparr>) = in_step ord db"
  by (simp_all add: in_step_def)

lemma in_step_stored:
  assumes "keyed o_id (orders db)" "r \<in> set (orders db)"
  shows "in_step (stored_order env db r) db"
  using keyed_inj [OF assms(1) _ assms(2)]
  by (auto simp: in_step_def agrees_def stored_order_def orderFromFields_def)

text \<open>Replacing the row of an order.\<close>

definition set_row :: "orders_db \<Rightarrow> order_row \<Rightarrow> orders_db" where
  "set_row db r' = db\<lparr>orders := update_where (\<lambda>r. o_id r = o_id r') (\<lambda>_. r') (orders db)\<rparr>"

lemma set_row_member:
  "r \<in> set (orders (set_row db r')) \<longleftrightarrow>
     (r = r' \<and> (\<exists>x \<in> set (orders db). o_id x = o_id r')) \<or> (r \<in> set (orders db) \<and> o_id r \<noteq> o_id r')"
  by (auto simp: set_row_def set_update_where)

lemma set_row_other [simp]:
  "order_items (set_row db r') = order_items db" "outbox_events (set_row db r') = outbox_events db"
  "inbox_messages (set_row db r') = inbox_messages db"
  "saga_instances (set_row db r') = saga_instances db"
  "idempotency_records (set_row db r') = idempotency_records db"
  by (simp_all add: set_row_def)

lemma keyed_set_row: "keyed o_id (orders db) \<Longrightarrow> keyed o_id (orders (set_row db r'))"
proof -
  have "map o_id (orders (set_row db r')) = map o_id (orders db)"
    by (auto simp: set_row_def update_where_def)
  then show "keyed o_id (orders db) \<Longrightarrow> ?thesis" by (simp add: keyed_def)
qed

lemma stored_items_set_row [simp]: "stored_items (set_row db r') oid = stored_items db oid"
  by (simp add: stored_items_def)

lemma set_row_inv:
  assumes inv: "orders_inv db" and r: "r \<in> set (orders db)" and same: "o_id r' = o_id r"
    and ok: "row_ok r'" and tot: "o_total_minor r' = o_total_minor r"
  shows "orders_inv (set_row db r')"
proof -
  have "items_ok db r" using inv r by (simp add: orders_inv_def)
  then have "items_ok (set_row db r') r'" using same tot by (simp add: items_ok_def)
  moreover have "items_ok (set_row db r') x" if "items_ok db x" for x
    using that by (simp add: items_ok_def)
  moreover have "\<exists>x \<in> set (orders (set_row db r')). o_id x = o_id y"
    if "y \<in> set (orders db)" for y
    using that r same by (cases "o_id y = o_id r'") (auto simp: set_row_member intro!: bexI)
  then have "\<forall>i \<in> set (order_items db). \<exists>x \<in> set (orders (set_row db r')). o_id x = i_order_id i"
    using inv unfolding orders_inv_def by metis
  ultimately show ?thesis
    using inv ok unfolding orders_inv_def by (simp add: keyed_set_row) (auto simp: set_row_member)
qed

lemma set_row_evolves:
  assumes "keyed o_id (orders db)" "r \<in> set (orders db)" "row_evolves r r'"
  shows "db_evolves db (set_row db r')"
  unfolding db_evolves_def
proof
  fix x assume x: "x \<in> set (orders db)"
  have same: "o_id r' = o_id r" using assms(3) by (simp add: row_evolves_def)
  show "\<exists>y \<in> set (orders (set_row db r')). row_evolves x y"
  proof (cases "o_id x = o_id r")
    case True
    then have "x = r" by (rule keyed_inj [OF assms(1) x assms(2)])
    moreover have "r' \<in> set (orders (set_row db r'))"
      using assms(2) same by (auto simp: set_row_member)
    ultimately show ?thesis using assms(3) by blast
  next
    case False
    then have "x \<in> set (orders (set_row db r'))" using x same by (simp add: set_row_member)
    then show ?thesis using row_evolves_refl by blast
  qed
qed

subsection \<open>Updates of one row\<close>

lemma update_orders_one:
  assumes key: "keyed o_id (orders db)" and p: "\<And>r. p r \<Longrightarrow> o_id r = oid"
    and f: "\<And>r. o_id (f r) = o_id r" and res: "update_orders p f db = Inr (1, db')"
  obtains r where "r \<in> set (orders db)" "p r" "in_int64 (o_aggregate_version r + 1)"
    "order_check ((f r)\<lparr>o_aggregate_version := o_aggregate_version r + 1\<rparr>)"
    "db' = set_row db ((f r)\<lparr>o_aggregate_version := o_aggregate_version r + 1\<rparr>)"
proof -
  let ?g = "\<lambda>r. (f r)\<lparr>o_aggregate_version := o_aggregate_version r + 1\<rparr>"
  from res have len: "length (filter p (orders db)) = 1"
    and all: "list_all (\<lambda>r. in_int64 (o_aggregate_version r + 1)) (filter p (orders db))"
      "list_all (\<lambda>r. order_check (?g r)) (filter p (orders db))"
    and db': "db' = db\<lparr>orders := update_where p ?g (orders db)\<rparr>"
    by (auto simp: update_orders_def Let_def split: if_splits)
  then obtain r where "filter p (orders db) = [r]" by (auto simp: length_Suc_conv)
  then have r: "r \<in> set (orders db)" "p r"
    using filter_set [of p "orders db"] by (auto simp: filter_eq_Cons_iff)
  have "update_where p ?g (orders db)
      = update_where (\<lambda>x. o_id x = o_id (?g r)) (\<lambda>_. ?g r) (orders db)"
    unfolding update_where_def
  proof (rule map_cong [OF refl])
    fix x assume x: "x \<in> set (orders db)"
    have "p x \<longleftrightarrow> x = r" and "o_id x = o_id r \<longleftrightarrow> x = r"
      using keyed_inj [OF key x r(1)] p [of x] p [OF r(2)] r(2) by auto
    then show "(if p x then ?g x else x) = (if o_id x = o_id (?g r) then ?g r else x)"
      using f by simp
  qed
  then have "db' = set_row db (?g r)" using db' by (simp add: set_row_def)
  with that r all show ?thesis by (auto simp: list_all_iff)
qed

definition workflow_row ::
  "env \<Rightarrow> status \<Rightarrow> string \<Rightarrow> string \<Rightarrow> string \<Rightarrow> string \<Rightarrow> int option \<Rightarrow> gotime \<Rightarrow> order_row \<Rightarrow> order_row" where
  "workflow_row env st failure reservation payment shipment tot at r =
     r\<lparr>o_status := status_text st, o_failure_code := coalesce (nullString failure) (o_failure_code r),
       o_reservation_id := coalesce (nullString reservation) (o_reservation_id r),
       o_payment_id := coalesce (nullString payment) (o_payment_id r),
       o_shipment_id := coalesce (nullString shipment) (o_shipment_id r),
       o_total_minor := coalesce tot (o_total_minor r), o_updated_at := ts env at,
       o_aggregate_version := o_aggregate_version r + 1\<rparr>"

lemma wp_updateWorkflow:
  assumes key: "keyed o_id (orders (work s))" and agree: "in_step ord (work s)"
    and live: "st = Status ord \<or> \<not> IsTerminal (Status ord)"
    and ok: "\<And>r r'. r \<in> set (orders (work s)) \<Longrightarrow> o_id r = ID ord \<Longrightarrow>
        o_aggregate_version r = int64_of (Version ord) \<Longrightarrow> agrees ord r \<Longrightarrow>
        r' = workflow_row env st failure reservation payment shipment tot now r \<Longrightarrow>
        order_check r' \<Longrightarrow> in_int64 (o_aggregate_version r + 1) \<Longrightarrow>
        Q () (tickOn (s\<lparr>work := set_row (work s) r'\<rparr>))"
    and err: "\<And>e s'. durable s' = durable s \<Longrightarrow> E e s'"
  shows "wp env (updateWorkflow ord st failure reservation payment shipment tot now) Q E s"
proof -
  let ?p = "\<lambda>r. o_id r = ID ord \<and> o_aggregate_version r = int64_of (Version ord)"
  let ?q = "q_UpdateOrderWorkflowState (ID ord) (status_text st) (nullString failure)
    (nullString reservation) (nullString payment) (nullString shipment) tot now
    (int64_of (Version ord))"
  have one: "Q () (tickOn (s\<lparr>work := w\<rparr>))"
    if q: "?q env t (work s) = Inr (1, w)" for t w
  proof -
    note q' = q [unfolded q_UpdateOrderWorkflowState_def]
    obtain r where
      "r \<in> set (orders (work s))" "?p r" "in_int64 (o_aggregate_version r + 1)"
      "order_check (workflow_row env st failure reservation payment shipment tot now r)"
      "w = set_row (work s) (workflow_row env st failure reservation payment shipment tot now r)"
      by (rule update_orders_one [OF key _ _ q']) (auto simp: workflow_row_def)
    moreover from this have "agrees ord r" using agree by (simp add: in_step_def)
    ultimately show ?thesis using ok by simp
  qed
  have "wp env (updateWorkflow ord st failure reservation payment shipment tot now) Q E s =
    wp env (stmt mapError ?q)
      (\<lambda>rows. wp env (if rows \<noteq> 1 then throw (app_err ErrConflict) else ret ()) Q E) E s"
    using live by (auto simp: updateWorkflow_def updateWorkflowAtVersion_def wp_rules)
  also have "\<dots>"
    by (rule wp_stmt) (auto simp: wp_rules one err)
  finally show ?thesis .
qed

subsection \<open>The transaction invariant\<close>

text \<open>
  Inside a transaction started from the committed tables \<open>base\<close>: nothing is
  committed yet, the working copy satisfies the invariant and evolved from \<open>base\<close>.
\<close>

definition tx_inv :: "orders_db \<Rightarrow> orders_session \<Rightarrow> bool" where
  "tx_inv base s \<longleftrightarrow> durable s = base \<and> orders_inv (work s) \<and> db_evolves base (work s)"

definition tx_open :: "orders_db \<Rightarrow> orders_session \<Rightarrow> bool" where
  "tx_open base s \<longleftrightarrow> durable s = base"

lemma tx_inv_open: "tx_inv base s \<Longrightarrow> tx_open base s"
  by (simp add: tx_inv_def tx_open_def)

lemma tx_inv_tickOn [simp]: "tx_inv base (tickOn s) = tx_inv base s"
  "tx_open base (tickOn s) = tx_open base s"
  by (simp_all add: tx_inv_def tx_open_def)

lemma wp_stmt_frame:
  assumes "tx_inv base s" "\<And>t x w. q env t (work s) = Inr (x, w) \<Longrightarrow> tx_inv base (s\<lparr>work := w\<rparr>)"
  shows "wp env (stmt h q) (\<lambda>_. tx_inv base) (\<lambda>_. tx_open base) s"
  by (rule wp_stmt) (use assms tx_inv_open in auto)

lemma wp_insertOutbox:
  assumes "tx_inv base s"
  shows "wp env (insertOutbox mt oid p at) (\<lambda>_. tx_inv base) (\<lambda>_. tx_open base) s"
  unfolding insertOutbox_def wp_rules
  by (rule wp_stmt_frame)
     (use assms in \<open>auto simp: q_InsertOutbox_def tx_inv_def split: if_splits\<close>)

lemma wp_UpdateSagaPhase:
  assumes "tx_inv base s"
  shows "wp env (stmt h (q_UpdateSagaPhase sid ph at)) (\<lambda>_. tx_inv base) (\<lambda>_. tx_open base) s"
  by (rule wp_stmt_frame)
     (use assms in \<open>auto simp: q_UpdateSagaPhase_def tx_inv_def split: if_splits\<close>)

lemma wp_insertCompensationCommands:
  assumes "tx_inv base s"
  shows "wp env (insertCompensationCommands cfg ord sg ca ev at)
    (\<lambda>_. tx_inv base) (\<lambda>_. tx_open base) s"
proof -
  have ins: "tx_inv base s' \<Longrightarrow>
    wp env (insertOutbox mt oid p at) (\<lambda>_. tx_inv base) (\<lambda>_. tx_open base) s'" for s' mt oid p at
    by (rule wp_insertOutbox)
  show ?thesis
    unfolding insertCompensationCommands_def commandPayload_def
    using assms
    by (auto simp: wp_rules intro!: ins wp_mono [OF ins])
qed

text \<open>The compensation commands leave the orders alone.\<close>

lemma wp_insertCompensationCommands_orders:
  "wp env (insertCompensationCommands cfg ord sg ca ev at)
    (\<lambda>_ s'. orders (work s') = orders (work s)) (\<lambda>_ _. True) s"
proof -
  have ins: "wp env (insertOutbox mt oid p at) (\<lambda>_ s'. orders (work s') = os) (\<lambda>_ _. True) s'"
    if "orders (work s') = os" for s' mt oid p at os
    unfolding insertOutbox_def wp_rules
    by (rule wp_stmt) (use that in \<open>auto simp: q_InsertOutbox_def split: if_splits\<close>)
  show ?thesis
    unfolding insertCompensationCommands_def commandPayload_def
    by (auto simp: wp_rules intro!: ins wp_mono [OF ins])
qed

text \<open>After a workflow update the invariant holds if the new row is in order.\<close>

lemma tx_inv_set_row:
  assumes "tx_inv base s" "r \<in> set (orders (work s))" "row_ok r'" "row_evolves r r'"
    "o_total_minor r' = o_total_minor r"
  shows "tx_inv base (s\<lparr>work := set_row (work s) r'\<rparr>)"
proof -
  have "o_id r' = o_id r" using assms(4) by (simp add: row_evolves_def)
  then have "orders_inv (set_row (work s) r')"
    using assms set_row_inv unfolding tx_inv_def by blast
  moreover have "db_evolves (work s) (set_row (work s) r')"
    using assms by (intro set_row_evolves) (auto simp: tx_inv_def orders_inv_def)
  ultimately show ?thesis using assms(1) db_evolves_trans by (auto simp: tx_inv_def)
qed

lemma workflow_row_simps [simp]:
  "o_id (workflow_row env st f res pay shp tot now r) = o_id r"
  "o_status (workflow_row env st f res pay shp tot now r) = status_text st"
  "o_total_minor (workflow_row env st f res pay shp tot now r) = coalesce tot (o_total_minor r)"
  "o_reservation_id (workflow_row env st f res pay shp tot now r)
     = coalesce (nullString res) (o_reservation_id r)"
  "o_payment_id (workflow_row env st f res pay shp tot now r)
     = coalesce (nullString pay) (o_payment_id r)"
  "o_inventory_released (workflow_row env st f res pay shp tot now r) = o_inventory_released r"
  "o_payment_refunded (workflow_row env st f res pay shp tot now r) = o_payment_refunded r"
  "o_aggregate_version (workflow_row env st f res pay shp tot now r) = o_aggregate_version r + 1"
  by (simp_all add: workflow_row_def)

lemma coalesce_simps [simp]:
  "coalesce a a = a" "coalesce None a = a" "coalesce (Some x) a = Some x"
  by (auto simp: coalesce_def split: option.splits)

lemma coalesce_nullString [simp]: "coalesce (nullString '''') a = a"
  by (simp add: nullString_def)

lemma coalesce_None: "coalesce a b = None \<longleftrightarrow> a = None \<and> b = None"
  by (auto simp: coalesce_def split: option.splits)

lemma workflow_row_evolves:
  assumes "agrees ord r" "st = Status ord \<or> \<not> IsTerminal (Status ord)"
  shows "row_evolves r (workflow_row env st f res pay shp (TotalMinor ord) now r)"
proof -
  have "status_terminal r \<Longrightarrow> status_text st = o_status r"
    using assms by (auto simp: agrees_def status_terminal_def)
  moreover have "o_total_minor r = TotalMinor ord" using assms(1) by (simp add: agrees_def)
  ultimately show ?thesis
    by (simp add: row_evolves_def grows_def coalesce_None) (simp add: workflow_row_def)
qed

text \<open>A workflow update that keeps the stored total, in a transaction.\<close>

lemma wp_workflow:
  assumes inv: "tx_inv base s" and agree: "in_step ord (work s)"
    and live: "st = Status ord \<or> \<not> IsTerminal (Status ord)"
    and conf: "\<And>r. agrees ord r \<Longrightarrow> status_text st = ''CONFIRMED'' \<Longrightarrow>
        o_total_minor r \<noteq> None \<and> coalesce (nullString pay) (o_payment_id r) \<noteq> None
        \<and> coalesce (nullString res) (o_reservation_id r) \<noteq> None"
    and canc: "\<And>r. agrees ord r \<Longrightarrow> status_text st = ''CANCELLED'' \<Longrightarrow>
        row_compensated (workflow_row env st f res pay shp (TotalMinor ord) now r)"
  shows "wp env (updateWorkflow ord st f res pay shp (TotalMinor ord) now)
    (\<lambda>_. tx_inv base) (\<lambda>_. tx_open base) s"
proof (rule wp_updateWorkflow [OF _ agree live])
  show "keyed o_id (orders (work s))" using inv by (simp add: tx_inv_def orders_inv_def)
  show "tx_open base s'" if "durable s' = durable s" for s'
    using that inv by (simp add: tx_open_def tx_inv_def)
  fix r r' assume r: "r \<in> set (orders (work s))" "agrees ord r"
    and r': "r' = workflow_row env st f res pay shp (TotalMinor ord) now r"
    and chk: "order_check r'" "in_int64 (o_aggregate_version r + 1)"
  have tot: "o_total_minor r = TotalMinor ord" using r(2) by (simp add: agrees_def)
  have "row_ok r'" using chk conf [OF r(2)] canc [OF r(2)] r' tot by (simp add: row_ok_def)
  moreover have "row_evolves r r'" unfolding r' by (rule workflow_row_evolves [OF r(2) live])
  ultimately show "tx_inv base (tickOn (s\<lparr>work := set_row (work s) r'\<rparr>))"
    using tx_inv_set_row [OF inv r(1)] r' tot by simp
qed

subsection \<open>Compensation flags\<close>

lemma wp_mark_one:
  assumes inv: "tx_inv base s" and agree: "in_step ord (work s)"
    and p: "\<And>r. p r \<longleftrightarrow> o_id r = ID ord \<and> o_aggregate_version r = int64_of (Version ord) \<and> b r"
    and f: "\<And>r. row_ok r \<Longrightarrow> order_check ((f r)\<lparr>o_aggregate_version := o_aggregate_version r + 1\<rparr>) \<Longrightarrow>
        in_int64 (o_aggregate_version r + 1) \<Longrightarrow>
        row_ok ((f r)\<lparr>o_aggregate_version := o_aggregate_version r + 1\<rparr>)
        \<and> row_evolves r ((f r)\<lparr>o_aggregate_version := o_aggregate_version r + 1\<rparr>)
        \<and> o_total_minor (f r) = o_total_minor r \<and> o_id (f r) = o_id r"
    and f_id: "\<And>r. o_id (f r) = o_id r"
    and new: "\<And>r. agrees ord r \<Longrightarrow> agrees ord' (f r)"
    and ord': "ID ord' = ID ord"
    and upd: "update_orders p f (work s) = Inr (1, w)"
  shows "tx_inv base (s\<lparr>work := w\<rparr>) \<and> in_step ord' w"
proof -
  let ?g = "\<lambda>r. (f r)\<lparr>o_aggregate_version := o_aggregate_version r + 1\<rparr>"
  have key: "keyed o_id (orders (work s))" using inv by (simp add: tx_inv_def orders_inv_def)
  obtain r where r: "r \<in> set (orders (work s))" "p r" "in_int64 (o_aggregate_version r + 1)"
      "order_check (?g r)" and w: "w = set_row (work s) (?g r)"
    by (rule update_orders_one [OF key _ _ upd]) (use p f_id in auto)
  have ok: "row_ok r" using inv r(1) by (simp add: tx_inv_def orders_inv_def)
  note fr = f [OF ok r(4) r(3)]
  have "agrees ord r" using agree r(1,2) p by (simp add: in_step_def)
  then have ag: "agrees ord' (?g r)" using new by (simp add: agrees_def)
  have "tx_inv base (s\<lparr>work := w\<rparr>)" unfolding w by (rule tx_inv_set_row [OF inv r(1)]) (use fr in auto)
  moreover have "in_step ord' w"
    using ag r(1,2) p f_id ord' by (auto simp: w in_step_def set_row_member)
  ultimately show ?thesis by blast
qed

lemma wp_mark_stmt:
  assumes inv: "tx_inv base s"
    and one: "\<And>t w. q env t (work s) = Inr (1, w) \<Longrightarrow> tx_inv base (s\<lparr>work := w\<rparr>) \<and> in_step ord' w"
  shows "wp env (bindA (stmt mapError q)
      (\<lambda>rows. if rows \<noteq> (1 :: int) then throw (app_err ErrConflict) else ret ord'))
    (\<lambda>ord s'. tx_inv base s' \<and> in_step ord (work s') \<and> ord = ord') (\<lambda>_. tx_open base) s"
  unfolding wp_rules
  by (rule wp_stmt) (use one inv in \<open>auto simp: wp_rules tx_open_def tx_inv_def\<close>)

lemma wp_markInventoryReleased:
  assumes inv: "tx_inv base s" and agree: "in_step ord (work s)"
  shows "wp env (markInventoryReleased ord now)
    (\<lambda>ord' s'. tx_inv base s' \<and> in_step ord' (work s') \<and> Status ord' = Status ord)
    (\<lambda>_. tx_open base) s"
proof (cases "InventoryReleased ord")
  case True
  then show ?thesis using assms by (simp add: markInventoryReleased_def wp_rules)
next
  case False
  let ?ord' = "ord\<lparr>InventoryReleased := True, Version := Version ord + 1, UpdatedAt := now\<rparr>"
  have one: "tx_inv base (s\<lparr>work := w\<rparr>) \<and> in_step ?ord' w"
    if "q_MarkInventoryReleased (ID ord) now (int64_of (Version ord)) env t (work s) = Inr (1, w)"
    for t w
    by (rule wp_mark_one [OF inv agree _ _ _ _ _ that [unfolded q_MarkInventoryReleased_def]])
       (auto simp: row_ok_def row_compensated_def row_evolves_def grows_def status_terminal_def
         agrees_def)
  show ?thesis
    using False by (auto simp: markInventoryReleased_def intro!: wp_mono [OF wp_mark_stmt [OF inv one]])
qed

lemma wp_markPaymentRefunded:
  assumes inv: "tx_inv base s" and agree: "in_step ord (work s)"
  shows "wp env (markPaymentRefunded ord now)
    (\<lambda>ord' s'. tx_inv base s' \<and> in_step ord' (work s') \<and> Status ord' = Status ord)
    (\<lambda>_. tx_open base) s"
proof (cases "PaymentRefunded ord")
  case True
  then show ?thesis using assms by (simp add: markPaymentRefunded_def wp_rules)
next
  case False
  let ?ord' = "ord\<lparr>PaymentRefunded := True, Version := Version ord + 1, UpdatedAt := now\<rparr>"
  have one: "tx_inv base (s\<lparr>work := w\<rparr>) \<and> in_step ?ord' w"
    if "q_MarkPaymentRefunded (ID ord) now (int64_of (Version ord)) env t (work s) = Inr (1, w)"
    for t w
    by (rule wp_mark_one [OF inv agree _ _ _ _ _ that [unfolded q_MarkPaymentRefunded_def]])
       (auto simp: row_ok_def row_compensated_def row_evolves_def grows_def status_terminal_def
         agrees_def)
  show ?thesis
    using False by (auto simp: markPaymentRefunded_def intro!: wp_mono [OF wp_mark_stmt [OF inv one]])
qed

subsection \<open>Application of facts\<close>

lemma wp_maybeCompleteCancellation:
  assumes inv: "tx_inv base s" and agree: "in_step ord (work s)"
  shows "wp env (maybeCompleteCancellation cfg ord sg ca now) (\<lambda>_. tx_inv base) (\<lambda>_. tx_open base) s"
proof (cases "Status ord = StatusCancelReq \<and> compensated ord")
  case False
  then show ?thesis using inv by (auto simp: maybeCompleteCancellation_def wp_rules)
next
  case True
  have upd: "wp env (updateWorkflow ord StatusCancelled '''' '''' '''' '''' (TotalMinor ord) now)
      (\<lambda>_. tx_inv base) (\<lambda>_. tx_open base) s"
    by (rule wp_workflow [OF inv agree])
       (use True in \<open>auto simp: IsTerminal_def status_text_def row_compensated_def compensated_def
          agrees_def\<close>)
  show ?thesis
    unfolding maybeCompleteCancellation_def Let_def eventPayloadFor_def
    using True
    by (auto simp: wp_rules intro!: wp_mono [OF upd] wp_mono [OF wp_insertOutbox] wp_UpdateSagaPhase)
qed

lemma wp_applyInventoryReleased:
  assumes "tx_inv base s" "in_step ord (work s)"
  shows "wp env (applyInventoryReleased cfg ord e now) (\<lambda>_. tx_inv base) (\<lambda>_. tx_open base) s"
  unfolding applyInventoryReleased_def
  by (auto simp: wp_rules assms tx_inv_open
    intro!: wp_mono [OF wp_markInventoryReleased [OF assms]] wp_maybeCompleteCancellation)

lemma wp_applyPaymentRefunded:
  assumes "tx_inv base s" "in_step ord (work s)"
  shows "wp env (applyPaymentRefunded cfg ord e now) (\<lambda>_. tx_inv base) (\<lambda>_. tx_open base) s"
  unfolding applyPaymentRefunded_def
  by (auto simp: wp_rules assms tx_inv_open
    intro!: wp_mono [OF wp_markPaymentRefunded [OF assms]] wp_maybeCompleteCancellation)

lemma wp_cancel_rejected:
  assumes inv: "tx_inv base s" "in_step ord (work s)"
  shows "wp env (cancel_rejected cfg ord e now) (\<lambda>_. tx_inv base) (\<lambda>_. tx_open base) s"
proof -
  let ?m = "if fe_EventType e = ''commerce.inventory.rejected.v1'' then markInventoryReleased ord now
            else if fe_EventType e = ''commerce.payment.failed.v1'' then markPaymentRefunded ord now
            else ret ord"
  have mark: "wp env ?m (\<lambda>ord' s'. tx_inv base s' \<and> in_step ord' (work s') \<and> Status ord' = Status ord)
      (\<lambda>_. tx_open base) s"
    using wp_markInventoryReleased [OF inv] wp_markPaymentRefunded [OF inv] inv
    by (auto simp: wp_rules)
  have rest: "wp env (bindA (insertCompensationCommands cfg ord' (fe_SagaID e) (fe_EventID e)
        (fe_EventType e) now)
      (\<lambda>_. maybeCompleteCancellation cfg ord' (fe_SagaID e) (fe_EventID e) now))
      (\<lambda>_. tx_inv base) (\<lambda>_. tx_open base) s'"
    if "tx_inv base s'" "in_step ord' (work s')" for ord' s'
    unfolding wp_rules
    by (rule wp_mono [OF wp_conj [OF wp_insertCompensationCommands [OF that(1)]
          wp_insertCompensationCommands_orders]])
       (use that in \<open>auto intro!: wp_maybeCompleteCancellation simp: in_step_def\<close>)
  show ?thesis
    unfolding cancel_rejected_def wp_bindA
    by (rule wp_mono [OF mark]) (use rest in \<open>auto simp: wp_bindA\<close>)
qed

lemma wp_fail_order:
  assumes inv: "tx_inv base s" "in_step ord (work s)" and live: "\<not> IsTerminal (Status ord)"
  shows "wp env (fail_order cfg ord e now) (\<lambda>_. tx_inv base) (\<lambda>_. tx_open base) s"
proof -
  have upd: "wp env (updateWorkflow ord StatusFailed rs '''' '''' '''' (TotalMinor ord) now)
      (\<lambda>_. tx_inv base) (\<lambda>_. tx_open base) s" for rs
    by (rule wp_workflow [OF inv]) (use live in \<open>auto simp: status_text_def\<close>)
  show ?thesis
    unfolding fail_order_def Let_def eventPayloadFor_def
    by (auto simp: wp_rules
      intro!: wp_mono [OF upd] wp_mono [OF wp_insertOutbox] wp_insertCompensationCommands)
qed

lemma wp_complete_order:
  assumes inv: "tx_inv base s" "in_step ord (work s)" and live: "\<not> IsTerminal (Status ord)"
  shows "wp env (complete_order cfg ord e now) (\<lambda>_. tx_inv base) (\<lambda>_. tx_open base) s"
proof -
  have upd: "wp env (updateWorkflow ord StatusCompleted '''' '''' '''' sh (TotalMinor ord) now)
      (\<lambda>_. tx_inv base) (\<lambda>_. tx_open base) s" for sh
    by (rule wp_workflow [OF inv]) (use live in \<open>auto simp: status_text_def\<close>)
  show ?thesis
    unfolding complete_order_def Let_def eventPayloadFor_def
    using inv tx_inv_open by (auto simp: wp_rules intro!: wp_mono [OF upd] wp_insertOutbox)
qed

lemma nullString_valid: "tagged_id p v \<Longrightarrow> nullString v = Some v"
  using tagged_id_nonempty by (auto simp: nullString_def)

lemma wp_confirm_order:
  assumes inv: "tx_inv base s" "in_step ord (work s)" and live: "\<not> IsTerminal (Status ord)"
    and tot: "TotalMinor ord \<noteq> None" and pay: "ValidPaymentID paymentID"
  shows "wp env (confirm_order cfg ord e paymentID now) (\<lambda>_. tx_inv base) (\<lambda>_. tx_open base) s"
proof (cases "ReservationID ord = None \<or> ReservationID ord = Some ''''")
  case True
  have "wp env (updateWorkflow ord StatusConfirmed '''' '''' paymentID '''' (TotalMinor ord) now)
      (\<lambda>_. tx_open base) (\<lambda>_. tx_open base) s"
    by (rule wp_updateWorkflow [OF _ inv(2)])
       (use inv live in \<open>auto simp: tx_inv_def tx_open_def orders_inv_def\<close>)
  then show ?thesis
    unfolding confirm_order_def Let_def
    using True by (auto simp: wp_rules bump_def elim!: wp_mono)
next
  case False
  have upd: "wp env (updateWorkflow ord StatusConfirmed '''' '''' paymentID '''' (TotalMinor ord) now)
      (\<lambda>_. tx_inv base) (\<lambda>_. tx_open base) s"
    by (rule wp_workflow [OF inv])
       (use False live tot pay in \<open>auto simp: status_text_def agrees_def ValidPaymentID_def
          nullString_valid\<close>)
  show ?thesis
    unfolding confirm_order_def Let_def eventPayloadFor_def commandPayload_def
    using False
    by (auto simp: wp_rules bump_def intro!: wp_mono [OF upd] wp_mono [OF wp_insertOutbox] wp_insertOutbox)
qed

text \<open>Late references on an order that waits for its cancellation.\<close>

lemma wp_cancelling_update:
  assumes inv: "tx_inv base s" "in_step ord (work s)" and st: "Status ord = StatusCancelReq"
    and ord': "ID ord' = ID ord" "Version ord' = Version ord" "TotalMinor ord' = TotalMinor ord"
      "Status ord' = Status ord"
  shows "wp env (updateWorkflow ord' StatusCancelReq '''' res pay '''' (TotalMinor ord') now)
    (\<lambda>_. tx_inv base) (\<lambda>_. tx_open base) s"
proof -
  have "updateWorkflow ord' StatusCancelReq '''' res pay '''' (TotalMinor ord') now
      = updateWorkflow ord StatusCancelReq '''' res pay '''' (TotalMinor ord) now"
    using ord' by (simp add: updateWorkflow_def updateWorkflowAtVersion_def)
  moreover have "wp env (updateWorkflow ord StatusCancelReq '''' res pay '''' (TotalMinor ord) now)
      (\<lambda>_. tx_inv base) (\<lambda>_. tx_open base) s"
    by (rule wp_workflow [OF inv]) (use st in \<open>auto simp: status_text_def\<close>)
  ultimately show ?thesis by simp
qed

lemma wp_applyPaymentAuthorized:
  assumes inv: "tx_inv base s" "in_step ord (work s)"
  shows "wp env (applyPaymentAuthorized cfg ord e now) (\<lambda>_. tx_inv base) (\<lambda>_. tx_open base) s"
proof -
  let ?pid = "rawString (fe_Data e ''payment_id'')"
  have late: "wp env (updateWorkflow (ord\<lparr>PaymentID := Some ?pid\<rparr>) StatusCancelReq '''' '''' ?pid ''''
      tot now) (\<lambda>_. tx_inv base) (\<lambda>_. tx_open base) s"
    if "Status ord = StatusCancelReq" "TotalMinor ord = tot" for tot
    using wp_cancelling_update [OF inv that(1), of "ord\<lparr>PaymentID := Some ?pid\<rparr>"] that(2) by simp
  show ?thesis
    unfolding applyPaymentAuthorized_def Let_def
    using inv tx_inv_open
    by (auto simp: wp_rules split: sum.splits option.splits
      intro!: wp_mono [OF late] wp_insertCompensationCommands wp_confirm_order)
qed

subsection \<open>Quoted items\<close>

definition quote_row :: "string \<Rightarrow> int \<Rightarrow> (string \<Rightarrow> int option) \<Rightarrow> item_row \<Rightarrow> item_row" where
  "quote_row q v prices r =
     r\<lparr>i_unit_price_minor := Some (the (prices (i_product_id r))),
       i_line_total_minor := Some (i_quantity r * the (prices (i_product_id r))),
       i_quote_id := Some q, i_quote_version := Some v\<rparr>"

definition quote_table ::
  "string \<Rightarrow> string set \<Rightarrow> string \<Rightarrow> int \<Rightarrow> (string \<Rightarrow> int option) \<Rightarrow> item_row list \<Rightarrow> item_row list" where
  "quote_table oid todo q v prices t =
     update_where (\<lambda>r. i_order_id r = oid \<and> i_product_id r \<notin> todo) (quote_row q v prices) t"

lemma item_of_quote_row: "item_of_row (quote_row q v prices r) = quoted_item q v prices (item_of_row r)"
  by (simp add: item_of_row_def quote_row_def quoted_item_def price_item_def)

lemma sort_key_map: "(\<And>x. k (g x) = k x) \<Longrightarrow> sort_key k (map g xs) = map g (sort_key k xs)"
proof (induction xs)
  case (Cons x xs)
  have "insort_key k (g x) (map g ys) = map g (insort_key k x ys)" for ys
    by (induction ys) (simp_all add: Cons.prems)
  then show ?case using Cons by simp
qed simp

lemma filter_quote_table:
  "filter (\<lambda>r. i_order_id r = x) (quote_table oid todo q v prices t) =
   map (\<lambda>r. if i_order_id r = oid \<and> i_product_id r \<notin> todo then quote_row q v prices r else r)
     (filter (\<lambda>r. i_order_id r = x) t)"
  by (induction t) (auto simp: quote_table_def update_where_def quote_row_def)

lemma stored_items_quote_table:
  assumes "db' = db\<lparr>order_items := quote_table oid {} q v prices (order_items db)\<rparr>"
  shows "stored_items db' x =
    (if x = oid then map (quoted_item q v prices) (stored_items db x) else stored_items db x)"
proof -
  let ?g = "\<lambda>r. if i_order_id r = oid \<and> i_product_id r \<notin> {} then quote_row q v prices r else r"
  have "stored_items db' x
      = map item_of_row (map ?g (sort_key i_line_number (filter (\<lambda>r. i_order_id r = x) (order_items db))))"
    using assms sort_key_map [of i_line_number ?g]
    by (simp add: stored_items_def filter_quote_table quote_row_def)
  also have "\<dots> = (if x = oid then map (quoted_item q v prices) (stored_items db x)
      else stored_items db x)"
    by (auto simp: stored_items_def item_of_quote_row)
  finally show ?thesis .
qed

lemma quote_table_todo:
  assumes "\<forall>r \<in> set t. i_order_id r = oid \<longrightarrow> i_product_id r \<in> todo"
  shows "quote_table oid todo q v prices t = t"
  using assms unfolding quote_table_def by (intro update_where_none) auto

text \<open>One statement of the loop prices the rows of one more product.\<close>

lemma quote_table_step:
  assumes "p \<notin> todo" "\<forall>r \<in> set t. i_order_id r = oid \<and> i_product_id r = p \<longrightarrow> i_quantity r = n"
  shows "update_where (\<lambda>r. i_order_id r = oid \<and> i_product_id r = p)
      (\<lambda>r. r\<lparr>i_unit_price_minor := Some (the (prices p)),
             i_line_total_minor := Some (n * the (prices p)), i_quote_id := Some q,
             i_quote_version := Some v\<rparr>)
      (quote_table oid (insert p todo) q v prices t)
    = quote_table oid todo q v prices t"
  unfolding quote_table_def update_where_def map_map
proof (rule map_cong [OF refl])
  fix r assume "r \<in> set t"
  then have "i_order_id r = oid \<Longrightarrow> i_product_id r = p \<Longrightarrow> i_quantity r = n" using assms(2) by blast
  then show "((\<lambda>r. if i_order_id r = oid \<and> i_product_id r = p
        then r\<lparr>i_unit_price_minor := Some (the (prices p)),
               i_line_total_minor := Some (n * the (prices p)), i_quote_id := Some q,
               i_quote_version := Some v\<rparr> else r) \<circ>
      (\<lambda>r. if i_order_id r = oid \<and> i_product_id r \<notin> insert p todo
        then quote_row q v prices r else r)) r
    = (if i_order_id r = oid \<and> i_product_id r \<notin> todo then quote_row q v prices r else r)"
    using assms(1) by (auto simp: quote_row_def)
qed

lemma wp_quote_loop:
  assumes "durable s = base"
    and "work s = w0\<lparr>order_items := quote_table oid (set (map ProductID zs)) q v prices (order_items w0)\<rparr>"
    and "distinct (map ProductID zs)"
    and "\<forall>it \<in> set zs. \<forall>r \<in> set (order_items w0).
      i_order_id r = oid \<and> i_product_id r = ProductID it \<longrightarrow> i_quantity r = Quantity it"
  shows "wp env (forA (map (quoted_item q v prices) zs) (\<lambda>it.
       stmt mapError (q_UpdateOrderItemQuote oid (ProductID it) (UnitPriceMinor it)
         (LineTotalMinor it) (QuoteID it) (QuoteVersion it))))
    (\<lambda>_ s'. durable s' = base
       \<and> work s' = w0\<lparr>order_items := quote_table oid {} q v prices (order_items w0)\<rparr>)
    (\<lambda>_. tx_open base) s"
  using assms
proof (induction zs arbitrary: s)
  case Nil
  then show ?case by (simp add: wp_rules)
next
  case (Cons z zs)
  let ?q = "quoted_item q v prices z"
  let ?t = "quote_table oid (set (map ProductID zs)) q v prices (order_items w0)"
  have qty: "\<forall>r \<in> set (order_items w0).
      i_order_id r = oid \<and> i_product_id r = ProductID z \<longrightarrow> i_quantity r = Quantity z"
    using Cons.prems(4) by simp
  have "wp env (stmt mapError (q_UpdateOrderItemQuote oid (ProductID ?q) (UnitPriceMinor ?q)
         (LineTotalMinor ?q) (QuoteID ?q) (QuoteVersion ?q)))
      (\<lambda>_ s'. durable s' = base \<and> work s' = w0\<lparr>order_items := ?t\<rparr>) (\<lambda>_. tx_open base) s"
  proof (rule wp_stmt)
    fix x w
    assume "q_UpdateOrderItemQuote oid (ProductID ?q) (UnitPriceMinor ?q) (LineTotalMinor ?q)
      (QuoteID ?q) (QuoteVersion ?q) env (nowAt env (tick s)) (work s) = Inr (x, w)"
    then have "w = w0\<lparr>order_items := ?t\<rparr>"
      using Cons.prems(2,3) quote_table_step
        [where todo = "set (map ProductID zs)" and prices = prices and q = q and v = v, OF _ qty]
      by (auto simp: q_UpdateOrderItemQuote_def Let_def quoted_item_def split: if_splits)
    then show "durable (tickOn (s\<lparr>work := w\<rparr>)) = base
        \<and> work (tickOn (s\<lparr>work := w\<rparr>)) = w0\<lparr>order_items := ?t\<rparr>"
      using Cons.prems(1) by simp
  qed (use Cons.prems(1) in \<open>simp add: tx_open_def\<close>)
  then show ?case
    using Cons.IH Cons.prems(3,4) by (auto simp: wp_rules elim!: wp_mono)
qed

lemma stored_items_row:
  assumes "distinct (map ProductID (stored_items db oid))" "it \<in> set (stored_items db oid)"
    "r \<in> set (order_items db)" "i_order_id r = oid" "i_product_id r = ProductID it"
  shows "i_quantity r = Quantity it"
proof -
  have "item_of_row r \<in> set (stored_items db oid)" using assms by (auto simp: stored_items_def)
  moreover have "ProductID (item_of_row r) = ProductID it" using assms by (simp add: item_of_row_def)
  ultimately have "item_of_row r = it" using assms(1,2) by (metis distinct_map inj_onD)
  then show ?thesis by (auto simp: item_of_row_def)
qed

lemma wp_update_quoted_items:
  assumes "durable s = base" "ID ord = oid" "its = stored_items (work s) oid"
    "Items ord = map (quoted_item q v prices) its" "distinct (map ProductID its)"
  shows "wp env (update_quoted_items ord)
    (\<lambda>_ s'. durable s' = base
       \<and> work s' = (work s)\<lparr>order_items := quote_table oid {} q v prices (order_items (work s))\<rparr>)
    (\<lambda>_. tx_open base) s"
proof -
  have all: "\<forall>r \<in> set (order_items (work s)). i_order_id r = oid \<longrightarrow> i_product_id r \<in> set (map ProductID its)"
    using assms(3) by (auto simp: stored_items_def item_of_row_def image_image)
  have "work s = (work s)\<lparr>order_items := quote_table oid (set (map ProductID its)) q v prices
      (order_items (work s))\<rparr>"
    using quote_table_todo [OF all] by simp
  then show ?thesis
    unfolding update_quoted_items_def assms(2,4)
    by (rule wp_quote_loop [OF assms(1)]) (use assms stored_items_row in auto)
qed

subsection \<open>Reservations\<close>

lemma quote_table_orders:
  "i_order_id ` set (quote_table oid todo q v prices t) = i_order_id ` set t"
proof -
  have "map i_order_id (quote_table oid todo q v prices t) = map i_order_id t"
    unfolding quote_table_def by (rule map_update_where) (simp add: quote_row_def)
  then show ?thesis by (metis set_map)
qed

text \<open>The working copy after a quote: items and total of one order change together.\<close>

lemma priced_row_inv:
  assumes inv: "orders_inv db" and r: "r \<in> set (orders db)" "o_id r = oid"
    and r': "o_id r' = oid" "row_ok r'" "o_total_minor r' = Some (quote_total prices its)"
    and its: "its = stored_items db oid" "quotable prices its"
      "quote_total prices its \<le> MaxTotalMinor" "ValidQuoteID q" "1 \<le> v"
  shows "orders_inv (set_row (db\<lparr>order_items := quote_table oid {} q v prices (order_items db)\<rparr>) r')"
    (is "orders_inv (set_row ?db r')")
proof -
  have ok: "items_ok db r" using inv r by (simp add: orders_inv_def)
  then have it: "its \<noteq> []" "length its \<le> MaxItems" "list_all item_ok its"
    "distinct (map ProductID its)" using its(1) r(2) by (simp_all add: items_ok_def Let_def)
  have new: "stored_items (set_row ?db r') oid = map (quoted_item q v prices) its"
    and other: "x \<noteq> oid \<Longrightarrow> stored_items (set_row ?db r') x = stored_items db x" for x
    using stored_items_quote_table
      [where db = db and oid = oid and q = q and v = v and prices = prices, OF refl] its(1)
    by simp_all
  have "items_ok (set_row ?db r') r'"
    using it prices_match_quoted [OF it(3) its(2-5)] r' new
    by (simp add: items_ok_def Let_def del: map_map)
  moreover have "items_ok (set_row ?db r') x" if "items_ok db x" "o_id x \<noteq> oid" for x
    using that other by (simp add: items_ok_def)
  moreover have "\<exists>x \<in> set (orders (set_row ?db r')). o_id x = i_order_id i"
    if "i \<in> set (quote_table oid {} q v prices (order_items db))" for i
  proof -
    from that have "i_order_id i \<in> i_order_id ` set (order_items db)"
      using quote_table_orders by (metis imageI)
    then obtain x where x: "x \<in> set (orders db)" "o_id x = i_order_id i"
      using inv unfolding orders_inv_def by (metis imageE)
    show ?thesis
    proof (cases "o_id x = oid")
      case True
      then have "r' \<in> set (orders (set_row ?db r'))" using r r'(1) by (auto simp: set_row_member)
      then show ?thesis using True x r'(1) by auto
    next
      case False
      then have "x \<in> set (orders (set_row ?db r'))" using x r'(1) by (simp add: set_row_member)
      then show ?thesis using x by auto
    qed
  qed
  ultimately show ?thesis
    using inv r' unfolding orders_inv_def
    by (simp add: keyed_set_row) (auto simp: set_row_member)
qed

lemma wp_store_quote:
  assumes inv: "tx_inv base s" and r: "r \<in> set (orders (work s))"
    and ord: "ord = stored_order env (work s) r"
    and app: "ApplyQuote (Some ord) q v prices now = Inr quoted"
  shows "wp env (store_quote cfg quoted e res (Version ord) now) (\<lambda>_. tx_inv base) (\<lambda>_. tx_open base) s"
proof -
  let ?its = "stored_items (work s) (o_id r)"
  have oinv: "orders_inv (work s)" and dur: "durable s = base" using inv by (simp_all add: tx_inv_def)
  have key: "keyed o_id (orders (work s))" using oinv by (simp add: orders_inv_def)
  have "items_ok (work s) r" using oinv r by (simp add: orders_inv_def)
  then have it: "list_all item_ok ?its" "distinct (map ProductID ?its)"
    by (simp_all add: items_ok_def Let_def)
  have o: "Items ord = ?its" "ID ord = o_id r" "TotalMinor ord = o_total_minor r"
    by (simp_all add: ord stored_order_def orderFromFields_def)
  have itok: "list_all item_ok (Items ord)" using it o by simp
  note eff = app [unfolded ApplyQuote_Inr_iff [OF itok]]
  let ?tot = "quote_total prices ?its"
  let ?w1 = "(work s)\<lparr>order_items := quote_table (o_id r) {} q v prices (order_items (work s))\<rparr>"
  let ?ord = "quoted\<lparr>Version := Version ord\<rparr>"
  have same: "updateWorkflow ?ord StatusPending '''' res '''' '''' (TotalMinor ?ord) now
      = updateWorkflow ord StatusPending '''' res '''' '''' (Some ?tot) now"
    using eff o by (simp add: updateWorkflow_def updateWorkflowAtVersion_def)
  have upd: "wp env (updateWorkflow ord StatusPending '''' res '''' '''' (Some ?tot) now)
      (\<lambda>_. tx_inv base) (\<lambda>_. tx_open base) s'"
    if s': "durable s' = base" "work s' = ?w1" for s'
  proof (rule wp_updateWorkflow)
    show "keyed o_id (orders (work s'))" using key s' by simp
    show "in_step ord (work s')" using in_step_stored [OF key r, of env] s' ord by simp
    show "StatusPending = Status ord \<or> \<not> IsTerminal (Status ord)" using eff by simp
    show "tx_open base s''" if "durable s'' = durable s'" for s'' using that s' by (simp add: tx_open_def)
    fix x x' assume x: "x \<in> set (orders (work s'))" "o_id x = ID ord" "agrees ord x"
      and x': "x' = workflow_row env StatusPending '''' res '''' '''' (Some ?tot) now x"
        "order_check x'" "in_int64 (o_aggregate_version x + 1)"
    have "x = r" using keyed_inj [OF key _ r] x s' o by simp
    then have ok: "row_ok x'" using x' by (simp add: row_ok_def status_text_def)
    have pend: "\<not> status_terminal r" "o_total_minor r = None"
      using eff o by (simp_all add: status_terminal_def IsTerminal_def ord stored_order_def
        orderFromFields_def)
    have ev: "row_evolves r x'"
      using pend unfolding x' \<open>x = r\<close>
      by (simp add: row_evolves_def grows_def coalesce_None) (simp add: workflow_row_def)
    have "orders_inv (set_row ?w1 x')"
      by (rule priced_row_inv [OF oinv r refl _ ok _ refl])
         (use x' \<open>x = r\<close> eff o in auto)
    moreover have "db_evolves (work s) (set_row ?w1 x')"
      using set_row_evolves [OF key r ev] by (simp add: db_evolves_def set_row_def)
    ultimately show "tx_inv base (tickOn (s'\<lparr>work := set_row (work s') x'\<rparr>))"
      using s' inv db_evolves_trans by (auto simp: tx_inv_def)
  qed
  show ?thesis
    unfolding store_quote_def Let_def same wp_bindA commandPayload_def
    by (rule wp_mono [OF wp_update_quoted_items [OF dur _ refl]])
       (use eff o it in \<open>auto simp: wp_rules intro!: wp_mono [OF upd] wp_insertOutbox\<close>)
qed

lemma wp_quote_frame:
  assumes "tx_inv base s"
  shows "wp env (quote_Verify gl url quote keyID jws now)
    (\<lambda>_ s'. tx_inv base s' \<and> work s' = work s) (\<lambda>_. tx_open base) s"
  by (rule wp_mono [OF wp_quote_Verify]) (use assms in \<open>auto simp: tx_inv_def tx_open_def\<close>)

lemma wp_apply_quote_fact:
  assumes inv: "tx_inv base s" and r: "r \<in> set (orders (work s))"
    and ord: "ord = stored_order env (work s) r"
  shows "wp env (apply_quote_fact cfg ord e res now) (\<lambda>_. tx_inv base) (\<lambda>_. tx_open base) s"
proof -
  have open': "tx_open base s" using inv by (rule tx_inv_open)
  have store: "wp env (store_quote cfg quoted e res (Version ord) now)
      (\<lambda>_. tx_inv base) (\<lambda>_. tx_open base) s'"
    if "tx_inv base s'" "work s' = work s" "ApplyQuote (Some ord) q v prices now = Inr quoted"
    for s' q v prices quoted
    by (rule wp_store_quote [OF that(1) _ _ that(3)]) (use r ord that(2) in auto)
  show ?thesis
    unfolding apply_quote_fact_def Let_def
    using open'
    by (auto simp: wp_rules tx_inv_open intro!: wp_mono [OF wp_quote_frame [OF inv]] store
      simp del: ApplyQuote.simps split: sum.splits option.splits prod.splits)
qed

lemma wp_applyInventoryReserved:
  assumes inv: "tx_inv base s" and r: "r \<in> set (orders (work s))"
    and ord: "ord = stored_order env (work s) r"
  shows "wp env (applyInventoryReserved cfg ord e now) (\<lambda>_. tx_inv base) (\<lambda>_. tx_open base) s"
proof -
  let ?rid = "rawString (fe_Data e ''reservation_id'')"
  have agree: "in_step ord (work s)"
    unfolding ord by (rule in_step_stored) (use inv r in \<open>auto simp: tx_inv_def orders_inv_def\<close>)
  have late: "wp env (updateWorkflow (ord\<lparr>ReservationID := Some ?rid\<rparr>) StatusCancelReq '''' ?rid '''' ''''
      tot now) (\<lambda>_. tx_inv base) (\<lambda>_. tx_open base) s"
    if "Status ord = StatusCancelReq" "TotalMinor ord = tot" for tot
    using wp_cancelling_update [OF inv agree that(1), of "ord\<lparr>ReservationID := Some ?rid\<rparr>"] that(2)
    by simp
  show ?thesis
    unfolding applyInventoryReserved_def Let_def
    using inv tx_inv_open
    by (auto simp: wp_rules intro!: wp_mono [OF late] wp_insertCompensationCommands
      wp_apply_quote_fact [OF inv r ord])
qed

lemma wp_apply_fact:
  assumes inv: "tx_inv base s" and r: "r \<in> set (orders (work s))"
    and ord: "ord = stored_order env (work s) r"
  shows "wp env (apply_fact cfg ord e now) (\<lambda>_. tx_inv base) (\<lambda>_. tx_open base) s"
proof -
  have agree: "in_step ord (work s)"
    unfolding ord by (rule in_step_stored) (use inv r in \<open>auto simp: tx_inv_def orders_inv_def\<close>)
  show ?thesis
    unfolding apply_fact_def
    using inv tx_inv_open wp_applyInventoryReserved [OF inv r ord]
      wp_applyInventoryReleased [OF inv agree] wp_applyPaymentRefunded [OF inv agree]
      wp_cancel_rejected [OF inv agree] wp_fail_order [OF inv agree]
      wp_applyPaymentAuthorized [OF inv agree] wp_complete_order [OF inv agree]
    by (simp add: wp_rules)
qed

end
