(* ===== verification/Orders_Transactions.thy ===== *)
theory Orders_Transactions
  imports Orders_Integrity
begin

section \<open>Orders: transactions of the store\<close>

text \<open>
  Every method of the store, run from committed tables that satisfy the invariant, leaves
  committed tables that satisfy it and evolved from what they were: on success, on every
  error return, and on a commit whose acknowledgement is lost.
\<close>

subsection \<open>Transactions\<close>

lemma wp_loadOrder_tx:
  "wp env (loadOrder OnTx oid)
     (\<lambda>ord s'. work s' = work s \<and> durable s' = durable s
        \<and> (\<exists>r \<in> set (orders (work s)). o_id r = oid \<and> ord = stored_order env (work s) r))
     (\<lambda>_ s'. durable s' = durable s) s"
proof -
  have items: "wp env (stmt mapError (q_GetOrderItems i))
      (\<lambda>items s'. work s' = work s0 \<and> durable s' = durable s0
         \<and> map item_of_row items = stored_items (work s0) i)
      (\<lambda>_ s'. durable s' = durable s0) s0" for s0 i
    by (rule wp_stmt) (auto simp: q_GetOrderItems_def stored_items_def)
  have row: "wp env (stmt mapError (q_GetOrder oid))
      (\<lambda>r s'. work s' = work s \<and> durable s' = durable s \<and> r \<in> set (orders (work s)) \<and> o_id r = oid)
      (\<lambda>_ s'. durable s' = durable s) s"
    by (rule wp_stmt) (auto simp: q_GetOrder_def dest: select_one_Some split: option.splits)
  show ?thesis
    unfolding loadOrder_def onQ_def conn.case wp_rules
    by (rule wp_mono [OF row])
       (auto simp: wp_rules stored_order_def intro!: wp_mono [OF items])
qed

text \<open>
  The outcome of an operation on the committed tables: they satisfy the invariant and
  evolved from what they were, whether the operation succeeded or failed.
\<close>

definition settled :: "orders_db \<Rightarrow> orders_session \<Rightarrow> bool" where
  "settled base s \<longleftrightarrow> orders_inv (durable s) \<and> db_evolves base (durable s)"

lemma tx_open_settled: "orders_inv base \<Longrightarrow> tx_open base s \<Longrightarrow> settled base s"
  by (simp add: tx_open_def settled_def)

lemma wp_commit_settled:
  assumes "tx_inv base s" "orders_inv base" "\<And>s'. settled base s' \<Longrightarrow> Q () s'"
  shows "wp env (commitTx h) Q (\<lambda>_. settled base) s"
  by (rule wp_commitTx) (use assms in \<open>auto simp: tx_inv_def settled_def\<close>)

text \<open>A transaction body whose failures do not commit.\<close>

lemma wp_tx_body:
  assumes "wp env m (\<lambda>_. tx_inv base) (\<lambda>_. tx_open base) s" "orders_inv base"
    "\<And>x s'. tx_inv base s' \<Longrightarrow> Q x s'"
  shows "wp env m Q (\<lambda>_. settled base) s"
  by (rule wp_mono [OF assms(1)]) (use assms in \<open>auto intro: tx_open_settled\<close>)

text \<open>Queries that leave the orders and their items alone.\<close>

definition frame_query :: "(orders_db, 'a) query \<Rightarrow> bool" where
  "frame_query q \<longleftrightarrow>
     (\<forall>env t db x w. q env t db = Inr (x, w) \<longrightarrow>
        orders w = orders db \<and> order_items w = order_items db)"

lemma frame_queries:
  "frame_query (q_InsertIdempotency a p k h rid st b c x)"
  "frame_query (q_UpdateIdempotencyResponse a p k rid b)" "frame_query (q_GetIdempotency a p k)"
  "frame_query (q_GetSagaByOrderID oid)" "frame_query (q_InsertOutbox xi tp pk mt aty ai pl hdr ca)"
  "frame_query (q_InsertSaga sid oid ph ca)" "frame_query (q_UpdateSagaPhase sid ph ca)"
  "frame_query (q_InsertInbox g m mt h rat co ca')" "frame_query (q_GetInbox g m)"
  "frame_query (q_MarkInboxProcessed g m rat)" "frame_query (q_MarkInboxDeadLetter g m le)"
  "frame_query (q_RecordInboxFailure g m mt h rat co ca' le nxt)"
  "frame_query (q_ClaimPendingOutbox ow un li)" "frame_query (q_MarkOutboxPublished xi rat)"
  "frame_query (q_MarkOutboxFailed xi le nxt)"
  by (auto simp: frame_query_def q_InsertIdempotency_def q_UpdateIdempotencyResponse_def
    q_GetIdempotency_def q_GetSagaByOrderID_def q_InsertOutbox_def q_InsertSaga_def Let_def
    q_UpdateSagaPhase_def q_InsertInbox_def q_GetInbox_def q_MarkInboxProcessed_def
    q_MarkInboxDeadLetter_def q_RecordInboxFailure_def q_ClaimPendingOutbox_def
    q_MarkOutboxPublished_def q_MarkOutboxFailed_def update_outbox_def
    split: if_splits option.splits)

lemma inv_cong:
  "orders w = orders db \<Longrightarrow> order_items w = order_items db \<Longrightarrow>
     orders_inv w = orders_inv db \<and> db_evolves base w = db_evolves base db"
  by (simp add: orders_inv_def items_ok_def stored_items_def db_evolves_def)

lemma wp_frame_query:
  assumes "frame_query q" "tx_inv base s"
  shows "wp env (stmt h q) (\<lambda>_. tx_inv base) (\<lambda>_. tx_open base) s"
proof (rule wp_stmt_frame [OF assms(2)])
  fix t x w assume "q env t (work s) = Inr (x, w)"
  then have "orders w = orders (work s)" "order_items w = order_items (work s)"
    using assms(1) by (simp_all add: frame_query_def)
  then show "tx_inv base (s\<lparr>work := w\<rparr>)"
    using assms(2) inv_cong [of w "work s" base] by (simp add: tx_inv_def)
qed

lemmas wp_frame_body = wp_tx_body [OF wp_frame_query]

lemma wp_loadOrder_inv:
  "tx_inv base s \<Longrightarrow> wp env (loadOrder OnTx oid) (\<lambda>_. tx_inv base) (\<lambda>_. tx_open base) s"
  by (rule wp_mono [OF wp_loadOrder_tx]) (auto simp: tx_inv_def tx_open_def)

lemma wp_begin_settled:
  assumes "orders_inv (durable s)" "\<And>s'. tx_inv (durable s) s' \<Longrightarrow> Q () s'"
  shows "wp env (beginTx h) Q (\<lambda>_. settled (durable s)) s"
  by (rule wp_beginTx) (use assms in \<open>auto simp: tx_inv_def settled_def\<close>)

subsection \<open>ProcessFact and RecordFactFailure\<close>

lemma wp_settle_fact:
  assumes inv: "tx_inv base s" and base: "orders_inv base"
  shows "wp env (settle_fact cfg g e oid) (\<lambda>_. settled base) (\<lambda>_. settled base) s"
proof -
  have apply': "wp env (apply_fact cfg ord e now)
      (\<lambda>_. wp env (bindA (stmt mapError (q_MarkInboxProcessed g (fe_EventID e) now))
         (\<lambda>_. commitTx mapError)) (\<lambda>_. settled base) (\<lambda>_. settled base))
      (\<lambda>_. settled base) s'"
    if "tx_inv base s'" "r \<in> set (orders (work s'))" "ord = stored_order env (work s') r" for s' r ord now
    by (rule wp_tx_body [OF wp_apply_fact [OF that] base])
       (auto simp: wp_rules intro!: frame_queries [THEN wp_frame_body] wp_commit_settled base)
  show ?thesis
    unfolding settle_fact_def Let_def wp_bindA wp_clockNow
  proof (rule wp_mono [OF wp_loadOrder_tx])
    fix ord and s' :: orders_session
    assume "work s' = work s \<and> durable s' = durable s
      \<and> (\<exists>r \<in> set (orders (work s)). o_id r = oid \<and> ord = stored_order env (work s) r)"
    then obtain r where "tx_inv base (tickOn s')" "r \<in> set (orders (work (tickOn s')))"
      "ord = stored_order env (work (tickOn s')) r"
      using inv by (auto simp: tx_inv_def)
    then show "wp env (apply_fact cfg ord e (UTC (nowAt env (tick s'))))
      (\<lambda>_. wp env (stmt mapError (q_MarkInboxProcessed g (fe_EventID e) (UTC (nowAt env (tick s')))))
         (\<lambda>_. wp env (commitTx mapError) (\<lambda>_. settled base) (\<lambda>_. settled base)) (\<lambda>_. settled base))
      (\<lambda>_. settled base) (tickOn s')"
      by (rule apply' [unfolded wp_bindA])
  qed (use inv base in \<open>auto intro: tx_open_settled simp: tx_inv_def tx_open_def\<close>)
qed

lemma wp_fact_tx:
  assumes base: "orders_inv (durable s)"
  shows "wp env (fact_tx cfg g payload e oid) (\<lambda>_. settled (durable s)) (\<lambda>_. settled (durable s)) s"
proof -
  let ?base = "durable s"
  have fin: "settled ?base s'" if "tx_inv ?base s'" for s'
    using that base by (auto intro: tx_open_settled tx_inv_open)
  show ?thesis
    unfolding fact_tx_def wp_rules
    by (rule wp_begin_settled [OF base])
       (auto simp: wp_rules intro!: frame_queries [THEN wp_frame_body] base wp_settle_fact base fin)
qed

lemma wp_ProcessFact:
  assumes "orders_inv (durable s)"
  shows "wp env (ProcessFact cfg g payload) (\<lambda>_. settled (durable s)) (\<lambda>_. settled (durable s)) s"
proof -
  have "settled (durable s) s" using assms by (simp add: settled_def)
  then show ?thesis
    unfolding ProcessFact_def Let_def
    using wp_fact_tx [OF assms] by (auto simp: wp_rules split: option.splits)
qed

lemma wp_RecordFactFailure:
  assumes base: "orders_inv (durable s)"
  shows "wp env (RecordFactFailure cfg g payload reason at)
    (\<lambda>_. settled (durable s)) (\<lambda>_. settled (durable s)) s"
proof -
  let ?base = "durable s"
  have here: "settled ?base s" using base by (simp add: settled_def)
  show ?thesis
  proof (cases "decode_envelope (lib cfg) payload")
    case (Some e)
    show ?thesis
      unfolding RecordFactFailure_def Some option.case
      using here
      by (auto simp: wp_rules split: prod.splits
        intro!: wp_begin_settled [OF base] frame_queries [THEN wp_frame_body] base wp_commit_settled base)
  qed (use here in \<open>simp add: RecordFactFailure_def wp_rules\<close>)
qed

subsection \<open>RequestCancellation\<close>

lemma cancellation_row:
  assumes key: "keyed o_id (orders db)"
    and q: "q_UpdateOrderCancellation oid version at env t db = Inr (row, w)"
  obtains r where "r \<in> set (orders db)" "o_id r = oid" "o_aggregate_version r = version"
    "o_status r \<in> {''PENDING'', ''CONFIRMED''}" "in_int64 (o_aggregate_version r + 1)" "order_check row"
    "row = r\<lparr>o_status := ''CANCEL_REQUESTED'', o_updated_at := ts env at,
             o_aggregate_version := o_aggregate_version r + 1\<rparr>"
    "w = set_row db row"
proof -
  let ?p = "\<lambda>r. o_id r = oid \<and> o_aggregate_version r = version
    \<and> o_status r \<in> {''PENDING'', ''CONFIRMED''}"
  let ?f = "\<lambda>r. r\<lparr>o_status := ''CANCEL_REQUESTED'', o_updated_at := ts env at\<rparr>"
  from q obtain n where u: "update_orders ?p ?f db = Inr (n, w)"
    and some: "select_one ?p (orders db) \<noteq> None"
    and row: "select_one (\<lambda>r. o_id r = oid) (orders w) = Some row"
    by (auto simp: q_UpdateOrderCancellation_def Let_def split: sum.splits if_splits option.splits)
  have "count_where ?p (orders db) \<le> 1" by (rule count_where_key [OF key]) auto
  moreover have "count_where ?p (orders db) \<noteq> 0"
    using some unfolding count_where_update select_one_None by blast
  ultimately have "length (filter ?p (orders db)) = 1" unfolding count_where_def by linarith
  then have "n = 1" using u by (auto simp: update_orders_def Let_def split: if_splits)
  with u have u1: "update_orders ?p ?f db = Inr (1, w)" by simp
  obtain r where r: "r \<in> set (orders db)" "?p r" "in_int64 (o_aggregate_version r + 1)"
      "order_check ((?f r)\<lparr>o_aggregate_version := o_aggregate_version r + 1\<rparr>)"
    and w: "w = set_row db ((?f r)\<lparr>o_aggregate_version := o_aggregate_version r + 1\<rparr>)"
    by (rule update_orders_one [OF key _ _ u1]) auto
  have "row = (?f r)\<lparr>o_aggregate_version := o_aggregate_version r + 1\<rparr>"
    using select_one_Some [OF row] r w by (auto simp: set_row_member)
  with that r w show ?thesis by auto
qed

lemma wp_UpdateOrderCancellation:
  assumes inv: "tx_inv base s"
  shows "wp env (stmt mapError (q_UpdateOrderCancellation oid v at)) (\<lambda>_. tx_inv base)
    (\<lambda>_. tx_open base) s"
proof (rule wp_stmt_frame [OF inv])
  fix t row w
  assume q: "q_UpdateOrderCancellation oid v at env t (work s) = Inr (row, w)"
  have key: "keyed o_id (orders (work s))" using inv by (simp add: tx_inv_def orders_inv_def)
  obtain r where r: "r \<in> set (orders (work s))" "o_status r \<in> {''PENDING'', ''CONFIRMED''}"
      "in_int64 (o_aggregate_version r + 1)" "order_check row"
    and row: "row = r\<lparr>o_status := ''CANCEL_REQUESTED'', o_updated_at := ts env at,
             o_aggregate_version := o_aggregate_version r + 1\<rparr>"
    and w: "w = set_row (work s) row"
    by (rule cancellation_row [OF key q])
  have "\<not> status_terminal r" using r(2) by (auto simp: status_terminal_def status_of_def IsTerminal_def)
  then show "tx_inv base (s\<lparr>work := w\<rparr>)"
    unfolding w
    by (intro tx_inv_set_row [OF inv r(1)])
       (use r(3,4) in \<open>auto simp: row row_ok_def row_evolves_def grows_def\<close>)
qed

lemma wp_RequestCancellation:
  assumes base: "orders_inv (durable s)"
  shows "wp env (RequestCancellation cfg a oid op k h reason v at)
    (\<lambda>_. settled (durable s)) (\<lambda>_. settled (durable s)) s"
proof -
  let ?base = "durable s"
  note body = frame_queries [THEN wp_frame_body] base wp_tx_body [OF wp_loadOrder_inv base]
    wp_tx_body [OF wp_UpdateOrderCancellation base] wp_tx_body [OF wp_insertCompensationCommands base]
  have fin: "settled ?base s'" if "tx_inv ?base s'" for s'
    using that base by (auto intro: tx_open_settled tx_inv_open)
  have commit: "wp env (commitTx mapError) (\<lambda>_. wp env (ret x) (\<lambda>_. settled ?base) (\<lambda>_. settled ?base))
      (\<lambda>_. settled ?base) s'" if "tx_inv ?base s'" for s' and x :: order
    by (rule wp_commit_settled [OF that base]) (simp add: wp_rules)
  have replay: "wp env (replay_cancel a op k h) (\<lambda>_. settled ?base) (\<lambda>_. settled ?base) s'"
    if "tx_inv ?base s'" for s'
    unfolding replay_cancel_def wp_bindA
    by (auto intro!: body that commit fin simp: wp_bindA wp_throw)
  have cancel: "wp env (cancel_order cfg a oid op k reason v at) (\<lambda>_. settled ?base)
      (\<lambda>_. settled ?base) s'" if "tx_inv ?base s'" for s'
    unfolding cancel_order_def wp_bindA wp_getEnv wp_newUUID Let_def
    by (auto intro!: body that commit)
  show ?thesis
    unfolding RequestCancellation_def wp_bindA
    by (rule wp_begin_settled [OF base]) (auto intro!: body replay cancel)
qed

subsection \<open>Create\<close>

text \<open>What the service hands to the store: a pending order with valid, unpriced lines.\<close>

definition fresh_order :: "order \<Rightarrow> bool" where
  "fresh_order ord \<longleftrightarrow>
     Items ord \<noteq> [] \<and> length (Items ord) \<le> MaxItems \<and> list_all item_ok (Items ord)
     \<and> distinct (map ProductID (Items ord)) \<and> Status ord = StatusPending"

lemma NewOrder_fresh: "NewOrder i c cur its now = Inr ord \<Longrightarrow> fresh_order ord"
  using NewOrder_wf [of i c cur its now ord] NewOrder_InrD(8) [of i c cur its now ord]
  by (simp add: fresh_order_def order_wf_def)

lemma map_enumerate:
  "map (\<lambda>(n, x). f x) (enumerate k xs) = map f xs"
  "map (\<lambda>(n, x). g n) (enumerate k xs) = map g [k..<k + length xs]"
  by (induction xs arbitrary: k) (simp_all add: upt_conv_Cons del: upt_Suc)

lemma numbered_items_simps:
  "map item_of_row (numbered_items ord) = map blank_item (Items ord)"
  "map i_line_number (numbered_items ord) = map (\<lambda>n. int n + 1) [0..<length (Items ord)]"
  "x \<in> set (numbered_items ord) \<Longrightarrow> i_order_id x = ID ord"
proof -
  have "map item_of_row (numbered_items ord) = map (\<lambda>(n, it). blank_item it) (enumerate 0 (Items ord))"
    by (auto simp: numbered_items_def item_of_row_def blank_item_def)
  then show "map item_of_row (numbered_items ord) = map blank_item (Items ord)"
    by (simp add: map_enumerate)
  have "map i_line_number (numbered_items ord) = map (\<lambda>(n, it). int n + 1) (enumerate 0 (Items ord))"
    by (auto simp: numbered_items_def)
  then show "map i_line_number (numbered_items ord) = map (\<lambda>n. int n + 1) [0..<length (Items ord)]"
    by (simp add: map_enumerate)
  show "x \<in> set (numbered_items ord) \<Longrightarrow> i_order_id x = ID ord"
    by (auto simp: numbered_items_def)
qed

lemma sort_numbered_items: "sort_key i_line_number (numbered_items ord) = numbered_items ord"
  by (rule sort_key_id_if_sorted) (simp add: numbered_items_simps sorted_iff_nth_mono)

lemma wp_insert_items:
  "wp env (forA rows (\<lambda>r. stmt mapError (q_InsertOrderItem r)))
     (\<lambda>_ s'. durable s' = durable s
        \<and> work s' = (work s)\<lparr>order_items := order_items (work s) @ rows\<rparr>)
     (\<lambda>_ s'. durable s' = durable s) s"
proof (induction rows arbitrary: s)
  case Nil
  then show ?case by (simp add: wp_rules)
next
  case (Cons r rows)
  have "wp env (stmt mapError (q_InsertOrderItem r))
      (\<lambda>_ s'. durable s' = durable s \<and> work s' = (work s)\<lparr>order_items := order_items (work s) @ [r]\<rparr>)
      (\<lambda>_ s'. durable s' = durable s) s"
    by (rule wp_stmt) (auto simp: q_InsertOrderItem_def split: if_splits)
  then show ?case
    unfolding wp_forA(2) by (rule wp_mono) (auto intro!: wp_mono [OF Cons.IH])
qed

definition new_order_row :: "env \<Rightarrow> order \<Rightarrow> order_row" where
  "new_order_row env ord =
     \<lparr>o_id = ID ord, o_customer_id = CustomerID ord, o_currency = Currency ord,
      o_total_minor = None, o_status = status_text (Status ord), o_failure_code = None,
      o_reservation_id = None, o_payment_id = None, o_shipment_id = None,
      o_aggregate_version = int64_of (Version ord), o_created_at = ts env (CreatedAt ord),
      o_updated_at = ts env (CreatedAt ord), o_inventory_released = False,
      o_payment_refunded = False\<rparr>"

lemma wp_InsertOrder:
  "wp env (stmt mapError (q_InsertOrder (ID ord) (CustomerID ord) (Currency ord) None
       (status_text (Status ord)) (int64_of (Version ord)) (CreatedAt ord)))
     (\<lambda>_ s'. durable s' = durable s \<and> work s' = (work s)\<lparr>orders := orders (work s) @ [new_order_row env ord]\<rparr>
        \<and> order_check (new_order_row env ord)
        \<and> select_one (\<lambda>r. o_id r = ID ord) (orders (work s)) = None)
     (\<lambda>_ s'. durable s' = durable s) s"
  by (rule wp_stmt) (auto simp: q_InsertOrder_def new_order_row_def Let_def split: if_splits)

lemma new_order_inv:
  assumes inv: "orders_inv db" and fresh: "fresh_order ord" and chk: "order_check (new_order_row env ord)"
    and new: "select_one (\<lambda>r. o_id r = ID ord) (orders db) = None"
  shows "orders_inv (db\<lparr>orders := orders db @ [new_order_row env ord],
    order_items := order_items db @ numbered_items ord\<rparr>)" (is "orders_inv ?db")
proof -
  let ?r = "new_order_row env ord"
  have rid: "o_id ?r = ID ord" "o_total_minor ?r = None" "o_status ?r = ''PENDING''"
    "in_int64 (o_aggregate_version ?r)"
    using fresh by (simp_all add: new_order_row_def fresh_order_def status_text_def in_int64_int64_of)
  have old: "i_order_id i \<noteq> ID ord" if "i \<in> set (order_items db)" for i
    using inv new that unfolding orders_inv_def select_one_None by metis
  have "filter (\<lambda>i. i_order_id i = ID ord) (order_items db) = []"
    using old by (simp add: filter_empty_conv)
  moreover have "filter (\<lambda>i. i_order_id i = ID ord) (numbered_items ord) = numbered_items ord"
    using numbered_items_simps(3) by (simp add: filter_id_conv)
  ultimately have its: "stored_items ?db (ID ord) = map blank_item (Items ord)"
    by (simp add: stored_items_def sort_numbered_items numbered_items_simps(1))
  have same: "stored_items ?db x = stored_items db x" if "x \<noteq> ID ord" for x
  proof -
    have "filter (\<lambda>i. i_order_id i = x) (numbered_items ord) = []"
      using that numbered_items_simps(3) by (auto simp: filter_empty_conv)
    then show ?thesis by (simp add: stored_items_def)
  qed
  have "items_ok ?db ?r"
    using fresh its rid
    by (simp add: items_ok_def Let_def fresh_order_def prices_match_def del: map_map)
  moreover have "items_ok ?db x" if "x \<in> set (orders db)" for x
    using that inv same new by (auto simp: items_ok_def orders_inv_def select_one_None)
  moreover have "row_ok ?r" using chk rid by (simp add: row_ok_def)
  moreover have "keyed o_id (orders db @ [?r])" using inv new rid by (simp add: keyed_snoc orders_inv_def)
  ultimately show ?thesis
    using inv rid numbered_items_simps(3) unfolding orders_inv_def by auto
qed

text \<open>
  The tables after a creation: the order and its lines, one saga waiting for the inventory
  reservation, and two unpublished messages, the created event and the reserve command.
\<close>

definition queued :: "string \<Rightarrow> string \<Rightarrow> string \<Rightarrow> outbox_row \<Rightarrow> bool" where
  "queued topic messageType oid x \<longleftrightarrow>
     x_topic x = topic \<and> x_message_type x = messageType \<and> x_partition_key x = oid
     \<and> x_aggregate_id x = oid \<and> x_aggregate_type x = ''order'' \<and> x_published_at x = None
     \<and> x_lease_until x = None \<and> x_attempts x = 0"

definition created_from :: "env \<Rightarrow> order \<Rightarrow> orders_db \<Rightarrow> orders_db \<Rightarrow> bool" where
  "created_from env ord w d \<longleftrightarrow>
     (\<exists>sg ev cmd.
        d = w\<lparr>orders := orders w @ [new_order_row env ord],
              order_items := order_items w @ numbered_items ord,
              saga_instances := saga_instances w @ [sg],
              outbox_events := outbox_events w @ [ev, cmd]\<rparr>
        \<and> s_order_id sg = ID ord \<and> s_phase sg = ''INVENTORY_RESERVATION_PENDING''
        \<and> queued ''commerce.order.events.v1'' ''commerce.order.created.v1'' (ID ord) ev
        \<and> queued ''commerce.inventory.commands.v1'' ''commerce.inventory.reserve.v1'' (ID ord) cmd
        \<and> order_check (new_order_row env ord)
        \<and> select_one (\<lambda>r. o_id r = ID ord) (orders w) = None)"

lemma created_fromI:
  assumes "d = w\<lparr>orders := orders w @ [new_order_row env ord],
              order_items := order_items w @ numbered_items ord,
              saga_instances := saga_instances w @ [sg],
              outbox_events := outbox_events w @ [ev, cmd]\<rparr>"
    "s_order_id sg = ID ord" "s_phase sg = ''INVENTORY_RESERVATION_PENDING''"
    "queued ''commerce.order.events.v1'' ''commerce.order.created.v1'' (ID ord) ev"
    "queued ''commerce.inventory.commands.v1'' ''commerce.inventory.reserve.v1'' (ID ord) cmd"
    "order_check (new_order_row env ord)" "select_one (\<lambda>r. o_id r = ID ord) (orders w) = None"
  shows "created_from env ord w d"
  unfolding created_from_def using assms by blast

lemma wp_InsertSaga:
  "wp env (stmt mapError (q_InsertSaga sid oid ph at))
     (\<lambda>_ s'. durable s' = durable s
        \<and> (\<exists>sg. work s' = (work s)\<lparr>saga_instances := saga_instances (work s) @ [sg]\<rparr>
             \<and> s_order_id sg = oid \<and> s_phase sg = ph))
     (\<lambda>_ s'. durable s' = durable s) s"
  by (rule wp_stmt) (auto simp: q_InsertSaga_def Let_def split: if_splits)

lemma wp_InsertOutbox:
  "wp env (stmt mapError (q_InsertOutbox u topic oid mt ''order'' oid p h at))
     (\<lambda>_ s'. durable s' = durable s
        \<and> (\<exists>x. work s' = (work s)\<lparr>outbox_events := outbox_events (work s) @ [x]\<rparr>
             \<and> queued topic mt oid x))
     (\<lambda>_ s'. durable s' = durable s) s"
  by (rule wp_stmt) (auto simp: q_InsertOutbox_def queued_def split: if_splits)

lemma wp_funs:
  "wp env (bindA m f) Q E = wp env m (\<lambda>x. wp env (f x) Q E) E"
  "wp env newUUID Q1 E = (\<lambda>s. Q1 (uuidAt env (tick s)) (tickOn s))"
  "wp env clockNow Q2 E = (\<lambda>s. Q2 (nowAt env (tick s)) (tickOn s))"
  "wp env (ret x) Q E = Q x"
  by (auto simp: wp_rules)

lemma wp_insert_new_order:
  "wp env (insert_new_order cfg ord)
     (\<lambda>res s'. \<not> Replayed res \<and> ResultOrder res = ord \<and> created_from env ord (work s) (durable s'))
     (\<lambda>_ s'. durable s' = durable s \<or> created_from env ord (work s) (durable s')) s"
proof -
  have top: "topicFor ''commerce.inventory.reserve.v1'' = ''commerce.inventory.commands.v1''"
    by (simp add: topicFor_def HasPrefix_def)
  have weak: "wp env m Q (\<lambda>_ s'. durable s' = durable s \<or> P (durable s')) s'"
    if "wp env m Q' (\<lambda>_ s''. durable s'' = durable s') s'" "durable s' = durable s"
      "\<And>x s''. Q' x s'' \<Longrightarrow> Q x s''"
    for m :: "'b oact" and Q Q' P and s' :: orders_session
    by (rule wp_mono [OF that(1)]) (use that in auto)
  show ?thesis
    unfolding insert_new_order_def Let_def commandPayload_def insertOutbox_def top
    apply (simp only: wp_funs)
    apply (rule weak [OF wp_InsertOrder refl])
    apply (rule weak [OF wp_insert_items], simp)
    apply (rule weak [OF wp_InsertSaga], simp)
    apply (rule weak [OF wp_InsertOutbox], simp)
    apply (rule weak [OF wp_InsertOutbox], simp)
    apply (rule wp_commitTx)
      apply (auto intro!: created_fromI)
    done
qed

text \<open>A creation as a whole adds the idempotency record of the request as well.\<close>

definition create_done ::
  "env \<Rightarrow> string \<Rightarrow> order \<Rightarrow> string \<Rightarrow> string \<Rightarrow> string \<Rightarrow> orders_db \<Rightarrow> orders_db \<Rightarrow> bool" where
  "create_done env actorID ord operation key hash db db' \<longleftrightarrow>
     (\<exists>ik. created_from env ord (db\<lparr>idempotency_records := idempotency_records db @ [ik]\<rparr>) db'
        \<and> idem_key ik = (actorID, operation, key) \<and> k_request_hash ik = hash
        \<and> k_resource_id ik = Some (ID ord)
        \<and> select_one (\<lambda>r. idem_key r = (actorID, operation, key)) (idempotency_records db) = None)"

definition replay_of ::
  "env \<Rightarrow> string \<Rightarrow> string \<Rightarrow> string \<Rightarrow> string \<Rightarrow> orders_db \<Rightarrow> order \<Rightarrow> bool" where
  "replay_of env actorID operation key hash db ord \<longleftrightarrow>
     (\<exists>ik r. ik \<in> set (idempotency_records db) \<and> idem_key ik = (actorID, operation, key)
        \<and> k_request_hash ik = hash \<and> r \<in> set (orders db)
        \<and> o_id r = nullable_text (k_resource_id ik) \<and> ord = stored_order env db r)"

lemma replay_ofI:
  "ik \<in> set (idempotency_records db) \<Longrightarrow> idem_key ik = (a, op, k) \<Longrightarrow> k_request_hash ik = h \<Longrightarrow>
   r \<in> set (orders db) \<Longrightarrow> o_id r = nullable_text (k_resource_id ik) \<Longrightarrow>
   replay_of env a op k h db (stored_order env db r)"
  unfolding replay_of_def by blast

lemma wp_replay_create:
  assumes "durable s = db" "work s = db"
  shows "wp env (replay_create cfg a op k h)
    (\<lambda>res s'. Replayed res \<and> durable s' = db \<and> replay_of env a op k h db (ResultOrder res))
    (\<lambda>_ s'. durable s' = db) s"
proof -
  have get: "wp env (stmt mapError (q_GetIdempotency a op k))
      (\<lambda>ik s'. durable s' = db \<and> work s' = db \<and> ik \<in> set (idempotency_records db)
         \<and> idem_key ik = (a, op, k)) (\<lambda>_ s'. durable s' = db) s"
    by (rule wp_stmt)
       (use assms in \<open>auto simp: q_GetIdempotency_def dest: select_one_Some split: option.splits\<close>)
  have load: "wp env (loadOrder OnTx i)
      (\<lambda>ord s''. durable s'' = d \<and> work s'' = d
         \<and> (\<exists>r \<in> set (orders d). o_id r = i \<and> ord = stored_order env d r))
      (\<lambda>_ s''. durable s'' = d) s'"
    if "durable s' = d" "work s' = d" for s' i d
    by (rule wp_mono [OF wp_loadOrder_tx]) (use that in auto)
  have fin: "wp env (commitTx mapError) Q (\<lambda>_ s''. durable s'' = d) s'"
    if "durable s' = d" "work s' = d" "\<And>s''. durable s'' = d \<Longrightarrow> Q () s''" for s' Q d
    by (rule wp_commitTx) (use that in auto)
  show ?thesis
    unfolding replay_create_def Let_def wp_bindA
    by (rule wp_mono [OF get])
       (auto simp: wp_rules intro!: wp_mono [OF load] fin replay_ofI)
qed

lemma wp_Store_Create:
  "wp env (Store_Create cfg a ord op k h)
     (\<lambda>res s'.
        (Replayed res \<and> durable s' = durable s \<and> replay_of env a op k h (durable s) (ResultOrder res))
        \<or> (\<not> Replayed res \<and> ResultOrder res = ord
            \<and> create_done env a ord op k h (durable s) (durable s')))
     (\<lambda>_ s'. durable s' = durable s \<or> create_done env a ord op k h (durable s) (durable s')) s"
proof -
  let ?db = "durable s"
  let ?key = "\<lambda>r. idem_key r = (a, op, k)"
  have ins: "wp env (stmt mapError (q_InsertIdempotency a op k h (Some (ID ord)) (Some 202) (Some body)
        (CreatedAt ord) x))
      (\<lambda>n s''. durable s'' = ?db \<and>
         (if n = 0 then work s'' = ?db
          else select_one ?key (idempotency_records ?db) = None
            \<and> (\<exists>ik. work s'' = ?db\<lparr>idempotency_records := idempotency_records ?db @ [ik]\<rparr>
                 \<and> idem_key ik = (a, op, k) \<and> k_request_hash ik = h
                 \<and> k_resource_id ik = Some (ID ord))))
      (\<lambda>_ s''. durable s'' = ?db) s'"
    if "durable s' = ?db" "work s' = ?db" for s' body x
    by (rule wp_stmt) (use that in \<open>auto simp: q_InsertIdempotency_def idem_key_def split: if_splits\<close>)
  have new: "wp env (insert_new_order cfg ord)
      (\<lambda>res s''. (Replayed res \<and> durable s'' = ?db \<and> replay_of env a op k h ?db (ResultOrder res))
         \<or> (\<not> Replayed res \<and> ResultOrder res = ord \<and> create_done env a ord op k h ?db (durable s'')))
      (\<lambda>_ s''. durable s'' = ?db \<or> create_done env a ord op k h ?db (durable s'')) s'"
    if "durable s' = ?db" "select_one ?key (idempotency_records ?db) = None"
      "work s' = ?db\<lparr>idempotency_records := idempotency_records ?db @ [ik]\<rparr>"
      "idem_key ik = (a, op, k)" "k_request_hash ik = h" "k_resource_id ik = Some (ID ord)" for s' ik
    by (rule wp_mono [OF wp_insert_new_order]) (use that in \<open>auto simp: create_done_def\<close>)
  let ?Q = "\<lambda>res s''. (Replayed res \<and> durable s'' = ?db \<and> replay_of env a op k h ?db (ResultOrder res))
         \<or> (\<not> Replayed res \<and> ResultOrder res = ord \<and> create_done env a ord op k h ?db (durable s''))"
  let ?E = "\<lambda>_ s''. durable s'' = ?db \<or> create_done env a ord op k h ?db (durable s'')"
  have replay: "wp env (replay_create cfg a op k h) ?Q ?E s'"
    if "durable s' = ?db" "work s' = ?db" for s'
    by (rule wp_mono [OF wp_replay_create [OF that]]) auto
  have body: "wp env (if n = 0 then replay_create cfg a op k h else insert_new_order cfg ord) ?Q ?E s''"
    if "durable s'' = ?db \<and>
         (if n = 0 then work s'' = ?db
          else select_one ?key (idempotency_records ?db) = None
            \<and> (\<exists>ik. work s'' = ?db\<lparr>idempotency_records := idempotency_records ?db @ [ik]\<rparr>
                 \<and> idem_key ik = (a, op, k) \<and> k_request_hash ik = h
                 \<and> k_resource_id ik = Some (ID ord)))" for n :: int and s''
    using that replay new by (cases "n = 0") auto
  show ?thesis
    unfolding Store_Create_def Let_def wp_bindA
  proof (rule wp_beginTx)
    show "wp env (stmt mapError (q_InsertIdempotency a op k h (Some (ID ord)) (Some 202)
          (Some (accepted_json cfg \<lparr>ar_OrderID = ID ord, ar_Status = status_text (Status ord),
             ar_CreatedAt = CreatedAt ord\<rparr>)) (CreatedAt ord) (plus_ns (CreatedAt ord) (hours 48))))
        (\<lambda>n. wp env (if n = 0 then replay_create cfg a op k h else insert_new_order cfg ord) ?Q ?E) ?E
        (tickOn (s\<lparr>work := durable s\<rparr>))"
      by (rule wp_mono [OF ins]) (simp_all add: body)
  qed simp
qed

lemma create_done_settled:
  assumes "orders_inv db" "fresh_order ord" "create_done env a ord op k h db db'"
  shows "orders_inv db' \<and> db_evolves db db'"
proof -
  from assms(3) obtain ik sg ev cmd where
    db': "db' = db\<lparr>idempotency_records := idempotency_records db @ [ik],
              orders := orders db @ [new_order_row env ord],
              order_items := order_items db @ numbered_items ord,
              saga_instances := saga_instances db @ [sg],
              outbox_events := outbox_events db @ [ev, cmd]\<rparr>"
    and chk: "order_check (new_order_row env ord)"
      "select_one (\<lambda>r. o_id r = ID ord) (orders db) = None"
    by (auto simp: create_done_def created_from_def)
  let ?new = "db\<lparr>orders := orders db @ [new_order_row env ord],
      order_items := order_items db @ numbered_items ord\<rparr>"
  have "orders_inv ?new" by (rule new_order_inv [OF assms(1,2) chk])
  moreover have "orders_inv db' = orders_inv ?new" using inv_cong [of db' ?new db] db' by simp
  ultimately have "orders_inv db'" by simp
  moreover have "db_evolves db db'"
    unfolding db_evolves_def using row_evolves_refl by (auto simp: db' intro!: bexI)
  ultimately show ?thesis by blast
qed

lemma wp_Store_Create_settled:
  assumes "orders_inv (durable s)" "fresh_order ord"
  shows "wp env (Store_Create cfg a ord op k h) (\<lambda>_. settled (durable s)) (\<lambda>_. settled (durable s)) s"
  by (rule wp_mono [OF wp_Store_Create])
     (use assms create_done_settled in \<open>auto simp: settled_def\<close>)

subsection \<open>Statements outside transactions\<close>

lemma wp_auto_frame:
  assumes "frame_query q" "orders_inv (durable s)"
  shows "wp env (autoQ h q) (\<lambda>_. settled (durable s)) (\<lambda>_. settled (durable s)) s"
proof -
  have "settled (durable s) (tickOn (s\<lparr>durable := w\<rparr>))"
    if "q env t (durable s) = Inr (x, w)" for t x w
    using assms that inv_cong [of w "durable s" "durable s"]
    by (simp add: settled_def frame_query_def)
  then show ?thesis
    by (intro wp_autoQ) (use assms(2) in \<open>auto simp: settled_def\<close>)
qed

lemma wp_outbox_settled:
  assumes "orders_inv (durable s)"
  shows "wp env (ClaimPendingOutbox ow li un) (\<lambda>_. settled (durable s)) (\<lambda>_. settled (durable s)) s"
    "wp env (MarkOutboxPublished xi at) (\<lambda>_. settled (durable s)) (\<lambda>_. settled (durable s)) s"
    "wp env (MarkOutboxFailed xi le nxt) (\<lambda>_. settled (durable s)) (\<lambda>_. settled (durable s)) s"
    "wp env (MarkFactDeadLetter g m le) (\<lambda>_. settled (durable s)) (\<lambda>_. settled (durable s)) s"
  unfolding ClaimPendingOutbox_def MarkOutboxPublished_def MarkOutboxFailed_def
    MarkFactDeadLetter_def wp_funs
  by (intro wp_auto_frame frame_queries assms)+

subsection \<open>Reachable tables\<close>

text \<open>
  One call of a method of the store that may change the tables, with any arguments, from
  any session over the committed tables, under any environment; the calls of concurrent
  processes are these steps in some order.
\<close>

inductive store_step :: "store_cfg \<Rightarrow> orders_db \<Rightarrow> orders_db \<Rightarrow> bool" for cfg where
  step_create: "fresh_order ord \<Longrightarrow> Store_Create cfg a ord op k h env s = (res, s') \<Longrightarrow>
    store_step cfg (durable s) (durable s')"
| step_cancel: "RequestCancellation cfg a oid op k h reason v at env s = (res', s') \<Longrightarrow>
    store_step cfg (durable s) (durable s')"
| step_fact: "ProcessFact cfg g payload env s = (res'', s') \<Longrightarrow>
    store_step cfg (durable s) (durable s')"
| step_failure: "RecordFactFailure cfg g payload reason at env s = (res''', s') \<Longrightarrow>
    store_step cfg (durable s) (durable s')"
| step_claim: "ClaimPendingOutbox ow li un env s = (res4, s') \<Longrightarrow>
    store_step cfg (durable s) (durable s')"
| step_published: "MarkOutboxPublished xi at env s = (res'', s') \<Longrightarrow>
    store_step cfg (durable s) (durable s')"
| step_failed: "MarkOutboxFailed xi le nxt env s = (res'', s') \<Longrightarrow>
    store_step cfg (durable s) (durable s')"
| step_dead: "MarkFactDeadLetter g m le env s = (res'', s') \<Longrightarrow>
    store_step cfg (durable s) (durable s')"

lemma store_step_settled:
  assumes "store_step cfg db db'" "orders_inv db"
  shows "orders_inv db' \<and> db_evolves db db'"
  using assms
proof (induction rule: store_step.induct)
  case (step_create ord a op k h env s res s')
  then show ?case
    using wp_both [OF wp_Store_Create_settled] unfolding settled_def by metis
next
  case (step_cancel a oid op k h reason v at env s res' s')
  then show ?case using wp_both [OF wp_RequestCancellation] unfolding settled_def by metis
next
  case (step_fact g payload env s res'' s')
  then show ?case using wp_both [OF wp_ProcessFact] unfolding settled_def by metis
next
  case (step_failure g payload reason at env s res''' s')
  then show ?case using wp_both [OF wp_RecordFactFailure] unfolding settled_def by metis
next
  case (step_claim ow li un env s res4 s')
  then show ?case using wp_both [OF wp_outbox_settled(1)] unfolding settled_def by metis
next
  case (step_published xi at env s res'' s')
  then show ?case using wp_both [OF wp_outbox_settled(2)] unfolding settled_def by metis
next
  case (step_failed xi le nxt env s res'' s')
  then show ?case using wp_both [OF wp_outbox_settled(3)] unfolding settled_def by metis
next
  case (step_dead g m le env s res'' s')
  then show ?case using wp_both [OF wp_outbox_settled(4)] unfolding settled_def by metis
qed

lemma store_steps_settled:
  "(store_step cfg)\<^sup>*\<^sup>* db db' \<Longrightarrow> orders_inv db \<Longrightarrow> orders_inv db' \<and> db_evolves db db'"
proof (induction rule: rtranclp_induct)
  case (step y z)
  then show ?case using store_step_settled db_evolves_trans by blast
qed simp

definition empty_db :: orders_db where
  "empty_db = \<lparr>orders = [], order_items = [], saga_instances = [], inbox_messages = [],
               outbox_events = [], idempotency_records = []\<rparr>"

lemma empty_inv: "orders_inv empty_db"
  by (simp add: orders_inv_def empty_db_def keyed_def)

end
