(* ===== verification/Orders_Service.thy ===== *)
theory Orders_Service
  imports Orders_Transactions
begin

section \<open>Orders: the application service\<close>

text \<open>
  \<^verbatim>\<open>apps/orders/internal/application/orders/service.go\<close>: input validation and
  authorization in front of the store.  The service reaches the store through the
  interface \<^verbatim>\<open>OrderStore\<close>: the record \<open>order_store_ops\<close> of its
  methods is an argument.  The locale \<open>order_store\<close> states what the service relies
  on; it is interpreted on the Postgres store.
\<close>

subsection \<open>Definitions\<close>

record order_store_ops =
  so_Create :: "string \<Rightarrow> order \<Rightarrow> string \<Rightarrow> string \<Rightarrow> string \<Rightarrow> create_result oact"
  so_FindByID :: "string \<Rightarrow> order oact"
  so_List :: "string \<Rightarrow> string \<Rightarrow> string \<Rightarrow> int \<Rightarrow> (order list \<times> string) oact"
  so_RequestCancellation ::
    "string \<Rightarrow> string \<Rightarrow> string \<Rightarrow> string \<Rightarrow> string \<Rightarrow> string \<Rightarrow> 64 word \<Rightarrow> gotime \<Rightarrow> order oact"

text \<open>The dependencies of \<^verbatim>\<open>Service\<close>: store, id generator, clock.\<close>

record service =
  sv_store :: order_store_ops
  sv_ids :: "string oact"
  sv_clock :: "gotime oact"
  sv_lib :: golib

record create_input =
  ci_Actor :: actor
  ci_CustomerID :: string
  ci_Currency :: string
  ci_Items :: "item list"
  ci_IdempotencyKey :: string

record cancel_input =
  xi_Actor :: actor
  xi_OrderID :: string
  xi_Reason :: string
  xi_IdempotencyKey :: string

record list_input =
  li_Actor :: actor
  li_CustomerID :: string
  li_Status :: string
  li_Cursor :: string
  li_Limit :: int

definition CreateOperation :: string where "CreateOperation = ''orders.create''"
definition CancelOperation :: string where "CancelOperation = ''orders.cancel''"
definition MaxPageSize :: int where "MaxPageSize = 100"

definition idempotencyKeyPattern :: "string \<Rightarrow> bool" where
  "idempotencyKeyPattern v = class_between key_char 16 256 v"

definition reasonPattern :: "string \<Rightarrow> bool" where
  "reasonPattern v = code_pattern 1 31 v"

definition actorPattern :: "string \<Rightarrow> bool" where
  "actorPattern v = tagged_id ''usr_'' v"

definition authorizeActor :: "actor \<Rightarrow> oerr option" where
  "authorizeActor a =
     (if Type a \<noteq> ''human'' \<or> \<not> actorPattern (Subject a) then Some (app_err ErrUnauthorized) else None)"

definition validStatus :: "string \<Rightarrow> bool" where
  "validStatus v \<longleftrightarrow>
     v \<in> {''PENDING'', ''CONFIRMED'', ''CANCEL_REQUESTED'', ''CANCELLED'', ''COMPLETED'', ''FAILED''}"

definition opt_json :: "('a \<Rightarrow> json) \<Rightarrow> 'a option \<Rightarrow> json" where
  "opt_json f v = (case v of None \<Rightarrow> JNull | Some x \<Rightarrow> f x)"

definition item_json :: "item \<Rightarrow> json" where
  "item_json it =
     JObj [(''ProductID'', JStr (ProductID it)), (''Quantity'', jint (Quantity it)),
           (''UnitPriceMinor'', opt_json jint (UnitPriceMinor it)),
           (''LineTotalMinor'', opt_json jint (LineTotalMinor it)),
           (''QuoteID'', opt_json JStr (QuoteID it)),
           (''QuoteVersion'', opt_json jint (QuoteVersion it))]"

definition requestHash :: "golib \<Rightarrow> json \<Rightarrow> string" where
  "requestHash gl v = hex_encode (sha256 gl (jsonPrint gl v))"

definition create_hash :: "golib \<Rightarrow> string \<Rightarrow> string \<Rightarrow> item list \<Rightarrow> string" where
  "create_hash gl customerID currency items =
     requestHash gl (JObj [(''CustomerID'', JStr customerID), (''Currency'', JStr currency),
                           (''Items'', JArr (map item_json items))])"

definition cancel_hash :: "golib \<Rightarrow> string \<Rightarrow> string \<Rightarrow> string" where
  "cancel_hash gl orderID reason =
     requestHash gl (JObj [(''OrderID'', JStr orderID), (''Reason'', JStr reason)])"

definition Service_Create :: "service \<Rightarrow> create_input \<Rightarrow> create_result oact" where
  "Service_Create sv inp =
     (let actor = ci_Actor inp; customer = ci_CustomerID inp in
      case authorizeActor actor of Some e \<Rightarrow> throw e | None \<Rightarrow>
      if \<not> idempotencyKeyPattern (ci_IdempotencyKey inp) then throw (app_err ErrInvalidInput)
      else if customer \<noteq> Subject actor \<and> \<not> HasScope actor ''orders:write:any''
      then throw (app_err ErrForbidden)
      else if customer = Subject actor \<and> \<not> HasScope actor ''orders:write:self''
              \<and> \<not> HasScope actor ''orders:write:any''
      then throw (app_err ErrForbidden)
      else
        bindA (sv_clock sv) (\<lambda>t.
        bindA (sv_ids sv) (\<lambda>oid.
        case NewOrder oid customer (ci_Currency inp) (ci_Items inp) (UTC t) of
          Inl d \<Rightarrow> throw (errJoin (app_err ErrInvalidInput) (dom_err d))
        | Inr ord \<Rightarrow>
            so_Create (sv_store sv) (Subject actor) ord CreateOperation (ci_IdempotencyKey inp)
              (create_hash (sv_lib sv) customer (ToUpper (TrimSpace (ci_Currency inp)))
                 (Items ord)))))"

definition Service_Get :: "service \<Rightarrow> actor \<Rightarrow> string \<Rightarrow> order oact" where
  "Service_Get sv actor orderID =
     (case authorizeActor actor of Some e \<Rightarrow> throw e | None \<Rightarrow>
      if \<not> ValidOrderID orderID then throw (app_err ErrInvalidInput)
      else
        bindA (so_FindByID (sv_store sv) orderID) (\<lambda>ord.
        if CustomerID ord \<noteq> Subject actor \<and> \<not> HasScope actor ''orders:read:any''
        then throw (app_err ErrNotFound)
        else if CustomerID ord = Subject actor \<and> \<not> HasScope actor ''orders:read:self''
                \<and> \<not> HasScope actor ''orders:read:any''
        then throw (app_err ErrForbidden)
        else ret ord))"

definition Service_List :: "service \<Rightarrow> list_input \<Rightarrow> (order list \<times> string) oact" where
  "Service_List sv inp =
     (let actor = li_Actor inp;
          target = (if li_CustomerID inp = '''' then Subject actor else li_CustomerID inp) in
      case authorizeActor actor of Some e \<Rightarrow> throw e | None \<Rightarrow>
      if li_Limit inp < 1 \<or> MaxPageSize < li_Limit inp then throw (app_err ErrInvalidInput)
      else if 256 < length (li_Cursor inp) then throw (app_err ErrInvalidCursor)
      else if li_Status inp \<noteq> '''' \<and> \<not> validStatus (li_Status inp)
      then throw (app_err ErrInvalidInput)
      else if target \<noteq> Subject actor \<and> \<not> HasScope actor ''orders:read:any''
      then throw (app_err ErrForbidden)
      else if target = Subject actor \<and> \<not> HasScope actor ''orders:read:self''
              \<and> \<not> HasScope actor ''orders:read:any''
      then throw (app_err ErrForbidden)
      else if \<not> ValidCustomerID target then throw (app_err ErrInvalidInput)
      else so_List (sv_store sv) target (li_Status inp) (li_Cursor inp) (li_Limit inp))"

definition cancel_reason :: "string \<Rightarrow> string" where
  "cancel_reason r = (let t = TrimSpace r in if t = '''' then ''CUSTOMER_REQUESTED'' else t)"

definition Service_Cancel :: "service \<Rightarrow> cancel_input \<Rightarrow> order oact" where
  "Service_Cancel sv inp =
     (let actor = xi_Actor inp in
      case authorizeActor actor of Some e \<Rightarrow> throw e | None \<Rightarrow>
      if \<not> idempotencyKeyPattern (xi_IdempotencyKey inp) then throw (app_err ErrInvalidInput)
      else if \<not> ValidOrderID (xi_OrderID inp) then throw (app_err ErrInvalidInput)
      else
        bindA (so_FindByID (sv_store sv) (xi_OrderID inp)) (\<lambda>ord.
        if CustomerID ord \<noteq> Subject actor \<and> \<not> HasScope actor ''orders:cancel:any''
        then throw (app_err ErrNotFound)
        else if CustomerID ord = Subject actor \<and> \<not> HasScope actor ''orders:cancel:self''
                \<and> \<not> HasScope actor ''orders:cancel:any''
        then throw (app_err ErrForbidden)
        else
          let reason = cancel_reason (xi_Reason inp) in
          if \<not> reasonPattern reason then throw (app_err ErrInvalidInput)
          else
            bindA (sv_clock sv) (\<lambda>t.
            so_RequestCancellation (sv_store sv) (Subject actor) (ID ord) CancelOperation
              (xi_IdempotencyKey inp) (cancel_hash (sv_lib sv) (xi_OrderID inp) reason) reason
              (Version ord) (UTC t))))"

text \<open>The Postgres store behind the interface.\<close>

definition postgres_ops :: "store_cfg \<Rightarrow> order_store_ops" where
  "postgres_ops cfg =
     \<lparr>so_Create = Store_Create cfg, so_FindByID = FindByID, so_List = Store_List cfg,
      so_RequestCancellation = RequestCancellation cfg\<rparr>"

subsection \<open>The store's contract\<close>

text \<open>
  \<open>good\<close> is the store's invariant on a session, \<open>holds s ord\<close> says that
  \<open>ord\<close> is what the store has for an order at \<open>s\<close>.
\<close>

locale order_store =
  fixes ops :: order_store_ops and good :: "orders_session \<Rightarrow> bool"
    and holds :: "orders_session \<Rightarrow> order \<Rightarrow> bool"
  assumes find_law: "good s \<Longrightarrow>
      wp env (so_FindByID ops oid) (\<lambda>ord s'. ID ord = oid \<and> holds s ord \<and> good s') (\<lambda>_. good) s"
    and create_law: "good s \<Longrightarrow> fresh_order ord \<Longrightarrow>
      wp env (so_Create ops a ord op k h) (\<lambda>_. good) (\<lambda>_. good) s"
    and list_law: "good s \<Longrightarrow> 1 \<le> n \<Longrightarrow> n \<le> MaxPageSize \<Longrightarrow>
      wp env (so_List ops c st cur n)
        (\<lambda>(ords, nxt) s'. good s' \<and> int (length ords) \<le> n
           \<and> (\<forall>ord \<in> set ords. holds s ord \<and> CustomerID ord = c
                \<and> (st = '''' \<or> status_text (Status ord) = st)))
        (\<lambda>_. good) s"
    and cancel_law: "good s \<Longrightarrow>
      wp env (so_RequestCancellation ops a oid op k h reason v at) (\<lambda>_. good) (\<lambda>_. good) s"

text \<open>The service on such a store, with an id generator and a clock that do not touch it.\<close>

locale order_service = order_store +
  fixes sv :: service
  assumes uses_ops: "sv_store sv = ops"
    and ids_law: "good s \<Longrightarrow> wp env (sv_ids sv) (\<lambda>_. good) (\<lambda>_. good) s"
    and clock_law: "good s \<Longrightarrow> wp env (sv_clock sv) (\<lambda>_. good) (\<lambda>_. good) s"
begin

lemma create_keeps: "good s \<Longrightarrow> wp env (Service_Create sv inp) (\<lambda>_. good) (\<lambda>_. good) s"
  unfolding Service_Create_def Let_def uses_ops
  by (auto simp: wp_rules intro!: wp_mono [OF clock_law] wp_mono [OF ids_law] create_law NewOrder_fresh
    split: option.splits sum.splits)

lemma cancel_keeps: "good s \<Longrightarrow> wp env (Service_Cancel sv inp) (\<lambda>_. good) (\<lambda>_. good) s"
  unfolding Service_Cancel_def Let_def uses_ops
  by (auto simp: wp_rules intro!: wp_mono [OF find_law] wp_mono [OF clock_law] cancel_law
    split: option.splits)

text \<open>A returned order is the requested one, stored, and visible to the actor.\<close>

lemma get_visible:
  "good s \<Longrightarrow>
   wp env (Service_Get sv actor oid)
     (\<lambda>ord s'. good s' \<and> ID ord = oid \<and> holds s ord \<and> Type actor = ''human''
        \<and> (HasScope actor ''orders:read:any''
           \<or> (CustomerID ord = Subject actor \<and> HasScope actor ''orders:read:self'')))
     (\<lambda>_. good) s"
  unfolding Service_Get_def uses_ops
  by (auto simp: wp_rules authorizeActor_def intro!: wp_mono [OF find_law])

lemma list_visible:
  "good s \<Longrightarrow>
   wp env (Service_List sv inp)
     (\<lambda>(ords, nxt) s'. good s' \<and> int (length ords) \<le> li_Limit inp \<and> Type (li_Actor inp) = ''human''
        \<and> (\<forall>ord \<in> set ords. holds s ord
             \<and> (HasScope (li_Actor inp) ''orders:read:any''
                \<or> (CustomerID ord = Subject (li_Actor inp)
                   \<and> HasScope (li_Actor inp) ''orders:read:self''))
             \<and> (li_Status inp = '''' \<or> status_text (Status ord) = li_Status inp)))
     (\<lambda>_. good) s"
  unfolding Service_List_def Let_def uses_ops
  by (auto simp: wp_rules authorizeActor_def intro!: wp_mono [OF list_law])

end

subsection \<open>The Postgres store fulfils the contract\<close>

lemma wp_auto_read:
  assumes "\<And>t x w. q env t (durable s) = Inr (x, w) \<Longrightarrow> w = durable s \<and> P x"
  shows "wp env (autoQ h q) (\<lambda>x s'. durable s' = durable s \<and> P x) (\<lambda>_ s'. durable s' = durable s) s"
  by (rule wp_autoQ) (use assms in auto)

lemma wp_loadOrder_db:
  "wp env (loadOrder OnDB oid)
     (\<lambda>ord s'. durable s' = durable s
        \<and> (\<exists>r \<in> set (orders (durable s)). o_id r = oid \<and> ord = stored_order env (durable s) r))
     (\<lambda>_ s'. durable s' = durable s) s"
proof -
  have items: "wp env (autoQ mapError (q_GetOrderItems i))
      (\<lambda>items s'. durable s' = durable s0 \<and> map item_of_row items = stored_items (durable s0) i)
      (\<lambda>_ s'. durable s' = durable s0) s0" for s0 i
    by (rule wp_auto_read) (auto simp: q_GetOrderItems_def stored_items_def)
  have row: "wp env (autoQ mapError (q_GetOrder oid))
      (\<lambda>r s'. durable s' = durable s \<and> (r \<in> set (orders (durable s)) \<and> o_id r = oid))
      (\<lambda>_ s'. durable s' = durable s) s"
    by (rule wp_auto_read) (auto simp: q_GetOrder_def dest: select_one_Some split: option.splits)
  show ?thesis
    unfolding loadOrder_def onQ_def conn.case wp_rules
    by (rule wp_mono [OF row]) (auto simp: wp_rules stored_order_def intro!: wp_mono [OF items])
qed

lemma wp_load_orders:
  "wp env (load_orders is)
     (\<lambda>ords s'. durable s' = durable s \<and> list_all2 (\<lambda>i ord. \<exists>r \<in> set (orders (durable s)).
        o_id r = i \<and> ord = stored_order env (durable s) r) is ords)
     (\<lambda>_ s'. durable s' = durable s) s"
proof (induction "is" arbitrary: s)
  case (Cons i "is")
  show ?case
    unfolding load_orders.simps wp_funs
    by (rule wp_mono [OF wp_loadOrder_db]) (auto simp: wp_rules intro!: wp_mono [OF Cons.IH])
qed (simp add: wp_rules)

lemma stored_order_simps [simp]:
  "ID (stored_order env db r) = o_id r" "CustomerID (stored_order env db r) = o_customer_id r"
  "Status (stored_order env db r) = status_of (o_status r)"
  "TotalMinor (stored_order env db r) = o_total_minor r"
  "ReservationID (stored_order env db r) = o_reservation_id r"
  "PaymentID (stored_order env db r) = o_payment_id r"
  "InventoryReleased (stored_order env db r) = o_inventory_released r"
  "PaymentRefunded (stored_order env db r) = o_payment_refunded r"
  "Items (stored_order env db r) = stored_items db (o_id r)"
  "CreatedAt (stored_order env db r) = scan_ts env (o_created_at r)"
  "Version (stored_order env db r) = uint64_of (o_aggregate_version r)"
  by (simp_all add: stored_order_def orderFromFields_def)

text \<open>The rows a listing selects, newest first.\<close>

definition listing :: "env \<Rightarrow> orders_db \<Rightarrow> string \<Rightarrow> string \<Rightarrow> cursor_value \<Rightarrow> order_row list" where
  "listing env db customerID status c =
     rev (sort_key list_key
       (filter (\<lambda>r. o_customer_id r = customerID \<and> (status = '''' \<or> o_status r = status)
                    \<and> before_cursor (map_option (ts env) (nullTime (cv_CreatedAt c)))
                        (nullString (cv_ID c)) r)
          (orders db)))"

lemma listing_member:
  "r \<in> set (listing env db c st cv) \<Longrightarrow>
     r \<in> set (orders db) \<and> o_customer_id r = c \<and> (st = '''' \<or> o_status r = st)"
  by (auto simp: listing_def)

lemma load_rows:
  assumes key: "keyed o_id (orders db)" and rows: "set rows \<subseteq> set (orders db)"
    and all: "list_all2 (\<lambda>i ord. \<exists>r \<in> set (orders db). o_id r = i \<and> ord = stored_order env db r)
      (map o_id rows) ords"
  shows "ords = map (stored_order env db) rows"
  using rows all
proof (induction rows arbitrary: ords)
  case (Cons r rows)
  then obtain x ords' r' where "ords = x # ords'" "r' \<in> set (orders db)" "o_id r' = o_id r"
    "x = stored_order env db r'"
    "list_all2 (\<lambda>i ord. \<exists>r \<in> set (orders db). o_id r = i \<and> ord = stored_order env db r)
      (map o_id rows) ords'"
    by (auto simp: list_all2_Cons1)
  moreover from this have "r' = r" using keyed_inj [OF key] Cons.prems(1) by simp
  ultimately show ?case using Cons by simp
qed simp

definition next_cursor :: "store_cfg \<Rightarrow> string \<Rightarrow> string \<Rightarrow> order \<Rightarrow> string" where
  "next_cursor cfg customerID status ord =
     encodeSignedCursor cfg \<lparr>cv_CustomerID = customerID, cv_Status = status,
                             cv_CreatedAt = CreatedAt ord, cv_ID = ID ord\<rparr>"

lemma wp_Store_List:
  assumes key: "keyed o_id (orders (durable s))" and n: "1 \<le> n" "n \<le> MaxPageSize"
  shows "wp env (Store_List cfg c st cur n)
    (\<lambda>(ords, nxt) s'. durable s' = durable s \<and>
       (\<exists>cv. list_cursor cfg c st cur = Some cv \<and>
          (let full = listing env (durable s) c st cv; page = take (nat n) full in
           ords = map (stored_order env (durable s)) page
           \<and> nxt = (if int (length full) \<le> n then ''''
                    else next_cursor cfg c st (stored_order env (durable s) (last page))))))
    (\<lambda>_ s'. durable s' = durable s) s"
proof (cases "list_cursor cfg c st cur")
  case None
  then show ?thesis by (simp add: Store_List_def wp_rules)
next
  case (Some cv)
  let ?full = "listing env (durable s) c st cv"
  have w: "wrap32 (n + 1) = n + 1"
    using n by (intro wrap32_id) (simp add: in_int32_def MaxPageSize_def)
  have rows: "wp env (autoQ mapError (q_ListOrders c st (nullTime (cv_CreatedAt cv))
        (nullString (cv_ID cv)) (wrap32 (n + 1))))
      (\<lambda>rows s'. durable s' = durable s \<and> rows = take (nat (n + 1)) ?full)
      (\<lambda>_ s'. durable s' = durable s) s"
    by (rule wp_auto_read) (use n in \<open>auto simp: q_ListOrders_def w listing_def\<close>)
  have more: "n < int (length (take (nat (n + 1)) ?full)) \<longleftrightarrow> n < int (length ?full)"
    using n by auto
  have page: "(if n < int (length ?full) then take (nat n) (take (nat (n + 1)) ?full)
      else take (nat (n + 1)) ?full) = take (nat n) ?full"
    using n by (auto simp: min_def nat_add_distrib)
  have ne: "n < int (length ?full) \<Longrightarrow> take (nat n) ?full \<noteq> []" using n by auto
  have all: "set ?full \<subseteq> set (orders (durable s))" using listing_member by fastforce
  have sub: "set (take (nat n) ?full) \<subseteq> set (orders (durable s))"
    using listing_member in_set_takeD by fastforce
  show ?thesis
    unfolding Store_List_def Some option.case Let_def wp_bindA
  proof (rule wp_mono [OF rows])
    fix rows0 and s' :: orders_session
    assume a: "durable s' = durable s \<and> rows0 = take (nat (n + 1)) ?full"
    show "wp env (load_orders (map o_id (if n < int (length rows0) then take (nat n) rows0 else rows0)))
      (\<lambda>ords. wp env (if \<not> n < int (length rows0) \<or> ords = [] then ret (ords, '''')
           else ret (ords, encodeSignedCursor cfg \<lparr>cv_CustomerID = c, cv_Status = st,
              cv_CreatedAt = CreatedAt (last ords), cv_ID = ID (last ords)\<rparr>))
         (\<lambda>(ords, nxt) s''. durable s'' = durable s \<and>
           (\<exists>cva. Some cv = Some cva \<and> ords = map (stored_order env (durable s))
                (take (nat n) (listing env (durable s) c st cva))
              \<and> nxt = (if int (length (listing env (durable s) c st cva)) \<le> n then ''''
                 else next_cursor cfg c st (stored_order env (durable s)
                   (last (take (nat n) (listing env (durable s) c st cva)))))))
         (\<lambda>_ s''. durable s'' = durable s))
      (\<lambda>_ s''. durable s'' = durable s) s'"
      using a ne
      by (intro wp_mono [OF wp_load_orders])
         (auto simp: more page wp_rules next_cursor_def last_map dest!: load_rows [OF key sub]
           load_rows [OF key all])
  qed simp
qed

definition stored_good :: "orders_session \<Rightarrow> bool" where
  "stored_good s = orders_inv (durable s)"

definition stored_holds :: "orders_session \<Rightarrow> order \<Rightarrow> bool" where
  "stored_holds s ord \<longleftrightarrow> (\<exists>env. \<exists>r \<in> set (orders (durable s)). ord = stored_order env (durable s) r)"

lemma stored_holdsI [intro]: "r \<in> set (orders (durable s)) \<Longrightarrow> stored_holds s (stored_order env (durable s) r)"
  unfolding stored_holds_def by blast

interpretation pg: order_store "postgres_ops cfg" stored_good stored_holds for cfg
proof
  fix s :: orders_session and env oid assume "stored_good s"
  then show "wp env (so_FindByID (postgres_ops cfg) oid)
      (\<lambda>ord s'. ID ord = oid \<and> stored_holds s ord \<and> stored_good s') (\<lambda>_. stored_good) s"
    unfolding postgres_ops_def order_store_ops.simps FindByID_def
    by (intro wp_mono [OF wp_loadOrder_db]) (auto simp: stored_good_def)
next
  fix s :: orders_session and env ord a op k h assume "stored_good s" "fresh_order ord"
  then show "wp env (so_Create (postgres_ops cfg) a ord op k h) (\<lambda>_. stored_good) (\<lambda>_. stored_good) s"
    unfolding postgres_ops_def order_store_ops.simps stored_good_def
    by (intro wp_mono [OF wp_Store_Create_settled]) (auto simp: settled_def)
next
  fix s :: orders_session and env c st cur n assume g: "stored_good s" "1 \<le> n" "n \<le> MaxPageSize"
  then have "keyed o_id (orders (durable s))" by (simp add: stored_good_def orders_inv_def)
  then show "wp env (so_List (postgres_ops cfg) c st cur n)
        (\<lambda>(ords, nxt) s'. stored_good s' \<and> int (length ords) \<le> n
           \<and> (\<forall>ord \<in> set ords. stored_holds s ord \<and> CustomerID ord = c
                \<and> (st = '''' \<or> status_text (Status ord) = st)))
        (\<lambda>_. stored_good) s"
    unfolding postgres_ops_def order_store_ops.simps
    by (intro wp_mono [OF wp_Store_List])
       (use g in \<open>auto simp: stored_good_def Let_def dest!: in_set_takeD listing_member\<close>)
next
  fix s :: orders_session and env a oid op k h reason v at assume "stored_good s"
  then show "wp env (so_RequestCancellation (postgres_ops cfg) a oid op k h reason v at)
      (\<lambda>_. stored_good) (\<lambda>_. stored_good) s"
    unfolding postgres_ops_def order_store_ops.simps stored_good_def
    by (intro wp_mono [OF wp_RequestCancellation]) (auto simp: settled_def)
qed

text \<open>
  The service as \<^verbatim>\<open>cmd/api\<close> wires it: the Postgres store, generated ids and the
  system clock.
\<close>

definition api_service :: "store_cfg \<Rightarrow> service" where
  "api_service cfg =
     \<lparr>sv_store = postgres_ops cfg, sv_ids = bindA newUUID (\<lambda>u. ret (''ord_'' @ filter (\<lambda>c. c \<noteq> CHR ''-'') u)),
      sv_clock = clockNow, sv_lib = lib cfg\<rparr>"

interpretation api: order_service "postgres_ops cfg" stored_good stored_holds "api_service cfg" for cfg
  by unfold_locales (auto simp: api_service_def wp_rules stored_good_def)

end
