(* ===== verification/Keyset.thy ===== *)
theory Keyset
  imports Prelude
begin

section \<open>Keyset pagination\<close>

text \<open>
  The pagination scheme of the services: rows in descending order of a unique key, a page
  is the first \<open>n\<close> of them, and the next page asks for the rows before the key of
  the last row returned.  The locale states what a service has to provide, a key and a
  \<open>before\<close> test that compares with it; its lemma says that the next request
  selects exactly the rest.
\<close>

definition newest_first :: "('r \<Rightarrow> 'k :: linorder) \<Rightarrow> 'r list \<Rightarrow> 'r list" where
  "newest_first key rows = rev (sort_key key rows)"

lemma set_newest_first [simp]: "set (newest_first key rows) = set rows"
  by (simp add: newest_first_def)

lemma newest_first_filter: "newest_first key (filter p rows) = filter p (newest_first key rows)"
  unfolding newest_first_def by (metis filter_sort rev_filter)

lemma newest_first_desc:
  assumes "distinct (map key rows)"
  shows "sorted_wrt (\<lambda>a b. key b < key a) (newest_first key rows)"
proof -
  have "sorted (map key (sort_key key rows))" by simp
  moreover have "distinct (map key (sort_key key rows))"
    using assms by (metis distinct_map distinct_sort set_sort)
  ultimately have "sorted_wrt (<) (map key (sort_key key rows))"
    using strict_sorted_iff by blast
  then show ?thesis by (simp add: newest_first_def sorted_wrt_map sorted_wrt_rev)
qed

lemma below_last:
  assumes "sorted_wrt (\<lambda>a b. key b < key a) xs" "n < length xs" "0 < n"
  shows "filter (\<lambda>r. key r < (key (last (take n xs)) :: 'k :: linorder)) xs = drop n xs"
proof -
  let ?p = "\<lambda>r. key r < key (last (take n xs))"
  have ne: "take n xs \<noteq> []" using assms by auto
  have split: "sorted_wrt (\<lambda>a b. key b < key a) (take n xs @ drop n xs)" using assms by simp
  have "\<not> ?p r" if "r \<in> set (take n xs)" for r
  proof -
    have "take n xs = butlast (take n xs) @ [last (take n xs)]" using ne by simp
    moreover have "sorted_wrt (\<lambda>a b. key b < key a) (take n xs)"
      using split by (simp add: sorted_wrt_append del: append_take_drop_id)
    ultimately have "\<forall>a \<in> set (butlast (take n xs)). key (last (take n xs)) < key a"
      by (metis sorted_wrt_append list.set_intros(1))
    then show ?thesis
      using that \<open>take n xs = _\<close> by (metis Un_iff empty_iff insert_iff less_asym list.set(1) list.simps(15)
        order_less_irrefl set_append)
  qed
  moreover have "?p r" if "r \<in> set (drop n xs)" for r
    using split that ne by (simp add: sorted_wrt_append del: append_take_drop_id)
  ultimately have "filter ?p (take n xs) = []" "filter ?p (drop n xs) = drop n xs"
    by (simp_all add: filter_empty_conv filter_id_conv)
  then show ?thesis by (metis append_Nil append_take_drop_id filter_append)
qed

locale keyset_page =
  fixes key :: "'r \<Rightarrow> 'k :: linorder" and before :: "'c \<Rightarrow> 'r \<Rightarrow> bool"
    and position :: "'r \<Rightarrow> 'c"
  assumes before_law: "before (position x) r \<longleftrightarrow> key r < key x"
begin

lemma next_page:
  assumes "distinct (map key rows)" "0 < n" "n < length (newest_first key rows)"
  shows "newest_first key (filter (before (position (last (take n (newest_first key rows))))) rows)
    = drop n (newest_first key rows)"
  unfolding newest_first_filter before_law
  by (rule below_last [OF newest_first_desc [OF assms(1)] assms(3,2)])

end

end
