(* ===== verification/Orders_Listing.thy ===== *)
theory Orders_Listing
  imports Orders_Service Keyset
begin

section \<open>Orders: cursors and pages\<close>

text \<open>
  The cursors of \<^verbatim>\<open>store.go\<close>: a cursor the store issued decodes to the value
  it was made from, a cursor that decodes under a secret carries the authentication code of
  that secret, and the page a cursor asks for continues where the page it came with ended.
\<close>

subsection \<open>Cursor round trip\<close>

definition row_cursor :: "env \<Rightarrow> string \<Rightarrow> string \<Rightarrow> order_row \<Rightarrow> cursor_value" where
  "row_cursor env customerID status r =
     \<lparr>cv_CustomerID = customerID, cv_Status = status, cv_CreatedAt = scan_ts env (o_created_at r),
      cv_ID = o_id r\<rparr>"

text \<open>
  What the encoders have to do for a cursor: JSON and timestamps survive the round trip and
  the sizes are within the decoder's limits.
\<close>

definition cursor_codec :: "store_cfg \<Rightarrow> cursor_value \<Rightarrow> bool" where
  "cursor_codec cfg v \<longleftrightarrow>
     (let text = jsonPrint (lib cfg) (cursor_json cfg v) in
      json_roundtrip (lib cfg) (cursor_json cfg v) \<and> time_roundtrip (lib cfg) (cv_CreatedAt v)
      \<and> text \<noteq> '''' \<and> length text \<le> 1024
      \<and> length (b64_encode (hmac256 (lib cfg) (cursorSecret cfg) (b64_encode text))) \<le> 128)"

lemma b64_encode_empty: "b64_encode s = '''' \<longleftrightarrow> s = ''''"
proof -
  have "b64_groups bs = [] \<longleftrightarrow> bs = []" for bs by (cases bs rule: b64_groups.cases) auto
  then show ?thesis by (simp add: b64_encode_def)
qed

lemma decode_cursor_json:
  assumes "time_roundtrip (lib cfg) (cv_CreatedAt v)"
  shows "decode_struct (cursor_fields cfg) (cursor_json cfg v) zero_cursor = (True, v)"
  using assms
  by (simp add: decode_struct_def cursor_json_def cursor_fields_def upper_byte_def is_lower_def
    between_def dec_str_def dec_time_def jtime_def time_roundtrip_def zero_cursor_def)

lemma decode_encode_cursor:
  assumes "cursor_codec cfg v" "cv_CustomerID v \<noteq> ''''" "cv_ID v \<noteq> ''''" "\<not> IsZero (cv_CreatedAt v)"
  shows "decodeSignedCursor cfg (encodeSignedCursor cfg v) = Some v"
proof -
  let ?text = "jsonPrint (lib cfg) (cursor_json cfg v)"
  have dec: "decodeCursor cfg (encodeCursor cfg v) = Some v"
    using assms decode_cursor_json [of cfg v]
    by (simp add: decodeCursor_def encodeCursor_def b64_decode_encode cursor_codec_def Let_def
      json_roundtrip_def)
  show ?thesis
  proof (cases "cursorSecret cfg = ''''")
    case True
    then show ?thesis using dec by (simp add: decodeSignedCursor_def encodeSignedCursor_def Let_def)
  next
    case False
    let ?mac = "hmac256 (lib cfg) (cursorSecret cfg) (encodeCursor cfg v)"
    have "SplitOn CHR ''.'' (encodeCursor cfg v @ CHR ''.'' # b64_encode ?mac)
        = [encodeCursor cfg v, b64_encode ?mac]"
      using b64_encode_no_dot by (simp add: encodeCursor_def SplitOn_append SplitOn_no_sep)
    moreover have "length (b64_encode ?mac) \<le> 128"
      using assms(1) by (simp add: cursor_codec_def encodeCursor_def Let_def)
    ultimately show ?thesis
      using False dec
      by (simp add: decodeSignedCursor_def encodeSignedCursor_def Let_def b64_decode_encode)
  qed
qed

lemma encodeSignedCursor_nonempty:
  "cursor_codec cfg v \<Longrightarrow> encodeSignedCursor cfg v \<noteq> ''''"
  by (auto simp: encodeSignedCursor_def encodeCursor_def Let_def cursor_codec_def b64_encode_empty)

lemma list_cursor_issued:
  assumes "cursor_codec cfg v" "cv_CustomerID v \<noteq> ''''" "cv_ID v \<noteq> ''''" "\<not> IsZero (cv_CreatedAt v)"
  shows "list_cursor cfg (cv_CustomerID v) (cv_Status v) (encodeSignedCursor cfg v) = Some v"
  using decode_encode_cursor [OF assms] encodeSignedCursor_nonempty [OF assms(1)]
  by (simp add: list_cursor_def)

text \<open>A cursor accepted under a secret is authentic.\<close>

lemma decodeSignedCursor_mac:
  assumes "decodeSignedCursor cfg cur = Some v" "cursorSecret cfg \<noteq> ''''"
  shows "\<exists>p0 p1. cur = p0 @ ''.'' @ p1
    \<and> b64_decode p1 = Some (hmac256 (lib cfg) (cursorSecret cfg) p0) \<and> decodeCursor cfg p0 = Some v"
proof -
  from assms obtain p0 p1 where "SplitOn CHR ''.'' cur = [p0, p1]"
    "b64_decode p1 = Some (hmac256 (lib cfg) (cursorSecret cfg) p0)" "decodeCursor cfg p0 = Some v"
    by (auto simp: decodeSignedCursor_def split: list.splits option.splits if_splits)
  moreover from this have "cur = p0 @ ''.'' @ p1"
    using JoinWith_SplitOn [of "CHR ''.''" cur] by simp
  ultimately show ?thesis by blast
qed

subsection \<open>Pages\<close>

definition key_before :: "int \<times> string \<Rightarrow> order_row \<Rightarrow> bool" where
  "key_before k r = before_cursor (Some (fst k)) (Some (snd k)) r"

interpretation op: keyset_page list_key key_before list_key
  by unfold_locales (auto simp: key_before_def before_cursor_def list_key_def less_prod_def)

lemma listing_newest_first:
  "listing env db c st cv = newest_first list_key
     (filter (\<lambda>r. before_cursor (map_option (ts env) (nullTime (cv_CreatedAt cv))) (nullString (cv_ID cv)) r)
       (filter (\<lambda>r. o_customer_id r = c \<and> (st = '''' \<or> o_status r = st)) (orders db)))"
  by (simp add: listing_def newest_first_def conj_ac)

lemma distinct_list_key: "keyed o_id (orders db) \<Longrightarrow> distinct (map list_key (filter p (orders db)))"
  unfolding keyed_def distinct_map by (auto intro!: inj_onI dest: inj_onD simp: list_key_def)

text \<open>
  \<open>exact_time env r\<close>: the creation time of a stored row is what the driver stores for
  it, and it is not Go's zero time.
\<close>

definition exact_time :: "env \<Rightarrow> order_row \<Rightarrow> bool" where
  "exact_time env r \<longleftrightarrow> pgTime env (o_created_at r) = o_created_at r \<and> o_created_at r \<noteq> 0"

lemma listing_next:
  assumes key: "keyed o_id (orders db)" and n: "0 < n" "n < length (listing env db c st cv)"
    and ok: "\<forall>r \<in> set (orders db). exact_time env r \<and> o_id r \<noteq> ''''"
  shows "listing env db c st (row_cursor env c st (last (take n (listing env db c st cv))))
    = drop n (listing env db c st cv)"
proof -
  let ?base = "filter (\<lambda>r. o_customer_id r = c \<and> (st = '''' \<or> o_status r = st)) (orders db)"
  let ?p = "\<lambda>r. before_cursor (map_option (ts env) (nullTime (cv_CreatedAt cv))) (nullString (cv_ID cv)) r"
  let ?full = "listing env db c st cv" and ?z = "last (take n (listing env db c st cv))"
  have zin: "?z \<in> set ?full" using n by (metis in_set_takeD last_in_set less_nat_zero_code
        length_0_conv take_eq_Nil neq0_conv)
  then have z: "?z \<in> set (orders db)" "?p ?z" by (auto simp: listing_def)
  have cur: "listing env db c st (row_cursor env c st ?z) = newest_first list_key (filter (key_before (list_key ?z)) ?base)"
    using ok z(1)
    by (simp add: listing_newest_first row_cursor_def key_before_def list_key_def exact_time_def
      nullTime_def IsZero_def scan_ts_def nullString_def ts_def)
  have mono: "?p r" if "key_before (list_key ?z) r" for r
    using z(2) that
    by (auto simp: key_before_def before_cursor_def list_key_def split: option.splits)
  then have eq: "filter (key_before (list_key ?z)) ?base = filter (key_before (list_key ?z)) (filter ?p ?base)"
    by (auto intro: filter_cong)
  have full: "?full = newest_first list_key (filter ?p ?base)" by (rule listing_newest_first)
  have "distinct (map list_key (filter ?p ?base))"
    using distinct_list_key [OF key] by (simp only: filter_filter)
  then have "newest_first list_key (filter (key_before (list_key ?z)) (filter ?p ?base)) = drop n ?full"
    unfolding full by (rule op.next_page) (use n in \<open>simp_all only: full\<close>)
  then show ?thesis unfolding cur eq .
qed

end
