(* ===== verification/Orders_Delivery.thy ===== *)
theory Orders_Delivery
  imports Orders_Listing
begin

section \<open>Orders: delivery of facts\<close>

text \<open>
  What \<^const>\<open>ProcessFact\<close> and \<^const>\<open>RecordFactFailure\<close> do to the inbox: a
  handled fact is not applied again, a successful call leaves the fact handled, a failed one
  changes nothing unless only the acknowledgement of its commit was lost, and every recorded
  failure counts one attempt.
\<close>

subsection \<open>Frames\<close>

text \<open>
  Inside the transaction of a fact: nothing is committed, the inbox and the idempotency
  records stay as they are, and the outbox only grows.
\<close>

definition fact_frame :: "orders_session \<Rightarrow> orders_session \<Rightarrow> bool" where
  "fact_frame s s' \<longleftrightarrow>
     durable s' = durable s
     \<and> inbox_messages (work s') = inbox_messages (work s)
     \<and> idempotency_records (work s') = idempotency_records (work s)
     \<and> (\<exists>new. outbox_events (work s') = outbox_events (work s) @ new)"

interpretation ff: session_frame fact_frame
proof
  fix s t u :: orders_session
  assume "fact_frame s t" "fact_frame t u"
  then show "fact_frame s u" unfolding fact_frame_def by (metis append_assoc)
qed (simp add: fact_frame_def)

definition body_query :: "(orders_db, 'a) query \<Rightarrow> bool" where
  "body_query q \<longleftrightarrow>
     (\<forall>env t db x w. q env t db = Inr (x, w) \<longrightarrow>
        inbox_messages w = inbox_messages db \<and> idempotency_records w = idempotency_records db
        \<and> (\<exists>new. outbox_events w = outbox_events db @ new))"

lemma keeps_stmt: "body_query q \<Longrightarrow> keeps fact_frame (stmt h q)"
  by (fastforce simp: keeps_def body_query_def stmt_def bindA_def runQ_def throw_def ret_def
    fact_frame_def tickOn_def split: option.splits sum.splits)

lemma keeps_leaves:
  "keeps fact_frame newUUID" "keeps fact_frame clockNow" "keeps fact_frame httpGet"
  "keeps fact_frame getEnv" "keeps fact_frame getKeys" "keeps fact_frame (setKeys k t)"
  by (simp_all add: keeps_def newUUID_def clockNow_def httpGet_def getEnv_def getKeys_def setKeys_def
    fact_frame_def)

lemma update_orders_frame:
  "update_orders p f db = Inr (n, w) \<Longrightarrow>
     inbox_messages w = inbox_messages db \<and> idempotency_records w = idempotency_records db
     \<and> outbox_events w = outbox_events db"
  by (auto simp: update_orders_def Let_def split: if_splits)

lemma body_queries:
  "body_query (q_GetOrder oid)" "body_query (q_GetOrderItems oid)" "body_query (q_GetSagaByOrderID oid)"
  "body_query (q_InsertOutbox xi tp pk mt aty ai pl hdr ca)" "body_query (q_UpdateSagaPhase sid ph ca)"
  "body_query (q_UpdateOrderItemQuote oid pid up lt qid qv)"
  "body_query (q_UpdateOrderWorkflowState oid st fl rs py sh tm at v)"
  "body_query (q_MarkInventoryReleased oid at v)" "body_query (q_MarkPaymentRefunded oid at v)"
  by (auto simp: body_query_def q_GetOrder_def q_GetOrderItems_def q_GetSagaByOrderID_def
    q_InsertOutbox_def q_UpdateSagaPhase_def q_UpdateOrderItemQuote_def q_MarkInventoryReleased_def
    q_MarkPaymentRefunded_def q_UpdateOrderWorkflowState_def Let_def
    dest!: update_orders_frame split: if_splits option.splits)


lemmas keeps_basic = ff.keeps_rules keeps_leaves keeps_stmt body_queries

lemma keeps_outbox:
  "keeps fact_frame (insertOutbox mt oid pl at)"
  "keeps fact_frame (eventPayloadFor cfg et ord sid ca op dt)"
  "keeps fact_frame (commandPayload cfg ct ord sid ca op dt)"
  "keeps fact_frame (updateWorkflow ord st fl rs py sh tm at)"
  unfolding insertOutbox_def eventPayloadFor_def commandPayload_def updateWorkflow_def
    updateWorkflowAtVersion_def
  by (intro keeps_basic)+

lemma keeps_compensation:
  "keeps fact_frame (insertCompensationCommands cfg ord sid ca et at)"
  "keeps fact_frame (markInventoryReleased ord at)" "keeps fact_frame (markPaymentRefunded ord at)"
  "keeps fact_frame (maybeCompleteCancellation cfg ord sid ca at)"
  unfolding insertCompensationCommands_def markInventoryReleased_def markPaymentRefunded_def
    maybeCompleteCancellation_def
  by (intro keeps_basic keeps_outbox)+

lemma keeps_quote:
  "keeps fact_frame (quote_key gl k)" "keeps fact_frame (quote_Verify gl u q k j now)"
  unfolding quote_Verify_def quote_key_def fetch_keys_def by (intro keeps_basic)+

lemma keeps_reserved:
  "keeps fact_frame (applyInventoryReserved cfg ord e now)"
  unfolding applyInventoryReserved_def apply_quote_fact_def store_quote_def update_quoted_items_def
  by (intro keeps_basic keeps_outbox keeps_compensation keeps_quote)

lemma keeps_apply:
  "keeps fact_frame (applyPaymentAuthorized cfg ord e now)"
  "keeps fact_frame (applyInventoryReleased cfg ord e now)"
  "keeps fact_frame (applyPaymentRefunded cfg ord e now)"
  "keeps fact_frame (fail_order cfg ord e now)" "keeps fact_frame (cancel_rejected cfg ord e now)"
  "keeps fact_frame (complete_order cfg ord e now)"
  unfolding applyPaymentAuthorized_def confirm_order_def applyInventoryReleased_def
    applyPaymentRefunded_def fail_order_def cancel_rejected_def complete_order_def
  by (intro keeps_basic keeps_outbox keeps_compensation)+

lemma keeps_apply_fact: "keeps fact_frame (apply_fact cfg ord e now)"
  unfolding apply_fact_def by (intro keeps_basic keeps_reserved keeps_apply)

lemma keeps_loadOrder: "keeps fact_frame (loadOrder OnTx oid)"
  unfolding loadOrder_def onQ_def conn.case by (intro keeps_basic)


subsection \<open>The inbox\<close>

definition inbox_row_of :: "orders_db \<Rightarrow> string \<Rightarrow> string \<Rightarrow> inbox_row option" where
  "inbox_row_of db g m = select_one (\<lambda>r. inbox_key r = (g, m)) (inbox_messages db)"

definition handled :: "orders_db \<Rightarrow> string \<Rightarrow> string \<Rightarrow> bool" where
  "handled db g m \<longleftrightarrow>
     (case inbox_row_of db g m of None \<Rightarrow> False | Some r \<Rightarrow> b_status r \<in> {''PROCESSED'', ''DLQ''})"

definition failures :: "orders_db \<Rightarrow> string \<Rightarrow> string \<Rightarrow> int" where
  "failures db g m = (case inbox_row_of db g m of None \<Rightarrow> 0 | Some r \<Rightarrow> b_attempts r)"

lemma inbox_key_simps:
  "inbox_key (r\<lparr>b_status := a, b_processed_at := b, b_last_error := c\<rparr>) = inbox_key r"
  "inbox_key (r\<lparr>b_status := a, b_last_error := c, b_next_attempt_at := d\<rparr>) = inbox_key r"
  "inbox_key (r\<lparr>b_status := a, b_attempts := n, b_last_error := c, b_next_attempt_at := d\<rparr>)
     = inbox_key r"
  by (simp_all add: inbox_key_def)

lemma inbox_update:
  "(\<And>r. inbox_key (f r) = inbox_key r) \<Longrightarrow>
   inbox_row_of (db\<lparr>inbox_messages := update_where (\<lambda>r. inbox_key r = (g, m)) f (inbox_messages db)\<rparr>) g m
     = map_option f (inbox_row_of db g m)"
  unfolding inbox_row_of_def
  by (simp add: select_one_update_where, rule option.map_cong) (auto dest: select_one_Some)

lemma inbox_after_processed:
  "q_MarkInboxProcessed g m at env t db = Inr (x, w) \<Longrightarrow>
     inbox_row_of w g m = map_option (\<lambda>r. r\<lparr>b_status := ''PROCESSED'', b_processed_at := Some (ts env at),
       b_last_error := None\<rparr>) (inbox_row_of db g m)"
  unfolding q_MarkInboxProcessed_def by (auto simp: inbox_update inbox_key_simps)

lemma inbox_after_dead:
  "q_MarkInboxDeadLetter g m le env t db = Inr (x, w) \<Longrightarrow>
     inbox_row_of w g m = map_option (\<lambda>r. r\<lparr>b_status := ''DLQ'', b_last_error := Some le,
       b_next_attempt_at := None\<rparr>) (inbox_row_of db g m)"
  unfolding q_MarkInboxDeadLetter_def by (auto simp: inbox_update inbox_key_simps)

definition faulty :: "env \<Rightarrow> bool" where
  "faulty env \<longleftrightarrow> (\<exists>n. failAt env n \<noteq> None)"

lemma wp_commitTx_fault:
  assumes "Q () (tickOn (s\<lparr>durable := work s\<rparr>))" and "\<And>d. E (h d) (tickOn s)"
    and "\<And>d. faulty env \<Longrightarrow> E (h d) (tickOn (s\<lparr>durable := work s\<rparr>))"
  shows "wp env (commitTx h) Q E s"
  using assms by (auto simp: wp_def commitTx_def faulty_def split: option.splits)

lemma wp_settle_handled:
  assumes row: "inbox_row_of (work s) g (fe_EventID e) \<noteq> None"
  shows "wp env (settle_fact cfg g e oid)
    (\<lambda>_ s'. handled (durable s') g (fe_EventID e))
    (\<lambda>_ s'. durable s' = durable s \<or> faulty env \<and> handled (durable s') g (fe_EventID e)) s"
proof -
  have same: "inbox_row_of (work t) g (fe_EventID e) \<noteq> None \<and> durable t = durable s"
    if "fact_frame s t" for t
    using that row by (simp add: fact_frame_def inbox_row_of_def)
  have fin: "wp env (bindA (stmt mapError (q_MarkInboxProcessed g (fe_EventID e) now))
      (\<lambda>_. commitTx mapError)) (\<lambda>_ s'. handled (durable s') g (fe_EventID e))
      (\<lambda>_ s'. durable s' = durable s \<or> faulty env \<and> handled (durable s') g (fe_EventID e)) t"
    if "fact_frame s t" for t now
    unfolding wp_funs
    by (intro wp_stmt wp_commitTx_fault)
       (use same [OF that] in \<open>auto simp: handled_def dest!: inbox_after_processed\<close>)
  have body: "wp env (bindA (apply_fact cfg ord e now) (\<lambda>_. bindA (stmt mapError
      (q_MarkInboxProcessed g (fe_EventID e) now)) (\<lambda>_. commitTx mapError)))
      (\<lambda>_ s'. handled (durable s') g (fe_EventID e))
      (\<lambda>_ s'. durable s' = durable s \<or> faulty env \<and> handled (durable s') g (fe_EventID e)) t"
    if "fact_frame s t" for t ord now
    unfolding wp_bindA [of _ "apply_fact cfg ord e now"]
    by (rule wp_mono [OF keeps_wp [OF keeps_apply_fact]])
       (use that same in \<open>auto intro: fin ff.trans\<close>)
  show ?thesis
    unfolding settle_fact_def wp_bindA [of _ "loadOrder OnTx oid"] Let_def
    by (rule wp_mono [OF keeps_wp [OF keeps_loadOrder]])
       (auto simp: wp_bindA [of _ clockNow] wp_clockNow dest: same
         intro!: body intro: ff.trans [OF _ keepsD [OF keeps_leaves(2), unfolded clockNow_def]])
qed


lemma q_GetInbox_InrD:
  "q_GetInbox g m env t db = Inr (r, w) \<Longrightarrow> inbox_row_of db g m = Some r \<and> w = db"
  by (auto simp: q_GetInbox_def inbox_row_of_def split: option.splits)

lemma q_InsertInbox_InrD:
  "q_InsertInbox g m mt h rat co ca env t db = Inr (n, w) \<Longrightarrow>
     if inbox_row_of db g m = None then n = 1 \<and> inbox_row_of w g m \<noteq> None else n = 0 \<and> w = db"
  by (auto simp: q_InsertInbox_def inbox_row_of_def inbox_key_def row_simps split: if_splits)

lemma handled_row:
  "inbox_row_of db g m = Some r \<Longrightarrow> handled db g m \<longleftrightarrow> b_status r = ''PROCESSED'' \<or> b_status r = ''DLQ''"
  "inbox_row_of db g m = None \<Longrightarrow> \<not> handled db g m"
  by (simp_all add: handled_def)

lemma wp_fact_tx_handled:
  "wp env (fact_tx cfg g payload e oid)
    (\<lambda>_ s'. handled (durable s') g (fe_EventID e)
       \<and> (handled (durable s) g (fe_EventID e) \<longrightarrow> durable s' = durable s))
    (\<lambda>_ s'. durable s' = durable s
       \<or> faulty env \<and> \<not> handled (durable s) g (fe_EventID e) \<and> handled (durable s') g (fe_EventID e)) s"
proof -
  let ?m = "fe_EventID e"
  let ?Q = "\<lambda>_ s'. handled (durable s') g ?m \<and> (handled (durable s) g ?m \<longrightarrow> durable s' = durable s)"
  let ?E = "\<lambda>_ s'. durable s' = durable s \<or> faulty env \<and> \<not> handled (durable s) g ?m \<and> handled (durable s') g ?m"
  have settle: "wp env (settle_fact cfg g e oid) ?Q ?E t"
    if "inbox_row_of (work t) g ?m \<noteq> None" "durable t = durable s" "\<not> handled (durable s) g ?m" for t
    by (rule wp_mono [OF wp_settle_handled [OF that(1)]]) (use that in auto)
  have dup: "wp env (bindA (stmt mapError (q_GetInbox g ?m)) (\<lambda>rec.
       if b_status rec = ''PROCESSED'' \<or> b_status rec = ''DLQ'' then ret ()
       else settle_fact cfg g e oid)) ?Q ?E t"
    if "inbox_row_of (durable s) g ?m \<noteq> None" "work t = durable s" "durable t = durable s" for t
    unfolding wp_bindA
    by (rule wp_stmt)
       (use that in \<open>auto simp: wp_rules handled_row intro!: settle dest!: q_GetInbox_InrD\<close>)
  have new: "wp env (settle_fact cfg g e oid) ?Q ?E t"
    if "inbox_row_of (durable s) g ?m = None" "durable t = durable s"
      "inbox_row_of (work t) g ?m \<noteq> None" for t
    by (rule settle) (use that in \<open>auto simp: handled_row\<close>)
  show ?thesis
    unfolding fact_tx_def wp_funs
    by (intro wp_beginTx)
       (auto simp: wp_clockNow intro!: wp_stmt dup new dest!: q_InsertInbox_InrD split: if_splits)
qed

definition handled_fact :: "store_cfg \<Rightarrow> orders_db \<Rightarrow> string \<Rightarrow> string \<Rightarrow> bool" where
  "handled_fact cfg db g payload \<longleftrightarrow>
     (case decode_envelope (lib cfg) payload of None \<Rightarrow> False | Some e \<Rightarrow> handled db g (fe_EventID e))"

lemma wp_ProcessFact_handled:
  "wp env (ProcessFact cfg g payload)
    (\<lambda>_ s'. handled_fact cfg (durable s') g payload
       \<and> (handled_fact cfg (durable s) g payload \<longrightarrow> durable s' = durable s))
    (\<lambda>_ s'. durable s' = durable s
       \<or> faulty env \<and> \<not> handled_fact cfg (durable s) g payload \<and> handled_fact cfg (durable s') g payload) s"
  unfolding ProcessFact_def Let_def handled_fact_def
  using wp_fact_tx_handled by (auto simp: wp_rules split: option.splits)

subsection \<open>Recorded failures\<close>

definition has_identity :: "fact_envelope \<Rightarrow> bool" where
  "has_identity e \<longleftrightarrow> fe_EventID e \<noteq> '''' \<and> fe_EventType e \<noteq> '''' \<and> fe_CorrelationID e \<noteq> ''''"

lemma inbox_append:
  "inbox_row_of db g m = None \<Longrightarrow> inbox_key r = (g, m) \<Longrightarrow>
     inbox_row_of (db\<lparr>inbox_messages := inbox_messages db @ [r]\<rparr>) g m = Some r"
  by (auto simp: inbox_row_of_def select_one_append select_one_simps)

lemma q_RecordInboxFailure_InrD:
  "q_RecordInboxFailure g m mt h rat co ca le nxt env t db = Inr ((n, st), w) \<Longrightarrow>
     n = failures db g m + 1 \<and> failures w g m = n \<and> \<not> handled w g m"
proof (cases "inbox_row_of db g m")
  case None
  then have sel: "select_one (\<lambda>r. inbox_key r = (g, m)) (inbox_messages db) = None"
    by (simp add: inbox_row_of_def)
  assume "q_RecordInboxFailure g m mt h rat co ca le nxt env t db = Inr ((n, st), w)"
  then show ?thesis
    unfolding q_RecordInboxFailure_def sel option.case
    by (auto simp: failures_def handled_def None inbox_append [OF None] inbox_key_def)
next
  case (Some r)
  then have sel: "select_one (\<lambda>r. inbox_key r = (g, m)) (inbox_messages db) = Some r"
    by (simp add: inbox_row_of_def)
  assume "q_RecordInboxFailure g m mt h rat co ca le nxt env t db = Inr ((n, st), w)"
  then show ?thesis
    unfolding q_RecordInboxFailure_def sel
    by (auto simp: failures_def handled_def Some inbox_update inbox_key_simps split: if_splits)
qed

lemma q_RecordInboxFailure_ok:
  "in_int32 (failures db g m + 1) \<Longrightarrow>
     \<exists>st w. q_RecordInboxFailure g m mt h rat co ca le nxt env t db = Inr ((failures db g m + 1, st), w)"
  by (auto simp: q_RecordInboxFailure_def failures_def inbox_row_of_def split: option.splits)

text \<open>A failure is recorded or nothing changes; the answer is the number of failures.\<close>

lemma wp_RecordFactFailure_counts:
  assumes e: "decode_envelope (lib cfg) payload = Some e" "has_identity e"
  shows "wp env (RecordFactFailure cfg g payload reason at)
    (\<lambda>(dlq, n) s'. n = failures (durable s) g (fe_EventID e) + 1 \<and> dlq = (8 \<le> n)
       \<and> failures (durable s') g (fe_EventID e) = n \<and> \<not> handled (durable s') g (fe_EventID e))
    (\<lambda>_ s'. durable s' = durable s
       \<or> failures (durable s') g (fe_EventID e) = failures (durable s) g (fe_EventID e) + 1) s"
  using e(2) unfolding RecordFactFailure_def e(1) option.case has_identity_def
  by (auto simp: wp_rules intro!: wp_beginTx wp_stmt wp_commitTx dest!: q_RecordInboxFailure_InrD)

lemma wp_RecordFactFailure_blank:
  assumes "\<forall>e. decode_envelope (lib cfg) payload = Some e \<longrightarrow> \<not> has_identity e"
  shows "wp env (RecordFactFailure cfg g payload reason at) (\<lambda>(dlq, n) s'. dlq \<and> n = 0 \<and> s' = s) E s"
  using assms unfolding RecordFactFailure_def has_identity_def
  by (auto simp: wp_rules split: option.splits)

text \<open>Without faults the failure of an identified fact is recorded.\<close>

lemma wp_RecordFactFailure_ok:
  assumes e: "decode_envelope (lib cfg) payload = Some e" "has_identity e"
    and ok: "\<And>n. failAt env n = None" "in_int32 (failures (durable s) g (fe_EventID e) + 1)"
  shows "wp env (RecordFactFailure cfg g payload reason at) (\<lambda>_ _. True) (\<lambda>_ _. False) s"
proof -
  have "\<exists>st w. q_RecordInboxFailure g (fe_EventID e) mt h rat co ca le nxt env t (durable s)
      = Inr ((failures (durable s) g (fe_EventID e) + 1, st), w)" for mt h rat co ca le nxt t
    by (rule q_RecordInboxFailure_ok [OF ok(2)])
  then show ?thesis
    using e(2) unfolding RecordFactFailure_def e(1) option.case has_identity_def
    by (auto simp: wp_rules ok(1) split: sum.splits)
       (metis Inl_Inr_False)
qed

end
