(* ===== verification/Orders_Relay.thy ===== *)
theory Orders_Relay
  imports Orders_Delivery
begin

section \<open>Orders: the relay\<close>

text \<open>
  \<^verbatim>\<open>apps/orders/cmd/relay/main.go\<close>: publication of the outbox to Kafka and
  consumption of dependency facts with retries and quarantine.  The relay's state is the
  session of its store, the messages the broker has accepted and the consumed messages whose
  offsets it has committed; a call the broker reports as failed may have been carried out
  all the same.  Cancellation of the context and
  the lengths of the sleeps are not part of the state.
\<close>

subsection \<open>State and interface\<close>

record kmsg =
  km_Topic :: string
  km_Key :: string
  km_Value :: json
  km_Headers :: "(string \<times> string) list"

record relay_state =
  r_db :: orders_session
  r_sent :: "kmsg list"
  r_committed :: "string list"

type_synonym 'a ract = "(relay_state, oerr, 'a) act"

record relay_store_ops =
  rs_ClaimPendingOutbox :: "string \<Rightarrow> int \<Rightarrow> gotime \<Rightarrow> outbox_event list oact"
  rs_MarkOutboxFailed :: "string \<Rightarrow> string \<Rightarrow> gotime \<Rightarrow> unit oact"
  rs_MarkOutboxPublished :: "string \<Rightarrow> gotime \<Rightarrow> unit oact"
  rs_ProcessFact :: "string \<Rightarrow> string \<Rightarrow> unit oact"
  rs_RecordFactFailure :: "string \<Rightarrow> string \<Rightarrow> string \<Rightarrow> gotime \<Rightarrow> (bool \<times> int) oact"
  rs_MarkFactDeadLetter :: "string \<Rightarrow> string \<Rightarrow> string \<Rightarrow> unit oact"

record relay =
  rl_store :: relay_store_ops
  rl_owner :: string
  rl_lib :: golib

definition consumerGroup :: string where "consumerGroup = ''orders-saga-v1''"

definition onStore :: "'a oact \<Rightarrow> 'a ract" where
  "onStore m = zoom r_db (\<lambda>d s. s\<lparr>r_db := d\<rparr>) m"

definition relayClock :: "gotime ract" where
  "relayClock = onStore clockNow"

text \<open>\<^verbatim>\<open>writer.WriteMessages\<close>: the broker's error text, if any.\<close>

definition writeMessages :: "kmsg \<Rightarrow> string option ract" where
  "writeMessages m = (\<lambda>env s.
     let n = tick (r_db s); s' = s\<lparr>r_db := tickOn (r_db s)\<rparr> in
     case brokerErr env n of
       None \<Rightarrow> (Inr None, s'\<lparr>r_sent := r_sent s @ [m]\<rparr>)
     | Some e \<Rightarrow> (Inr (Some e), if ackLost env n then s'\<lparr>r_sent := r_sent s @ [m]\<rparr> else s'))"

subsection \<open>Backoff\<close>

definition backoff_delays :: "int list" where
  "backoff_delays =
     [seconds 1, seconds 5, seconds 30, minutes 2, minutes 5, minutes 10, minutes 15, minutes 30]"

definition outboxBackoff :: "int \<Rightarrow> int" where
  "outboxBackoff attempts0 =
     (let attempts = (if attempts0 < 0 then 0 else attempts0) in
      if int (length backoff_delays) \<le> attempts then backoff_delays ! (length backoff_delays - 1)
      else backoff_delays ! nat attempts)"

definition inboxBackoff :: "int \<Rightarrow> int" where
  "inboxBackoff attempt0 =
     (let attempt = (if attempt0 < 1 then 1 else attempt0) in outboxBackoff (wrap32 (attempt - 1)))"

subsection \<open>Publication\<close>

text \<open>Headers are sent only if they are an object of strings.\<close>

definition kafka_headers :: "json \<Rightarrow> (string \<times> string) list" where
  "kafka_headers j =
     (case j of
        JObj kvs \<Rightarrow>
          if list_all (\<lambda>(k, v). case v of JStr _ \<Rightarrow> True | JNull \<Rightarrow> True | _ \<Rightarrow> False) kvs
          then map (\<lambda>(k, v). (k, case v of JStr t \<Rightarrow> t | _ \<Rightarrow> '''')) kvs else []
      | _ \<Rightarrow> [])"

definition outbox_message :: "outbox_event \<Rightarrow> kmsg" where
  "outbox_message e =
     \<lparr>km_Topic = oe_Topic e, km_Key = oe_PartitionKey e, km_Value = oe_Payload e,
      km_Headers = kafka_headers (oe_Headers e)\<rparr>"

fun publish_rows :: "relay \<Rightarrow> outbox_event list \<Rightarrow> unit ract" where
  "publish_rows rl [] = ret ()"
| "publish_rows rl (e # es) =
     bindA (writeMessages (outbox_message e)) (\<lambda>err.
     case err of
       Some text \<Rightarrow>
         bindA relayClock (\<lambda>now.
         bindA (tryA (onStore (rs_MarkOutboxFailed (rl_store rl) (oe_ID e) text
                  (plus_ns (UTC now) (outboxBackoff (oe_Attempts e)))))) (\<lambda>_.
         publish_rows rl es))
     | None \<Rightarrow>
         bindA relayClock (\<lambda>now.
         bindA (onStore (rs_MarkOutboxPublished (rl_store rl) (oe_ID e) (UTC now))) (\<lambda>_.
         publish_rows rl es)))"

definition publishBatch :: "relay \<Rightarrow> unit ract" where
  "publishBatch rl =
     bindA relayClock (\<lambda>now.
     bindA (onStore (rs_ClaimPendingOutbox (rl_store rl) (rl_owner rl) 100
              (plus_ns (UTC now) (minutes 2)))) (\<lambda>rows.
     publish_rows rl rows))"

subsection \<open>Consumption\<close>

definition factEventID :: "golib \<Rightarrow> string \<Rightarrow> string" where
  "factEventID gl payload =
     (case jsonParse gl payload of
        None \<Rightarrow> ''''
      | Some j \<Rightarrow>
          (case decode_struct [(''event_id'', dec_str (\<lambda>s _. s))] j '''' of
             (ok, i) \<Rightarrow> if ok then i else ''''))"

text \<open>Bytes in a JSON value: standard base64 with padding.\<close>

definition b64_std :: "string \<Rightarrow> string" where
  "b64_std s =
     map (\<lambda>c. if c = CHR ''-'' then CHR ''+'' else if c = CHR ''_'' then CHR ''/'' else c) (b64_encode s)
     @ replicate ((3 - length s mod 3) mod 3) CHR ''=''"

definition dlqBody :: "golib \<Rightarrow> string \<Rightarrow> json" where
  "dlqBody gl payload = (case jsonParse gl payload of Some j \<Rightarrow> j | None \<Rightarrow> JStr (b64_std payload))"

definition dlq_message :: "golib \<Rightarrow> string \<Rightarrow> string \<Rightarrow> string \<Rightarrow> gotime \<Rightarrow> kmsg" where
  "dlq_message gl sourceTopic payload reason now =
     \<lparr>km_Topic = ''commerce.dlq.v1'', km_Key = ''orders'',
      km_Value =
        JObj [(''consumer_group'', JStr consumerGroup), (''payload'', dlqBody gl payload),
              (''quarantined_at'', jtime gl (UTC now)), (''reason'', JStr reason),
              (''source_topic'', JStr sourceTopic)],
      km_Headers = []\<rparr>"

definition publishDLQ :: "relay \<Rightarrow> string \<Rightarrow> string \<Rightarrow> string \<Rightarrow> string option ract" where
  "publishDLQ rl sourceTopic payload reason =
     bindA relayClock (\<lambda>now.
     writeMessages (dlq_message (rl_lib rl) sourceTopic payload reason now))"

text \<open>The branches of \<open>processMessage\<close> after a failure: quarantine, and the record of it.\<close>

definition quarantine_fact :: "relay \<Rightarrow> string \<Rightarrow> string \<Rightarrow> string \<Rightarrow> bool ract" where
  "quarantine_fact rl topic payload reason =
     bindA (publishDLQ rl topic payload reason) (\<lambda>err.
     if err \<noteq> None then ret False
     else
       let eventID = factEventID (rl_lib rl) payload in
       if eventID = '''' then ret True
       else
         bindA (tryA (onStore (rs_MarkFactDeadLetter (rl_store rl) consumerGroup eventID reason)))
           (\<lambda>mark. ret (case mark of Inl _ \<Rightarrow> False | Inr _ \<Rightarrow> True)))"

definition failed_fact :: "relay \<Rightarrow> string \<Rightarrow> string \<Rightarrow> string \<Rightarrow> bool ract" where
  "failed_fact rl topic payload reason =
     bindA relayClock (\<lambda>now.
     bindA (tryA (onStore (rs_RecordFactFailure (rl_store rl) consumerGroup payload reason
              (plus_ns (UTC now) (inboxBackoff 1))))) (\<lambda>rec.
     case rec of
       Inl _ \<Rightarrow> ret False
     | Inr (dlq, attempts) \<Rightarrow>
         if dlq then quarantine_fact rl topic payload reason else ret False))"

definition processMessage :: "relay \<Rightarrow> string \<Rightarrow> string \<Rightarrow> bool ract" where
  "processMessage rl topic payload =
     bindA (tryA (onStore (rs_ProcessFact (rl_store rl) consumerGroup payload))) (\<lambda>res.
     case res of
       Inr _ \<Rightarrow> ret True
     | Inl e \<Rightarrow> failed_fact rl topic payload (errText e))"

text \<open>\<^verbatim>\<open>reader.CommitMessages\<close>.\<close>

definition commitMessages :: "string \<Rightarrow> string option ract" where
  "commitMessages payload = (\<lambda>env s.
     let n = tick (r_db s); s' = s\<lparr>r_db := tickOn (r_db s)\<rparr> in
     case brokerErr env n of
       None \<Rightarrow> (Inr None, s'\<lparr>r_committed := r_committed s @ [payload]\<rparr>)
     | Some e \<Rightarrow>
         (Inr (Some e),
          if ackLost env n then s'\<lparr>r_committed := r_committed s @ [payload]\<rparr> else s'))"

text \<open>
  The inner loop of \<^verbatim>\<open>consumeMessages\<close>: the message is retried until
  it is processed or quarantined and its offset is committed; the context is cancelled after
  \<open>fuel\<close> rounds.  The result says that the loop left by its \<^verbatim>\<open>break\<close>.
\<close>

fun consume_message :: "nat \<Rightarrow> relay \<Rightarrow> string \<Rightarrow> string \<Rightarrow> bool ract" where
  "consume_message 0 rl topic payload = ret False"
| "consume_message (Suc fuel) rl topic payload =
     bindA (processMessage rl topic payload) (\<lambda>ok.
     if ok then
       bindA (commitMessages payload) (\<lambda>err.
       if err = None then ret True else consume_message fuel rl topic payload)
     else consume_message fuel rl topic payload)"

text \<open>The outer loop over the messages of the topic, in the order the reader fetches them.\<close>

fun consumeMessages :: "nat \<Rightarrow> relay \<Rightarrow> string \<Rightarrow> string list \<Rightarrow> unit ract" where
  "consumeMessages fuel rl topic [] = ret ()"
| "consumeMessages fuel rl topic (m # ms) =
     bindA (consume_message fuel rl topic m) (\<lambda>ok.
     if ok then consumeMessages fuel rl topic ms else ret ())"

definition splitBrokers :: "string \<Rightarrow> string list" where
  "splitBrokers raw = filter (\<lambda>v. v \<noteq> '''') (map TrimSpace (SplitOn CHR '','' raw))"

definition postgres_relay_ops :: "store_cfg \<Rightarrow> relay_store_ops" where
  "postgres_relay_ops cfg =
     \<lparr>rs_ClaimPendingOutbox = ClaimPendingOutbox, rs_MarkOutboxFailed = MarkOutboxFailed,
      rs_MarkOutboxPublished = MarkOutboxPublished, rs_ProcessFact = ProcessFact cfg,
      rs_RecordFactFailure = RecordFactFailure cfg, rs_MarkFactDeadLetter = MarkFactDeadLetter\<rparr>"

definition postgres_relay :: "store_cfg \<Rightarrow> string \<Rightarrow> relay" where
  "postgres_relay cfg owner =
     \<lparr>rl_store = postgres_relay_ops cfg, rl_owner = owner, rl_lib = lib cfg\<rparr>"


subsection \<open>Rules\<close>

lemma wp_onStore:
  "wp env (onStore m) Q E s = wp env m (\<lambda>x d. Q x (s\<lparr>r_db := d\<rparr>)) (\<lambda>e d. E e (s\<lparr>r_db := d\<rparr>)) (r_db s)"
  by (simp add: onStore_def wp_zoom)

lemma wp_relayClock:
  "wp env relayClock Q E s = Q (nowAt env (tick (r_db s))) (s\<lparr>r_db := tickOn (r_db s)\<rparr>)"
  by (simp add: relayClock_def wp_onStore wp_rules)

lemma wp_writeMessages:
  assumes "\<And>d. durable d = durable (r_db s) \<Longrightarrow> Q None (s\<lparr>r_db := d, r_sent := r_sent s @ [m]\<rparr>)"
    and "\<And>d e new. durable d = durable (r_db s) \<Longrightarrow> brokerErr env (tick (r_db s)) = Some e \<Longrightarrow>
      Q (Some e) (s\<lparr>r_db := d, r_sent := r_sent s @ new\<rparr>)"
  shows "wp env (writeMessages m) Q E s"
proof -
  have "Q (Some e) (s\<lparr>r_db := tickOn (r_db s)\<rparr>)" if "brokerErr env (tick (r_db s)) = Some e" for e
    using assms(2) [OF _ that, of "tickOn (r_db s)" "[]"] by (simp add: tickOn_def)
  moreover have "Q (Some e) (s\<lparr>r_db := tickOn (r_db s), r_sent := r_sent s @ [m]\<rparr>)"
    if "brokerErr env (tick (r_db s)) = Some e" for e
    using assms(2) [OF _ that] by simp
  ultimately show ?thesis
    using assms(1) [of "tickOn (r_db s)"] by (auto simp: wp_def writeMessages_def Let_def split: option.splits)
qed

lemma wp_commitMessages_ok:
  "brokerErr env (tick (r_db s)) = None \<Longrightarrow> wp env (commitMessages p) Q E s
     = Q None (s\<lparr>r_db := tickOn (r_db s), r_committed := r_committed s @ [p]\<rparr>)"
  by (simp add: wp_def commitMessages_def Let_def)

lemmas relay_wp = wp_onStore wp_tryA wp_relayClock

subsection \<open>Publication of an outbox\<close>

text \<open>
  What the relay needs of an outbox: a claim returns stored events, a claim and a failure
  mark publish nothing, and a publication mark of a stored event publishes at most that
  event's message; stored events stay stored.
\<close>

locale outbox_source =
  fixes ops :: relay_store_ops
    and good :: "orders_db \<Rightarrow> bool"
    and stored :: "orders_db \<Rightarrow> outbox_event \<Rightarrow> bool"
    and published :: "orders_db \<Rightarrow> kmsg set"
    and keep :: "orders_db \<Rightarrow> orders_db \<Rightarrow> bool"
  assumes keep_refl: "good d \<Longrightarrow> keep d d"
    and keep_trans: "keep d d' \<Longrightarrow> keep d' d'' \<Longrightarrow> keep d d''"
    and keep_good: "good d \<Longrightarrow> keep d d' \<Longrightarrow> good d'"
    and keep_stored: "good d \<Longrightarrow> keep d d' \<Longrightarrow> stored d e \<Longrightarrow> stored d' e"
    and claim: "good (durable s) \<Longrightarrow> wp env (rs_ClaimPendingOutbox ops ow n u)
      (\<lambda>es s'. keep (durable s) (durable s') \<and> published (durable s') = published (durable s)
        \<and> (\<forall>e \<in> set es. stored (durable s') e))
      (\<lambda>_ s'. keep (durable s) (durable s') \<and> published (durable s') = published (durable s)) s"
    and failed: "good (durable s) \<Longrightarrow> wp env (rs_MarkOutboxFailed ops i r t)
      (\<lambda>_ s'. keep (durable s) (durable s') \<and> published (durable s') = published (durable s))
      (\<lambda>_ s'. keep (durable s) (durable s') \<and> published (durable s') = published (durable s)) s"
    and mark: "good (durable s) \<Longrightarrow> stored (durable s) e \<Longrightarrow>
      wp env (rs_MarkOutboxPublished ops (oe_ID e) t)
      (\<lambda>_ s'. keep (durable s) (durable s')
        \<and> published (durable s') \<subseteq> insert (outbox_message e) (published (durable s)))
      (\<lambda>_ s'. keep (durable s) (durable s')
        \<and> published (durable s') \<subseteq> insert (outbox_message e) (published (durable s))) s"
begin

text \<open>Everything published since \<open>base\<close> has been sent.\<close>

lemma rows_sent_first:
  assumes "rl_store rl = ops" "good (durable (r_db s))" "\<forall>e \<in> set es. stored (durable (r_db s)) e"
    and "published (durable (r_db s)) \<subseteq> base \<union> set (r_sent s)"
  shows "wp env (publish_rows rl es)
    (\<lambda>_ s'. published (durable (r_db s')) \<subseteq> base \<union> set (r_sent s'))
    (\<lambda>_ s'. published (durable (r_db s')) \<subseteq> base \<union> set (r_sent s')) s"
  using assms(2-4)
proof (induction es arbitrary: s)
  case (Cons e es)
  let ?P = "\<lambda>_ s'. published (durable (r_db s')) \<subseteq> base \<union> set (r_sent s')"
  have step: "wp env (publish_rows rl es) ?P ?P (s\<lparr>r_sent := r_sent s @ new, r_db := d\<rparr>)"
    if "keep (durable (r_db s)) (durable d)"
      "published (durable d) \<subseteq> base \<union> set (r_sent s) \<union> set new" for d new
    by (rule Cons.IH)
       (use that Cons.prems keep_good keep_stored in \<open>auto simp: Un_assoc\<close>)
  have sent: "wp env (rs_MarkOutboxPublished ops (oe_ID e) t)
      (\<lambda>_ d'. wp env (publish_rows rl es) ?P ?P
        (s\<lparr>r_sent := r_sent s @ [outbox_message e], r_db := d'\<rparr>))
      (\<lambda>_ d'. published (durable d') \<subseteq> insert (outbox_message e) (base \<union> set (r_sent s))) d"
    if "durable d = durable (r_db s)" for d t
    by (rule wp_mono [OF mark])
       (use that Cons.prems in \<open>auto intro!: step\<close>)
  have unsent: "wp env (rs_MarkOutboxFailed ops (oe_ID e) r t)
      (\<lambda>_ d'. wp env (publish_rows rl es) ?P ?P (s\<lparr>r_sent := r_sent s @ new, r_db := d'\<rparr>))
      (\<lambda>_ d'. wp env (publish_rows rl es) ?P ?P (s\<lparr>r_sent := r_sent s @ new, r_db := d'\<rparr>)) d"
    if "durable d = durable (r_db s)" for d t r new
    by (rule wp_mono [OF failed]) (use that Cons.prems in \<open>auto intro!: step\<close>)
  show ?case
    unfolding publish_rows.simps wp_bindA
    by (rule wp_writeMessages) (auto simp: wp_bindA relay_wp assms(1) sent unsent)
qed (simp add: wp_rules)

lemma batch_sent_first:
  assumes "rl_store rl = ops" "good (durable (r_db s))"
  shows "wp env (publishBatch rl)
    (\<lambda>_ s'. published (durable (r_db s')) \<subseteq> published (durable (r_db s)) \<union> set (r_sent s'))
    (\<lambda>_ s'. published (durable (r_db s')) \<subseteq> published (durable (r_db s)) \<union> set (r_sent s')) s"
proof -
  let ?P = "\<lambda>_ s'. published (durable (r_db s')) \<subseteq> published (durable (r_db s)) \<union> set (r_sent s')"
  have rows: "wp env (publish_rows rl es) ?P ?P (s\<lparr>r_db := d\<rparr>)"
    if "keep (durable (r_db s)) (durable d)" "published (durable d) = published (durable (r_db s))"
      "\<forall>e \<in> set es. stored (durable d) e" for es d
  proof (rule rows_sent_first [OF assms(1)])
    show "good (durable (r_db (s\<lparr>r_db := d\<rparr>)))" using keep_good [OF assms(2) that(1)] by simp
  qed (use that in auto)
  have pre: "good (durable (tickOn (r_db s)))" using assms(2) by simp
  show ?thesis
    unfolding publishBatch_def wp_bindA relay_wp assms(1)
    by (simp, rule wp_mono [OF claim [OF pre]]) (auto intro: rows)
qed

end


text \<open>The tables of the store as an outbox.\<close>

definition row_message :: "outbox_row \<Rightarrow> kmsg" where
  "row_message r = outbox_message (event_of_row r)"

definition outbox_good :: "orders_db \<Rightarrow> bool" where
  "outbox_good db \<longleftrightarrow> keyed x_id (outbox_events db)"

definition outbox_stored :: "orders_db \<Rightarrow> outbox_event \<Rightarrow> bool" where
  "outbox_stored db e \<longleftrightarrow> (oe_ID e, outbox_message e) \<in> set (map (\<lambda>r. (x_id r, row_message r)) (outbox_events db))"

definition outbox_published :: "orders_db \<Rightarrow> kmsg set" where
  "outbox_published db = set (map row_message (filter (\<lambda>r. x_published_at r \<noteq> None) (outbox_events db)))"

definition outbox_keep :: "orders_db \<Rightarrow> orders_db \<Rightarrow> bool" where
  "outbox_keep db db' \<longleftrightarrow>
     map (\<lambda>r. (x_id r, row_message r)) (outbox_events db') = map (\<lambda>r. (x_id r, row_message r)) (outbox_events db)"

lemma outbox_keep_good: "outbox_keep db db' \<Longrightarrow> outbox_good db' = outbox_good db"
  unfolding outbox_keep_def outbox_good_def keyed_def
  by (drule arg_cong [where f = "map fst"]) (simp add: comp_def)

lemma map_filter_update_where:
  "(\<And>r. g (f r) = g r) \<Longrightarrow> (\<And>r. q (f r) = q r) \<Longrightarrow>
     map g (filter q (update_where p f t)) = map g (filter q t)"
  by (induction t) (auto simp: update_where_def)

lemma claim_keeps:
  assumes "q_ClaimPendingOutbox ow un n env t db = Inr (rows, w)"
  shows "outbox_keep db w \<and> outbox_published w = outbox_published db
    \<and> (\<forall>r \<in> set rows. r \<in> set (outbox_events w))"
proof -
  let ?f = "\<lambda>r. r\<lparr>x_lease_owner := Some ow, x_lease_until := Some (ts env un)\<rparr>"
  have w: "\<exists>p. outbox_events w = update_where p ?f (outbox_events db)
      \<and> set rows \<subseteq> set (outbox_events w)"
    using assms by (auto simp: q_ClaimPendingOutbox_def Let_def split: if_splits)
  have row: "row_message (?f r) = row_message r" "x_id (?f r) = x_id r"
    "x_published_at (?f r) = x_published_at r" for r
    by (simp_all add: row_message_def event_of_row_def outbox_message_def)
  obtain p where p: "outbox_events w = update_where p ?f (outbox_events db)" using w by blast
  have "outbox_published w = outbox_published db"
    unfolding outbox_published_def p by (subst map_filter_update_where) (simp_all add: row)
  then show ?thesis using w by (auto simp: outbox_keep_def update_where_def row)
qed

lemma update_outbox_keeps:
  assumes "update_outbox xid f db = Inr (x, w)" and "\<And>r. x_id (f r) = x_id r"
    and "\<And>r. row_message (f r) = row_message r"
  shows "outbox_keep db w"
    and "\<And>m. m \<in> outbox_published w \<Longrightarrow> m \<in> outbox_published db
      \<or> (\<exists>r \<in> set (outbox_events db). x_id r = xid \<and> row_message r = m \<and> x_published_at (f r) \<noteq> None)"
proof -
  let ?g = "\<lambda>r. (f r)\<lparr>x_attempts := x_attempts r + 1\<rparr>"
  have w: "outbox_events w = update_where (\<lambda>r. x_id r = xid \<and> x_published_at r = None) ?g (outbox_events db)"
    using assms(1) by (auto simp: update_outbox_def Let_def split: if_splits)
  have row: "x_id (?g r) = x_id r" "row_message (?g r) = row_message r" for r
    using assms(2,3) by (simp_all add: row_message_def event_of_row_def outbox_message_def)
  show "outbox_keep db w" by (simp add: outbox_keep_def w update_where_def row)
  fix m assume "m \<in> outbox_published w"
  then show "m \<in> outbox_published db
      \<or> (\<exists>r \<in> set (outbox_events db). x_id r = xid \<and> row_message r = m \<and> x_published_at (f r) \<noteq> None)"
    by (auto simp: outbox_published_def w set_update_where row split: if_splits)
qed

lemma published_marks:
  assumes "q_MarkOutboxPublished xid at env t db = Inr (x, w)" "outbox_good db"
    and e: "outbox_stored db e" "xid = oe_ID e"
  shows "outbox_keep db w \<and> outbox_published w \<subseteq> insert (outbox_message e) (outbox_published db)"
proof -
  have "row_message r = outbox_message e" if "r \<in> set (outbox_events db)" "x_id r = xid" for r
    using that e assms(2)
    by (auto simp: outbox_stored_def outbox_good_def keyed_def distinct_map dest: inj_onD)
  then show ?thesis
    using update_outbox_keeps [OF assms(1) [unfolded q_MarkOutboxPublished_def]]
    by (auto simp: row_message_def event_of_row_def outbox_message_def)
qed

lemma failed_marks:
  assumes "q_MarkOutboxFailed xid r at env t db = Inr (x, w)"
  shows "outbox_keep db w \<and> outbox_published w = outbox_published db"
proof -
  let ?f = "\<lambda>r'. (r'\<lparr>x_last_error := Some r, x_next_attempt_at := ts env at, x_lease_owner := None,
    x_lease_until := None\<rparr>)\<lparr>x_attempts := x_attempts r' + 1\<rparr>"
  have w: "outbox_events w = update_where (\<lambda>r. x_id r = xid \<and> x_published_at r = None) ?f (outbox_events db)"
    using assms by (auto simp: q_MarkOutboxFailed_def update_outbox_def Let_def split: if_splits)
  have row: "row_message (?f r) = row_message r" for r
    by (simp add: row_message_def event_of_row_def outbox_message_def)
  have "outbox_published w = outbox_published db"
    unfolding outbox_published_def w by (subst map_filter_update_where) (simp_all add: row)
  then show ?thesis by (simp add: outbox_keep_def w update_where_def row)
qed

interpretation pgo: outbox_source "postgres_relay_ops cfg" outbox_good outbox_stored
  outbox_published outbox_keep for cfg
proof
  fix s :: orders_session and env ow n u i r t e
  show "wp env (rs_ClaimPendingOutbox (postgres_relay_ops cfg) ow n u)
      (\<lambda>es s'. outbox_keep (durable s) (durable s')
        \<and> outbox_published (durable s') = outbox_published (durable s)
        \<and> (\<forall>e \<in> set es. outbox_stored (durable s') e))
      (\<lambda>_ s'. outbox_keep (durable s) (durable s')
        \<and> outbox_published (durable s') = outbox_published (durable s)) s"
    by (auto simp: postgres_relay_ops_def ClaimPendingOutbox_def wp_rules outbox_keep_def
          outbox_stored_def row_message_def event_of_row_def intro!: wp_autoQ
          dest!: claim_keeps)
  show "wp env (rs_MarkOutboxFailed (postgres_relay_ops cfg) i r t)
      (\<lambda>_ s'. outbox_keep (durable s) (durable s')
        \<and> outbox_published (durable s') = outbox_published (durable s))
      (\<lambda>_ s'. outbox_keep (durable s) (durable s')
        \<and> outbox_published (durable s') = outbox_published (durable s)) s"
    unfolding postgres_relay_ops_def relay_store_ops.simps MarkOutboxFailed_def
    by (rule wp_autoQ) (auto simp: outbox_keep_def [of d d for d] dest!: failed_marks)
  show "wp env (rs_MarkOutboxPublished (postgres_relay_ops cfg) (oe_ID e) t)
      (\<lambda>_ s'. outbox_keep (durable s) (durable s')
        \<and> outbox_published (durable s') \<subseteq> insert (outbox_message e) (outbox_published (durable s)))
      (\<lambda>_ s'. outbox_keep (durable s) (durable s')
        \<and> outbox_published (durable s') \<subseteq> insert (outbox_message e) (outbox_published (durable s))) s"
    if "outbox_good (durable s)" "outbox_stored (durable s) e"
    unfolding postgres_relay_ops_def relay_store_ops.simps MarkOutboxPublished_def
    by (rule wp_autoQ)
       (use published_marks [OF _ that refl] in \<open>auto simp: outbox_keep_def [of d d for d]\<close>)
  show "outbox_good d'" if "outbox_good d" "outbox_keep d d'" for d d'
    using that(1) outbox_keep_good [OF that(2)] by blast
qed (simp_all add: outbox_keep_def outbox_stored_def)


subsection \<open>Consumption of facts\<close>

text \<open>A copy of the payload is in the dead-letter topic.\<close>

definition quarantined :: "golib \<Rightarrow> string \<Rightarrow> string \<Rightarrow> kmsg list \<Rightarrow> bool" where
  "quarantined gl topic payload sent \<longleftrightarrow>
     (\<exists>reason now. dlq_message gl topic payload reason now \<in> set sent)"

lemma quarantine_settles:
  "wp env (quarantine_fact rl topic p r)
    (\<lambda>ok s'. ok \<longrightarrow> quarantined (rl_lib rl) topic p (r_sent s')) (\<lambda>_ _. False) s"
  unfolding quarantine_fact_def publishDLQ_def wp_bindA relay_wp Let_def
  by (rule wp_writeMessages)
     (auto simp: wp_bindA wp_ret relay_wp quarantined_def intro!: wp_mono [OF wp_True])

lemma failed_settles:
  "wp env (failed_fact rl topic p r)
    (\<lambda>ok s'. ok \<longrightarrow> quarantined (rl_lib rl) topic p (r_sent s')) (\<lambda>_ _. False) s"
  unfolding failed_fact_def wp_bindA relay_wp
  by (rule wp_mono [OF wp_True]) (auto simp: wp_ret quarantine_settles split: prod.splits)

text \<open>
  What the relay needs of a fact processor: success means handled, without faults a failure
  changes nothing, a recorded failure that does not quarantine counts one more of fewer than
  eight tries, and a dead-letter mark succeeds.
\<close>

locale fact_sink =
  fixes ops :: relay_store_ops
    and done_with :: "orders_db \<Rightarrow> string \<Rightarrow> string \<Rightarrow> bool"
    and tries :: "orders_db \<Rightarrow> string \<Rightarrow> string \<Rightarrow> int"
  assumes process: "wp env (rs_ProcessFact ops g p) (\<lambda>_ s'. done_with (durable s') g p)
      (\<lambda>_ s'. \<not> faulty env \<longrightarrow> durable s' = durable s) s"
    and failure: "\<not> faulty env \<Longrightarrow> in_int32 (tries (durable s) g p + 1) \<Longrightarrow>
      wp env (rs_RecordFactFailure ops g p r t)
        (\<lambda>(dlq, n) s'. \<not> dlq \<longrightarrow>
           tries (durable s') g p = tries (durable s) g p + 1 \<and> tries (durable s') g p < 8)
        (\<lambda>_ _. False) s"
    and dead: "\<not> faulty env \<Longrightarrow>
      wp env (rs_MarkFactDeadLetter ops g m r) (\<lambda>_ _. True) (\<lambda>_ _. False) s"
begin

lemma settles:
  assumes rl: "rl_store rl = ops"
  shows "wp env (processMessage rl topic p)
    (\<lambda>ok s'. ok \<longrightarrow> done_with (durable (r_db s')) consumerGroup p
       \<or> quarantined (rl_lib rl) topic p (r_sent s')) (\<lambda>_ _. False) s"
  unfolding processMessage_def wp_bindA relay_wp rl
  by (rule wp_mono [OF process]) (auto simp: wp_ret intro: wp_mono [OF failed_settles])

lemma quarantine_ends:
  assumes "rl_store rl = ops" "\<not> faulty env" "\<And>n. brokerErr env n = None"
  shows "wp env (quarantine_fact rl topic p r) (\<lambda>ok _. ok) (\<lambda>_ _. False) s"
  unfolding quarantine_fact_def publishDLQ_def wp_bindA relay_wp Let_def assms(1)
  by (rule wp_writeMessages)
     (auto simp: wp_bindA wp_ret relay_wp assms(3) intro!: wp_mono [OF dead [OF assms(2)]])

text \<open>Without faults a round ends the loop or counts one more of fewer than eight tries.\<close>

lemma round_counts:
  assumes rl: "rl_store rl = ops" and calm: "\<not> faulty env" "\<And>n. brokerErr env n = None"
    and low: "in_int32 (tries (durable (r_db s)) consumerGroup p + 1)"
  shows "wp env (processMessage rl topic p)
    (\<lambda>ok s'. ok \<or> (tries (durable (r_db s')) consumerGroup p
        = tries (durable (r_db s)) consumerGroup p + 1
      \<and> tries (durable (r_db s')) consumerGroup p < 8)) (\<lambda>_ _. False) s"
proof -
  let ?Q = "\<lambda>ok s'. ok \<or> (tries (durable (r_db s')) consumerGroup p
        = tries (durable (r_db s)) consumerGroup p + 1
      \<and> tries (durable (r_db s')) consumerGroup p < 8)"
  have failed: "wp env (failed_fact rl topic p r) ?Q (\<lambda>_ _. False) (s\<lparr>r_db := d\<rparr>)"
    if "durable d = durable (r_db s)" for d r
  proof -
    have pre: "in_int32 (tries (durable (tickOn d)) consumerGroup p + 1)" using that low by simp
    have quar: "wp env (quarantine_fact rl topic p r) ?Q (\<lambda>_ _. False) s'" for s'
      by (rule wp_mono [OF quarantine_ends [OF rl calm]]) auto
    show ?thesis
      unfolding failed_fact_def wp_bindA relay_wp rl
      by (simp, rule wp_mono [OF failure [OF calm(1) pre]])
         (auto simp: wp_ret quar that split: prod.splits)
  qed
  show ?thesis
    unfolding processMessage_def wp_bindA relay_wp rl
    by (rule wp_mono [OF process]) (auto simp: wp_ret calm intro: failed)
qed

lemma consume_ends:
  assumes rl: "rl_store rl = ops" and calm: "\<not> faulty env" "\<And>n. brokerErr env n = None"
  shows "in_int32 (tries (durable (r_db s)) consumerGroup p + 1) \<Longrightarrow>
    0 < fuel \<Longrightarrow> 8 - tries (durable (r_db s)) consumerGroup p \<le> int fuel \<Longrightarrow>
    wp env (consume_message fuel rl topic p) (\<lambda>ok s'. ok \<and> p \<in> set (r_committed s')) (\<lambda>_ _. False) s"
proof (induction fuel arbitrary: s)
  case (Suc fuel)
  let ?t = "\<lambda>s. tries (durable (r_db s)) consumerGroup p"
  have more: "wp env (consume_message fuel rl topic p) (\<lambda>ok s'. ok \<and> p \<in> set (r_committed s'))
      (\<lambda>_ _. False) s'" if "?t s' = ?t s + 1" "?t s' < 8" for s'
    by (rule Suc.IH) (use that Suc.prems in \<open>auto simp: in_int32_def\<close>)
  have commit: "wp env (commitMessages p)
      (\<lambda>err. wp env (if err = None then ret True else consume_message fuel rl topic p)
        (\<lambda>ok s'. ok \<and> p \<in> set (r_committed s')) (\<lambda>_ _. False)) (\<lambda>_ _. False) s'" for s'
    by (simp add: wp_commitMessages_ok calm wp_ret)
  show ?case
    unfolding consume_message.simps wp_bindA
    by (rule wp_mono [OF round_counts [OF rl calm Suc.prems(1)]])
       (auto simp: wp_bindA commit more)
qed simp

end

text \<open>The store as a fact processor.\<close>

definition fact_tries :: "store_cfg \<Rightarrow> orders_db \<Rightarrow> string \<Rightarrow> string \<Rightarrow> int" where
  "fact_tries cfg db g payload =
     (case decode_envelope (lib cfg) payload of
        None \<Rightarrow> 0
      | Some e \<Rightarrow> if has_identity e then failures db g (fe_EventID e) else 0)"

lemma record_tries:
  assumes "\<not> faulty env" "in_int32 (fact_tries cfg (durable s) g p + 1)"
  shows "wp env (RecordFactFailure cfg g p r t)
    (\<lambda>(dlq, n) s'. \<not> dlq \<longrightarrow> fact_tries cfg (durable s') g p = fact_tries cfg (durable s) g p + 1
       \<and> fact_tries cfg (durable s') g p < 8) (\<lambda>_ _. False) s"
proof (cases "\<exists>e. decode_envelope (lib cfg) p = Some e \<and> has_identity e")
  case True
  then obtain e where e: "decode_envelope (lib cfg) p = Some e" "has_identity e" by blast
  have "in_int32 (failures (durable s) g (fe_EventID e) + 1)"
    using assms(2) e by (simp add: fact_tries_def)
  then have "wp env (RecordFactFailure cfg g p r t) (\<lambda>_ _. True) (\<lambda>_ _. False) s"
    using assms(1) by (intro wp_RecordFactFailure_ok [OF e]) (auto simp: faulty_def)
  from wp_conj [OF this wp_RecordFactFailure_counts [OF e]] show ?thesis
    by (rule wp_mono) (use e in \<open>auto simp: fact_tries_def\<close>)
next
  case False
  then show ?thesis
    by (intro wp_mono [OF wp_RecordFactFailure_blank [where E = "\<lambda>_ _. False"]]) auto
qed

interpretation pgf: fact_sink "postgres_relay_ops cfg" "handled_fact cfg" "fact_tries cfg" for cfg
proof
  fix s :: orders_session and env g p r t m
  show "wp env (rs_ProcessFact (postgres_relay_ops cfg) g p)
      (\<lambda>_ s'. handled_fact cfg (durable s') g p) (\<lambda>_ s'. \<not> faulty env \<longrightarrow> durable s' = durable s) s"
    unfolding postgres_relay_ops_def relay_store_ops.simps
    by (rule wp_mono [OF wp_ProcessFact_handled]) auto
  show "wp env (rs_RecordFactFailure (postgres_relay_ops cfg) g p r t)
      (\<lambda>(dlq, n) s'. \<not> dlq \<longrightarrow>
         fact_tries cfg (durable s') g p = fact_tries cfg (durable s) g p + 1
         \<and> fact_tries cfg (durable s') g p < 8) (\<lambda>_ _. False) s"
    if "\<not> faulty env" "in_int32 (fact_tries cfg (durable s) g p + 1)"
    unfolding postgres_relay_ops_def relay_store_ops.simps by (rule record_tries [OF that])
  show "wp env (rs_MarkFactDeadLetter (postgres_relay_ops cfg) g m r) (\<lambda>_ _. True) (\<lambda>_ _. False) s"
    if "\<not> faulty env"
    using that unfolding postgres_relay_ops_def relay_store_ops.simps MarkFactDeadLetter_def
    by (auto simp: wp_def autoQ_def q_MarkInboxDeadLetter_def faulty_def split: option.splits)
qed

end
