(* ===== verification/Orders_Theorems.thy ===== *)
theory Orders_Theorems
  imports Orders_Relay
begin

section \<open>Orders: the theorems\<close>

text \<open>
  The properties of the Orders service, each with a concrete instance where it has
  hypotheses.  The instances use one small order, a library stub whose JSON codec knows a
  single document, and an environment without faults.
\<close>

subsection \<open>Instances\<close>

definition demo_time :: gotime where
  "demo_time = \<lparr>instant = 1000000000, utc = True\<rparr>"

definition demo_items :: "item list" where
  "demo_items =
     [\<lparr>ProductID = ''prd_a'', Quantity = 2, UnitPriceMinor = None, LineTotalMinor = None,
       QuoteID = None, QuoteVersion = None\<rparr>]"

definition demo_order :: order where
  "demo_order =
     \<lparr>ID = ''ord_1'', CustomerID = ''usr_1'', Currency = ''EUR'', Items = demo_items, TotalMinor = None,
      ReservationID = None, PaymentID = None, ShipmentID = None, FailureCode = None,
      InventoryReleased = False, PaymentRefunded = False, Status = StatusPending,
      Version = InitialVersion, CreatedAt = demo_time, UpdatedAt = demo_time\<rparr>"

definition demo_lib :: "json \<Rightarrow> golib" where
  "demo_lib j =
     \<lparr>jsonParse = (\<lambda>t. if t = ''{}'' then Some j else None), jsonPrint = (\<lambda>_. ''{}''),
      sha256 = (\<lambda>t. t), hmac256 = (\<lambda>k t. k), edVerify = (\<lambda>pk m s. pk = s), timeText = (\<lambda>_. ''now''),
      jsonTime = (\<lambda>_. Some demo_time), parseRFC3339Nano = (\<lambda>_. Some (plus_ns demo_time 1))\<rparr>"

definition demo_cfg :: "json \<Rightarrow> store_cfg" where
  "demo_cfg j = \<lparr>lib = demo_lib j, quoteURL = Some ''u'', cursorSecret = ''k''\<rparr>"

definition demo_env :: env where
  "demo_env =
     \<lparr>failAt = (\<lambda>_. None), ackLost = (\<lambda>_. False), uuidAt = nat_text, nowAt = (\<lambda>_. demo_time),
      httpAt = (\<lambda>_. None), brokerErr = (\<lambda>_. None), randAt = (\<lambda>_ n. replicate n CHR ''0''), pgTime = (\<lambda>t. t), scanUTC = True\<rparr>"

definition demo_session :: "orders_db \<Rightarrow> orders_session" where
  "demo_session db = \<lparr>work = db, durable = db, tick = 0, qv_keys = Map.empty, qv_loaded = zero_time\<rparr>"

definition demo_quote :: order where
  "demo_quote =
     demo_order\<lparr>Items := map (quoted_item ''qte_1'' 1 [''prd_a'' \<mapsto> 250]) demo_items, TotalMinor := Some 500,
                Version := 2\<rparr>"

lemmas demo_defs = demo_time_def demo_items_def demo_order_def demo_lib_def demo_cfg_def
  demo_env_def demo_session_def demo_quote_def

lemma demo_new: "NewOrder ''ord_1'' ''usr_1'' ''eur'' demo_items demo_time = Inr demo_order"
  by code_simp

lemma demo_applied:
  "ApplyQuote (Some demo_order) ''qte_1'' 1 [''prd_a'' \<mapsto> 250] demo_time = Inr demo_quote"
  by code_simp

lemma demo_fresh: "fresh_order demo_order"
  by (rule NewOrder_fresh [OF demo_new])

lemma demo_created: "(store_step (demo_cfg j))\<^sup>*\<^sup>* empty_db
    (durable (snd (Store_Create (demo_cfg j) ''usr_1'' demo_order op k h demo_env (demo_session empty_db))))"
proof -
  let ?r = "Store_Create (demo_cfg j) ''usr_1'' demo_order op k h demo_env (demo_session empty_db)"
  have "store_step (demo_cfg j) (durable (demo_session empty_db)) (durable (snd ?r))"
    by (rule step_create [OF demo_fresh prod.collapse [symmetric]])
  then show ?thesis by (simp add: demo_session_def)
qed

subsection \<open>The order aggregate\<close>

text \<open>
  C7.  Every order that \<^const>\<open>NewOrder\<close> and any number of accepted aggregate
  operations can produce is well formed (identifiers, one to one hundred distinct items in
  range, line prices and total consistent with one quote, a total whenever confirmed or
  completed), and its version is one plus the number of operations, modulo \<open>2 ^ 64\<close>.
\<close>

theorem reachable_orders_wellformed:
  "order_reach n a \<Longrightarrow> order_wf a \<and> Version a = InitialVersion + of_nat n"
  by (rule order_reach_invariant)

theorem reachable_orders_wellformed_witness:
  "order_reach 1 demo_quote \<and> order_wf demo_quote \<and> Version demo_quote = 2"
proof -
  have "order_reach (Suc 0) demo_quote"
    using reach_step [OF reach_new [OF demo_new] step_quote [OF demo_applied]] .
  then show ?thesis
    using reachable_orders_wellformed [of 1 demo_quote] by (simp add: InitialVersion_def)
qed

text \<open>
  C21.  \<^const>\<open>NewOrder\<close> accepts exactly the inputs with a valid order and customer
  identifier, a three-letter currency after trimming and upper-casing, between one and
  \<^const>\<open>MaxItems\<close> items of distinct valid products with quantities between 1 and
  \<^const>\<open>MaxQuantity\<close>, and a non-zero UTC time; the order it returns is pending, unpriced
  and at the initial version.
\<close>

theorem new_order_accepts:
  "(\<exists>a. NewOrder i c cur its now = Inr a) \<longleftrightarrow>
     ValidOrderID i \<and> ValidCustomerID c \<and> currencyPattern (ToUpper (TrimSpace cur)) \<and> its \<noteq> []
     \<and> length its \<le> MaxItems \<and> list_all item_ok its \<and> distinct (map ProductID its) \<and> \<not> bad_time now"
proof -
  have "check_items {} its = None \<longleftrightarrow> list_all item_ok its \<and> distinct (map ProductID its)"
    by (simp add: check_items_None_iff)
  then show ?thesis by (auto simp: NewOrder_def Let_def split: if_splits option.splits)
qed

text \<open>
  C8.  \<^const>\<open>ApplyQuote\<close> on an order with valid items succeeds exactly when the order is
  pending and unpriced, the quote identifier, version and time are valid, every item has a
  non-negative price, and the sum of quantity times price is at most
  \<^const>\<open>MaxTotalMinor\<close>; then the total is that sum, with no wrap-around in the 64-bit
  arithmetic of the loop, and every line carries its own product.
\<close>

theorem apply_quote_exact:
  assumes "list_all item_ok (Items ord)"
  shows "ApplyQuote (Some ord) q v prices now = Inr ord' \<longleftrightarrow>
     Status ord = StatusPending \<and> TotalMinor ord = None \<and> ValidQuoteID q \<and> 1 \<le> v
     \<and> \<not> bad_time now \<and> quotable prices (Items ord)
     \<and> quote_total prices (Items ord) \<le> MaxTotalMinor
     \<and> ord' = ord\<lparr>Items := map (quoted_item q v prices) (Items ord),
                  TotalMinor := Some (quote_total prices (Items ord)),
                  Version := Version ord + 1, UpdatedAt := now\<rparr>"
  by (rule ApplyQuote_Inr_iff [OF assms])

theorem apply_quote_exact_witness:
  "list_all item_ok (Items demo_order)
   \<and> ApplyQuote (Some demo_order) ''qte_1'' 1 [''prd_a'' \<mapsto> 250] demo_time = Inr demo_quote
   \<and> TotalMinor demo_quote = Some 500"
proof -
  have ok: "list_all item_ok (Items demo_order)" by code_simp
  have "quotable [''prd_a'' \<mapsto> 250] (Items demo_order)"
    by (simp add: quotable_def demo_defs)
  moreover have "\<not> bad_time demo_time" "ValidQuoteID ''qte_1''" by code_simp+
  ultimately show ?thesis
    using apply_quote_exact [OF ok, of "''qte_1''" 1 "[''prd_a'' \<mapsto> 250]" demo_time demo_quote] ok
    by (simp add: demo_defs MaxTotalMinor_def InitialVersion_def)
qed

text \<open>
  C22.  Terminal statuses absorb, and history is kept: an accepted operation starts from a
  non-terminal status, follows the transition table or keeps the status, raises the version
  by one, never changes identity, owner, currency or creation time, and never reprices an
  order that has a total.
\<close>

theorem operations_follow_lifecycle:
  assumes "order_step a b"
  shows "\<not> IsTerminal (Status a) \<and> (Status b = Status a \<or> allowedTransition (Status a) (Status b))
    \<and> Version b = Version a + 1
    \<and> ID b = ID a \<and> CustomerID b = CustomerID a \<and> Currency b = Currency a \<and> CreatedAt b = CreatedAt a
    \<and> (TotalMinor a \<noteq> None \<longrightarrow> TotalMinor b = TotalMinor a \<and> Items b = Items a)"
  using order_step_effect [OF assms] by blast

theorem operations_follow_lifecycle_witness:
  "order_step demo_order demo_quote \<and> \<not> IsTerminal (Status demo_order)
   \<and> Version demo_quote = Version demo_order + 1"
  using operations_follow_lifecycle [OF step_quote [OF demo_applied]] step_quote [OF demo_applied]
  by blast

subsection \<open>The store\<close>

text \<open>
  C2.  Creation is atomic and idempotent under every schedule of database faults: a successful
  call either replays the stored order of the same actor, operation, key and request hash and
  changes nothing, or commits exactly the idempotency record, the order, its items, its saga
  and the two outbox messages; a failed call changes nothing, or (the acknowledgement of the
  commit was lost) commits exactly the same rows.
\<close>

theorem create_atomic:
  "wp env (Store_Create cfg a ord op k h)
     (\<lambda>res s'.
        (Replayed res \<and> durable s' = durable s \<and> replay_of env a op k h (durable s) (ResultOrder res))
        \<or> (\<not> Replayed res \<and> ResultOrder res = ord
            \<and> create_done env a ord op k h (durable s) (durable s')))
     (\<lambda>_ s'. durable s' = durable s \<or> create_done env a ord op k h (durable s) (durable s')) s"
  by (rule wp_Store_Create)

text \<open>
  C1.  The integrity of the tables is an invariant: from empty tables, any sequence of calls of
  the store's methods by any processes, with any faults and lost acknowledgements, leads to
  tables in which order identifiers are unique, every item has its order, every order has one
  to one hundred valid distinct items with prices that sum to its total, a confirmed order has
  a total, a payment and a reservation, and a cancelled order is compensated.
\<close>

theorem reachable_tables_integrity:
  assumes "(store_step cfg)\<^sup>*\<^sup>* empty_db db"
  shows "orders_inv db"
  using store_steps_settled [OF assms empty_inv] by blast

theorem reachable_tables_integrity_witness:
  "orders_inv (durable (snd (Store_Create (demo_cfg JNull) ''usr_1'' demo_order ''orders.create''
     ''key-0123456789abcdef'' ''h'' demo_env (demo_session empty_db))))"
  by (rule reachable_tables_integrity [OF demo_created])

text \<open>
  C4.  Stored orders only move forward: along any sequence of store calls an order is never
  lost, its owner, currency and creation time never change, its version never decreases and
  strictly increases when anything changes, a terminal status and a total are final, recorded
  reservation and payment references are never cleared, and compensation marks stay.
\<close>

theorem stored_orders_evolve:
  assumes "orders_inv db" "(store_step cfg)\<^sup>*\<^sup>* db db'" "r \<in> set (orders db)"
  shows "\<exists>r' \<in> set (orders db'). row_evolves r r'"
  using store_steps_settled [OF assms(2,1)] assms(3) by (auto simp: db_evolves_def)


text \<open>A stored order and a session that holds it.\<close>

definition demo_row :: order_row where
  "demo_row = new_order_row demo_env demo_order"

definition demo_db :: orders_db where
  "demo_db =
     \<lparr>orders = [demo_row], order_items = numbered_items demo_order,
      saga_instances = [\<lparr>s_id = ''sag_1'', s_order_id = ''ord_1'', s_phase = ''INVENTORY_RESERVATION_PENDING'',
                         s_version = 1, s_failure_class = None, s_created_at = 0, s_updated_at = 0\<rparr>],
      inbox_messages = [], outbox_events = [], idempotency_records = []\<rparr>"

lemma demo_db_inv: "orders_inv demo_db"
  by code_simp

theorem stored_orders_evolve_witness:
  "demo_row \<in> set (orders demo_db) \<and>
   (\<exists>r' \<in> set (orders (durable (snd (RequestCancellation (demo_cfg JNull) ''usr_1'' ''ord_1''
      ''orders.cancel'' ''key-0123456789abcdef'' ''h'' ''CUSTOMER_REQUESTED'' 1 demo_time demo_env
      (demo_session demo_db))))). row_evolves demo_row r')"
proof -
  let ?r = "RequestCancellation (demo_cfg JNull) ''usr_1'' ''ord_1'' ''orders.cancel''
      ''key-0123456789abcdef'' ''h'' ''CUSTOMER_REQUESTED'' 1 demo_time demo_env (demo_session demo_db)"
  have "store_step (demo_cfg JNull) (durable (demo_session demo_db)) (durable (snd ?r))"
    by (rule step_cancel [OF prod.collapse [symmetric]])
  then have step: "(store_step (demo_cfg JNull))\<^sup>*\<^sup>* demo_db (durable (snd ?r))"
    by (simp add: demo_session_def)
  have row: "demo_row \<in> set (orders demo_db)" by (simp add: demo_db_def)
  show ?thesis using row stored_orders_evolve [OF demo_db_inv step row] by blast
qed



subsection \<open>Facts\<close>


text \<open>
  C11.  A redelivered fact has no effect: when the inbox already has the fact as processed or
  quarantined, \<^const>\<open>ProcessFact\<close> leaves the committed tables as they are, whatever its
  result and whatever faults occur.
\<close>

theorem redelivered_facts_ignored:
  assumes "handled_fact cfg (durable s) g payload" "ProcessFact cfg g payload env s = (res, s')"
  shows "durable s' = durable s"
  using assms wp_ProcessFact_handled [of env cfg g payload s] by (cases res) (auto simp: wp_def)

definition demo_fact :: json where
  "demo_fact =
     JObj [(''event_id'', JStr ''e1''), (''event_type'', JStr ''commerce.payment.failed.v1''),
           (''correlation_id'', JStr ''ord_1'')]"

definition demo_inbox :: "string \<Rightarrow> inbox_row" where
  "demo_inbox st =
     \<lparr>b_consumer_group = consumerGroup, b_message_id = ''e1'',
      b_message_type = ''commerce.payment.failed.v1'', b_payload_hash = ''h'', b_received_at = 0,
      b_processed_at = None, b_status = st, b_attempts = 1, b_next_attempt_at = None,
      b_last_error = None, b_correlation_id = ''ord_1'', b_causation_id = None\<rparr>"

definition demo_handled :: orders_db where
  "demo_handled = demo_db\<lparr>inbox_messages := [demo_inbox ''PROCESSED'']\<rparr>"

lemma demo_envelope:
  "\<exists>e. decode_envelope (lib (demo_cfg demo_fact)) ''{}'' = Some e \<and> has_identity e \<and> fe_EventID e = ''e1''"
proof -
  have "(case decode_envelope (lib (demo_cfg demo_fact)) ''{}'' of None \<Rightarrow> False
      | Some e \<Rightarrow> has_identity e \<and> fe_EventID e = ''e1'')"
    by code_simp
  then show ?thesis by (auto split: option.splits)
qed

lemma demo_handled_fact: "handled_fact (demo_cfg demo_fact) demo_handled consumerGroup ''{}''"
  by code_simp

theorem redelivered_facts_ignored_witness:
  "handled_fact (demo_cfg demo_fact) demo_handled consumerGroup ''{}'' \<and>
   durable (snd (ProcessFact (demo_cfg demo_fact) consumerGroup ''{}'' demo_env (demo_session demo_handled)))
     = demo_handled"
proof -
  have "handled_fact (demo_cfg demo_fact) (durable (demo_session demo_handled)) consumerGroup ''{}''"
    using demo_handled_fact by (simp add: demo_session_def)
  from redelivered_facts_ignored [OF this prod.collapse [symmetric]] demo_handled_fact
  show ?thesis by (simp add: demo_session_def)
qed

text \<open>
  C18.  Failures are counted durably: recording the failure of a fact with an identity commits
  one more attempt and answers with that number, and asks for quarantine exactly from the
  eighth attempt on; when the record fails nothing changes, or the same attempt was counted.
\<close>

theorem failures_counted:
  assumes "decode_envelope (lib cfg) payload = Some e" "has_identity e"
  shows "wp env (RecordFactFailure cfg g payload reason at)
    (\<lambda>(dlq, n) s'. n = failures (durable s) g (fe_EventID e) + 1 \<and> dlq = (8 \<le> n)
       \<and> failures (durable s') g (fe_EventID e) = n)
    (\<lambda>_ s'. durable s' = durable s
       \<or> failures (durable s') g (fe_EventID e) = failures (durable s) g (fe_EventID e) + 1) s"
  by (rule wp_mono [OF wp_RecordFactFailure_counts [OF assms]]) auto

theorem failures_counted_witness:
  "\<exists>e. decode_envelope (lib (demo_cfg demo_fact)) ''{}'' = Some e \<and> has_identity e
     \<and> wp demo_env (RecordFactFailure (demo_cfg demo_fact) consumerGroup ''{}'' ''boom'' demo_time)
       (\<lambda>(dlq, n) s'. n = 2 \<and> \<not> dlq) (\<lambda>_ _. True) (demo_session demo_handled)"
proof -
  obtain e where e: "decode_envelope (lib (demo_cfg demo_fact)) ''{}'' = Some e" "has_identity e"
    "fe_EventID e = ''e1''"
    using demo_envelope by blast
  have "failures (durable (demo_session demo_handled)) consumerGroup ''e1'' = 1" by code_simp
  then have "wp demo_env (RecordFactFailure (demo_cfg demo_fact) consumerGroup ''{}'' ''boom'' demo_time)
       (\<lambda>(dlq, n) s'. n = 2 \<and> \<not> dlq) (\<lambda>_ _. True) (demo_session demo_handled)"
    by (intro wp_mono [OF failures_counted [OF e(1,2)]]) (auto simp: e(3))
  then show ?thesis using e by blast
qed



subsection \<open>The relay\<close>

text \<open>
  C9.  Nothing is marked published that was not sent: after \<^const>\<open>publishBatch\<close>, under any
  schedule of database and broker failures, every outbox row marked published was marked before
  the batch or its message is among the messages the broker accepted.
\<close>

theorem published_only_after_sent:
  assumes "outbox_good (durable (r_db s))"
  shows "wp env (publishBatch (postgres_relay cfg owner))
    (\<lambda>_ s'. outbox_published (durable (r_db s')) \<subseteq> outbox_published (durable (r_db s)) \<union> set (r_sent s'))
    (\<lambda>_ s'. outbox_published (durable (r_db s')) \<subseteq> outbox_published (durable (r_db s)) \<union> set (r_sent s')) s"
  by (rule pgo.batch_sent_first [OF _ assms]) (simp add: postgres_relay_def)

definition demo_outbox :: outbox_row where
  "demo_outbox =
     \<lparr>x_id = ''x1'', x_topic = ''commerce.order.events.v1'', x_partition_key = ''ord_1'',
      x_message_type = ''commerce.order.created.v1'', x_aggregate_type = ''order'',
      x_aggregate_id = ''ord_1'', x_payload = JNull, x_headers = json_headers, x_created_at = 0,
      x_published_at = None, x_attempts = 0, x_next_attempt_at = 0, x_lease_owner = None,
      x_lease_until = None, x_last_error = None\<rparr>"

definition demo_relay_state :: "orders_db \<Rightarrow> relay_state" where
  "demo_relay_state db = \<lparr>r_db = demo_session db, r_sent = [], r_committed = []\<rparr>"

theorem published_only_after_sent_witness:
  "outbox_published (durable (r_db (snd (publishBatch (postgres_relay (demo_cfg JNull) ''r1'') demo_env
     (demo_relay_state (demo_db\<lparr>outbox_events := [demo_outbox]\<rparr>))))))
   \<subseteq> set (r_sent (snd (publishBatch (postgres_relay (demo_cfg JNull) ''r1'') demo_env
     (demo_relay_state (demo_db\<lparr>outbox_events := [demo_outbox]\<rparr>)))))"
proof -
  let ?s = "demo_relay_state (demo_db\<lparr>outbox_events := [demo_outbox]\<rparr>)"
  have "outbox_good (durable (r_db ?s))" "outbox_published (durable (r_db ?s)) = {}"
    by (simp_all add: outbox_good_def outbox_published_def keyed_def demo_relay_state_def
      demo_session_def demo_outbox_def)
  with published_only_after_sent [of ?s demo_env "demo_cfg JNull" "''r1''"] show ?thesis
    by (auto simp: wp_def split: prod.splits sum.splits)
qed

text \<open>
  C10.  The relay gives up a message only when it is safe: \<^const>\<open>processMessage\<close> answers
  true only if the inbox has the fact as processed or quarantined, or a copy of the payload is
  in the dead-letter topic.
\<close>

theorem messages_settled_before_commit:
  assumes "processMessage (postgres_relay cfg owner) topic payload env s = (Inr True, s')"
  shows "handled_fact cfg (durable (r_db s')) consumerGroup payload
    \<or> quarantined (lib cfg) topic payload (r_sent s')"
proof -
  have rl: "rl_store (postgres_relay cfg owner) = postgres_relay_ops cfg"
    by (simp add: postgres_relay_def)
  show ?thesis
    using wp_run [OF pgf.settles [OF rl] assms] by (simp add: postgres_relay_def)
qed

theorem messages_settled_before_commit_witness:
  "quarantined (demo_lib JNull) ''t'' ''x'' (r_sent (snd (processMessage (postgres_relay (demo_cfg JNull) ''r1'')
     ''t'' ''x'' demo_env (demo_relay_state demo_db))))"
proof -
  let ?r = "processMessage (postgres_relay (demo_cfg JNull) ''r1'') ''t'' ''x'' demo_env
    (demo_relay_state demo_db)"
  have "fst ?r = Inr True" by code_simp
  then have "?r = (Inr True, snd ?r)" by (metis prod.collapse)
  from messages_settled_before_commit [OF this] show ?thesis
    by (simp add: handled_fact_def decode_envelope_def demo_cfg_def demo_lib_def)
qed



text \<open>
  C23.  The delays are bounded and grow: every backoff of the relay is between one second and
  thirty minutes, and one more attempt never shortens it.
\<close>

theorem backoff_bounded:
  "seconds 1 \<le> outboxBackoff n \<and> outboxBackoff n \<le> minutes 30 \<and> outboxBackoff n \<le> outboxBackoff (n + 1)"
proof -
  consider "n < 0" | "n \<in> {0, 1, 2, 3, 4, 5, 6, 7}" | "8 \<le> n" by force
  then show ?thesis
    by cases (auto simp: outboxBackoff_def backoff_delays_def Let_def seconds_def minutes_def)
qed




end
