(* ===== verification/Orders_Access.thy ===== *)
theory Orders_Access
  imports Orders_Theorems
begin

section \<open>Orders: listings and authorization\<close>

text \<open>
  Theorems on signed cursors, on consecutive pages, and on what the application service
  lets an actor see and do.
\<close>

subsection \<open>Cursors\<close>

text \<open>
  C19.  An issued cursor comes back: when the JSON text of a cursor reads back as itself and the
  time text as the same instant, decoding a signed cursor gives the value that was encoded.
\<close>

theorem cursor_roundtrip:
  assumes "cursor_codec cfg v" "cv_CustomerID v \<noteq> ''''" "cv_ID v \<noteq> ''''" "\<not> IsZero (cv_CreatedAt v)"
  shows "decodeSignedCursor cfg (encodeSignedCursor cfg v) = Some v"
  by (rule decode_encode_cursor [OF assms])

definition demo_cursor :: cursor_value where
  "demo_cursor =
     \<lparr>cv_CustomerID = ''usr_1'', cv_Status = '''', cv_CreatedAt = demo_time, cv_ID = ''ord_2''\<rparr>"

definition demo_cursor_cfg :: store_cfg where
  "demo_cursor_cfg =
     demo_cfg (JObj [(''customer_id'', JStr ''usr_1''), (''status'', JStr ''''), (''created_at'', JStr ''now''),
                     (''id'', JStr ''ord_2'')])"

lemma demo_cursor_ok: "cursor_codec demo_cursor_cfg demo_cursor"
  by code_simp

theorem cursor_roundtrip_witness:
  "decodeSignedCursor demo_cursor_cfg (encodeSignedCursor demo_cursor_cfg demo_cursor) = Some demo_cursor"
  by (rule cursor_roundtrip [OF demo_cursor_ok])
     (simp_all add: demo_cursor_def demo_time_def IsZero_def zero_time_def)

text \<open>
  C20.  Cursors cannot be forged: with a secret configured, an accepted cursor is an encoded value
  followed by a dot and the base64 text of the keyed hash of exactly that encoded value.
\<close>

theorem cursors_authentic:
  assumes "decodeSignedCursor cfg cur = Some v" "cursorSecret cfg \<noteq> ''''"
  shows "\<exists>p0 p1. cur = p0 @ ''.'' @ p1
    \<and> b64_decode p1 = Some (hmac256 (lib cfg) (cursorSecret cfg) p0) \<and> decodeCursor cfg p0 = Some v"
  by (rule decodeSignedCursor_mac [OF assms])

theorem cursors_authentic_witness:
  "\<exists>p0 p1. encodeSignedCursor demo_cursor_cfg demo_cursor = p0 @ ''.'' @ p1
    \<and> b64_decode p1 = Some (hmac256 (lib demo_cursor_cfg) (cursorSecret demo_cursor_cfg) p0)
    \<and> decodeCursor demo_cursor_cfg p0 = Some demo_cursor"
proof (rule cursors_authentic)
  show "decodeSignedCursor demo_cursor_cfg (encodeSignedCursor demo_cursor_cfg demo_cursor) = Some demo_cursor"
    by (rule decode_encode_cursor [OF demo_cursor_ok])
       (simp_all add: demo_cursor_def demo_time_def IsZero_def zero_time_def)
qed (simp add: demo_cursor_cfg_def demo_cfg_def)

text \<open>
  C6.  Pages are consecutive: when a page of a listing has a next cursor, listing again with
  that cursor over the same tables returns exactly the following slice of the same sequence of
  orders, newest first, with no order repeated and none left out.
\<close>

theorem pages_consecutive:
  assumes key: "keyed o_id (orders (durable s))"
    and rows: "\<forall>r \<in> set (orders (durable s)). exact_time env r \<and> o_id r \<noteq> ''''
      \<and> cursor_codec cfg (row_cursor env c st r)"
    and n: "1 \<le> n" "n \<le> MaxPageSize" and c: "c \<noteq> ''''"
    and run1: "Store_List cfg c st cur n env s = (Inr (ords, nxt), s')" and more: "nxt \<noteq> ''''"
    and run2: "Store_List cfg c st nxt n env s2 = (Inr (ords2, nxt2), s2')"
    and same: "durable s2 = durable s"
  shows "\<exists>cv. list_cursor cfg c st cur = Some cv \<and>
    (let full = map (stored_order env (durable s)) (listing env (durable s) c st cv) in
     ords = take (nat n) full \<and> ords2 = take (nat n) (drop (nat n) full))"
proof -
  let ?db = "durable s"
  obtain cv where cv: "list_cursor cfg c st cur = Some cv"
    and page: "ords = map (stored_order env ?db) (take (nat n) (listing env ?db c st cv))"
    and nxt: "nxt = (if int (length (listing env ?db c st cv)) \<le> n then ''''
        else next_cursor cfg c st (stored_order env ?db (last (take (nat n) (listing env ?db c st cv)))))"
    using wp_run [OF wp_Store_List [OF key n] run1] by (auto simp: Let_def)
  let ?full = "listing env ?db c st cv" and ?r = "last (take (nat n) (listing env ?db c st cv))"
  have long: "0 < nat n" "nat n < length ?full" using more nxt n by (auto split: if_splits)
  then have "take (nat n) ?full \<noteq> []" by auto
  then have "?r \<in> set ?full" using last_in_set in_set_takeD by metis
  then have r: "?r \<in> set (orders ?db)" by (auto simp: listing_def)
  have rc: "row_cursor env c st ?r = \<lparr>cv_CustomerID = c, cv_Status = st,
      cv_CreatedAt = CreatedAt (stored_order env ?db ?r), cv_ID = ID (stored_order env ?db ?r)\<rparr>"
    by (simp add: row_cursor_def stored_order_def orderFromFields_def)
  have "\<not> int (length ?full) \<le> n" using long n by linarith
  then have "nxt = encodeSignedCursor cfg (row_cursor env c st ?r)"
    using nxt unfolding rc next_cursor_def by (simp only: if_False)
  moreover have "list_cursor cfg c st (encodeSignedCursor cfg (row_cursor env c st ?r))
      = Some (row_cursor env c st ?r)"
    using list_cursor_issued [of cfg "row_cursor env c st ?r"] rows r c
    by (simp add: row_cursor_def exact_time_def scan_ts_def IsZero_def zero_time_def)
  ultimately have cv2: "list_cursor cfg c st nxt = Some (row_cursor env c st ?r)" by simp
  have key2: "keyed o_id (orders (durable s2))" using key same by simp
  have "ords2 = map (stored_order env ?db) (take (nat n) (listing env ?db c st (row_cursor env c st ?r)))"
    using wp_run [OF wp_Store_List [OF key2 n] run2] cv2 by (auto simp: Let_def same)
  also have "listing env ?db c st (row_cursor env c st ?r) = drop (nat n) ?full"
    using rows by (intro listing_next [OF key long]) auto
  finally show ?thesis using cv page by (simp add: Let_def take_map drop_map)
qed
definition page_json :: "string \<Rightarrow> json" where
  "page_json i =
     JObj [(''customer_id'', JStr ''usr_1''), (''status'', JStr ''''), (''created_at'', JStr ''now''), (''id'', JStr i)]"

definition demo_page_cfg :: store_cfg where
  "demo_page_cfg =
     (demo_cfg JNull)\<lparr>lib := (demo_lib JNull)
        \<lparr>jsonParse := (\<lambda>t. if t = ''1'' then Some (page_json ''ord_1'')
                            else if t = ''2'' then Some (page_json ''ord_2'') else None),
         jsonPrint := (\<lambda>j. if j = page_json ''ord_2'' then ''2'' else ''1'')\<rparr>\<rparr>"

definition demo_page_db :: orders_db where
  "demo_page_db =
     demo_db\<lparr>orders := [demo_row, demo_row\<lparr>o_id := ''ord_2''\<rparr>],
             order_items := numbered_items demo_order @ numbered_items (demo_order\<lparr>ID := ''ord_2''\<rparr>)\<rparr>"

definition demo_list :: "string \<Rightarrow> (oerr + order list \<times> string) \<times> orders_session" where
  "demo_list cur = Store_List demo_page_cfg ''usr_1'' '''' cur 1 demo_env (demo_session demo_page_db)"

definition demo_next :: string where
  "demo_next = (case fst (demo_list '''') of Inr (_, nxt) \<Rightarrow> nxt | Inl _ \<Rightarrow> '''')"

definition first_ids :: "oerr + order list \<times> string \<Rightarrow> string list option" where
  "first_ids r = (case r of Inr (ords, _) \<Rightarrow> Some (map ID ords) | Inl _ \<Rightarrow> None)"

lemma demo_pages:
  "first_ids (fst (demo_list '''')) = Some [''ord_2'']" "demo_next \<noteq> ''''"
  "first_ids (fst (demo_list demo_next)) = Some [''ord_1'']"
  by code_simp+

lemma demo_page_rows:
  "keyed o_id (orders demo_page_db)"
  "\<forall>r \<in> set (orders demo_page_db). exact_time demo_env r \<and> o_id r \<noteq> ''''
     \<and> cursor_codec demo_page_cfg (row_cursor demo_env ''usr_1'' '''' r)"
  by code_simp+

theorem pages_consecutive_witness:
  "\<exists>(full :: order list) ords ords2. fst (demo_list '''') = Inr (ords, demo_next)
     \<and> (\<exists>nxt2. fst (demo_list demo_next) = Inr (ords2, nxt2)) \<and> map ID ords = [''ord_2'']
     \<and> map ID ords2 = [''ord_1''] \<and> ords = take 1 full \<and> ords2 = take 1 (drop 1 full)"

proof -
  obtain ords nxt s' where r1: "demo_list '''' = (Inr (ords, nxt), s')" "map ID ords = [''ord_2'']"
    using demo_pages(1) by (cases "demo_list ''''") (auto simp: first_ids_def split: sum.splits prod.splits)
  have nxt: "nxt = demo_next" by (simp add: demo_next_def r1(1))
  obtain ords2 nxt2 s2' where r2: "demo_list demo_next = (Inr (ords2, nxt2), s2')" "map ID ords2 = [''ord_1'']"
    using demo_pages(3) by (cases "demo_list demo_next") (auto simp: first_ids_def split: sum.splits prod.splits)
  let ?s = "demo_session demo_page_db"
  have "durable ?s = demo_page_db" by (simp add: demo_session_def)
  then have "\<exists>cv. list_cursor demo_page_cfg ''usr_1'' '''' '''' = Some cv \<and>
    (let full = map (stored_order demo_env (durable ?s)) (listing demo_env (durable ?s) ''usr_1'' '''' cv) in
     ords = take (nat 1) full \<and> ords2 = take (nat 1) (drop (nat 1) full))"
    using demo_page_rows demo_pages(2) nxt
    by (intro pages_consecutive [OF _ _ _ _ _ r1(1) [unfolded demo_list_def] _
          r2(1) [unfolded demo_list_def, folded nxt]])
       (simp_all add: MaxPageSize_def)
  then obtain full where full: "ords = take 1 full" "ords2 = take 1 (drop 1 full)"
    by (auto simp: Let_def)
  then show ?thesis
    using r1 r2 nxt by (intro exI [of _ full] exI [of _ ords] exI [of _ ords2]) simp
qed

subsection \<open>Cursor length\<close>







definition demo_actor :: actor where
  "demo_actor =
     \<lparr>Subject = ''usr_1'', Type = ''human'',
      Scopes = [''orders:read:self'', ''orders:write:self'', ''orders:cancel:self'']\<rparr>"



subsection \<open>Authorization\<close>

text \<open>
  C14.  A read respects ownership: an order returned to an actor is the requested one, as the
  store has it, the actor is a person, and they own the order and may read their own, or may
  read any.
\<close>

theorem reads_authorized:
  assumes "orders_inv (durable s)" "Service_Get (api_service cfg) actor oid env s = (Inr ord, s')"
  shows "ID ord = oid \<and> stored_holds s ord \<and> Type actor = ''human''
    \<and> (HasScope actor ''orders:read:any''
       \<or> (CustomerID ord = Subject actor \<and> HasScope actor ''orders:read:self''))"
  using wp_run [OF api.get_visible assms(2)] assms(1) by (simp add: stored_good_def)


lemma demo_get: "\<exists>ord s'. Service_Get (api_service (demo_cfg JNull)) demo_actor ''ord_1'' demo_env
    (demo_session demo_db) = (Inr ord, s') \<and> CustomerID ord = ''usr_1''"
proof -
  let ?r = "Service_Get (api_service (demo_cfg JNull)) demo_actor ''ord_1'' demo_env (demo_session demo_db)"
  have "(case fst ?r of Inr ord \<Rightarrow> CustomerID ord = ''usr_1'' | Inl _ \<Rightarrow> False)" by code_simp
  then show ?thesis by (cases ?r) (auto split: sum.splits)
qed

theorem reads_authorized_witness:
  "\<exists>ord s'. Service_Get (api_service (demo_cfg JNull)) demo_actor ''ord_1'' demo_env
      (demo_session demo_db) = (Inr ord, s') \<and> ID ord = ''ord_1'' \<and> stored_holds (demo_session demo_db) ord"
proof -
  have inv: "orders_inv (durable (demo_session demo_db))"
    using demo_db_inv by (simp add: demo_session_def)
  show ?thesis using demo_get reads_authorized [OF inv] by blast
qed


definition may_create :: "actor \<Rightarrow> string \<Rightarrow> bool" where
  "may_create actor customer \<longleftrightarrow>
     Type actor = ''human'' \<and> actorPattern (Subject actor)
     \<and> (HasScope actor ''orders:write:any'' \<or> customer = Subject actor \<and> HasScope actor ''orders:write:self'')"

lemma create_needs_entitlement:
  "\<not> may_create (ci_Actor inp) (ci_CustomerID inp) \<Longrightarrow> \<exists>e. Service_Create sv inp env s = (Inl e, s)"
  by (auto simp: may_create_def Service_Create_def Let_def authorizeActor_def throw_def)

text \<open>
  C17.  Only an entitled person creates orders: unless the actor is a person with the scope to
  write any order, or to write their own and the customer is the actor, creation fails before
  the service reads the clock, takes an identifier or reaches the store.
\<close>

theorem creations_authorized:
  assumes "\<not> may_create (ci_Actor inp) (ci_CustomerID inp)"
  shows "\<exists>e. Service_Create sv inp env s = (Inl e, s)"
  by (rule create_needs_entitlement [OF assms])

definition demo_create :: "string \<Rightarrow> create_input" where
  "demo_create customer =
     \<lparr>ci_Actor = demo_actor, ci_CustomerID = customer, ci_Currency = ''EUR'', ci_Items = demo_items,
      ci_IdempotencyKey = ''key-0123456789abcdef''\<rparr>"

theorem creations_authorized_witness:
  "\<not> may_create demo_actor ''usr_2''
   \<and> (\<exists>e. Service_Create (api_service (demo_cfg JNull)) (demo_create ''usr_2'') demo_env
        (demo_session demo_db) = (Inl e, demo_session demo_db))"
proof -
  have no: "\<not> may_create (ci_Actor (demo_create ''usr_2'')) (ci_CustomerID (demo_create ''usr_2''))"
    by code_simp
  then show ?thesis
    using creations_authorized [OF no] by (simp add: demo_create_def)
qed

definition may_cancel :: "orders_db \<Rightarrow> actor \<Rightarrow> string \<Rightarrow> bool" where
  "may_cancel db actor oid \<longleftrightarrow>
     Type actor = ''human'' \<and> (\<exists>r \<in> set (orders db). o_id r = oid
       \<and> (HasScope actor ''orders:cancel:any''
          \<or> o_customer_id r = Subject actor \<and> HasScope actor ''orders:cancel:self''))"

lemma wp_entitled:
  "P \<Longrightarrow> wp env (RequestCancellation cfg a i op k h reason v at) (\<lambda>_ t'. P \<or> Q t') (\<lambda>_ t'. P \<or> Q t') t"
  by (simp add: wp_def split: prod.splits sum.splits)

lemma may_cancelI:
  "Type actor = ''human'' \<Longrightarrow> r \<in> set (orders db) \<Longrightarrow> o_id r = oid \<Longrightarrow>
     HasScope actor ''orders:cancel:any''
       \<or> o_customer_id r = Subject actor \<and> HasScope actor ''orders:cancel:self'' \<Longrightarrow>
     may_cancel db actor oid"
  unfolding may_cancel_def by blast

lemma cancel_needs_entitlement:
  "wp env (Service_Cancel (api_service cfg) inp)
     (\<lambda>_ s'. may_cancel (durable s) (xi_Actor inp) (xi_OrderID inp) \<or> durable s' = durable s)
     (\<lambda>_ s'. may_cancel (durable s) (xi_Actor inp) (xi_OrderID inp) \<or> durable s' = durable s) s"
proof -
  have store: "so_FindByID (sv_store (api_service cfg)) = loadOrder OnDB"
    "so_RequestCancellation (sv_store (api_service cfg)) = RequestCancellation cfg"
    "sv_clock (api_service cfg) = clockNow"
    by (simp_all add: api_service_def postgres_ops_def FindByID_def fun_eq_iff)
  show ?thesis
    unfolding Service_Cancel_def Let_def store
    by (auto simp: wp_rules authorizeActor_def stored_order_def orderFromFields_def
      intro!: wp_mono [OF wp_loadOrder_db] wp_entitled intro: may_cancelI)
qed

text \<open>
  C16.  Only an entitled person cancels: if a cancellation changes the committed tables, the
  actor is a person, the order is stored, and they own it and may cancel their own orders, or
  may cancel any.
\<close>

theorem cancellations_authorized:
  assumes "Service_Cancel (api_service cfg) inp env s = (res, s')" "durable s' \<noteq> durable s"
  shows "may_cancel (durable s) (xi_Actor inp) (xi_OrderID inp)"
  using wp_both [OF cancel_needs_entitlement assms(1)] assms(2) by blast

definition demo_cancel :: cancel_input where
  "demo_cancel =
     \<lparr>xi_Actor = demo_actor, xi_OrderID = ''ord_1'', xi_Reason = '''',
      xi_IdempotencyKey = ''key-0123456789abcdef''\<rparr>"

theorem cancellations_authorized_witness:
  "map o_status (orders (durable (snd (Service_Cancel (api_service (demo_cfg JNull)) demo_cancel demo_env
      (demo_session demo_db))))) = [''CANCEL_REQUESTED'']
   \<and> may_cancel demo_db demo_actor ''ord_1''"
proof -
  let ?r = "Service_Cancel (api_service (demo_cfg JNull)) demo_cancel demo_env (demo_session demo_db)"
  have st: "map o_status (orders (durable (snd ?r))) = [''CANCEL_REQUESTED'']" by code_simp
  have "map o_status (orders (durable (demo_session demo_db))) = [''PENDING'']" by code_simp
  with st have "durable (snd ?r) \<noteq> durable (demo_session demo_db)" by auto
  from cancellations_authorized [OF prod.collapse [symmetric] this] st show ?thesis
    by (simp add: demo_cancel_def demo_session_def)
qed

end
