(* ===== verification/Web.thy ===== *)
theory Web
  imports Effects Codec
begin

section \<open>HTTP messages and tokens\<close>

text \<open>
  What the services use of \<^verbatim>\<open>net/http\<close> and of the JWT library.  A request carries
  its decoded path, the query (as values of each parameter and as text), the values of each header by canonical name,
  and its body; a response carries its status, headers and body.
\<close>

record web_request =
  Method :: string
  Path :: string
  Query :: "string \<Rightarrow> string list"
  RawQuery :: string
  Header :: "string \<Rightarrow> string list"
  Body :: string
  ContentLength :: int
  RemoteAddr :: string

datatype web_body = NoBody | JsonBody json | RawBody string

record web_response =
  Code :: int
  Headers :: "(string \<times> string) list"
  Content :: web_body

text \<open>\<^verbatim>\<open>Header.Get\<close> and \<^verbatim>\<open>Values.Get\<close>: the first value or the empty string.\<close>

definition first_value :: "string list \<Rightarrow> string" where
  "first_value vs = (case vs of [] \<Rightarrow> '''' | v # _ \<Rightarrow> v)"

definition headerGet :: "web_request \<Rightarrow> string \<Rightarrow> string" where
  "headerGet r name = first_value (Header r name)"

definition queryGet :: "web_request \<Rightarrow> string \<Rightarrow> string" where
  "queryGet r name = first_value (Query r name)"

text \<open>\<^verbatim>\<open>io.LimitReader\<close>: at most \<open>n\<close> bytes.\<close>

fun limited :: "int \<Rightarrow> string \<Rightarrow> string" where
  "limited n [] = []"
| "limited n (c # s) = (if n \<le> 0 then [] else c # limited (n - 1) s)"

lemma limited_take: "limited n s = take (nat n) s"
  by (induction n s rule: limited.induct) (auto simp: take_Cons' nat_diff_distrib)

text \<open>\<^verbatim>\<open>http.StatusText\<close>, with the empty string for other codes.\<close>

definition status_texts :: "(int \<times> string) list" where
  "status_texts =
     [(100, ''Continue''), (101, ''Switching Protocols''), (102, ''Processing''),
      (103, ''Early Hints''), (200, ''OK''), (201, ''Created''), (202, ''Accepted''),
      (203, ''Non-Authoritative Information''), (204, ''No Content''), (205, ''Reset Content''),
      (206, ''Partial Content''), (207, ''Multi-Status''), (208, ''Already Reported''),
      (226, ''IM Used''), (300, ''Multiple Choices''), (301, ''Moved Permanently''),
      (302, ''Found''), (303, ''See Other''), (304, ''Not Modified''), (305, ''Use Proxy''),
      (307, ''Temporary Redirect''), (308, ''Permanent Redirect''), (400, ''Bad Request''),
      (401, ''Unauthorized''), (402, ''Payment Required''), (403, ''Forbidden''),
      (404, ''Not Found''), (405, ''Method Not Allowed''), (406, ''Not Acceptable''),
      (407, ''Proxy Authentication Required''), (408, ''Request Timeout''), (409, ''Conflict''),
      (410, ''Gone''), (411, ''Length Required''), (412, ''Precondition Failed''),
      (413, ''Request Entity Too Large''), (414, ''Request URI Too Long''),
      (415, ''Unsupported Media Type''), (416, ''Requested Range Not Satisfiable''),
      (417, ''Expectation Failed''), (418, ''I'' @ CHR 0x27 # ''m a teapot''),
      (421, ''Misdirected Request''), (422, ''Unprocessable Entity''), (423, ''Locked''),
      (424, ''Failed Dependency''), (425, ''Too Early''), (426, ''Upgrade Required''),
      (428, ''Precondition Required''), (429, ''Too Many Requests''),
      (431, ''Request Header Fields Too Large''), (451, ''Unavailable For Legal Reasons''),
      (500, ''Internal Server Error''), (501, ''Not Implemented''), (502, ''Bad Gateway''),
      (503, ''Service Unavailable''), (504, ''Gateway Timeout''),
      (505, ''HTTP Version Not Supported''), (506, ''Variant Also Negotiates''),
      (507, ''Insufficient Storage''), (508, ''Loop Detected''), (510, ''Not Extended''),
      (511, ''Network Authentication Required'')]"

definition StatusText :: "int \<Rightarrow> string" where
  "StatusText c = (case map_of status_texts c of None \<Rightarrow> '''' | Some t \<Rightarrow> t)"

definition json_response :: "int \<Rightarrow> json \<Rightarrow> web_response" where
  "json_response code j =
     \<lparr>Code = code, Headers = [(''Content-Type'', ''application/json'')], Content = JsonBody j\<rparr>"

text \<open>
  A body of at most \<open>limit\<close> bytes with one JSON value and nothing after it, decoded
  strictly; the bytes beyond the limit are not read.
\<close>

definition decode_body :: "golib \<Rightarrow> int \<Rightarrow> 'a field list \<Rightarrow> 'a \<Rightarrow> string \<Rightarrow> 'a option" where
  "decode_body gl limit fs zero body =
     (case jsonParse gl (limited limit body) of
        None \<Rightarrow> None
      | Some j \<Rightarrow> (case decode_strict fs j zero of (ok, x) \<Rightarrow> if ok then Some x else None))"

text \<open>
  The claims of a token and the JWT library as the services use it: decoding without
  verification (algorithm, key id if it is a string, claims), and the check of the signature
  with a key, the issuer, the audience and the times with the given leeway.
\<close>

record token_claims =
  tc_Issuer :: string
  tc_Subject :: string
  tc_Audience :: "string list"
  tc_TokenKind :: string
  tc_Scopes :: "string list"
  tc_Roles :: "string list"
  tc_SessionID :: string
  tc_ID :: string
  tc_IssuedAt :: "gotime option"
  tc_NotBefore :: "gotime option"
  tc_ExpiresAt :: "gotime option"

record jwtlib =
  jwtDecode :: "string \<Rightarrow> (string \<times> string option \<times> token_claims) option"
  jwtVerify :: "string \<Rightarrow> string \<Rightarrow> string \<Rightarrow> string \<Rightarrow> int \<Rightarrow> gotime \<Rightarrow> bool"

end
