(* ===== verification/Orders_HTTP.thy ===== *)
theory Orders_HTTP
  imports Orders_Access Web "HOL-Library.AList" "HOL-Library.Char_ord" "HOL-Library.List_Lexorder"
begin

section \<open>Orders: the HTTP adapter\<close>

text \<open>
  \<^verbatim>\<open>apps/orders/internal/adapters/inbound/http/auth.go\<close> and
  \<^verbatim>\<open>server.go\<close>, and the health service: authentication of the gateway, routing,
  decoding of requests, and the mapping of results to responses.  The state is the session of
  the store and the key cache of the authenticator.  Metrics, logs and traces have no effect on
  responses and are left out; the documentation page, the OpenAPI file and the metrics page are
  parameters of the server.
\<close>

subsection \<open>Authentication\<close>

record api_state =
  as_orders :: orders_session
  as_keys :: "string \<Rightarrow> string option"
  as_loaded :: gotime

type_synonym 'a hact = "(api_state, oerr, 'a) act"

definition onOrders :: "'a oact \<Rightarrow> 'a hact" where
  "onOrders m = zoom as_orders (\<lambda>d s. s\<lparr>as_orders := d\<rparr>) m"

record gateway_auth =
  ga_staticToken :: string
  ga_issuer :: string
  ga_audience :: string
  ga_subject :: string

type_synonym headers = "string \<Rightarrow> string list"

text \<open>\<open>^[a-z0-9:_-]{2,96}$\<close>.\<close>

definition scopePattern :: "string \<Rightarrow> bool" where
  "scopePattern v =
     class_between (\<lambda>c. is_lower c \<or> is_digit c \<or> c \<in> {CHR '':'', CHR ''_'', CHR ''-''}) 2 96 v"

definition hasOrdersMachineScope :: "string list \<Rightarrow> bool" where
  "hasOrdersMachineScope scopes = list_ex (\<lambda>s. s = ''orders:read'' \<or> s = ''orders:write'') scopes"

definition trustedActor :: "headers \<Rightarrow> actor option" where
  "trustedActor h =
     (let subject = TrimSpace (first_value (h ''X-Streamweave-Actor-Id'')) in
      if \<not> ValidCustomerID subject
         \<or> TrimSpace (first_value (h ''X-Streamweave-Actor-Type'')) \<noteq> ''human''
      then None
      else
        let scopes = Fields (first_value (h ''X-Streamweave-Scopes'')) in
        if list_all scopePattern scopes
        then Some \<lparr>Subject = subject, Type = ''human'', Scopes = scopes\<rparr> else None)"

definition unauthorized :: "'a hact" where
  "unauthorized = throw (app_err ErrUnauthorized)"

definition trusted :: "headers \<Rightarrow> actor hact" where
  "trusted h = (case trustedActor h of None \<Rightarrow> unauthorized | Some a \<Rightarrow> ret a)"

text \<open>\<^verbatim>\<open>GatewayAuthenticator.key\<close>: the cache for five minutes, then the key document.\<close>

definition getAuthKeys :: "((string \<Rightarrow> string option) \<times> gotime) hact" where
  "getAuthKeys = (\<lambda>env s. (Inr (as_keys s, as_loaded s), s))"

definition setAuthKeys :: "(string \<Rightarrow> string option) \<Rightarrow> gotime \<Rightarrow> unit hact" where
  "setAuthKeys keys t = (\<lambda>env s. (Inr (), s\<lparr>as_keys := keys, as_loaded := t\<rparr>))"

definition load_auth_keys :: "golib \<Rightarrow> string \<Rightarrow> string option hact" where
  "load_auth_keys gl kid =
     bindA (onOrders httpGet) (\<lambda>response.
     case (case response of None \<Rightarrow> None | Some r \<Rightarrow> parse_document gl r) of
       None \<Rightarrow> ret None
     | Some keys \<Rightarrow>
         bindA (onOrders clockNow) (\<lambda>now.
         bindA (setAuthKeys keys now) (\<lambda>_. ret (keys kid))))"

definition auth_key :: "golib \<Rightarrow> string \<Rightarrow> string option hact" where
  "auth_key gl kid =
     bindA getAuthKeys (\<lambda>(keys, loaded).
     case keys kid of
       None \<Rightarrow> load_auth_keys gl kid
     | Some key \<Rightarrow>
         bindA (onOrders clockNow) (\<lambda>now.
         if instant now - instant loaded < minutes 5 then ret (Some key) else load_auth_keys gl kid))"

definition machine_token_ok :: "gateway_auth \<Rightarrow> token_claims \<Rightarrow> bool" where
  "machine_token_ok a c \<longleftrightarrow>
     tc_TokenKind c = ''service'' \<and> tc_Subject c = ga_subject a \<and> tc_ExpiresAt c \<noteq> None \<and> tc_ID c \<noteq> ''''
     \<and> hasOrdersMachineScope (tc_Scopes c)"

definition GatewayAuthenticate :: "golib \<Rightarrow> jwtlib \<Rightarrow> gateway_auth \<Rightarrow> headers \<Rightarrow> actor hact" where
  "GatewayAuthenticate gl jl a h =
     (case h ''Authorization'' of
        [v] \<Rightarrow>
          if \<not> HasPrefix v ''Bearer '' then unauthorized
          else
            let raw = TrimSpace (TrimPrefix v ''Bearer '') in
            if raw = '''' then unauthorized
            else if ga_staticToken a \<noteq> '''' then
              (if raw = ga_staticToken a then trusted h else unauthorized)
            else
              (case jwtDecode jl raw of
                 None \<Rightarrow> unauthorized
               | Some (alg, kid, claims) \<Rightarrow>
                   if alg \<noteq> ''EdDSA'' then unauthorized
                   else case kid of None \<Rightarrow> unauthorized | Some k \<Rightarrow>
                   if k = '''' then unauthorized
                   else
                     bindA (auth_key gl k) (\<lambda>key.
                     case key of None \<Rightarrow> unauthorized | Some pk \<Rightarrow>
                     bindA (onOrders clockNow) (\<lambda>now.
                     if \<not> jwtVerify jl raw pk (ga_issuer a) (ga_audience a) (seconds 30) now
                        \<or> \<not> machine_token_ok a claims
                     then unauthorized else trusted h)))
      | _ \<Rightarrow> unauthorized)"

definition StaticAuthenticate :: "string \<Rightarrow> headers \<Rightarrow> actor hact" where
  "StaticAuthenticate token h =
     (if TrimSpace token = '''' then unauthorized
      else if h ''Authorization'' \<noteq> [''Bearer '' @ token] then unauthorized
      else trusted h)"

subsection \<open>Requests and responses\<close>

record create_item =
  cri_ProductID :: string
  cri_Quantity :: int

record create_request =
  cr_CustomerID :: string
  cr_Currency :: string
  cr_Items :: "create_item list"

definition zero_create_item :: create_item where
  "zero_create_item = \<lparr>cri_ProductID = '''', cri_Quantity = 0\<rparr>"

definition zero_create_request :: create_request where
  "zero_create_request = \<lparr>cr_CustomerID = '''', cr_Currency = '''', cr_Items = []\<rparr>"

definition create_item_fields :: "create_item field list" where
  "create_item_fields =
     [(''product_id'', dec_str (\<lambda>v. cri_ProductID_update (\<lambda>_. v))),
      (''quantity'', dec_int in_int32 (\<lambda>v. cri_Quantity_update (\<lambda>_. v)))]"

definition create_request_fields :: "create_request field list" where
  "create_request_fields =
     [(''customer_id'', dec_str (\<lambda>v. cr_CustomerID_update (\<lambda>_. v))),
      (''currency'', dec_str (\<lambda>v. cr_Currency_update (\<lambda>_. v))),
      (''items'', \<lambda>j x. case decode_slice_strict create_item_fields zero_create_item j of
                    (ok, its) \<Rightarrow> if ok then Some (x\<lparr>cr_Items := its\<rparr>) else None)]"

definition cancel_request_fields :: "string field list" where
  "cancel_request_fields = [(''reason_code'', dec_str (\<lambda>v _. v))]"

definition decodeJSON :: "golib \<Rightarrow> 'a field list \<Rightarrow> 'a \<Rightarrow> web_request \<Rightarrow> 'a option" where
  "decodeJSON gl fs zero r = decode_body gl (2 ^ 20) fs zero (Body r)"

text \<open>The items of a request as items of the domain: product and quantity, nothing priced.\<close>

definition request_item :: "create_item \<Rightarrow> item" where
  "request_item i =
     \<lparr>ProductID = cri_ProductID i, Quantity = cri_Quantity i, UnitPriceMinor = None,
      LineTotalMinor = None, QuoteID = None, QuoteVersion = None\<rparr>"

definition validIdempotencyKey :: "string \<Rightarrow> string option" where
  "validIdempotencyKey v =
     (let t = TrimSpace v in if class_between key_char 16 256 t then Some t else None)"

definition nullableString :: "string \<Rightarrow> json" where
  "nullableString v = (if v = '''' then JNull else JStr v)"

definition acceptedResponse :: "golib \<Rightarrow> string \<Rightarrow> string \<Rightarrow> gotime \<Rightarrow> json" where
  "acceptedResponse gl oid st t =
     JObj [(''order_id'', JStr oid), (''status'', JStr st), (''created_at'', jtime gl t)]"

definition itemResponse :: "item \<Rightarrow> json" where
  "itemResponse i =
     JObj [(''product_id'', JStr (ProductID i)), (''quantity'', jint (Quantity i)),
           (''unit_price_minor'', opt_json jint (UnitPriceMinor i)),
           (''line_total_minor'', opt_json jint (LineTotalMinor i)),
           (''quote_id'', opt_json JStr (QuoteID i)),
           (''quote_version'', opt_json jint (QuoteVersion i))]"

definition toOrderResponse :: "golib \<Rightarrow> order \<Rightarrow> json" where
  "toOrderResponse gl ord =
     JObj [(''order_id'', JStr (ID ord)), (''customer_id'', JStr (CustomerID ord)),
           (''status'', JStr (status_text (Status ord))), (''currency'', JStr (Currency ord)),
           (''total_minor'', opt_json jint (TotalMinor ord)),
           (''failure_code'', opt_json JStr (FailureCode ord)),
           (''items'', JArr (map itemResponse (Items ord))),
           (''created_at'', jtime gl (CreatedAt ord)), (''updated_at'', jtime gl (UpdatedAt ord))]"

text \<open>
  \<^verbatim>\<open>problem\<close>; the request id is the one \<^verbatim>\<open>observe\<close> set on the response.
\<close>

definition problem :: "string \<Rightarrow> web_request \<Rightarrow> int \<Rightarrow> string \<Rightarrow> string \<Rightarrow> web_response" where
  "problem rid r code ptype detail =
     (let requestID = (if rid = '''' then headerGet r ''X-Request-Id'' else rid) in
      \<lparr>Code = code, Headers = [(''Content-Type'', ''application/problem+json'')],
       Content = JsonBody (JObj
         [(''detail'', JStr detail), (''instance'', JStr (Path r)),
          (''request_id'', JStr requestID), (''status'', jint code),
          (''title'', JStr (StatusText code)),
          (''type'', JStr (''https://streamweave.dev/problems/'' @ ptype))])\<rparr>)"

definition unauthenticated :: "string \<Rightarrow> web_request \<Rightarrow> web_response" where
  "unauthenticated rid r = problem rid r 401 ''unauthorized'' ''Authentication is required''"

definition methodNotAllowed :: "string \<Rightarrow> web_request \<Rightarrow> web_response" where
  "methodNotAllowed rid r = problem rid r 405 ''method_not_allowed'' ''Method not allowed''"

definition badRequest :: "string \<Rightarrow> web_request \<Rightarrow> string \<Rightarrow> web_response" where
  "badRequest rid r detail = problem rid r 400 ''bad_request'' detail"

definition writeApplicationError :: "string \<Rightarrow> web_request \<Rightarrow> oerr \<Rightarrow> web_response" where
  "writeApplicationError rid r e =
     (let is = (\<lambda>k. errIs e (App k)) in
      if is ErrUnauthorized then problem rid r 401 ''unauthorized'' ''Authentication is required''
      else if is ErrForbidden
      then problem rid r 403 ''forbidden'' ''The requested operation is not permitted''
      else if is ErrNotFound then problem rid r 404 ''not_found'' ''Order was not found''
      else if is ErrIdempotencyConflict
      then problem rid r 409 ''idempotency_conflict''
             ''Idempotency-Key was reused with different input''
      else if is ErrConflict
      then problem rid r 409 ''state_conflict'' ''The order cannot be changed in its current state''
      else if is ErrInvalidCursor then problem rid r 400 ''bad_request'' ''The cursor is invalid''
      else if is ErrDependency
      then problem rid r 503 ''dependency_unavailable'' ''A required dependency is unavailable''
      else problem rid r 422 ''validation_failed'' ''The request is invalid'')"

subsection \<open>Health\<close>

record health_status =
  hs_Status :: string
  hs_Dependencies :: "(string \<times> string) list"

text \<open>A dependency is its name and its check; nil entries are skipped.\<close>

type_synonym health_dependency = "(string \<times> unit hact) option"

definition Live :: health_status where
  "Live = \<lparr>hs_Status = ''ok'', hs_Dependencies = []\<rparr>"

fun ready_from :: "health_dependency list \<Rightarrow> health_status \<Rightarrow> health_status hact" where
  "ready_from [] acc = ret acc"
| "ready_from (None # ds) acc = ready_from ds acc"
| "ready_from (Some (name, check) # ds) acc =
     bindA (tryA check) (\<lambda>res.
     case res of
       Inl _ \<Rightarrow> ready_from ds
         \<lparr>hs_Status = ''not_ready'',
          hs_Dependencies = AList.update name ''unavailable'' (hs_Dependencies acc)\<rparr>
     | Inr _ \<Rightarrow> ready_from ds
         (acc\<lparr>hs_Dependencies := AList.update name ''ok'' (hs_Dependencies acc)\<rparr>))"

definition Ready :: "health_dependency list \<Rightarrow> health_status hact" where
  "Ready ds = ready_from ds \<lparr>hs_Status = ''ready'', hs_Dependencies = []\<rparr>"

definition status_json :: "health_status \<Rightarrow> json" where
  "status_json st =
     JObj ((''status'', JStr (hs_Status st)) #
           (if hs_Dependencies st = [] then []
            else [(''dependencies'',
                   JObj (map (\<lambda>(n, v). (n, JStr v)) (sort_key fst (hs_Dependencies st))))]))"

subsection \<open>Handlers\<close>

text \<open>
  The server: service, authenticator (the operations-only server has none), health checks, the
  OpenAPI file if it can be read, and the metrics page.
\<close>

record server =
  srv_orders :: service
  srv_auth :: "(headers \<Rightarrow> actor hact) option"
  srv_health :: "health_dependency list"
  srv_openapi :: "string option"
  srv_metrics :: web_response

definition actor_of :: "server \<Rightarrow> web_request \<Rightarrow> actor hact" where
  "actor_of sv r =
     (case srv_auth sv of None \<Rightarrow> unauthorized | Some authenticate \<Rightarrow> authenticate (Header r))"

text \<open>The first lines of every handler of the application.\<close>

definition authenticated ::
  "server \<Rightarrow> string \<Rightarrow> web_request \<Rightarrow> (actor \<Rightarrow> web_response hact) \<Rightarrow> web_response hact" where
  "authenticated sv rid r k =
     bindA (tryA (actor_of sv r)) (\<lambda>res.
     case res of Inl _ \<Rightarrow> ret (unauthenticated rid r) | Inr actor \<Rightarrow> k actor)"

text \<open>An operation of the service, its error mapped to a response.\<close>

definition answer ::
  "string \<Rightarrow> web_request \<Rightarrow> 'a oact \<Rightarrow> ('a \<Rightarrow> web_response) \<Rightarrow> web_response hact" where
  "answer rid r m f =
     bindA (tryA (onOrders m)) (\<lambda>res.
     ret (case res of Inl e \<Rightarrow> writeApplicationError rid r e | Inr x \<Rightarrow> f x))"

definition create_answer :: "golib \<Rightarrow> create_result \<Rightarrow> web_response" where
  "create_answer gl res =
     (let st = (if ResponseStatus res = '''' then status_text (Status (ResultOrder res))
                else ResponseStatus res);
          at = (if IsZero (ResponseAt res) then CreatedAt (ResultOrder res) else ResponseAt res) in
      json_response 202 (acceptedResponse gl (ID (ResultOrder res)) st at))"

definition createOrder :: "server \<Rightarrow> string \<Rightarrow> web_request \<Rightarrow> web_response hact" where
  "createOrder sv rid r =
     (let gl = sv_lib (srv_orders sv) in
      authenticated sv rid r (\<lambda>actor.
      case validIdempotencyKey (headerGet r ''Idempotency-Key'') of
        None \<Rightarrow> ret (badRequest rid r ''Idempotency-Key is invalid'')
      | Some key \<Rightarrow>
          (case decodeJSON gl create_request_fields zero_create_request r of
             None \<Rightarrow> ret (badRequest rid r ''Request body is invalid'')
           | Some inp \<Rightarrow>
               answer rid r
                 (Service_Create (srv_orders sv)
                    \<lparr>ci_Actor = actor, ci_CustomerID = cr_CustomerID inp,
                     ci_Currency = cr_Currency inp, ci_Items = map request_item (cr_Items inp),
                     ci_IdempotencyKey = key\<rparr>)
                 (create_answer gl))))"

definition getOrder :: "server \<Rightarrow> string \<Rightarrow> web_request \<Rightarrow> web_response hact" where
  "getOrder sv rid r =
     authenticated sv rid r (\<lambda>actor.
     answer rid r (Service_Get (srv_orders sv) actor (TrimPrefix (Path r) ''/v1/orders/''))
       (\<lambda>ord. json_response 200 (toOrderResponse (sv_lib (srv_orders sv)) ord)))"

definition list_limit :: "web_request \<Rightarrow> int option" where
  "list_limit r = (let raw = queryGet r ''limit'' in if raw = '''' then Some 25 else ParseInt raw)"

definition list_answer :: "golib \<Rightarrow> order list \<times> string \<Rightarrow> web_response" where
  "list_answer gl = (\<lambda>(orders, next).
     json_response 200 (JObj [(''items'', JArr (map (toOrderResponse gl) orders)),
                              (''next_cursor'', nullableString next)]))"

definition listOrders :: "server \<Rightarrow> string \<Rightarrow> web_request \<Rightarrow> web_response hact" where
  "listOrders sv rid r =
     authenticated sv rid r (\<lambda>actor.
     case list_limit r of
       None \<Rightarrow> ret (badRequest rid r ''limit is invalid'')
     | Some limit \<Rightarrow>
         answer rid r
           (Service_List (srv_orders sv)
              \<lparr>li_Actor = actor, li_CustomerID = queryGet r ''customer_id'',
               li_Status = queryGet r ''status'', li_Cursor = queryGet r ''cursor'',
               li_Limit = limit\<rparr>)
           (list_answer (sv_lib (srv_orders sv))))"

definition cancel_path :: "string \<Rightarrow> string" where
  "cancel_path p = TrimSuffix (TrimPrefix p ''/v1/orders/'') ''/cancel''"

definition cancelOrder :: "server \<Rightarrow> string \<Rightarrow> web_request \<Rightarrow> web_response hact" where
  "cancelOrder sv rid r =
     (let gl = sv_lib (srv_orders sv) in
      authenticated sv rid r (\<lambda>actor.
      case validIdempotencyKey (headerGet r ''Idempotency-Key'') of
        None \<Rightarrow> ret (badRequest rid r ''Idempotency-Key is invalid'')
      | Some key \<Rightarrow>
          (case (if ContentLength r = 0 then Some '''' else decodeJSON gl cancel_request_fields '''' r) of
             None \<Rightarrow> ret (badRequest rid r ''Request body is invalid'')
           | Some reason \<Rightarrow>
               answer rid r
                 (Service_Cancel (srv_orders sv)
                    \<lparr>xi_Actor = actor, xi_OrderID = cancel_path (Path r), xi_Reason = reason,
                     xi_IdempotencyKey = key\<rparr>)
                 (\<lambda>ord. json_response 202
                    (acceptedResponse gl (ID ord) (status_text (Status ord)) (UpdatedAt ord))))))"

subsection \<open>Documentation, routing and the outer handler\<close>

definition quoted :: "string \<Rightarrow> string" where
  "quoted v = CHR 0x27 # v @ [CHR 0x27]"

definition docs_policy :: "string \<Rightarrow> string" where
  "docs_policy nonce =
     ''default-src '' @ quoted ''none'' @ ''; style-src https://unpkg.com '' @ quoted ''unsafe-inline''
     @ ''; script-src https://unpkg.com '' @ quoted (''nonce-'' @ nonce)
     @ ''; img-src https://unpkg.com data:; connect-src '' @ quoted ''self''
     @ ''; base-uri '' @ quoted ''none'' @ ''; frame-ancestors '' @ quoted ''none''"

definition docs_page :: "string \<Rightarrow> string" where
  "docs_page nonce =
     ''<!doctype html><html lang=\"en\"><head><meta charset=\"utf-8\"><meta name=\"viewport\" content=\"width=device-width, initial-scale=1\"><title>StreamWeave Orders API</title><link rel=\"stylesheet\" href=\"https://unpkg.com/swagger-ui-dist@5/swagger-ui.css\"></head><body><div id=\"swagger-ui\"></div><script src=\"https://unpkg.com/swagger-ui-dist@5/swagger-ui-bundle.js\"></script><script nonce=\"''
     @ nonce @ ''\">window.onload=()=>window.ui=SwaggerUIBundle({url:'' @ quoted ''/v1/openapi.yaml''
     @ '',dom_id:'' @ quoted ''#swagger-ui'' @ '',deepLinking:true,displayRequestDuration:true,persistAuthorization:false,filter:true,tryItOutEnabled:true});</script></body></html>''"

definition docs :: "server \<Rightarrow> string \<Rightarrow> web_request \<Rightarrow> web_response hact" where
  "docs sv rid r =
     (case srv_openapi sv of
        None \<Rightarrow> ret (problem rid r 404 ''not_found'' ''OpenAPI document unavailable'')
      | Some _ \<Rightarrow>
          bindA (onOrders (randBytes 16)) (\<lambda>bytes.
          let nonce = b64_encode bytes in
          ret \<lparr>Code = 200,
               Headers = [(''Content-Type'', ''text/html; charset=utf-8''),
                          (''Content-Security-Policy'', docs_policy nonce),
                          (''X-Content-Type-Options'', ''nosniff''),
                          (''Referrer-Policy'', ''no-referrer''), (''Cache-Control'', ''no-store'')],
               Content = RawBody (docs_page nonce)\<rparr>))"

definition openapi :: "server \<Rightarrow> string \<Rightarrow> web_request \<Rightarrow> web_response" where
  "openapi sv rid r =
     (case srv_openapi sv of
        None \<Rightarrow> problem rid r 404 ''not_found'' ''OpenAPI document unavailable''
      | Some data \<Rightarrow>
          \<lparr>Code = 200, Headers = [(''Content-Type'', ''application/yaml'')], Content = RawBody data\<rparr>)"

definition ready_answer :: "server \<Rightarrow> web_response hact" where
  "ready_answer sv =
     bindA (Ready (srv_health sv)) (\<lambda>st.
     ret (json_response (if hs_Status st = ''ready'' then 200 else 503) (status_json st)))"

definition onlyMethod ::
  "string \<Rightarrow> web_request \<Rightarrow> string \<Rightarrow> web_response hact \<Rightarrow> web_response hact" where
  "onlyMethod rid r expected k =
     (if Method r \<noteq> expected then ret (methodNotAllowed rid r) else k)"

definition route :: "server \<Rightarrow> string \<Rightarrow> web_request \<Rightarrow> web_response hact" where
  "route sv rid r =
     (let p = Path r in
      if p = ''/health/live''
      then onlyMethod rid r ''GET'' (ret (json_response 200 (status_json Live)))
      else if p = ''/health/ready'' then onlyMethod rid r ''GET'' (ready_answer sv)
      else if p = ''/v1/docs'' then onlyMethod rid r ''GET'' (docs sv rid r)
      else if p = ''/v1/openapi.yaml'' then onlyMethod rid r ''GET'' (ret (openapi sv rid r))
      else if p = ''/v1/orders'' then
        (if Method r = ''POST'' then createOrder sv rid r
         else if Method r = ''GET'' then listOrders sv rid r
         else ret (methodNotAllowed rid r))
      else if HasPrefix p ''/v1/orders/'' \<and> HasSuffix p ''/cancel'' then
        (if Method r = ''POST'' then cancelOrder sv rid r else ret (methodNotAllowed rid r))
      else if HasPrefix p ''/v1/orders/'' then
        (if Method r = ''GET'' then getOrder sv rid r else ret (methodNotAllowed rid r))
      else ret (problem rid r 404 ''not_found'' ''Route not found''))"

text \<open>The multiplexer: the metrics page and everything else.\<close>

definition mux :: "server \<Rightarrow> string \<Rightarrow> web_request \<Rightarrow> web_response hact" where
  "mux sv rid r =
     (if Path r = ''/metrics''
      then onlyMethod rid r ''GET'' (ret (srv_metrics sv))
      else route sv rid r)"

definition routeTemplate :: "string \<Rightarrow> string" where
  "routeTemplate p =
     (if p \<in> {''/health/live'', ''/health/ready'', ''/metrics'', ''/v1/docs'', ''/v1/openapi.yaml'', ''/v1/orders''}
      then p
      else if HasSuffix p ''/cancel'' \<and> HasPrefix p ''/v1/orders/'' then ''/v1/orders/{order_id}/cancel''
      else if HasPrefix p ''/v1/orders/'' then ''/v1/orders/{order_id}''
      else ''unmatched'')"

definition newRequestID :: "string hact" where
  "newRequestID = bindA (onOrders (randBytes 12)) (\<lambda>bytes. ret (''ord-'' @ hex_encode bytes))"

text \<open>
  \<^verbatim>\<open>observe\<close>: the request id is taken from the request or generated, and set on the
  response.
\<close>

definition observe :: "(string \<Rightarrow> web_request \<Rightarrow> web_response hact) \<Rightarrow> web_request \<Rightarrow> web_response hact" where
  "observe handler r =
     (let given = TrimSpace (headerGet r ''X-Request-Id'') in
      bindA (if given = '''' \<or> 128 < length given then newRequestID else ret given) (\<lambda>rid.
      bindA (handler rid r) (\<lambda>resp.
      ret (resp\<lparr>Headers := (''X-Request-Id'', rid) # Headers resp\<rparr>))))"

definition serveHTTP :: "server \<Rightarrow> web_request \<Rightarrow> web_response hact" where
  "serveHTTP sv r = observe (mux sv) r"

text \<open>
  \<^verbatim>\<open>Connection.Check\<close> pings the database; the server as
  \<^verbatim>\<open>cmd/api\<close> wires it, on the Postgres store.
\<close>

definition Connection_Check :: "unit hact" where
  "Connection_Check = onOrders (autoQ mapError (\<lambda>env t db. Inr ((), db)))"

definition api_server :: "store_cfg \<Rightarrow> jwtlib \<Rightarrow> gateway_auth \<Rightarrow> string option \<Rightarrow> web_response \<Rightarrow> server" where
  "api_server cfg jl ga file page =
     \<lparr>srv_orders = api_service cfg, srv_auth = Some (GatewayAuthenticate (lib cfg) jl ga),
      srv_health = [Some (''postgresql'', Connection_Check)], srv_openapi = file,
      srv_metrics = page\<rparr>"

end
