(* ===== verification/Orders_API.thy ===== *)
theory Orders_API
  imports Orders_HTTP
begin

section \<open>Orders: what the HTTP interface guarantees\<close>

text \<open>
  Authentication and authorization from the request to the tables.  The locale
  \<open>authenticator\<close> is the contract of the interface \<^verbatim>\<open>Authenticator\<close>; the
  lemmas on the server are proved for every authenticator that fulfils it, and the gateway
  authenticator and the static one are interpretations.
\<close>

abbreviation api_db :: "api_state \<Rightarrow> orders_db" where
  "api_db s \<equiv> durable (as_orders s)"

subsection \<open>What leaves the tables alone\<close>

definition db_kept :: "orders_session \<Rightarrow> orders_session \<Rightarrow> bool" where
  "db_kept s s' \<longleftrightarrow> durable s' = durable s"

definition api_kept :: "api_state \<Rightarrow> api_state \<Rightarrow> bool" where
  "api_kept s s' \<longleftrightarrow> api_db s' = api_db s"

interpretation dk: session_frame db_kept
  by unfold_locales (simp_all add: db_kept_def)

interpretation ak: session_frame api_kept
  by unfold_locales (simp_all add: api_kept_def)

lemma db_kept_effects:
  "keeps db_kept newUUID" "keeps db_kept clockNow" "keeps db_kept (randBytes n)"
  "keeps db_kept httpGet"
  by (simp_all add: keeps_def db_kept_def newUUID_def clockNow_def randBytes_def httpGet_def)

lemma db_kept_read:
  assumes "\<And>env t db x w. q env t db = Inr (x, w) \<Longrightarrow> w = db"
  shows "keeps db_kept (autoQ h q)"
  using assms by (auto simp: keeps_def db_kept_def autoQ_def split: sum.splits option.splits)

lemma api_kept_onOrders: "keeps db_kept m \<Longrightarrow> keeps api_kept (onOrders m)"
  unfolding onOrders_def by (erule keeps_zoom) (simp add: db_kept_def api_kept_def)

lemma db_kept_wp:
  assumes "\<And>env s. wp env m (\<lambda>_ s'. durable s' = durable s) (\<lambda>_ s'. durable s' = durable s) s"
  shows "keeps db_kept m"
  unfolding keeps_def db_kept_def using wp_both [OF assms prod.collapse [symmetric]] by simp

lemma db_kept_loadOrder: "keeps db_kept (loadOrder OnDB oid)"
  by (rule db_kept_wp) (rule wp_mono [OF wp_loadOrder_db], simp_all)

lemma db_kept_load_orders: "keeps db_kept (load_orders is)"
  by (rule db_kept_wp) (rule wp_mono [OF wp_load_orders], simp_all)

lemma db_kept_Store_List: "keeps db_kept (Store_List cfg c st cur n)"
  unfolding Store_List_def
  by (intro dk.keeps_rules db_kept_load_orders db_kept_read)
     (auto simp: q_ListOrders_def split: if_splits)

lemmas api_service_parts = api_service_def postgres_ops_def FindByID_def

lemma db_kept_Service_Get: "keeps db_kept (Service_Get (api_service cfg) a oid)"
  unfolding Service_Get_def
  by (intro dk.keeps_rules) (simp_all add: api_service_parts db_kept_loadOrder)

lemma db_kept_Service_List: "keeps db_kept (Service_List (api_service cfg) inp)"
  unfolding Service_List_def
  by (intro dk.keeps_rules) (simp_all add: api_service_parts db_kept_Store_List)

lemma api_kept_answer: "keeps db_kept m \<Longrightarrow> keeps api_kept (answer rid r m f)"
  unfolding answer_def by (intro ak.keeps_rules api_kept_onOrders)

lemma api_kept_Connection_Check: "keeps api_kept Connection_Check"
  unfolding Connection_Check_def by (intro api_kept_onOrders db_kept_read) simp

lemma api_kept_ready_from:
  "(\<And>n c. Some (n, c) \<in> set ds \<Longrightarrow> keeps api_kept c) \<Longrightarrow> keeps api_kept (ready_from ds acc)"
  by (induction ds acc rule: ready_from.induct) (auto intro!: ak.keeps_rules)

lemma api_kept_setAuthKeys: "keeps api_kept (setAuthKeys k t)"
  by (simp add: keeps_def setAuthKeys_def api_kept_def)

lemma api_kept_getAuthKeys: "keeps api_kept getAuthKeys"
  by (simp add: keeps_def getAuthKeys_def api_kept_def)

lemmas api_kept_leaves = api_kept_onOrders db_kept_effects api_kept_setAuthKeys api_kept_getAuthKeys

subsection \<open>Authenticators\<close>

text \<open>
  An accepted request names its actor in the trusted headers and is vouched for by its
  credentials; authentication, successful or not, leaves the tables alone.
\<close>

locale authenticator =
  fixes auth :: "headers \<Rightarrow> actor hact" and vouched :: "env \<Rightarrow> api_state \<Rightarrow> headers \<Rightarrow> bool"
  assumes accepts: "wp env (auth h) (\<lambda>a _. trustedActor h = Some a \<and> vouched env s h) (\<lambda>_ _. True) s"
    and inert: "keeps api_kept (auth h)"
begin

lemma authenticated_wp:
  assumes auth: "srv_auth sv = Some auth"
    and no: "\<And>s'. api_kept s s' \<Longrightarrow> Q (unauthenticated rid r) s'"
    and yes: "\<And>a s'. api_kept s s' \<Longrightarrow> trustedActor (Header r) = Some a \<Longrightarrow>
      vouched env s (Header r) \<Longrightarrow> wp env (k a) Q E s'"
  shows "wp env (authenticated sv rid r k) Q E s"
proof -
  have "wp env (auth (Header r))
      (\<lambda>a s'. api_kept s s' \<and> trustedActor (Header r) = Some a \<and> vouched env s (Header r))
      (\<lambda>_. api_kept s) s"
    using wp_conj [OF keeps_wp [OF inert] accepts] by (rule wp_mono) auto
  then show ?thesis
    unfolding authenticated_def actor_of_def auth option.case wp_rules
    by (rule wp_mono) (auto simp: wp_rules no yes)
qed

end

definition bearer_raw :: "headers \<Rightarrow> string option" where
  "bearer_raw h =
     (case h ''Authorization'' of
        [v] \<Rightarrow> if HasPrefix v ''Bearer '' then Some (TrimSpace (TrimPrefix v ''Bearer '')) else None
      | _ \<Rightarrow> None)"

text \<open>The key comes from the cache, loaded less than five minutes ago, or from the fetched document.\<close>

definition auth_key_source :: "golib \<Rightarrow> env \<Rightarrow> api_state \<Rightarrow> string \<Rightarrow> string \<Rightarrow> bool" where
  "auth_key_source gl env s kid pk \<longleftrightarrow>
     (let n = tick (as_orders s) in
      (as_keys s kid = Some pk \<and> instant (nowAt env n) - instant (as_loaded s) < minutes 5)
      \<or> (\<exists>m response keys. m \<in> {n, Suc n} \<and> httpAt env m = Some response
           \<and> parse_document gl response = Some keys \<and> keys kid = Some pk))"

text \<open>
  What vouches for a request at Orders: the configured development token, or a verified
  Ed25519 token of the gateway with the right subject, kind, identifier, expiry and scope.
\<close>

definition gateway_vouched :: "golib \<Rightarrow> jwtlib \<Rightarrow> gateway_auth \<Rightarrow> env \<Rightarrow> api_state \<Rightarrow> headers \<Rightarrow> bool" where
  "gateway_vouched gl jl ga env s h \<longleftrightarrow>
     (\<exists>raw. bearer_raw h = Some raw \<and> raw \<noteq> '''' \<and>
        (if ga_staticToken ga \<noteq> '''' then raw = ga_staticToken ga
         else \<exists>kid claims pk n. jwtDecode jl raw = Some (''EdDSA'', Some kid, claims)
           \<and> auth_key_source gl env s kid pk
           \<and> jwtVerify jl raw pk (ga_issuer ga) (ga_audience ga) (seconds 30) (nowAt env n)
           \<and> machine_token_ok ga claims))"

lemma wp_trusted:
  "wp env (trusted h) Q E s
     = (case trustedActor h of None \<Rightarrow> E (app_err ErrUnauthorized) s | Some a \<Rightarrow> Q a s)"
  by (simp add: trusted_def unauthorized_def wp_rules split: option.splits)

lemma wp_AuthKeys [wp_rules]:
  "wp env getAuthKeys Q E s = Q (as_keys s, as_loaded s) s"
  "wp env (setAuthKeys k t) Q' E s = Q' () (s\<lparr>as_keys := k, as_loaded := t\<rparr>)"
  by (simp_all add: wp_def getAuthKeys_def setAuthKeys_def)

lemma wp_onOrders [wp_rules]:
  "wp env (onOrders m) Q E s
     = wp env m (\<lambda>x t. Q x (s\<lparr>as_orders := t\<rparr>)) (\<lambda>e t. E e (s\<lparr>as_orders := t\<rparr>)) (as_orders s)"
  by (simp add: onOrders_def wp_rules)

lemma wp_auth_key:
  "wp env (auth_key gl kid) (\<lambda>k _. \<forall>pk. k = Some pk \<longrightarrow> auth_key_source gl env s kid pk) (\<lambda>_ _. True) s"
  unfolding auth_key_def load_auth_keys_def auth_key_source_def Let_def
  by (auto simp: wp_rules split: option.splits)

lemma auth_key_inert: "keeps api_kept (auth_key gl kid)"
  unfolding auth_key_def load_auth_keys_def
  by (intro ak.keeps_rules api_kept_leaves)

lemma trusted_inert: "keeps api_kept (trusted h)"
  unfolding trusted_def unauthorized_def by (intro ak.keeps_rules)

lemma GatewayAuthenticate_accepts:
  "wp env (GatewayAuthenticate gl jl ga h)
     (\<lambda>a _. trustedActor h = Some a \<and> gateway_vouched gl jl ga env s h) (\<lambda>_ _. True) s"
proof (cases "bearer_raw h")
  case None
  then show ?thesis
    by (auto simp: GatewayAuthenticate_def bearer_raw_def unauthorized_def wp_rules
      split: list.splits if_splits)
next
  case (Some raw)
  then obtain v where v: "h ''Authorization'' = [v]" "HasPrefix v ''Bearer ''"
    "raw = TrimSpace (TrimPrefix v ''Bearer '')"
    by (auto simp: bearer_raw_def split: list.splits if_splits)
  note auth = GatewayAuthenticate_def v(1) list.case Let_def v(3) [symmetric] unauthorized_def
  consider "raw = ''''" | "raw \<noteq> ''''" "ga_staticToken ga \<noteq> ''''"
    | "raw \<noteq> ''''" "ga_staticToken ga = ''''" "jwtDecode jl raw = None"
    | alg kid claims where "raw \<noteq> ''''" "ga_staticToken ga = ''''"
        "jwtDecode jl raw = Some (alg, kid, claims)"
    by (metis option.exhaust prod_cases3)
  then show ?thesis
  proof cases
    case (4 alg kid claims)
    have key: "wp env (case key of None \<Rightarrow> throw (app_err ErrUnauthorized)
        | Some pk \<Rightarrow> bindA (onOrders clockNow) (\<lambda>now.
            if jwtVerify jl raw pk (ga_issuer ga) (ga_audience ga) (seconds 30) now
               \<longrightarrow> \<not> machine_token_ok ga claims
            then throw (app_err ErrUnauthorized) else trusted h))
        (\<lambda>a _. trustedActor h = Some a \<and> gateway_vouched gl jl ga env s h) (\<lambda>_ _. True) s'"
      if "\<forall>pk. key = Some pk \<longrightarrow> auth_key_source gl env s k pk" "alg = ''EdDSA''" "kid = Some k"
      for key k s'
      using that 4 Some
      by (cases key; cases "trustedActor h") (auto simp: wp_rules wp_trusted gateway_vouched_def)
    show ?thesis
      unfolding auth using 4 v(2)
      by (cases kid) (auto simp: wp_rules intro!: wp_mono [OF wp_auth_key] key)
  qed (use Some v(2) in \<open>auto simp: auth gateway_vouched_def wp_rules wp_trusted split: option.splits\<close>)
qed

lemma GatewayAuthenticate_inert: "keeps api_kept (GatewayAuthenticate gl jl ga h)"
  unfolding GatewayAuthenticate_def unauthorized_def
  by (intro ak.keeps_rules api_kept_leaves auth_key_inert trusted_inert)

interpretation ga: authenticator "GatewayAuthenticate gl jl ga" "gateway_vouched gl jl ga" for gl jl ga
  by unfold_locales (rule GatewayAuthenticate_accepts, rule GatewayAuthenticate_inert)

interpretation sa: authenticator "StaticAuthenticate token"
    "\<lambda>env s h. TrimSpace token \<noteq> '''' \<and> h ''Authorization'' = [''Bearer '' @ token]" for token
  by unfold_locales
     (auto simp: StaticAuthenticate_def wp_rules wp_trusted unauthorized_def split: option.splits
       intro!: ak.keeps_rules trusted_inert)

subsection \<open>Changes are authenticated and authorized\<close>

lemma wp_answer [wp_rules]:
  "wp env (answer rid r m f) Q E s
     = wp env m (\<lambda>x t. Q (f x) (s\<lparr>as_orders := t\<rparr>))
         (\<lambda>e t. Q (writeApplicationError rid r e) (s\<lparr>as_orders := t\<rparr>)) (as_orders s)"
  by (simp add: answer_def wp_rules)

lemma wp_answer_kept:
  assumes "keeps db_kept m" "\<And>x s'. api_kept s s' \<Longrightarrow> Q x s'"
  shows "wp env (answer rid r m f) Q E s"
  unfolding wp_answer
  by (rule wp_mono [OF keeps_wp [OF assms(1)]]) (auto simp: db_kept_def api_kept_def intro!: assms(2))

text \<open>Which requests an actor may change the tables with.\<close>

definition request_entitled :: "golib \<Rightarrow> orders_db \<Rightarrow> web_request \<Rightarrow> actor \<Rightarrow> bool" where
  "request_entitled gl db r a \<longleftrightarrow>
     Method r = ''POST'' \<and>
     (Path r = ''/v1/orders''
        \<and> (\<exists>inp. decodeJSON gl create_request_fields zero_create_request r = Some inp
             \<and> may_create a (cr_CustomerID inp))
      \<or> HasPrefix (Path r) ''/v1/orders/'' \<and> HasSuffix (Path r) ''/cancel''
        \<and> may_cancel db a (cancel_path (Path r)))"

lemma create_entitled:
  "wp env (Service_Create sv inp)
     (\<lambda>_ s'. may_create (ci_Actor inp) (ci_CustomerID inp) \<or> s' = s)
     (\<lambda>_ s'. may_create (ci_Actor inp) (ci_CustomerID inp) \<or> s' = s) s"
proof (cases "may_create (ci_Actor inp) (ci_CustomerID inp)")
  case False
  then obtain e where "Service_Create sv inp env s = (Inl e, s)"
    using create_needs_entitlement by blast
  then show ?thesis by (simp add: wp_def)
qed (simp add: wp_def split: prod.splits sum.splits)

lemma lib_api_service [simp]: "sv_lib (api_service cfg) = lib cfg"
  by (simp add: api_service_def)

context authenticator
begin

lemma createOrder_entitled:
  assumes "srv_auth sv = Some auth" "srv_orders sv = api_service cfg"
    "Method r = ''POST''" "Path r = ''/v1/orders''"
  shows "wp env (createOrder sv rid r)
    (\<lambda>_ s'. (\<exists>a. trustedActor (Header r) = Some a \<and> vouched env s (Header r)
        \<and> request_entitled (lib cfg) (api_db s) r a) \<or> api_kept s s') (\<lambda>_ _. False) s"
  unfolding createOrder_def Let_def assms(2) lib_api_service
proof (rule authenticated_wp [OF assms(1)])
  fix a s'
  assume a: "api_kept s s'" "trustedActor (Header r) = Some a" "vouched env s (Header r)"
  have step: "wp env (answer rid r (Service_Create (api_service cfg)
        \<lparr>ci_Actor = a, ci_CustomerID = cr_CustomerID inp, ci_Currency = cr_Currency inp,
         ci_Items = map request_item (cr_Items inp), ci_IdempotencyKey = key\<rparr>) (create_answer (lib cfg)))
      (\<lambda>_ s'. (\<exists>a. trustedActor (Header r) = Some a \<and> vouched env s (Header r)
        \<and> request_entitled (lib cfg) (api_db s) r a) \<or> api_kept s s') (\<lambda>_ _. False) s'"
    if "decodeJSON (lib cfg) create_request_fields zero_create_request r = Some inp" for inp key
    unfolding wp_answer using a that assms
    by (intro wp_mono [OF create_entitled]) (auto simp: request_entitled_def api_kept_def)
  show "wp env (case validIdempotencyKey (headerGet r ''Idempotency-Key'') of
        None \<Rightarrow> ret (badRequest rid r ''Idempotency-Key is invalid'')
      | Some key \<Rightarrow> (case decodeJSON (lib cfg) create_request_fields zero_create_request r of
          None \<Rightarrow> ret (badRequest rid r ''Request body is invalid'')
        | Some inp \<Rightarrow> answer rid r (Service_Create (api_service cfg)
            \<lparr>ci_Actor = a, ci_CustomerID = cr_CustomerID inp, ci_Currency = cr_Currency inp,
             ci_Items = map request_item (cr_Items inp), ci_IdempotencyKey = key\<rparr>)
            (create_answer (lib cfg))))
      (\<lambda>_ s'. (\<exists>a. trustedActor (Header r) = Some a \<and> vouched env s (Header r)
        \<and> request_entitled (lib cfg) (api_db s) r a) \<or> api_kept s s') (\<lambda>_ _. False) s'"
    using a(1) step by (auto simp: wp_ret split: option.splits)
qed simp

lemma cancelOrder_entitled:
  assumes "srv_auth sv = Some auth" "srv_orders sv = api_service cfg" "Method r = ''POST''"
    "HasPrefix (Path r) ''/v1/orders/''" "HasSuffix (Path r) ''/cancel''"
  shows "wp env (cancelOrder sv rid r)
    (\<lambda>_ s'. (\<exists>a. trustedActor (Header r) = Some a \<and> vouched env s (Header r)
        \<and> request_entitled (lib cfg) (api_db s) r a) \<or> api_kept s s') (\<lambda>_ _. False) s"
  unfolding cancelOrder_def Let_def assms(2) lib_api_service
proof (rule authenticated_wp [OF assms(1)])
  fix a s'
  assume a: "api_kept s s'" "trustedActor (Header r) = Some a" "vouched env s (Header r)"
  have step: "wp env (answer rid r (Service_Cancel (api_service cfg)
        \<lparr>xi_Actor = a, xi_OrderID = cancel_path (Path r), xi_Reason = reason, xi_IdempotencyKey = key\<rparr>) f)
      (\<lambda>_ s'. (\<exists>a. trustedActor (Header r) = Some a \<and> vouched env s (Header r)
        \<and> request_entitled (lib cfg) (api_db s) r a) \<or> api_kept s s') (\<lambda>_ _. False) s'"
    for reason key f
    unfolding wp_answer using a assms
    by (intro wp_mono [OF cancel_needs_entitlement])
       (auto simp: request_entitled_def api_kept_def)
  show "wp env (case validIdempotencyKey (headerGet r ''Idempotency-Key'') of
        None \<Rightarrow> ret (badRequest rid r ''Idempotency-Key is invalid'')
      | Some key \<Rightarrow> (case if ContentLength r = 0 then Some []
            else decodeJSON (lib cfg) cancel_request_fields [] r of
          None \<Rightarrow> ret (badRequest rid r ''Request body is invalid'')
        | Some reason \<Rightarrow> answer rid r (Service_Cancel (api_service cfg)
            \<lparr>xi_Actor = a, xi_OrderID = cancel_path (Path r), xi_Reason = reason,
             xi_IdempotencyKey = key\<rparr>)
            (\<lambda>ord. json_response 202
               (acceptedResponse (lib cfg) (ID ord) (status_text (Status ord)) (UpdatedAt ord)))))
      (\<lambda>_ s'. (\<exists>a. trustedActor (Header r) = Some a \<and> vouched env s (Header r)
        \<and> request_entitled (lib cfg) (api_db s) r a) \<or> api_kept s s') (\<lambda>_ _. False) s'"
    using a(1) step by (auto simp: wp_ret split: option.splits)
qed simp

end

lemma wp_onlyMethod [wp_rules]:
  "wp env (onlyMethod rid r m k) Q E s
     = (if Method r = m then wp env k Q E s else Q (methodNotAllowed rid r) s)"
  by (simp add: onlyMethod_def wp_rules)

lemma api_kept_ready: "srv_health sv = [Some (n, Connection_Check)] \<Longrightarrow> keeps api_kept (ready_answer sv)"
  unfolding ready_answer_def Ready_def
  by (intro ak.keeps_rules api_kept_ready_from) (auto simp: api_kept_Connection_Check)

lemma ready_from_total: "wp env (ready_from ds acc) (\<lambda>_ _. True) (\<lambda>_ _. False) s"
proof (induction ds acc arbitrary: s rule: ready_from.induct)
  case (3 name check ds acc)
  show ?case by (simp add: wp_rules) (rule wp_mono [OF wp_True], auto intro: 3)
qed (simp_all add: wp_rules)

lemma wp_ready:
  assumes "srv_health sv = [Some (n, Connection_Check)]"
  shows "wp env (ready_answer sv) (\<lambda>_. api_kept s) (\<lambda>_ _. False) s"
  by (rule keeps_total [OF api_kept_ready [OF assms]])
     (auto simp: ready_answer_def Ready_def wp_rules intro: wp_mono [OF ready_from_total])

lemma wp_docs: "wp env (docs sv rid r) (\<lambda>_. api_kept s) (\<lambda>_ _. False) s"
  by (auto simp: docs_def wp_rules Let_def api_kept_def split: option.splits)

context authenticator
begin

lemma reads_kept:
  assumes "srv_auth sv = Some auth" "srv_orders sv = api_service cfg"
  shows "wp env (getOrder sv rid r) (\<lambda>_. api_kept s) (\<lambda>_ _. False) s"
    and "wp env (listOrders sv rid r) (\<lambda>_. api_kept s) (\<lambda>_ _. False) s"
proof -
  show "wp env (getOrder sv rid r) (\<lambda>_. api_kept s) (\<lambda>_ _. False) s"
    unfolding getOrder_def assms(2)
    by (rule authenticated_wp [OF assms(1)])
       (auto intro!: wp_answer_kept db_kept_Service_Get intro: ak.trans)
  have "wp env (case list_limit r of
        None \<Rightarrow> ret (badRequest rid r ''limit is invalid'')
      | Some limit \<Rightarrow> answer rid r (Service_List (api_service cfg)
            \<lparr>li_Actor = a, li_CustomerID = queryGet r ''customer_id'',
             li_Status = queryGet r ''status'', li_Cursor = queryGet r ''cursor'', li_Limit = limit\<rparr>)
          (list_answer (lib cfg)))
      (\<lambda>_. api_kept s) (\<lambda>_ _. False) s'" if "api_kept s s'" for a s'
    using that by (auto simp: wp_ret intro!: wp_answer_kept db_kept_Service_List intro: ak.trans
      split: option.splits)
  then show "wp env (listOrders sv rid r) (\<lambda>_. api_kept s) (\<lambda>_ _. False) s"
    unfolding listOrders_def assms(2) lib_api_service
    by (intro authenticated_wp [OF assms(1)]) auto
qed

lemma mux_entitled:
  assumes sv: "srv_auth sv = Some auth" "srv_orders sv = api_service cfg"
    "srv_health sv = [Some (n, Connection_Check)]"
  shows "wp env (mux sv rid r)
    (\<lambda>_ s'. (\<exists>a. trustedActor (Header r) = Some a \<and> vouched env s (Header r)
        \<and> request_entitled (lib cfg) (api_db s) r a) \<or> api_kept s s') (\<lambda>_ _. False) s"
  unfolding mux_def route_def Let_def
  by (simp add: wp_rules ak.refl createOrder_entitled [OF sv(1,2)] cancelOrder_entitled [OF sv(1,2)]
      wp_mono [OF wp_ready [OF sv(3)]] wp_mono [OF wp_docs] wp_mono [OF reads_kept(1) [OF sv(1,2)]]
      wp_mono [OF reads_kept(2) [OF sv(1,2)]])

lemma serve_entitled:
  assumes sv: "srv_auth sv = Some auth" "srv_orders sv = api_service cfg"
    "srv_health sv = [Some (name, Connection_Check)]"
  shows "wp env (serveHTTP sv r)
    (\<lambda>_ s'. (\<exists>a s0. trustedActor (Header r) = Some a \<and> s0 \<in> {s, s\<lparr>as_orders := tickOn (as_orders s)\<rparr>}
        \<and> vouched env s0 (Header r) \<and> request_entitled (lib cfg) (api_db s) r a)
      \<or> api_db s' = api_db s) (\<lambda>_ _. False) s"
  unfolding serveHTTP_def observe_def Let_def newRequestID_def
  by (auto simp: wp_rules api_kept_def intro!: wp_mono [OF mux_entitled [OF sv]])

end

definition demo_headers :: headers where
  "demo_headers n =
     (if n = ''Authorization'' then [''Bearer dev-token'']
      else if n = ''X-Streamweave-Actor-Id'' then [''usr_1'']
      else if n = ''X-Streamweave-Actor-Type'' then [''human'']
      else if n = ''X-Streamweave-Scopes'' then [''orders:read:self orders:cancel:self'']
      else if n = ''Idempotency-Key'' then [''key-0123456789abcdef''] else [])"

definition demo_request :: "string \<Rightarrow> string \<Rightarrow> web_request" where
  "demo_request m p =
     \<lparr>Method = m, Path = p, Query = (\<lambda>_. []), RawQuery = [], Header = demo_headers, Body = '''', ContentLength = 0,
      RemoteAddr = ''10.0.0.1:80''\<rparr>"

definition demo_gateway :: gateway_auth where
  "demo_gateway =
     \<lparr>ga_staticToken = ''dev-token'', ga_issuer = ''i'', ga_audience = ''a'', ga_subject = ''svc_gateway''\<rparr>"

definition demo_jwt :: jwtlib where
  "demo_jwt = \<lparr>jwtDecode = (\<lambda>_. None), jwtVerify = (\<lambda>_ _ _ _ _ _. False)\<rparr>"

definition demo_server :: server where
  "demo_server = api_server (demo_cfg JNull) demo_jwt demo_gateway None (json_response 200 JNull)"

definition demo_api :: api_state where
  "demo_api = \<lparr>as_orders = demo_session demo_db, as_keys = Map.empty, as_loaded = zero_time\<rparr>"

definition served :: "web_request \<Rightarrow> (oerr + web_response) \<times> api_state" where
  "served r = serveHTTP demo_server r demo_env demo_api"

lemma api_entitled:
  assumes "serveHTTP (api_server cfg jl ga file page) r env s = (res, s')"
  shows "\<exists>resp. res = Inr resp \<and> (api_db s' = api_db s
       \<or> (\<exists>a s0. trustedActor (Header r) = Some a \<and> s0 \<in> {s, s\<lparr>as_orders := tickOn (as_orders s)\<rparr>}
            \<and> gateway_vouched (lib cfg) jl ga env s0 (Header r)
            \<and> request_entitled (lib cfg) (api_db s) r a))"
proof -
  let ?sv = "api_server cfg jl ga file page"
  have "srv_auth ?sv = Some (GatewayAuthenticate (lib cfg) jl ga)" "srv_orders ?sv = api_service cfg"
    "srv_health ?sv = [Some (''postgresql'', Connection_Check)]"
    by (simp_all add: api_server_def)
  from wp_cases [OF ga.serve_entitled [OF this] assms] show ?thesis by auto
qed

text \<open>
  C26.  The committed tables change only for authenticated and entitled requests.  Every
  request gets a response, under every schedule of faults; and if it changes the tables, it is
  a POST whose credentials the gateway authenticator accepted (the configured development
  token, or a verified gateway token with the right kind, subject, identifier, expiry and
  scope under a key of the fetched document), that names a person in the trusted headers, and
  that creates an order that person may create or cancels an order that person may cancel.
\<close>

theorem served_changes_authorized:
  assumes "serveHTTP (api_server cfg jl ga file page) r env s = (res, s')"
  shows "(\<exists>resp. res = Inr resp)
    \<and> (api_db s' = api_db s
       \<or> (\<exists>a s0. trustedActor (Header r) = Some a \<and> s0 \<in> {s, s\<lparr>as_orders := tickOn (as_orders s)\<rparr>}
            \<and> gateway_vouched (lib cfg) jl ga env s0 (Header r)
            \<and> request_entitled (lib cfg) (api_db s) r a))"
  using api_entitled [OF assms] by blast

theorem served_changes_authorized_witness:
  "map o_status (orders (api_db (snd (served (demo_request ''POST'' ''/v1/orders/ord_1/cancel'')))))
     = [''CANCEL_REQUESTED'']
   \<and> (\<exists>a. trustedActor demo_headers = Some a
        \<and> request_entitled (lib (demo_cfg JNull)) demo_db (demo_request ''POST'' ''/v1/orders/ord_1/cancel'') a)"
proof -
  let ?r = "demo_request ''POST'' ''/v1/orders/ord_1/cancel''"
  have st: "map o_status (orders (api_db (snd (served ?r)))) = [''CANCEL_REQUESTED'']" by code_simp
  have "map o_status (orders (api_db demo_api)) = [''PENDING'']" by code_simp
  with st have ch: "api_db (snd (served ?r)) \<noteq> api_db demo_api" by auto
  have "served ?r = (fst (served ?r), snd (served ?r))" by simp
  from served_changes_authorized [OF this [unfolded served_def demo_server_def]] ch st show ?thesis
    by (auto simp: served_def demo_server_def demo_request_def demo_api_def demo_session_def)
qed

subsection \<open>Responses\<close>

definition response_ok :: "string \<Rightarrow> web_request \<Rightarrow> web_response \<Rightarrow> bool" where
  "response_ok rid r resp \<longleftrightarrow>
     Code resp = 200 \<or> Code resp = 202
     \<or> (\<exists>code ptype detail. code \<in> {400, 401, 403, 404, 405, 409, 422, 503}
          \<and> resp = problem rid r code ptype detail)
     \<or> (Path r = ''/health/ready'' \<and> Code resp = 503)"

lemma response_ok_problem [simp]:
  "code \<in> {400, 401, 403, 404, 405, 409, 422, 503} \<Longrightarrow> response_ok rid r (problem rid r code pt d)"
  unfolding response_ok_def by blast

lemma response_ok_parts [simp]:
  "response_ok rid r (unauthenticated rid r)" "response_ok rid r (methodNotAllowed rid r)"
  "response_ok rid r (badRequest rid r d)" "response_ok rid r (writeApplicationError rid r e)"
  "response_ok rid r (json_response 200 j)" "response_ok rid r (json_response 202 j)"
  "response_ok rid r (create_answer gl res)" "response_ok rid r (list_answer gl page)"
  "response_ok rid r (openapi sv rid r)"
  by (simp_all add: unauthenticated_def methodNotAllowed_def badRequest_def writeApplicationError_def
    Let_def create_answer_def list_answer_def openapi_def split: option.splits prod.splits)
     (simp_all add: response_ok_def json_response_def)








subsection \<open>Reads\<close>

lemma getOrder_visible:
  assumes "srv_orders sv = api_service cfg" "srv_auth sv = Some (GatewayAuthenticate gl jl ga)"
    "orders_inv (api_db s)"
  shows "wp env (getOrder sv rid r)
    (\<lambda>resp _. Code resp = 200 \<longrightarrow> (\<exists>a ord. trustedActor (Header r) = Some a
        \<and> Content resp = JsonBody (toOrderResponse (lib cfg) ord) \<and> stored_holds (as_orders s) ord
        \<and> ID ord = TrimPrefix (Path r) ''/v1/orders/''
        \<and> (HasScope a ''orders:read:any''
           \<or> (CustomerID ord = Subject a \<and> HasScope a ''orders:read:self'')))) (\<lambda>_ _. False) s"
  unfolding getOrder_def assms(1) lib_api_service
proof (rule ga.authenticated_wp [OF assms(2)])
  fix a s'
  assume a: "api_kept s s'" "trustedActor (Header r) = Some a"
  have good: "stored_good (as_orders s')" using a(1) assms(3) by (simp add: stored_good_def api_kept_def)
  show "wp env (answer rid r (Service_Get (api_service cfg) a (TrimPrefix (Path r) ''/v1/orders/''))
        (\<lambda>ord. json_response 200 (toOrderResponse (lib cfg) ord)))
    (\<lambda>resp _. Code resp = 200 \<longrightarrow> (\<exists>a ord. trustedActor (Header r) = Some a
        \<and> Content resp = JsonBody (toOrderResponse (lib cfg) ord) \<and> stored_holds (as_orders s) ord
        \<and> ID ord = TrimPrefix (Path r) ''/v1/orders/''
        \<and> (HasScope a ''orders:read:any''
           \<or> (CustomerID ord = Subject a \<and> HasScope a ''orders:read:self'')))) (\<lambda>_ _. False) s'"
    unfolding wp_answer using a
    by (intro wp_mono [OF api.get_visible [OF good]])
       (auto simp: json_response_def writeApplicationError_def problem_def Let_def stored_holds_def
         api_kept_def)
qed (simp add: unauthenticated_def problem_def)

text \<open>
  C27.  A request for an order is answered with the order only if the requester may see it: a
  200 response to a GET below \<^verbatim>\<open>/v1/orders/\<close> carries the stored order with the
  identifier in the path, and the person in the trusted headers owns it and may read their own
  orders, or may read any.
\<close>

theorem served_orders_authorized:
  assumes "serveHTTP (api_server cfg jl ga file page) r env s = (Inr resp, s')" "orders_inv (api_db s)"
    "Method r = ''GET''" "Path r = ''/v1/orders/'' @ oid" "\<not> HasSuffix (Path r) ''/cancel''"
    "Code resp = 200"
  shows "\<exists>a ord. trustedActor (Header r) = Some a
    \<and> Content resp = JsonBody (toOrderResponse (lib cfg) ord) \<and> stored_holds (as_orders s) ord
    \<and> ID ord = oid
    \<and> (HasScope a ''orders:read:any''
       \<or> (CustomerID ord = Subject a \<and> HasScope a ''orders:read:self''))"
proof -
  let ?sv = "api_server cfg jl ga file page"
  have sv: "srv_orders ?sv = api_service cfg" "srv_auth ?sv = Some (GatewayAuthenticate (lib cfg) jl ga)"
    by (simp_all add: api_server_def)
  have mux: "mux ?sv rid r = getOrder ?sv rid r" for rid
    using assms(3-5) by (simp add: mux_def route_def Let_def HasPrefix_def)
  have trim: "TrimPrefix (Path r) ''/v1/orders/'' = oid"
    using assms(4) by (simp add: TrimPrefix_def HasPrefix_def)
  let ?Q = "\<lambda>resp. Code resp = 200 \<longrightarrow> (\<exists>a ord. trustedActor (Header r) = Some a
    \<and> Content resp = JsonBody (toOrderResponse (lib cfg) ord) \<and> stored_holds (as_orders s) ord
    \<and> ID ord = oid
    \<and> (HasScope a ''orders:read:any''
       \<or> (CustomerID ord = Subject a \<and> HasScope a ''orders:read:self'')))"
  have get: "wp env (getOrder ?sv rid r) (\<lambda>resp _. ?Q resp) (\<lambda>_ _. False) s1"
    if "api_db s1 = api_db s" for rid s1
    using that assms(2)
    by (intro wp_mono [OF getOrder_visible [OF sv]]) (auto simp: trim stored_holds_def)
  have "wp env (serveHTTP ?sv r) (\<lambda>x _. ?Q x) (\<lambda>_ _. False) s"
    unfolding serveHTTP_def observe_def mux Let_def newRequestID_def
    by (auto simp: wp_rules intro!: wp_mono [OF get])
  from wp_cases [OF this assms(1)] assms(6) show ?thesis by simp
qed

theorem served_orders_authorized_witness:
  "\<exists>ord resp s'. served (demo_request ''GET'' ''/v1/orders/ord_1'') = (Inr resp, s') \<and> Code resp = 200
     \<and> Content resp = JsonBody (toOrderResponse (lib (demo_cfg JNull)) ord)
     \<and> stored_holds (demo_session demo_db) ord \<and> ID ord = ''ord_1''"
proof -
  let ?r = "demo_request ''GET'' ''/v1/orders/ord_1''"
  have "(case fst (served ?r) of Inr resp \<Rightarrow> Code resp = 200 | Inl _ \<Rightarrow> False)" by code_simp
  then obtain resp s' where run: "served ?r = (Inr resp, s')" "Code resp = 200"
    by (cases "served ?r") (auto split: sum.splits)
  have "\<not> HasSuffix (Path ?r) ''/cancel''" by code_simp
  moreover have "orders_inv (api_db demo_api)" using demo_db_inv by (simp add: demo_api_def demo_session_def)
  ultimately show ?thesis
    using run served_orders_authorized [OF run(1) [unfolded served_def demo_server_def], where oid = "''ord_1''"]
    by (simp add: demo_request_def demo_api_def) blast
qed

end
