(* ===== verification/Orders_Config.thy ===== *)
theory Orders_Config
  imports Settings Orders_API
begin

section \<open>Orders: configuration\<close>













end
