(* ===== verification/Gateway_Domain.thy ===== *)
theory Gateway_Domain
  imports Web "HOL-Library.Char_ord" "HOL-Library.List_Lexorder"
begin

section \<open>Gateway: actors, policies and ports\<close>

text \<open>
  \<^verbatim>\<open>apps/gateway/internal/domain/gateway\<close>: the actor and its normal form, the route
  policies, the errors, and the requests and responses of the upstream port.
\<close>

subsection \<open>Actors\<close>

record gactor =
  ac_Subject :: string
  ac_Type :: string
  ac_Roles :: "string list"
  ac_Scopes :: "string list"
  ac_SessionID :: string

definition no_actor :: gactor where
  "no_actor = \<lparr>ac_Subject = '''', ac_Type = '''', ac_Roles = [], ac_Scopes = [], ac_SessionID = ''''\<rparr>"

text \<open>The loop of \<^verbatim>\<open>uniqueSorted\<close>, with the values seen and the result so far.\<close>

fun unique_from :: "string list \<Rightarrow> string set \<Rightarrow> string list \<Rightarrow> string list" where
  "unique_from [] seen result = result"
| "unique_from (v # vs) seen result =
     (let t = TrimSpace v in
      if t = '''' then unique_from vs seen result
      else if t \<in> seen then unique_from vs seen result
      else unique_from vs (insert t seen) (result @ [t]))"

definition uniqueSorted :: "string list \<Rightarrow> string list" where
  "uniqueSorted vs = sort (unique_from vs {} [])"

definition Normalized :: "gactor \<Rightarrow> gactor" where
  "Normalized a =
     a\<lparr>ac_Subject := TrimSpace (ac_Subject a), ac_Type := TrimSpace (ac_Type a),
       ac_Roles := uniqueSorted (ac_Roles a), ac_Scopes := uniqueSorted (ac_Scopes a)\<rparr>"

lemma unique_from_set:
  "set (unique_from vs seen result) = set result \<union> (TrimSpace ` set vs - {''''} - seen)"
  by (induction vs arbitrary: seen result) (auto simp: Let_def)

lemma unique_from_distinct:
  "distinct result \<Longrightarrow> set result \<subseteq> seen \<Longrightarrow> distinct (unique_from vs seen result)"
proof (induction vs arbitrary: seen result)
  case (Cons v vs)
  then show ?case by (auto simp: Let_def intro!: Cons.IH)
qed simp

lemma uniqueSorted_set: "set (uniqueSorted vs) = TrimSpace ` set vs - {''''}"
  by (simp add: uniqueSorted_def unique_from_set)

lemma uniqueSorted_canonical: "uniqueSorted vs = sorted_list_of_set (TrimSpace ` set vs - {''''})"
  by (rule sorted_distinct_set_unique)
     (simp_all add: uniqueSorted_def unique_from_set unique_from_distinct)

subsection \<open>Policies\<close>

datatype auth_mode = AuthNone | AuthBearer

record route_policy =
  rp_Method :: string
  rp_Pattern :: string
  rp_Owner :: string
  rp_Auth :: auth_mode
  rp_Scopes :: "string list"
  rp_LimitClass :: string
  rp_Timeout :: int
  rp_RetrySafeRead :: bool
  rp_Mutation :: bool
  rp_MaxBodyBytes :: int
  rp_RequireJSON :: bool

definition Allows :: "route_policy \<Rightarrow> string list \<Rightarrow> bool" where
  "Allows p scopes =
     (if rp_Scopes p = [] then True
      else list_ex (\<lambda>required. required \<in> set scopes) (rp_Scopes p))"

definition IsMutation :: "route_policy \<Rightarrow> bool" where
  "IsMutation p \<longleftrightarrow> rp_Mutation p \<or> rp_Method p \<in> {''POST'', ''PUT'', ''PATCH'', ''DELETE''}"

definition LimitKeyClass :: "route_policy \<Rightarrow> string" where
  "LimitKeyClass p = (if TrimSpace (rp_LimitClass p) = '''' then ''default'' else rp_LimitClass p)"

definition gateway_policy :: "string \<Rightarrow> string \<Rightarrow> int \<Rightarrow> route_policy" where
  "gateway_policy pattern class timeout =
     \<lparr>rp_Method = ''GET'', rp_Pattern = pattern, rp_Owner = ''gateway'', rp_Auth = AuthNone, rp_Scopes = [],
      rp_LimitClass = class, rp_Timeout = timeout, rp_RetrySafeRead = False, rp_Mutation = False,
      rp_MaxBodyBytes = 0, rp_RequireJSON = False\<rparr>"

definition public_write :: "string \<Rightarrow> route_policy" where
  "public_write pattern =
     \<lparr>rp_Method = ''POST'', rp_Pattern = pattern, rp_Owner = ''identity'', rp_Auth = AuthNone, rp_Scopes = [],
      rp_LimitClass = ''auth-write'', rp_Timeout = seconds 5, rp_RetrySafeRead = False,
      rp_Mutation = True, rp_MaxBodyBytes = 2 ^ 20, rp_RequireJSON = True\<rparr>"

definition session_write :: "string \<Rightarrow> route_policy" where
  "session_write pattern =
     \<lparr>rp_Method = ''POST'', rp_Pattern = pattern, rp_Owner = ''identity'', rp_Auth = AuthBearer,
      rp_Scopes = [''identity:sessions:write''], rp_LimitClass = ''auth-write'',
      rp_Timeout = seconds 5, rp_RetrySafeRead = False, rp_Mutation = True,
      rp_MaxBodyBytes = 2 ^ 20, rp_RequireJSON = False\<rparr>"

definition bearer_read :: "string \<Rightarrow> string \<Rightarrow> string list \<Rightarrow> string \<Rightarrow> route_policy" where
  "bearer_read pattern owner scopes class =
     \<lparr>rp_Method = ''GET'', rp_Pattern = pattern, rp_Owner = owner, rp_Auth = AuthBearer,
      rp_Scopes = scopes, rp_LimitClass = class, rp_Timeout = seconds 5, rp_RetrySafeRead = True,
      rp_Mutation = False, rp_MaxBodyBytes = 0, rp_RequireJSON = False\<rparr>"

definition order_write :: "string \<Rightarrow> string list \<Rightarrow> int \<Rightarrow> bool \<Rightarrow> route_policy" where
  "order_write pattern scopes maxBytes requireJSON =
     \<lparr>rp_Method = ''POST'', rp_Pattern = pattern, rp_Owner = ''orders'', rp_Auth = AuthBearer,
      rp_Scopes = scopes, rp_LimitClass = ''order-write'', rp_Timeout = seconds 10,
      rp_RetrySafeRead = False, rp_Mutation = True, rp_MaxBodyBytes = maxBytes,
      rp_RequireJSON = requireJSON\<rparr>"

definition DefaultPolicies :: "route_policy list" where
  "DefaultPolicies =
     [gateway_policy ''/health/live'' ''health'' (seconds 1),
      gateway_policy ''/health/ready'' ''health'' (seconds 2),
      gateway_policy ''/metrics'' ''metrics'' (seconds 2),
      gateway_policy ''/v1/docs'' ''health'' (seconds 2),
      gateway_policy ''/v1/openapi.yaml'' ''health'' (seconds 2),
      (public_write ''/.well-known/register'')\<lparr>rp_LimitClass := ''demo-registration'', rp_Mutation := False\<rparr>,
      public_write ''/v1/auth/login'',
      public_write ''/v1/auth/refresh'',
      public_write ''/v1/auth/password-reset/request'',
      public_write ''/v1/auth/password-reset/confirm'',
      public_write ''/v1/auth/email-verification/confirm'',
      session_write ''/v1/auth/logout'',
      session_write ''/v1/auth/logout-all'',
      bearer_read ''/v1/auth/sessions'' ''identity'' [''identity:sessions:read''] ''authenticated-read'',
      order_write ''/v1/orders'' [''orders:write:self'', ''orders:write:any''] (2 * 2 ^ 20) True,
      bearer_read ''/v1/orders'' ''orders'' [''orders:read:self'', ''orders:read:any''] ''order-read'',
      bearer_read ''/v1/orders/{order_id}'' ''orders'' [''orders:read:self'', ''orders:read:any''] ''order-read'',
      order_write ''/v1/orders/{order_id}/cancel'' [''orders:cancel:self'', ''orders:cancel:any''] (2 ^ 20) False]"

lemma policies_retry_reads:
  "p \<in> set DefaultPolicies \<Longrightarrow> rp_RetrySafeRead p \<Longrightarrow> rp_Method p = ''GET''"
  by (auto simp: DefaultPolicies_def gateway_policy_def public_write_def session_write_def
    bearer_read_def order_write_def)

lemma policies_bearer_scoped:
  "p \<in> set DefaultPolicies \<Longrightarrow> rp_Auth p = AuthBearer \<Longrightarrow> rp_Scopes p \<noteq> []"
  by (auto simp: DefaultPolicies_def gateway_policy_def public_write_def session_write_def
    bearer_read_def order_write_def)

subsection \<open>Errors, requests and responses\<close>

datatype gw_error =
    GErrUnauthorized | GErrForbidden | GErrRateLimited | GErrDependency | GErrBadRequest
  | GErrPayloadTooLarge | GErrUnsupportedMedia | GErrUpstreamTimeout | GErrUpstreamUnavailable
  | GErrUpstreamResponse

record problem_doc =
  pd_Type :: string
  pd_Title :: string
  pd_Status :: int
  pd_Detail :: string
  pd_Instance :: string
  pd_RequestID :: string

record forward_request =
  fr_Method :: string
  fr_Path :: string
  fr_Route :: string
  fr_RawQuery :: string
  fr_Body :: string
  fr_ContentType :: string
  fr_RequestID :: string
  fr_CorrelationID :: string
  fr_IdempotencyKey :: string

record up_response =
  ur_StatusCode :: int
  ur_Header :: "(string \<times> string list) list"
  ur_Body :: string

end
