(* ===== verification/Counters.thy ===== *)
theory Counters
  imports Codec
begin

section \<open>Counters that expire\<close>

text \<open>
  The part of Redis the rate limiters of the services use: counters with an expiry time, and
  what they count.  \<^verbatim>\<open>INCR\<close> followed by \<^verbatim>\<open>EXPIRE\<close> when the counter was
  just created; a counter past its expiry is gone.
\<close>

record redis_db =
  counters :: "string \<Rightarrow> (int \<times> int) option"

definition live :: "int \<Rightarrow> redis_db \<Rightarrow> string \<Rightarrow> int" where
  "live now db k = (case counters db k of None \<Rightarrow> 0 | Some (v, e) \<Rightarrow> if now < e then v else 0)"

definition incr_expire :: "int \<Rightarrow> string \<Rightarrow> int \<Rightarrow> redis_db \<Rightarrow> redis_db" where
  "incr_expire now k ttl db =
     (let n = live now db k + 1;
          e = (if n = 1 then now + seconds ttl
               else (case counters db k of None \<Rightarrow> now + seconds ttl | Some (_, e) \<Rightarrow> e)) in
      db\<lparr>counters := (counters db)(k \<mapsto> (n, e))\<rparr>)"

definition digest :: "golib \<Rightarrow> string \<Rightarrow> string" where
  "digest gl v = hex_encode (sha256 gl v)"

text \<open>
  \<open>held K e n db\<close>: the counter \<open>K\<close> has counted at least \<open>n\<close> and lives until
  \<open>e\<close>.
\<close>

definition held :: "string \<Rightarrow> int \<Rightarrow> nat \<Rightarrow> redis_db \<Rightarrow> bool" where
  "held K e n db =
     (case counters db K of None \<Rightarrow> n = 0 | Some (v, x) \<Rightarrow> int n \<le> v \<and> e \<le> x)"

lemma held_other: "k \<noteq> K \<Longrightarrow> held K e n (incr_expire now k ttl db) = held K e n db"
  by (simp add: held_def incr_expire_def Let_def)

lemma live_other: "k \<noteq> K \<Longrightarrow> live now (incr_expire now k ttl db) K = live now db K"
  by (simp add: live_def incr_expire_def Let_def)

lemma held_incr:
  assumes "held K e n db" "now < e" "e \<le> now + seconds ttl"
  shows "held K e (Suc n) (incr_expire now K ttl db)"
    and "int (Suc n) \<le> live now (incr_expire now K ttl db) K"
  using assms by (auto simp: held_def incr_expire_def live_def Let_def split: option.splits)

lemma held_less: "held K e (Suc n) db \<Longrightarrow> held K e n db"
  by (auto simp: held_def split: option.splits)

end
