(* ===== verification/Gateway_Adapters.thy ===== *)
theory Gateway_Adapters
  imports Gateway_Domain Counters "HOL-Library.AList"
begin

section \<open>Gateway: outbound adapters\<close>

text \<open>
  The token verifier with its key cache (\<^verbatim>\<open>jwks/verifier.go\<close>), the rate limiter on
  Redis (\<^verbatim>\<open>redis/limiter.go\<close>), the service token client
  (\<^verbatim>\<open>identity/client.go\<close>, \<^verbatim>\<open>static.go\<close>) and the upstream client
  (\<^verbatim>\<open>http/upstream.go\<close>).  The state holds the counters of Redis (as a database session:
  the script is one atomic statement that may fail, applied or not), the caches, and every
  request sent to an upstream service.  What the network answers is a parameter.
\<close>

subsection \<open>State and network\<close>

text \<open>A request on the wire: owner, method, target, query, headers by canonical name, body.\<close>

record out_request =
  or_Owner :: string
  or_Method :: string
  or_Target :: string
  or_RawQuery :: string
  or_Headers :: "(string \<times> string) list"
  or_Body :: string

record gw_state = "redis_db session" +
  vk_keys :: "(string \<times> string) list"
  vk_loaded :: gotime
  vk_age :: int
  st_token :: string
  st_expires :: gotime
  g_sent :: "out_request list"

type_synonym 'a gact = "(gw_state, gw_error, 'a) act"

datatype ctx_end = DeadlineExceeded | Canceled

text \<open>
  The outcome of \<^verbatim>\<open>HTTPClient.Do\<close>: a response (its body may fail to be read), or an
  error, with or without the context having ended.
\<close>

datatype reply =
    Answered int "(string \<times> string list) list" "string option"
  | NoAnswer "ctx_end option"

record network =
  nw_jwks :: "nat \<Rightarrow> (int \<times> string \<times> string) option"
  nw_token :: "nat \<Rightarrow> string \<Rightarrow> (int \<times> string) option"
  nw_slot :: "nat \<Rightarrow> ctx_end option"
  nw_join :: "string \<Rightarrow> string \<Rightarrow> string option"
  nw_request :: "string \<Rightarrow> string \<Rightarrow> bool"
  nw_reply :: "nat \<Rightarrow> out_request \<Rightarrow> reply"

definition ask :: "(nat \<Rightarrow> 'a) \<Rightarrow> 'a gact" where
  "ask f = (\<lambda>env s. (Inr (f (tick s)), tickOn s))"

definition readState :: "gw_state gact" where
  "readState = (\<lambda>env s. (Inr s, s))"

definition modifyState :: "(gw_state \<Rightarrow> gw_state) \<Rightarrow> unit gact" where
  "modifyState f = (\<lambda>env s. (Inr (), f s))"

lemma wp_gateway_state [wp_rules]:
  "wp env (ask f) Qa E s = Qa (f (tick s)) (tickOn s)"
  "wp env readState Qr E s = Qr s s"
  "wp env (modifyState g) Qm E s = Qm () (g s)"
  by (simp_all add: wp_def ask_def readState_def modifyState_def)

subsection \<open>The token verifier\<close>

record verifier_cfg =
  vc_lib :: golib
  vc_jwt :: jwtlib
  vc_uuid :: "string \<Rightarrow> bool"
  vc_issuer :: string
  vc_audience :: string
  vc_refreshAfter :: int
  vc_maxStale :: int

text \<open>
  \<^verbatim>\<open>maxAge\<close>: the first positive \<^verbatim>\<open>max-age\<close> of the header, capped at five
  minutes; the product of seconds and nanoseconds wraps.
\<close>

definition max_age_of :: "string \<Rightarrow> int option" where
  "max_age_of part =
     (let p = TrimSpace part in
      if HasPrefix p ''max-age='' then
        (case ParseInt (TrimPrefix p ''max-age='') of
           None \<Rightarrow> None
         | Some n \<Rightarrow> if 0 < n then Some (let d = wrap64 (seconds n) in if d < minutes 5 then d else minutes 5)
                     else None)
      else None)"

fun first_age :: "string list \<Rightarrow> int" where
  "first_age [] = minutes 5"
| "first_age (p # ps) = (case max_age_of p of None \<Rightarrow> first_age ps | Some d \<Rightarrow> d)"

definition maxAge :: "string \<Rightarrow> int" where
  "maxAge v = first_age (SplitOn CHR '','' v)"

text \<open>Unlike Orders, one unsuitable key makes the gateway reject the whole document.\<close>

fun gw_document_keys :: "quote_jwk list \<Rightarrow> (string \<times> string) list \<Rightarrow> (string \<times> string) list option" where
  "gw_document_keys [] keys = Some keys"
| "gw_document_keys (k # ks) keys =
     (if jk_KTY k \<noteq> ''OKP'' \<or> jk_CRV k \<noteq> ''Ed25519'' \<or> jk_Alg k \<noteq> ''EdDSA'' \<or> jk_Use k \<noteq> ''sig''
         \<or> TrimSpace (jk_KID k) = ''''
      then None
      else (case b64_decode (jk_X k) of
              None \<Rightarrow> None
            | Some x \<Rightarrow>
                if length x \<noteq> 32 then None else gw_document_keys ks (AList.update (jk_KID k) x keys)))"

definition parse_fetch ::
  "golib \<Rightarrow> int \<times> string \<times> string \<Rightarrow> ((string \<times> string) list \<times> int) option" where
  "parse_fetch gl response =
     (case response of (status, cacheControl, body) \<Rightarrow>
        if status \<noteq> 200 then None
        else (case jsonParse gl (limited (2 ^ 20) body) of
                None \<Rightarrow> None
              | Some j \<Rightarrow>
                  (case decode_struct document_fields j [] of
                     (ok, ks) \<Rightarrow>
                       if \<not> ok then None
                       else (case gw_document_keys ks [] of
                               None \<Rightarrow> None
                             | Some keys \<Rightarrow>
                                 if keys = [] then None else Some (keys, maxAge cacheControl)))))"

definition Fetch :: "network \<Rightarrow> golib \<Rightarrow> ((string \<times> string) list \<times> int) option gact" where
  "Fetch nw gl =
     bindA (ask (nw_jwks nw)) (\<lambda>response.
     ret (case response of None \<Rightarrow> None | Some r \<Rightarrow> parse_fetch gl r))"

definition effectiveRefreshAfter :: "verifier_cfg \<Rightarrow> gw_state \<Rightarrow> int" where
  "effectiveRefreshAfter vc s =
     (if 0 < vk_age s \<and> vk_age s < vc_refreshAfter vc then vk_age s else vc_refreshAfter vc)"

text \<open>\<^verbatim>\<open>isFresh\<close> and \<^verbatim>\<open>usableLocked\<close>: the clock is read only if there are keys.\<close>

definition age_within :: "(gw_state \<Rightarrow> int) \<Rightarrow> bool gact" where
  "age_within limit =
     bindA readState (\<lambda>s.
     if vk_keys s = [] then ret False
     else bindA clockNow (\<lambda>now. ret (instant now - instant (vk_loaded s) \<le> limit s)))"

definition isFresh :: "verifier_cfg \<Rightarrow> bool gact" where
  "isFresh vc = age_within (effectiveRefreshAfter vc)"

definition usable :: "verifier_cfg \<Rightarrow> bool gact" where
  "usable vc = age_within (\<lambda>_. vc_maxStale vc)"

text \<open>
  \<^verbatim>\<open>refresh\<close> when no other refresh is running (\<open>Gateway_Refresh\<close> has the
  interleavings): whether it succeeded.
\<close>

definition fetch_and_store :: "network \<Rightarrow> verifier_cfg \<Rightarrow> bool gact" where
  "fetch_and_store nw vc =
     bindA (Fetch nw (vc_lib vc)) (\<lambda>fetched.
     case fetched of
       None \<Rightarrow> ret False
     | Some (keys, age) \<Rightarrow>
         bindA clockNow (\<lambda>now.
         bindA (modifyState (\<lambda>s. s\<lparr>vk_keys := keys, vk_loaded := UTC now, vk_age := age\<rparr>)) (\<lambda>_.
         ret True)))"

definition refresh :: "network \<Rightarrow> verifier_cfg \<Rightarrow> bool \<Rightarrow> bool gact" where
  "refresh nw vc force =
     (if force then fetch_and_store nw vc
      else
        bindA (isFresh vc) (\<lambda>fresh.
        if fresh then ret True
        else
          bindA (isFresh vc) (\<lambda>fresh.
          if fresh then ret True else fetch_and_store nw vc)))"

definition Verifier_Check :: "network \<Rightarrow> verifier_cfg \<Rightarrow> bool gact" where
  "Verifier_Check nw vc = refresh nw vc False"

definition verifier_key :: "network \<Rightarrow> verifier_cfg \<Rightarrow> string \<Rightarrow> string option gact" where
  "verifier_key nw vc kid =
     bindA readState (\<lambda>s.
     bindA (case map_of (vk_keys s) kid of None \<Rightarrow> ret False | Some _ \<Rightarrow> usable vc) (\<lambda>ok.
     if ok then ret (map_of (vk_keys s) kid)
     else
       bindA (refresh nw vc (map_of (vk_keys s) kid = None)) (\<lambda>refreshed.
       if \<not> refreshed then ret None
       else
         bindA readState (\<lambda>s.
         case map_of (vk_keys s) kid of
           None \<Rightarrow> ret None
         | Some key \<Rightarrow> bindA (usable vc) (\<lambda>ok. ret (if ok then Some key else None))))))"

definition human_token_ok :: "verifier_cfg \<Rightarrow> token_claims \<Rightarrow> bool" where
  "human_token_ok vc c \<longleftrightarrow>
     tc_TokenKind c = ''human'' \<and> tc_Subject c \<noteq> '''' \<and> tc_ID c \<noteq> '''' \<and> tc_ExpiresAt c \<noteq> None
     \<and> tc_IssuedAt c \<noteq> None \<and> tc_NotBefore c \<noteq> None \<and> tc_SessionID c \<noteq> '''' \<and> vc_uuid vc (tc_SessionID c)"

definition claims_actor :: "token_claims \<Rightarrow> gactor" where
  "claims_actor c =
     \<lparr>ac_Subject = tc_Subject c, ac_Type = ''human'', ac_Roles = tc_Roles c, ac_Scopes = tc_Scopes c,
      ac_SessionID = tc_SessionID c\<rparr>"

definition Verify :: "network \<Rightarrow> verifier_cfg \<Rightarrow> string \<Rightarrow> gactor option gact" where
  "Verify nw vc raw =
     (if TrimSpace raw = '''' then ret None
      else case jwtDecode (vc_jwt vc) raw of
        None \<Rightarrow> ret None
      | Some (alg, kid, claims) \<Rightarrow>
          if alg \<noteq> ''EdDSA'' then ret None
          else case kid of None \<Rightarrow> ret None | Some k \<Rightarrow>
          if TrimSpace k = '''' then ret None
          else
            bindA (verifier_key nw vc k) (\<lambda>key.
            case key of None \<Rightarrow> ret None | Some pk \<Rightarrow>
            bindA clockNow (\<lambda>now.
            if \<not> jwtVerify (vc_jwt vc) raw pk (vc_issuer vc) (vc_audience vc) (seconds 30) now
               \<or> \<not> human_token_ok vc claims
            then ret None else ret (Some (claims_actor claims)))))"

subsection \<open>The rate limiter\<close>

record rate_class =
  rc_Limit :: int
  rc_Window :: int
  rc_Burst :: int
  rc_BurstWindow :: int

definition classes :: "string \<Rightarrow> rate_class option" where
  "classes =
     [''auth-write'' \<mapsto> \<lparr>rc_Limit = 10, rc_Window = 60, rc_Burst = 5, rc_BurstWindow = 1\<rparr>,
      ''demo-registration'' \<mapsto> \<lparr>rc_Limit = 5, rc_Window = 60, rc_Burst = 2, rc_BurstWindow = 1\<rparr>,
      ''authenticated-read'' \<mapsto> \<lparr>rc_Limit = 120, rc_Window = 60, rc_Burst = 30, rc_BurstWindow = 1\<rparr>,
      ''order-read'' \<mapsto> \<lparr>rc_Limit = 120, rc_Window = 60, rc_Burst = 30, rc_BurstWindow = 1\<rparr>,
      ''order-write'' \<mapsto> \<lparr>rc_Limit = 30, rc_Window = 60, rc_Burst = 10, rc_BurstWindow = 1\<rparr>]"

definition allowScript :: "string \<Rightarrow> string \<Rightarrow> rate_class \<Rightarrow> (redis_db, bool) query" where
  "allowScript windowKey burstKey c env now db =
     (let t = instant now;
          db1 = incr_expire t windowKey (rc_Window c) db;
          db2 = incr_expire t burstKey (rc_BurstWindow c) db1 in
      Inr (\<not> (rc_Limit c < live t db1 windowKey \<or> rc_Burst c < live t db2 burstKey), db2))"

text \<open>Seconds since 1970, and Go's division, which truncates.\<close>

definition Unix :: "gotime \<Rightarrow> int" where
  "Unix t = instant t div 1000000000 - 62135596800"

definition go_div :: "int \<Rightarrow> int \<Rightarrow> int" where
  "go_div a b = (if a < 0 then - ((- a) div b) else a div b)"

definition limiter_prefix :: string where
  "limiter_prefix = ''streamweave:gateway:ratelimit:v1''"

definition windowKey :: "golib \<Rightarrow> string \<Rightarrow> rate_class \<Rightarrow> gotime \<Rightarrow> string" where
  "windowKey gl key c now =
     limiter_prefix @ '':'' @ digest gl key @ '':'' @ int_text (go_div (Unix now) (rc_Window c))"

definition burstKey :: "golib \<Rightarrow> string \<Rightarrow> rate_class \<Rightarrow> gotime \<Rightarrow> string" where
  "burstKey gl key c now =
     limiter_prefix @ '':burst:'' @ digest gl key @ '':'' @ int_text (go_div (Unix now) (rc_BurstWindow c))"

definition Limiter_Check :: "bool gact" where
  "Limiter_Check =
     bindA (tryA (autoQ id (\<lambda>env t db. Inr ((), db)))) (\<lambda>res.
     ret (case res of Inl _ \<Rightarrow> False | Inr _ \<Rightarrow> True))"

text \<open>\<^verbatim>\<open>Allow\<close>: None is the error.\<close>

definition Allow :: "golib \<Rightarrow> string \<Rightarrow> string \<Rightarrow> bool option gact" where
  "Allow gl key className =
     (if className = ''health'' \<or> className = ''metrics'' then ret (Some True)
      else case classes className of
        None \<Rightarrow> ret None
      | Some c \<Rightarrow>
          bindA Limiter_Check (\<lambda>up.
          if \<not> up then ret None
          else
            bindA clockNow (\<lambda>now.
            bindA (tryA (autoQ id (allowScript (windowKey gl key c now) (burstKey gl key c now) c))) (\<lambda>res.
            ret (case res of Inl _ \<Rightarrow> None | Inr allowed \<Rightarrow> Some allowed)))))"

subsection \<open>Service tokens\<close>

record token_response =
  tr_AccessToken :: string
  tr_ExpiresIn :: int

definition token_response_fields :: "token_response field list" where
  "token_response_fields =
     [(''access_token'', dec_str (\<lambda>v. tr_AccessToken_update (\<lambda>_. v))),
      (''expires_in'', dec_int in_int64 (\<lambda>v. tr_ExpiresIn_update (\<lambda>_. v)))]"

definition parse_token :: "golib \<Rightarrow> int \<times> string \<Rightarrow> token_response option" where
  "parse_token gl response =
     (if fst response \<noteq> 200 then None
      else (case jsonParse gl (limited (64 * 2 ^ 10) (snd response)) of
              None \<Rightarrow> None
            | Some j \<Rightarrow>
                (case decode_struct token_response_fields j \<lparr>tr_AccessToken = '''', tr_ExpiresIn = 0\<rparr> of
                   (ok, r) \<Rightarrow>
                     if \<not> ok \<or> tr_AccessToken r = '''' \<or> tr_ExpiresIn r \<le> 0 then None else Some r)))"

record token_client =
  tk_lib :: golib
  tk_clientID :: string
  tk_secret :: string
  tk_scopes :: "string list"

definition token_payload :: "token_client \<Rightarrow> string" where
  "token_payload tk =
     jsonPrint (tk_lib tk)
       (JObj [(''client_id'', JStr (tk_clientID tk)), (''client_secret'', JStr (tk_secret tk)),
              (''scopes'', JArr (map JStr (tk_scopes tk)))])"

definition fetch_token :: "network \<Rightarrow> token_client \<Rightarrow> string option gact" where
  "fetch_token nw tk =
     bindA (ask (\<lambda>n. nw_token nw n (token_payload tk))) (\<lambda>response.
     case (case response of None \<Rightarrow> None | Some r \<Rightarrow> parse_token (tk_lib tk) r) of
       None \<Rightarrow> ret None
     | Some r \<Rightarrow>
         bindA clockNow (\<lambda>now.
         bindA (modifyState (\<lambda>s. s\<lparr>st_token := tr_AccessToken r,
                                   st_expires := plus_ns now (wrap64 (seconds (tr_ExpiresIn r)))\<rparr>)) (\<lambda>_.
         ret (Some (tr_AccessToken r)))))"

definition Token :: "network \<Rightarrow> token_client \<Rightarrow> string option gact" where
  "Token nw tk =
     bindA readState (\<lambda>s.
     if st_token s = '''' then fetch_token nw tk
     else
       bindA clockNow (\<lambda>now.
       if Before now (plus_ns (st_expires s) (- seconds 30)) then ret (Some (st_token s))
       else fetch_token nw tk))"

definition Refresh :: "network \<Rightarrow> token_client \<Rightarrow> string option gact" where
  "Refresh nw tk =
     bindA (modifyState (\<lambda>s. s\<lparr>st_token := '''', st_expires := zero_time\<rparr>)) (\<lambda>_. Token nw tk)"

definition StaticToken :: "string \<Rightarrow> string option gact" where
  "StaticToken v = ret (if TrimSpace v = '''' then None else Some v)"

subsection \<open>The upstream client\<close>

record upstream_cfg =
  uc_URLs :: "string \<Rightarrow> string option"
  uc_MaxResponseSize :: int

definition TrimRightSlash :: "string \<Rightarrow> string" where
  "TrimRightSlash v = rev (dropWhile (\<lambda>c. c = CHR ''/'') (rev v))"

definition safe_names :: "string list" where
  "safe_names =
     [''Content-Type'', ''Cache-Control'', ''ETag'', ''Last-Modified'', ''Location'', ''Retry-After'']"

text \<open>The canonical spelling of the one safe name that is not canonical.\<close>

definition canonical_safe :: "string \<Rightarrow> string" where
  "canonical_safe n = (if n = ''ETag'' then ''Etag'' else n)"

definition safeHeaders :: "(string \<times> string list) list \<Rightarrow> (string \<times> string list) list" where
  "safeHeaders input =
     concat (map (\<lambda>n. case map_of input (canonical_safe n) of None \<Rightarrow> [] | Some vs \<Rightarrow> [(n, vs)]) safe_names)"

definition actor_headers :: "gactor option \<Rightarrow> (string \<times> string) list" where
  "actor_headers actor =
     (case actor of
        None \<Rightarrow> []
      | Some a \<Rightarrow>
          (let n = Normalized a in
           [(''X-Streamweave-Actor-Id'', ac_Subject n), (''X-Streamweave-Actor-Type'', ac_Type n),
            (''X-Streamweave-Scopes'', JoinWith '' '' (ac_Scopes n))]
           @ (if ac_SessionID n \<noteq> '''' then [(''X-Streamweave-Actor-Session-Id'', ac_SessionID n)] else [])))"

definition upstream_request ::
  "string \<Rightarrow> string \<Rightarrow> string \<Rightarrow> gactor option \<Rightarrow> forward_request \<Rightarrow> out_request" where
  "upstream_request owner target token actor inp =
     \<lparr>or_Owner = owner, or_Method = fr_Method inp, or_Target = target, or_RawQuery = fr_RawQuery inp,
      or_Headers =
        [(''Authorization'', ''Bearer '' @ token), (''X-Request-Id'', fr_RequestID inp),
         (''X-Correlation-Id'', fr_CorrelationID inp)]
        @ (if fr_ContentType inp \<noteq> '''' then [(''Content-Type'', fr_ContentType inp)] else [])
        @ (if fr_IdempotencyKey inp \<noteq> '''' then [(''Idempotency-Key'', fr_IdempotencyKey inp)] else [])
        @ actor_headers actor,
      or_Body = fr_Body inp\<rparr>"

definition send :: "network \<Rightarrow> out_request \<Rightarrow> reply gact" where
  "send nw q = (\<lambda>env s. (Inr (nw_reply nw (tick s) q), tickOn (s\<lparr>g_sent := g_sent s @ [q]\<rparr>)))"

definition classifyContextError :: "ctx_end \<Rightarrow> gw_error" where
  "classifyContextError e =
     (case e of DeadlineExceeded \<Rightarrow> GErrUpstreamTimeout | Canceled \<Rightarrow> GErrUpstreamUnavailable)"

text \<open>The loop over the attempts, with the number of attempts left.\<close>

fun forward_attempts ::
  "network \<Rightarrow> upstream_cfg \<Rightarrow> out_request \<Rightarrow> bool \<Rightarrow> nat \<Rightarrow> up_response gact" where
  "forward_attempts nw uc q valid 0 = throw GErrUpstreamUnavailable"
| "forward_attempts nw uc q valid (Suc left) =
     (if \<not> valid then throw GErrBadRequest
      else
        bindA (send nw q) (\<lambda>r.
        case r of
          Answered status hs body \<Rightarrow>
            (case body of
               None \<Rightarrow> throw GErrUpstreamResponse
             | Some b \<Rightarrow>
                 (let got = limited (uc_MaxResponseSize uc + 1) b in
                  if uc_MaxResponseSize uc < int (length got) then throw GErrUpstreamResponse
                  else ret \<lparr>ur_StatusCode = status, ur_Header = safeHeaders hs, ur_Body = got\<rparr>))
        | NoAnswer (Some e) \<Rightarrow> throw (classifyContextError e)
        | NoAnswer None \<Rightarrow>
            if left = 1 \<and> or_Method q \<in> {''GET'', ''HEAD''} then forward_attempts nw uc q valid left
            else throw GErrUpstreamUnavailable))"

definition Upstream_Forward ::
  "network \<Rightarrow> upstream_cfg \<Rightarrow> string \<Rightarrow> string \<Rightarrow> gactor option \<Rightarrow> forward_request \<Rightarrow> up_response gact" where
  "Upstream_Forward nw uc owner token actor inp =
     (if TrimSpace token = '''' then throw GErrUpstreamUnavailable
      else case uc_URLs uc owner of None \<Rightarrow> throw GErrUpstreamUnavailable | Some base \<Rightarrow>
      case nw_join nw (TrimRightSlash base) (fr_Path inp) of
        None \<Rightarrow> throw GErrUpstreamUnavailable
      | Some target \<Rightarrow>
          bindA (ask (nw_slot nw)) (\<lambda>ended.
          case ended of
            Some e \<Rightarrow> throw (classifyContextError e)
          | None \<Rightarrow>
              forward_attempts nw uc (upstream_request owner target token actor inp)
                (nw_request nw (fr_Method inp) target) 2))"

end
