(* ===== verification/Gateway_Service.thy ===== *)
theory Gateway_Service
  imports Gateway_Adapters
begin

section \<open>Gateway: authorization and forwarding\<close>

text \<open>
  \<^verbatim>\<open>apps/gateway/internal/application/gateway/service.go\<close>.  The four ports are the
  record \<open>gateway_ops\<close>; the locales state what the service relies on, and are
  interpreted on the adapters.  Metrics are left out.
\<close>

subsection \<open>Definitions\<close>

record gateway_ops =
  go_Verify :: "string \<Rightarrow> gactor option gact"
  go_Allow :: "string \<Rightarrow> string \<Rightarrow> bool option gact"
  go_Token :: "string option gact"
  go_Refresh :: "string option gact option"
  go_Forward :: "string \<Rightarrow> string \<Rightarrow> gactor option \<Rightarrow> forward_request \<Rightarrow> up_response gact"

definition limitKey :: "web_request \<Rightarrow> route_policy \<Rightarrow> string \<Rightarrow> string" where
  "limitKey r p source =
     LimitKeyClass p @ ''|anonymous|'' @ source @ ''|'' @ Method r"

definition limitKeyWithActor :: "route_policy \<Rightarrow> string \<Rightarrow> gactor \<Rightarrow> string" where
  "limitKeyWithActor p source a =
     LimitKeyClass p @ ''|'' @ ac_Subject a @ ''|'' @ source @ ''|'' @ rp_Method p"

text \<open>Case folding of ``bearer'': no other character folds to its letters.\<close>

definition bearerToken :: "string \<Rightarrow> string option" where
  "bearerToken header =
     (case Fields header of
        [scheme, token] \<Rightarrow>
          if map lower_byte scheme \<noteq> ''bearer'' \<or> token = '''' then None else Some token
      | _ \<Rightarrow> None)"

definition rate_limited :: "gateway_ops \<Rightarrow> string \<Rightarrow> route_policy \<Rightarrow> 'a \<Rightarrow> 'a gact" where
  "rate_limited ops key p result =
     bindA (go_Allow ops key (LimitKeyClass p)) (\<lambda>allowed.
     case allowed of
       None \<Rightarrow> throw GErrDependency
     | Some ok \<Rightarrow> if ok then ret result else throw GErrRateLimited)"

definition Authorize ::
  "gateway_ops \<Rightarrow> web_request \<Rightarrow> route_policy \<Rightarrow> string \<Rightarrow> (gactor \<times> string) gact" where
  "Authorize ops r p source =
     (case rp_Auth p of
        AuthNone \<Rightarrow> rate_limited ops (limitKey r p source) p (no_actor, '''')
      | AuthBearer \<Rightarrow>
          if length (Header r ''Authorization'') \<noteq> 1 then throw GErrUnauthorized
          else (case bearerToken (headerGet r ''Authorization'') of
            None \<Rightarrow> throw GErrUnauthorized
          | Some raw \<Rightarrow>
              bindA (go_Verify ops raw) (\<lambda>verified.
              case verified of
                None \<Rightarrow> throw GErrUnauthorized
              | Some v \<Rightarrow>
                  (let a = Normalized v in
                   if ac_Subject a = '''' \<or> ac_Type a \<noteq> ''human'' \<or> \<not> Allows p (ac_Scopes a)
                   then throw GErrForbidden
                   else rate_limited ops (limitKeyWithActor p source a) p (a, raw)))))"

definition check_status :: "up_response \<Rightarrow> up_response gact" where
  "check_status resp =
     (if ur_StatusCode resp < 100 \<or> 599 < ur_StatusCode resp then throw GErrUpstreamResponse else ret resp)"

definition Service_Forward ::
  "gateway_ops \<Rightarrow> string \<Rightarrow> gactor option \<Rightarrow> forward_request \<Rightarrow> route_policy \<Rightarrow> up_response gact" where
  "Service_Forward ops owner actor req p =
     bindA (go_Token ops) (\<lambda>token.
     case token of
       None \<Rightarrow> throw GErrDependency
     | Some tok \<Rightarrow>
         bindA (go_Forward ops owner tok actor req) (\<lambda>resp.
         bindA (check_status resp) (\<lambda>resp.
         if ur_StatusCode resp = 401 \<and> rp_RetrySafeRead p then
           (case go_Refresh ops of
              None \<Rightarrow> ret resp
            | Some renew \<Rightarrow>
                bindA renew (\<lambda>fresh.
                case fresh of
                  None \<Rightarrow> throw GErrDependency
                | Some tok \<Rightarrow> bindA (go_Forward ops owner tok actor req) check_status))
         else ret resp)))"

text \<open>The adapters behind the ports, with the token client or, in development, the static token.\<close>

record gateway_cfg =
  gc_net :: network
  gc_verifier :: verifier_cfg
  gc_upstream :: upstream_cfg
  gc_tokens :: token_client
  gc_static :: string

definition adapter_ops :: "gateway_cfg \<Rightarrow> gateway_ops" where
  "adapter_ops gc =
     \<lparr>go_Verify = Verify (gc_net gc) (gc_verifier gc),
      go_Allow = Allow (vc_lib (gc_verifier gc)),
      go_Token = (if gc_static gc \<noteq> '''' then StaticToken (gc_static gc)
                  else Token (gc_net gc) (gc_tokens gc)),
      go_Refresh = Some (if gc_static gc \<noteq> '''' then StaticToken (gc_static gc)
                         else Refresh (gc_net gc) (gc_tokens gc)),
      go_Forward = Upstream_Forward (gc_net gc) (gc_upstream gc)\<rparr>"

lemma wp_bind_check:
  "wp env (bindA (check_status resp) f) Q E s
     = (if ur_StatusCode resp < 100 \<or> 599 < ur_StatusCode resp then E GErrUpstreamResponse s
        else wp env (f resp) Q E s)"
  by (simp add: check_status_def wp_rules)

subsection \<open>The contract of the ports\<close>

text \<open>
  \<open>verified env s raw a\<close>: at \<open>s\<close> the token \<open>raw\<close> proves the actor
  \<open>a\<close>.  Only the upstream port sends requests to the services, at most two for a read
  and one otherwise, all with the same content.
\<close>

definition request_bound :: "forward_request \<Rightarrow> nat" where
  "request_bound req = (if fr_Method req \<in> {''GET'', ''HEAD''} then 2 else 1)"

definition sends_upstream ::
  "nat \<Rightarrow> string \<Rightarrow> gactor option \<Rightarrow> forward_request \<Rightarrow> gw_state \<Rightarrow> gw_state \<Rightarrow> bool" where
  "sends_upstream bound owner actor req s s' \<longleftrightarrow>
     (\<exists>qs. g_sent s' = g_sent s @ qs \<and> length qs \<le> bound
        \<and> (\<forall>q \<in> set qs. \<exists>target token. q = upstream_request owner target token actor req))"

definition quiet :: "gw_state \<Rightarrow> gw_state \<Rightarrow> bool" where
  "quiet s s' \<longleftrightarrow> g_sent s' = g_sent s"

interpretation qf: session_frame quiet
  by unfold_locales (simp_all add: quiet_def)

lemma sends_upstream_mono:
  "sends_upstream m owner actor req s s' \<Longrightarrow> m \<le> n \<Longrightarrow> sends_upstream n owner actor req s s'"
  unfolding sends_upstream_def by fastforce

lemma sends_upstream_trans:
  assumes "sends_upstream m owner actor req s t" "sends_upstream n owner actor req t u"
  shows "sends_upstream (m + n) owner actor req s u"
proof -
  let ?ok = "\<lambda>qs. \<forall>q \<in> set qs. \<exists>target token. q = upstream_request owner target token actor req"
  from assms(1) obtain qs where qs: "g_sent t = g_sent s @ qs" "length qs \<le> m" "?ok qs"
    unfolding sends_upstream_def by blast
  from assms(2) obtain qs' where "g_sent u = g_sent t @ qs'" "length qs' \<le> n" "?ok qs'"
    unfolding sends_upstream_def by blast
  with qs have "g_sent u = g_sent s @ (qs @ qs')" "length (qs @ qs') \<le> m + n" "?ok (qs @ qs')" by auto
  then show ?thesis unfolding sends_upstream_def by blast
qed

lemma sends_upstream_quiet: "quiet s s' \<Longrightarrow> sends_upstream n owner actor req s s'"
  by (simp add: sends_upstream_def quiet_def)

lemma quiet_sends:
  "quiet s t \<Longrightarrow> sends_upstream n owner actor req t u \<Longrightarrow> sends_upstream n owner actor req s u"
  by (simp add: sends_upstream_def quiet_def)

lemma sends_quiet:
  "sends_upstream n owner actor req s t \<Longrightarrow> quiet t u \<Longrightarrow> sends_upstream n owner actor req s u"
  by (simp add: sends_upstream_def quiet_def)

locale gateway_ports =
  fixes ops :: gateway_ops and verified :: "env \<Rightarrow> gw_state \<Rightarrow> string \<Rightarrow> gactor \<Rightarrow> bool"
  assumes verify_sound:
      "wp env (go_Verify ops raw) (\<lambda>r _. \<forall>a. r = Some a \<longrightarrow> verified env s raw a) (\<lambda>_ _. True) s"
    and verify_quiet: "keeps quiet (go_Verify ops raw)"
    and allow_quiet: "keeps quiet (go_Allow ops key cl)"
    and token_quiet: "keeps quiet (go_Token ops)"
    and refresh_quiet: "go_Refresh ops = Some m \<Longrightarrow> keeps quiet m"
    and forward_sends: "keeps (sends_upstream (request_bound req) owner actor req)
      (go_Forward ops owner tok actor req)"
begin

lemma rate_limited_quiet: "keeps quiet (rate_limited ops key p x)"
  unfolding rate_limited_def by (intro qf.keeps_rules allow_quiet)

lemma authorize_quiet: "keeps quiet (Authorize ops r p source)"
  unfolding Authorize_def Let_def
  by (cases "rp_Auth p") (auto intro!: qf.keeps_rules verify_quiet rate_limited_quiet)

lemma rate_limited_result: "wp env (rate_limited ops key p x) (\<lambda>y _. y = x) (\<lambda>_ _. True) s"
  unfolding rate_limited_def wp_bindA
  by (rule wp_mono [where Q = "\<lambda>_ _. True" and E = "\<lambda>_ _. True"])
     (auto simp: wp_def throw_def ret_def split: prod.splits sum.splits option.splits)

text \<open>An authorized request carries a verified person with one of the required scopes.\<close>

lemma authorize_sound:
  "wp env (Authorize ops r p source)
     (\<lambda>(a, raw) _. case rp_Auth p of
        AuthNone \<Rightarrow> a = no_actor
      | AuthBearer \<Rightarrow> \<exists>v. bearerToken (headerGet r ''Authorization'') = Some raw
          \<and> verified env s raw v \<and> a = Normalized v \<and> ac_Subject a \<noteq> '''' \<and> ac_Type a = ''human''
          \<and> Allows p (ac_Scopes a)) (\<lambda>_ _. True) s"
proof (cases "rp_Auth p")
  case AuthNone
  then show ?thesis
    by (auto simp: Authorize_def intro!: wp_mono [OF rate_limited_result])
next
  case AuthBearer
  then show ?thesis
    by (auto simp: Authorize_def Let_def wp_rules intro!: wp_mono [OF verify_sound]
      wp_mono [OF rate_limited_result] split: option.splits) blast
qed

lemma check_status_quiet: "keeps quiet (check_status resp)"
  unfolding check_status_def by (intro qf.keeps_rules)

text \<open>How often a request goes out: once, twice for reads, and again once more after a refreshed token.\<close>

lemma forward_bounded:
  "keeps (sends_upstream ((if rp_RetrySafeRead p then 2 else 1) * request_bound req) owner actor req)
     (Service_Forward ops owner actor req p)"
proof -
  let ?b = "request_bound req"
  define N where "N = (if rp_RetrySafeRead p then 2 else 1) * ?b"
  let ?S = "\<lambda>n. sends_upstream n owner actor req"
  have fwd: "wp env (go_Forward ops owner tok actor req) (\<lambda>_. ?S ?b s) (\<lambda>_. ?S ?b s) s" for env tok s
    by (rule keeps_wp [OF forward_sends])
  have one: "?S ?b s t \<Longrightarrow> ?S N s t" for s t
    by (erule sends_upstream_mono) (simp add: N_def)
  have two: "rp_RetrySafeRead p \<Longrightarrow> ?S ?b s t \<Longrightarrow> ?S ?b t u \<Longrightarrow> ?S N s u" for s t u
    using sends_upstream_trans [of ?b owner actor req s t ?b u] by (simp add: N_def mult_2)
  have renew: "wp env m (\<lambda>_. ?S ?b s) (\<lambda>_. ?S ?b s) t" if "go_Refresh ops = Some m" "?S ?b s t" for env m s t
    by (rule wp_mono [OF keeps_wp [OF refresh_quiet [OF that(1)]]]) (auto intro: sends_quiet [OF that(2)])
  have again: "wp env (bindA (go_Forward ops owner tok actor req) check_status) (\<lambda>_. ?S N s) (\<lambda>_. ?S N s) t"
    if "?S ?b s t" "rp_RetrySafeRead p" for env tok s t
    unfolding wp_bindA using two [OF that(2,1)]
    by (intro wp_mono [OF fwd]) (auto simp: check_status_def wp_rules)
  have rest: "wp env (if ur_StatusCode resp = 401 \<and> rp_RetrySafeRead p then
        (case go_Refresh ops of None \<Rightarrow> ret resp | Some m \<Rightarrow> bindA m (\<lambda>fresh. case fresh of
           None \<Rightarrow> throw GErrDependency
         | Some tok \<Rightarrow> bindA (go_Forward ops owner tok actor req) check_status)) else ret resp)
      (\<lambda>_. ?S N s) (\<lambda>_. ?S N s) t" if "?S ?b s t" for env resp s t
  proof (cases "ur_StatusCode resp = 401 \<and> rp_RetrySafeRead p \<and> go_Refresh ops \<noteq> None")
    case True
    then obtain m where m: "go_Refresh ops = Some m" and r: "rp_RetrySafeRead p" by auto
    have "wp env (bindA m (\<lambda>fresh. case fresh of None \<Rightarrow> throw GErrDependency
        | Some tok \<Rightarrow> bindA (go_Forward ops owner tok actor req) check_status)) (\<lambda>_. ?S N s) (\<lambda>_. ?S N s) t"
      unfolding wp_bindA [of _ m]
      by (rule wp_mono [OF renew [OF m that]]) (auto simp: wp_throw one again r split: option.splits)
    then show ?thesis using True m by simp
  qed (use one [OF that] in \<open>auto simp: wp_rules split: option.splits\<close>)
  have "wp env (Service_Forward ops owner actor req p) (\<lambda>_. ?S N s) (\<lambda>_. ?S N s) s" for env s
    unfolding Service_Forward_def wp_bindA [of _ "go_Token ops"]
  proof (rule wp_mono [OF keeps_wp [OF token_quiet]])
    fix token t
    assume q: "quiet s t"
    have "wp env (bindA (go_Forward ops owner tok actor req) (\<lambda>resp. bindA (check_status resp) (\<lambda>resp.
        if ur_StatusCode resp = 401 \<and> rp_RetrySafeRead p then
          (case go_Refresh ops of None \<Rightarrow> ret resp | Some m \<Rightarrow> bindA m (\<lambda>fresh. case fresh of
             None \<Rightarrow> throw GErrDependency
           | Some tok \<Rightarrow> bindA (go_Forward ops owner tok actor req) check_status)) else ret resp)))
      (\<lambda>_. ?S N s) (\<lambda>_. ?S N s) t" for tok
      unfolding wp_bindA [of _ "go_Forward ops owner tok actor req"] wp_bind_check
    proof (rule wp_mono [OF fwd])
      fix resp u
      assume "?S ?b t u"
      with q have sent: "?S ?b s u" by (rule quiet_sends)
      show "if ur_StatusCode resp < 100 \<or> 599 < ur_StatusCode resp then ?S N s u
        else wp env (if ur_StatusCode resp = 401 \<and> rp_RetrySafeRead p then
          (case go_Refresh ops of None \<Rightarrow> ret resp | Some m \<Rightarrow> bindA m (\<lambda>fresh. case fresh of
             None \<Rightarrow> throw GErrDependency
           | Some tok \<Rightarrow> bindA (go_Forward ops owner tok actor req) check_status)) else ret resp)
          (\<lambda>_. ?S N s) (\<lambda>_. ?S N s) u"
        using rest [OF sent] one [OF sent] by (rule if_both)
    qed (use q in \<open>auto intro: one quiet_sends\<close>)
    then show "wp env (case token of None \<Rightarrow> throw GErrDependency
        | Some tok \<Rightarrow> bindA (go_Forward ops owner tok actor req) (\<lambda>resp. bindA (check_status resp) (\<lambda>resp.
        if ur_StatusCode resp = 401 \<and> rp_RetrySafeRead p then
          (case go_Refresh ops of None \<Rightarrow> ret resp | Some m \<Rightarrow> bindA m (\<lambda>fresh. case fresh of
             None \<Rightarrow> throw GErrDependency
           | Some tok \<Rightarrow> bindA (go_Forward ops owner tok actor req) check_status)) else ret resp)))
      (\<lambda>_. ?S N s) (\<lambda>_. ?S N s) t"
      using q by (auto simp: wp_throw sends_upstream_quiet split: option.splits)
  qed (auto intro: sends_upstream_quiet)
  then show ?thesis unfolding N_def by (rule keepsI)
qed

end

subsection \<open>The adapters fulfil the contract\<close>

lemma quiet_leaves:
  "keeps quiet (ask f)" "keeps quiet readState" "keeps quiet (clockNow :: gotime gact)"
  "keeps quiet (autoQ h q :: 'a gact)"
  by (auto simp: keeps_def quiet_def ask_def readState_def clockNow_def autoQ_def tickOn_def
    split: sum.splits option.splits)

lemma quiet_tryQ: "keeps quiet (tryA (autoQ h q) :: ('e + 'a) gact)"
  by (auto simp: keeps_def quiet_def tryA_def autoQ_def tickOn_def split: sum.splits option.splits)

lemma quiet_modify: "(\<And>s. g_sent (f s) = g_sent s) \<Longrightarrow> keeps quiet (modifyState f)"
  by (simp add: keeps_def quiet_def modifyState_def)

lemma quiet_fetch: "keeps quiet (fetch_and_store nw vc)"
  unfolding fetch_and_store_def Fetch_def
  by (intro qf.keeps_rules quiet_leaves quiet_modify) simp

lemma quiet_age: "keeps quiet (age_within f)"
  unfolding age_within_def by (intro qf.keeps_rules quiet_leaves)

lemma quiet_refresh: "keeps quiet (refresh nw vc force)"
  unfolding refresh_def isFresh_def by (intro qf.keeps_rules quiet_age quiet_fetch)

lemma quiet_Verify: "keeps quiet (Verify nw vc raw)"
  unfolding Verify_def verifier_key_def usable_def
  by (intro qf.keeps_rules quiet_leaves quiet_age quiet_refresh)

lemma quiet_Allow: "keeps quiet (Allow gl key cl)"
  unfolding Allow_def Limiter_Check_def by (intro qf.keeps_rules quiet_leaves quiet_tryQ)

lemma quiet_Token: "keeps quiet (Token nw tk)"
  unfolding Token_def fetch_token_def by (intro qf.keeps_rules quiet_leaves quiet_modify) simp_all

lemma quiet_Refresh: "keeps quiet (Refresh nw tk)"
  unfolding Refresh_def by (intro qf.keeps_rules quiet_Token quiet_modify) simp

lemma quiet_StaticToken: "keeps quiet (StaticToken v)"
  unfolding StaticToken_def by (intro qf.keeps_rules)

lemma wp_send [wp_rules]:
  "wp env (send nw q) Q E s = Q (nw_reply nw (tick s) q) (tickOn (s\<lparr>g_sent := g_sent s @ [q]\<rparr>))"
  by (simp add: wp_def send_def)

lemma g_sent_tickOn [simp]: "g_sent (tickOn s) = g_sent s"
  by (simp add: tickOn_def)

definition sends_copies :: "nat \<Rightarrow> out_request \<Rightarrow> gw_state \<Rightarrow> gw_state \<Rightarrow> bool" where
  "sends_copies bound q s s' \<longleftrightarrow> (\<exists>n \<le> bound. g_sent s' = g_sent s @ replicate n q)"

lemma sends_copies_le:
  "g_sent s' = g_sent s @ replicate n q \<Longrightarrow> n \<le> bound \<Longrightarrow> sends_copies bound q s s'"
  unfolding sends_copies_def by blast

lemma attempts_last: "keeps (sends_copies (Suc 0) q) (forward_attempts nw uc q valid (Suc 0))"
proof (rule keepsI)
  fix env s
  have sent: "sends_copies (Suc 0) q s s'" if "g_sent s' = g_sent s @ [q]" for s' :: gw_state
    using that by (intro sends_copies_le [of _ _ 1]) simp_all
  have none: "sends_copies (Suc 0) q s s" by (rule sends_copies_le [of _ _ 0]) simp_all
  show "wp env (forward_attempts nw uc q valid (Suc 0)) (\<lambda>_. sends_copies (Suc 0) q s) (\<lambda>_. sends_copies (Suc 0) q s) s"
    by (auto simp: wp_rules Let_def sent none split: reply.splits option.splits)
qed

lemma attempts_two:
  "keeps (sends_copies (if or_Method q = ''GET'' \<or> or_Method q = ''HEAD'' then 2 else 1) q)
     (forward_attempts nw uc q valid 2)"
proof (rule keepsI)
  fix env s
  define b :: nat where "b = (if or_Method q = ''GET'' \<or> or_Method q = ''HEAD'' then 2 else 1)"
  have b: "1 \<le> b" by (simp add: b_def)
  have sent: "sends_copies b q s s'" if "g_sent s' = g_sent s @ [q]" for s' :: gw_state
    using that b by (intro sends_copies_le [of _ _ 1]) simp_all
  have none: "sends_copies b q s s" by (rule sends_copies_le [of _ _ 0]) simp_all
  have more: "sends_copies b q s u" if "sends_copies (Suc 0) q t u" "g_sent t = g_sent s @ [q]"
    "or_Method q = ''GET'' \<or> or_Method q = ''HEAD''" for t u :: gw_state
  proof -
    from that(1) obtain n where "n \<le> Suc 0" "g_sent u = g_sent t @ replicate n q"
      unfolding sends_copies_def by blast
    with that(2,3) show ?thesis by (intro sends_copies_le [of _ _ "Suc n"]) (simp_all add: b_def)
  qed
  have "wp env (forward_attempts nw uc q valid (Suc (Suc 0))) (\<lambda>_. sends_copies b q s) (\<lambda>_. sends_copies b q s) s"
    unfolding forward_attempts.simps(2) [of _ _ _ _ "Suc 0"]
    by (auto simp: wp_rules Let_def sent none simp del: forward_attempts.simps(2)
      intro!: wp_mono [OF keeps_wp [OF attempts_last]] intro: more split: reply.splits option.splits)
  then show "wp env (forward_attempts nw uc q valid 2)
      (\<lambda>_. sends_copies (if or_Method q = ''GET'' \<or> or_Method q = ''HEAD'' then 2 else 1) q s)
      (\<lambda>_. sends_copies (if or_Method q = ''GET'' \<or> or_Method q = ''HEAD'' then 2 else 1) q s) s"
    by (simp add: b_def numeral_2_eq_2)
qed

lemma Upstream_Forward_sends:
  "keeps (sends_upstream (request_bound req) owner actor req) (Upstream_Forward nw uc owner tok actor req)"
proof (rule keepsI)
  fix env s
  let ?S = "sends_upstream (request_bound req) owner actor req"
  have none: "?S s s'" if "g_sent s' = g_sent s" for s' :: gw_state
    using that by (simp add: sends_upstream_quiet quiet_def)
  have some: "?S s u"
    if "sends_copies (if or_Method (upstream_request owner tgt tok actor req) = ''GET''
        \<or> or_Method (upstream_request owner tgt tok actor req) = ''HEAD'' then 2 else 1)
       (upstream_request owner tgt tok actor req) t u" "g_sent t = g_sent s" for t u tgt
    using that unfolding sends_copies_def sends_upstream_def request_bound_def
    by (auto simp: upstream_request_def split: if_splits)
  show "wp env (Upstream_Forward nw uc owner tok actor req) (\<lambda>_. ?S s) (\<lambda>_. ?S s) s"
    unfolding Upstream_Forward_def
    by (auto simp: wp_rules none simp del: forward_attempts.simps
      intro!: wp_mono [OF keeps_wp [OF attempts_two]] intro: some split: option.splits)
qed

text \<open>
  Where the key of a verified token comes from: the cache, loaded at most
  \<^const>\<open>vc_maxStale\<close> before the clock reading, or a document fetched for this request.
\<close>

definition key_source :: "network \<Rightarrow> verifier_cfg \<Rightarrow> env \<Rightarrow> gw_state \<Rightarrow> string \<Rightarrow> string \<Rightarrow> bool" where
  "key_source nw vc env s kid pk \<longleftrightarrow>
     (map_of (vk_keys s) kid = Some pk
        \<and> (\<exists>n \<ge> tick s. instant (nowAt env n) - instant (vk_loaded s) \<le> vc_maxStale vc))
     \<or> (\<exists>n response keys age. tick s \<le> n \<and> nw_jwks nw n = Some response
          \<and> parse_fetch (vc_lib vc) response = Some (keys, age) \<and> map_of keys kid = Some pk)"

definition token_verified :: "network \<Rightarrow> verifier_cfg \<Rightarrow> env \<Rightarrow> gw_state \<Rightarrow> string \<Rightarrow> gactor \<Rightarrow> bool" where
  "token_verified nw vc env s raw a \<longleftrightarrow>
     (\<exists>kid claims pk n. jwtDecode (vc_jwt vc) raw = Some (''EdDSA'', Some kid, claims)
        \<and> key_source nw vc env s kid pk
        \<and> jwtVerify (vc_jwt vc) raw pk (vc_issuer vc) (vc_audience vc) (seconds 30) (nowAt env n)
        \<and> human_token_ok vc claims \<and> a = claims_actor claims)"

text \<open>The cache the verifier may read after a refresh: the old one, or a fetched document.\<close>

definition cache_step :: "network \<Rightarrow> verifier_cfg \<Rightarrow> gw_state \<Rightarrow> gw_state \<Rightarrow> bool" where
  "cache_step nw vc s s' \<longleftrightarrow> tick s \<le> tick s' \<and>
     ((vk_keys s' = vk_keys s \<and> vk_loaded s' = vk_loaded s)
      \<or> (\<exists>n response age. tick s \<le> n \<and> nw_jwks nw n = Some response
           \<and> parse_fetch (vc_lib vc) response = Some (vk_keys s', age)))"

lemma cache_tickOn [simp]: "vk_keys (tickOn s) = vk_keys s" "vk_loaded (tickOn s) = vk_loaded s"
  by (simp_all add: tickOn_def)

definition cache_same :: "gw_state \<Rightarrow> gw_state \<Rightarrow> bool" where
  "cache_same s s' \<longleftrightarrow> tick s \<le> tick s' \<and> vk_keys s' = vk_keys s \<and> vk_loaded s' = vk_loaded s"

lemma wp_age_within:
  "wp env (age_within f)
     (\<lambda>ok s'. cache_same s s' \<and> (ok \<longrightarrow> instant (nowAt env (tick s)) - instant (vk_loaded s) \<le> f s))
     (\<lambda>_ _. False) s"
  by (auto simp: age_within_def wp_rules cache_same_def)

lemma cache_same_step: "cache_same s s' \<Longrightarrow> cache_step nw vc s s'"
  by (simp add: cache_same_def cache_step_def)

lemma cache_same_trans: "cache_same s t \<Longrightarrow> cache_same t u \<Longrightarrow> cache_same s u"
  by (simp add: cache_same_def)

lemma cache_same_then_step: "cache_same s t \<Longrightarrow> cache_step nw vc t u \<Longrightarrow> cache_step nw vc s u"
  unfolding cache_same_def cache_step_def by (metis order_trans)

lemma wp_fetch_and_store: "wp env (fetch_and_store nw vc) (\<lambda>_. cache_step nw vc s) (\<lambda>_ _. False) s"
  by (auto simp: fetch_and_store_def Fetch_def wp_rules cache_step_def split: option.splits)

lemma wp_refresh: "wp env (refresh nw vc force) (\<lambda>_. cache_step nw vc s) (\<lambda>_ _. False) s"
proof (cases force)
  case True
  then show ?thesis by (simp add: refresh_def wp_fetch_and_store)
next
  case False
  have "wp env (isFresh vc) (\<lambda>_. cache_same s) (\<lambda>_ _. False) s" for s
    unfolding isFresh_def by (rule wp_mono [OF wp_age_within]) auto
  note fresh = this
  show ?thesis
    unfolding refresh_def wp_bindA if_not_P [OF False]
    by (rule wp_mono [OF fresh])
       (auto simp: wp_rules intro!: wp_mono [OF fresh] wp_mono [OF wp_fetch_and_store]
         intro: cache_same_step,
        (blast intro: cache_same_step cache_same_trans cache_same_then_step)+)
qed

lemma wp_key_after:
  assumes "cache_step nw vc s t"
  shows "wp env (bindA readState (\<lambda>s. case map_of (vk_keys s) kid of None \<Rightarrow> ret None
      | Some key \<Rightarrow> bindA (usable vc) (\<lambda>ok. ret (if ok then Some key else None))))
    (\<lambda>k _. \<forall>pk. k = Some pk \<longrightarrow> key_source nw vc env s kid pk) (\<lambda>_ _. False) t"
proof -
  have "key_source nw vc env s kid pk"
    if "map_of (vk_keys t) kid = Some pk" "instant (nowAt env (tick t)) - instant (vk_loaded t) \<le> vc_maxStale vc" for pk
    using that assms unfolding key_source_def cache_step_def by auto
  then show ?thesis
    by (auto simp: wp_rules usable_def intro!: wp_mono [OF wp_age_within] split: option.splits)
qed

lemma wp_verifier_key:
  "wp env (verifier_key nw vc kid) (\<lambda>k _. \<forall>pk. k = Some pk \<longrightarrow> key_source nw vc env s kid pk)
     (\<lambda>_ _. False) s"
proof -
  have after: "wp env (bindA (refresh nw vc f) (\<lambda>refreshed. if \<not> refreshed then ret None
      else bindA readState (\<lambda>s. case map_of (vk_keys s) kid of None \<Rightarrow> ret None
      | Some key \<Rightarrow> bindA (usable vc) (\<lambda>ok. ret (if ok then Some key else None)))))
    (\<lambda>k _. \<forall>pk. k = Some pk \<longrightarrow> key_source nw vc env s kid pk) (\<lambda>_ _. False) t"
    if "cache_same s t" for f t
    unfolding wp_bindA [of _ "refresh nw vc f"]
    by (rule wp_mono [OF wp_refresh])
       (auto simp: wp_ret intro!: wp_key_after cache_same_then_step [OF that])
  have now: "key_source nw vc env s kid pk"
    if "map_of (vk_keys s) kid = Some pk" "instant (nowAt env (tick s)) - instant (vk_loaded s) \<le> vc_maxStale vc" for pk
    using that unfolding key_source_def by blast
  show ?thesis
  proof (cases "map_of (vk_keys s) kid")
    case None
    then show ?thesis
      using after [of s True] by (simp add: verifier_key_def wp_rules cache_same_def)
  next
    case (Some pk)
    have rest: "wp env (if ok then ret (map_of (vk_keys s) kid)
        else bindA (refresh nw vc (map_of (vk_keys s) kid = None)) (\<lambda>refreshed. if \<not> refreshed then ret None
          else bindA readState (\<lambda>s. case map_of (vk_keys s) kid of None \<Rightarrow> ret None
          | Some key \<Rightarrow> bindA (usable vc) (\<lambda>ok. ret (if ok then Some key else None)))))
        (\<lambda>k _. \<forall>pk. k = Some pk \<longrightarrow> key_source nw vc env s kid pk) (\<lambda>_ _. False) t"
      if "cache_same s t \<and> (ok \<longrightarrow> instant (nowAt env (tick s)) - instant (vk_loaded s) \<le> vc_maxStale vc)" for ok t
      using after [of t] that now by (cases ok) (auto simp: wp_ret)
    have "wp env (usable vc) (\<lambda>ok t. cache_same s t
        \<and> (ok \<longrightarrow> instant (nowAt env (tick s)) - instant (vk_loaded s) \<le> vc_maxStale vc)) (\<lambda>_ _. False) s"
      unfolding usable_def by (rule wp_age_within)
    then have "wp env (case map_of (vk_keys s) kid of None \<Rightarrow> ret False | Some _ \<Rightarrow> usable vc)
        (\<lambda>ok t. cache_same s t
        \<and> (ok \<longrightarrow> instant (nowAt env (tick s)) - instant (vk_loaded s) \<le> vc_maxStale vc)) (\<lambda>_ _. False) s"
      by (simp add: Some)
    then show ?thesis
      unfolding verifier_key_def wp_bindA [of _ readState] wp_gateway_state wp_bindA [of _ "case_option _ _ _"]
      by (rule wp_mono) (use rest in blast)+
  qed
qed

lemma Verify_sound:
  "wp env (Verify nw vc raw) (\<lambda>r _. \<forall>a. r = Some a \<longrightarrow> token_verified nw vc env s raw a) (\<lambda>_ _. True) s"
proof (cases "TrimSpace raw = ''''")
  case False
  show ?thesis
  proof (cases "jwtDecode (vc_jwt vc) raw")
    case (Some t)
    then obtain alg kid claims where t: "jwtDecode (vc_jwt vc) raw = Some (alg, kid, claims)"
      by (cases t) auto
    have key: "wp env (case key of None \<Rightarrow> ret None | Some pk \<Rightarrow> bindA clockNow (\<lambda>now.
        if jwtVerify (vc_jwt vc) raw pk (vc_issuer vc) (vc_audience vc) (seconds 30) now
           \<longrightarrow> \<not> human_token_ok vc claims
        then ret None else ret (Some (claims_actor claims))))
      (\<lambda>r _. \<forall>a. r = Some a \<longrightarrow> token_verified nw vc env s raw a) (\<lambda>_ _. True) s'"
      if "\<forall>pk. key = Some pk \<longrightarrow> key_source nw vc env s k pk" "alg = ''EdDSA''" "kid = Some k" for key k s'
      using that t by (cases key) (auto simp: wp_rules token_verified_def)
    show ?thesis
      using False t
      by (cases kid) (auto simp: Verify_def wp_rules intro!: wp_mono [OF wp_verifier_key] key)
  qed (use False in \<open>simp add: Verify_def wp_rules\<close>)
qed (simp add: Verify_def wp_rules)

interpretation gp: gateway_ports "adapter_ops gc" "token_verified (gc_net gc) (gc_verifier gc)" for gc
  by unfold_locales
     (auto simp: adapter_ops_def quiet_Verify quiet_Allow quiet_Token quiet_Refresh quiet_StaticToken
       Upstream_Forward_sends intro: Verify_sound)

end
