(* ===== verification/Gateway_HTTP.thy ===== *)
theory Gateway_HTTP
  imports Gateway_Service Settings
begin

section \<open>Gateway: the HTTP server\<close>

text \<open>
  \<^verbatim>\<open>apps/gateway/internal/adapters/inbound/http/server.go\<close>: route policies,
  validation, forwarding, responses, cross-origin requests and request identifiers.  Metrics,
  logs and traces are left out; URL and IP address parsing are parameters.  Request paths are
  the cleaned paths that reach the handlers behind Go's multiplexer.
\<close>

subsection \<open>Headers and problems\<close>

definition setHeader :: "string \<Rightarrow> string \<Rightarrow> (string \<times> string) list \<Rightarrow> (string \<times> string) list" where
  "setHeader n v hs = filter (\<lambda>h. fst h \<noteq> n) hs @ [(n, v)]"

definition getHeader :: "string \<Rightarrow> (string \<times> string) list \<Rightarrow> string" where
  "getHeader n hs = (case map_of hs n of None \<Rightarrow> '''' | Some v \<Rightarrow> v)"

fun Contains :: "string \<Rightarrow> string \<Rightarrow> bool" where
  "Contains [] p = (p = [])"
| "Contains (c # s) p = (HasPrefix (c # s) p \<or> Contains s p)"

definition has_newline :: "string \<Rightarrow> bool" where
  "has_newline s = list_ex (\<lambda>c. c = CHR 0x0D \<or> c = CHR 0x0A) s"

definition problem_json :: "problem_doc \<Rightarrow> json" where
  "problem_json d =
     JObj [(''type'', JStr (pd_Type d)), (''title'', JStr (pd_Title d)), (''status'', jint (pd_Status d)),
           (''detail'', JStr (pd_Detail d)), (''instance'', JStr (pd_Instance d)),
           (''request_id'', JStr (pd_RequestID d))]"

definition problem_fields :: "problem_doc field list" where
  "problem_fields =
     [(''type'', dec_str (\<lambda>v. pd_Type_update (\<lambda>_. v))), (''title'', dec_str (\<lambda>v. pd_Title_update (\<lambda>_. v))),
      (''status'', dec_int in_int64 (\<lambda>v. pd_Status_update (\<lambda>_. v))),
      (''detail'', dec_str (\<lambda>v. pd_Detail_update (\<lambda>_. v))),
      (''instance'', dec_str (\<lambda>v. pd_Instance_update (\<lambda>_. v))),
      (''request_id'', dec_str (\<lambda>v. pd_RequestID_update (\<lambda>_. v)))]"

definition zero_problem :: problem_doc where
  "zero_problem =
     \<lparr>pd_Type = '''', pd_Title = '''', pd_Status = 0, pd_Detail = '''', pd_Instance = '''', pd_RequestID = ''''\<rparr>"

definition writeProblem :: "(string \<times> string) list \<Rightarrow> problem_doc \<Rightarrow> web_response" where
  "writeProblem hs d =
     \<lparr>Code = pd_Status d, Headers = setHeader ''Content-Type'' ''application/problem+json'' hs,
      Content = JsonBody (problem_json d)\<rparr>"

definition problem_url :: string where
  "problem_url = ''https://streamweave.dev/problems/''"

definition gw_problem ::
  "string \<Rightarrow> web_request \<Rightarrow> (string \<times> string) list \<Rightarrow> int \<Rightarrow> string \<Rightarrow> string \<Rightarrow> web_response" where
  "gw_problem rid r hs status reason detail =
     writeProblem hs
       \<lparr>pd_Type = problem_url @ reason, pd_Title = StatusText status, pd_Status = status,
        pd_Detail = detail, pd_Instance = Path r, pd_RequestID = rid\<rparr>"

definition gw_mapError :: "gw_error \<Rightarrow> int \<times> string \<times> string" where
  "gw_mapError e =
     (case e of
        GErrUnauthorized \<Rightarrow> (401, ''unauthorized'', ''Authentication is required'')
      | GErrForbidden \<Rightarrow> (403, ''forbidden'', ''The requested operation is not permitted'')
      | GErrRateLimited \<Rightarrow> (429, ''rate_limited'', ''Too many requests'')
      | GErrDependency \<Rightarrow> (503, ''dependency_unavailable'', ''A required dependency is unavailable'')
      | GErrUpstreamTimeout \<Rightarrow> (504, ''upstream_timeout'', ''The upstream service did not respond in time'')
      | GErrUpstreamUnavailable \<Rightarrow> (503, ''upstream_unavailable'', ''The upstream service is unavailable'')
      | GErrUpstreamResponse \<Rightarrow> (502, ''upstream_error'', ''The upstream response was invalid'')
      | GErrPayloadTooLarge \<Rightarrow> (413, ''payload_too_large'', ''Request body is too large'')
      | GErrUnsupportedMedia \<Rightarrow> (415, ''unsupported_media_type'', ''Content-Type must be application/json'')
      | GErrBadRequest \<Rightarrow> (400, ''bad_request'', ''The request is invalid''))"

definition writeServiceError :: "string \<Rightarrow> web_request \<Rightarrow> gw_error \<Rightarrow> web_response" where
  "writeServiceError rid r e =
     (case gw_mapError e of (status, reason, detail) \<Rightarrow>
        gw_problem rid r (if status = 429 then [(''Retry-After'', ''60'')] else []) status reason detail)"

subsection \<open>Policies and validation\<close>

definition orderIDPath :: "string \<Rightarrow> bool" where
  "orderIDPath p \<longleftrightarrow>
     HasPrefix p ''/v1/orders/ord_'' \<and>
     (let body = TrimSuffix (TrimPrefix p ''/v1/orders/ord_'') ''/cancel'' in
      body \<noteq> [] \<and> list_all is_alnum body)"

definition routeMatches :: "string \<Rightarrow> string \<Rightarrow> bool" where
  "routeMatches pattern p =
     (if pattern = p then True
      else if HasSuffix pattern ''/{order_id}'' then orderIDPath p \<and> \<not> HasSuffix p ''/cancel''
      else if HasSuffix pattern ''/{order_id}/cancel'' then orderIDPath p \<and> HasSuffix p ''/cancel''
      else False)"

definition matchPolicy :: "route_policy list \<Rightarrow> string \<Rightarrow> string \<Rightarrow> route_policy option" where
  "matchPolicy ps m p =
     (if m \<noteq> '''' then find (\<lambda>q. rp_Method q = m \<and> routeMatches (rp_Pattern q) p) ps
      else find (\<lambda>q. routeMatches (rp_Pattern q) p) ps)"

definition isJSONContentType :: "string \<Rightarrow> bool" where
  "isJSONContentType v =
     (let t = TrimSpace (ToLower v) in t = ''application/json'' \<or> HasPrefix t ''application/json;'')"

definition limit_ok :: "string \<Rightarrow> bool" where
  "limit_ok raw = (case ParseInt raw of None \<Rightarrow> False | Some n \<Rightarrow> 1 \<le> n \<and> n \<le> 100)"

definition validateOrderQuery :: "string \<Rightarrow> web_request \<Rightarrow> web_response option" where
  "validateOrderQuery rid r =
     (let limit = TrimSpace (queryGet r ''limit''); customer = TrimSpace (queryGet r ''customer_id'') in
      if limit \<noteq> '''' \<and> \<not> limit_ok limit
      then Some (gw_problem rid r [] 400 ''bad_request'' ''limit must be between 1 and 100'')
      else if 256 < length (queryGet r ''cursor'')
      then Some (gw_problem rid r [] 400 ''bad_request'' ''cursor is too long'')
      else if customer \<noteq> '''' \<and> \<not> tagged_id ''usr_'' customer
      then Some (gw_problem rid r [] 400 ''bad_request'' ''customer_id is invalid'')
      else None)"

definition validateRequest :: "string \<Rightarrow> web_request \<Rightarrow> route_policy \<Rightarrow> web_response option" where
  "validateRequest rid r p =
     (let key = TrimSpace (headerGet r ''Idempotency-Key'') in
      if 0 < rp_MaxBodyBytes p \<and> rp_MaxBodyBytes p < ContentLength r
      then Some (gw_problem rid r [] 413 ''payload_too_large'' ''Request body is too large'')
      else if rp_RequireJSON p \<and> \<not> isJSONContentType (headerGet r ''Content-Type'')
      then Some (gw_problem rid r [] 415 ''unsupported_media_type'' ''Content-Type must be application/json'')
      else if rp_Owner p = ''orders'' \<and> IsMutation p \<and> key = ''''
      then Some (gw_problem rid r [] 400 ''bad_request'' ''Idempotency-Key is required'')
      else if rp_Owner p = ''orders'' \<and> IsMutation p \<and> \<not> class_between key_char 16 256 key
      then Some (gw_problem rid r [] 400 ''bad_request'' ''Idempotency-Key is invalid'')
      else if (rp_Pattern p = ''/v1/orders'' \<or> rp_Pattern p = ''/v1/auth/sessions'') \<and> Method r = ''GET''
      then validateOrderQuery rid r
      else None)"

definition readBody :: "web_request \<Rightarrow> int \<Rightarrow> string option" where
  "readBody r maxBytes =
     (if maxBytes \<le> 0 then Some ''''
      else (let body = limited (maxBytes + 1) (Body r) in
            if maxBytes < int (length body) then None else Some body))"

definition actorPointer :: "gactor \<Rightarrow> gactor option" where
  "actorPointer a = (if ac_Subject a = '''' then None else Some a)"

subsection \<open>Responses\<close>

record gw_server =
  gs_ops :: gateway_ops
  gs_VerifierCheck :: "bool gact"
  gs_LimiterCheck :: "bool gact"
  gs_openapi :: "string option"
  gs_demoRegistration :: bool
  gs_trustProxy :: bool
  gs_corsOrigins :: "string list"
  gs_metrics :: web_response
  gs_lib :: golib
  gs_urlParse :: "string \<Rightarrow> (string \<times> string \<times> string) option"
  gs_isIP :: "string \<Rightarrow> bool"

definition isSafeProblemType :: "gw_server \<Rightarrow> string \<Rightarrow> bool" where
  "isSafeProblemType sv v =
     (if v = ''about:blank'' then True
      else case gs_urlParse sv v of
        None \<Rightarrow> False
      | Some (scheme, host, path) \<Rightarrow>
          scheme = ''https'' \<and> host = ''streamweave.dev'' \<and> HasPrefix path ''/problems/'' \<and> length v \<le> 256)"

definition boundedRetryAfter :: "string \<Rightarrow> string" where
  "boundedRetryAfter v =
     (case ParseInt (TrimSpace v) of
        None \<Rightarrow> ''60''
      | Some n \<Rightarrow> if n < 1 \<or> 60 < n then ''60'' else int_text n)"

definition rejected :: string where
  "rejected = ''The requested operation was rejected''"

text \<open>The headers of the response after the upstream headers were added.\<close>

definition upstream_headers :: "up_response \<Rightarrow> (string \<times> string) list" where
  "upstream_headers resp =
     (let hs = concat (map (\<lambda>(n, vs). map (\<lambda>v. (canonical_safe n, v)) vs) (ur_Header resp)) in
      if ur_StatusCode resp = 429
      then setHeader ''Retry-After'' (boundedRetryAfter (getHeader ''Retry-After'' hs)) hs else hs)"

definition sanitized :: "gw_server \<Rightarrow> string \<Rightarrow> web_request \<Rightarrow> int \<Rightarrow> problem_doc \<Rightarrow> problem_doc" where
  "sanitized sv rid r status d =
     d\<lparr>pd_Type := (if isSafeProblemType sv (pd_Type d) then pd_Type d else problem_url @ ''upstream_error''),
       pd_Detail := (if TrimSpace (pd_Detail d) = '''' \<or> 512 < length (pd_Detail d) then rejected else pd_Detail d),
       pd_Title := (if pd_Title d = '''' \<or> 128 < length (pd_Title d) \<or> has_newline (pd_Title d)
                    then StatusText status else pd_Title d),
       pd_Status := status, pd_Instance := Path r, pd_RequestID := rid\<rparr>"

definition writeResponse :: "gw_server \<Rightarrow> string \<Rightarrow> web_request \<Rightarrow> up_response \<Rightarrow> web_response" where
  "writeResponse sv rid r resp =
     (let hs = upstream_headers resp; status = ur_StatusCode resp;
          plain = gw_problem rid r hs status ''upstream_error'' rejected in
      if 400 \<le> status \<and> \<not> Contains (ToLower (getHeader ''Content-Type'' hs)) ''application/problem+json''
      then plain
      else if 400 \<le> status then
        (case jsonParse (gs_lib sv) (ur_Body resp) of
           None \<Rightarrow> plain
         | Some j \<Rightarrow>
             (case decode_struct problem_fields j zero_problem of
                (ok, d) \<Rightarrow>
                  if \<not> ok \<or> 512 < length (pd_Detail d) \<or> has_newline (pd_Detail d) then plain
                  else writeProblem hs (sanitized sv rid r status d)))
      else
        \<lparr>Code = status, Headers = hs,
         Content = (if Method r \<noteq> ''HEAD'' \<and> status \<noteq> 204 then RawBody (ur_Body resp) else NoBody)\<rparr>)"

definition gw_health :: "string \<Rightarrow> web_response" where
  "gw_health st = json_response 200 (JObj [(''status'', JStr st)])"

definition gw_ready :: "gw_server \<Rightarrow> string \<Rightarrow> web_request \<Rightarrow> web_response gact" where
  "gw_ready sv rid r =
     bindA (gs_VerifierCheck sv) (\<lambda>ok.
     if \<not> ok then ret (gw_problem rid r [] 503 ''dependency_unavailable'' ''JWKS dependency is unavailable'')
     else
       bindA (gs_LimiterCheck sv) (\<lambda>ok.
       if \<not> ok then ret (gw_problem rid r [] 503 ''dependency_unavailable'' ''Redis dependency is unavailable'')
       else ret (gw_health ''ready'')))"

definition gw_quoted :: "string \<Rightarrow> string" where
  "gw_quoted v = CHR 0x27 # v @ [CHR 0x27]"

definition gw_docs_policy :: "string \<Rightarrow> string" where
  "gw_docs_policy nonce =
     ''default-src '' @ gw_quoted ''none'' @ ''; style-src https://unpkg.com '' @ gw_quoted ''unsafe-inline''
     @ ''; script-src https://unpkg.com '' @ gw_quoted (''nonce-'' @ nonce)
     @ ''; img-src https://unpkg.com data:; connect-src '' @ gw_quoted ''self''
     @ ''; base-uri '' @ gw_quoted ''none'' @ ''; frame-ancestors '' @ gw_quoted ''none''"

definition gw_docs_page :: "string \<Rightarrow> string" where
  "gw_docs_page nonce =
     ''<!doctype html><html lang=\"en\"><head><meta charset=\"utf-8\"><meta name=\"viewport\" content=\"width=device-width, initial-scale=1\"><title>StreamWeave Gateway API</title><link rel=\"stylesheet\" href=\"https://unpkg.com/swagger-ui-dist@5/swagger-ui.css\"></head><body><div id=\"swagger-ui\"></div><script src=\"https://unpkg.com/swagger-ui-dist@5/swagger-ui-bundle.js\"></script><script nonce=\"''
     @ nonce @ ''\">window.onload=()=>window.ui=SwaggerUIBundle({url:'' @ gw_quoted ''/v1/openapi.yaml''
     @ '',dom_id:'' @ gw_quoted ''#swagger-ui'' @ '',deepLinking:true,displayRequestDuration:true,persistAuthorization:false,filter:true,tryItOutEnabled:true});</script></body></html>''"

definition gw_docs :: "web_response gact" where
  "gw_docs =
     bindA (randBytes 16) (\<lambda>bytes.
     let nonce = b64_encode bytes in
     ret \<lparr>Code = 200,
          Headers = [(''Content-Type'', ''text/html; charset=utf-8''),
                     (''Content-Security-Policy'', gw_docs_policy nonce),
                     (''X-Content-Type-Options'', ''nosniff''),
                     (''Referrer-Policy'', ''no-referrer''), (''Cache-Control'', ''no-store'')],
          Content = RawBody (gw_docs_page nonce)\<rparr>)"

definition gw_openapi :: "gw_server \<Rightarrow> string \<Rightarrow> web_request \<Rightarrow> web_response" where
  "gw_openapi sv rid r =
     (case gs_openapi sv of
        None \<Rightarrow> gw_problem rid r [] 503 ''dependency_unavailable'' ''OpenAPI document unavailable''
      | Some data \<Rightarrow>
          \<lparr>Code = 200, Headers = [(''Content-Type'', ''application/yaml'')], Content = RawBody data\<rparr>)"

subsection \<open>The request source\<close>

definition last_colon :: "string \<Rightarrow> (string \<times> string) option" where
  "last_colon s =
     (let tail = takeWhile (\<lambda>c. c \<noteq> CHR '':'') (rev s) in
      if length tail = length s then None
      else Some (take (length s - length tail - 1) s, rev tail))"

text \<open>
  \<^verbatim>\<open>net.SplitHostPort\<close>: the host before the last colon; in brackets it may contain
  colons, and brackets are allowed nowhere else.
\<close>

definition SplitHostPort :: "string \<Rightarrow> string option" where
  "SplitHostPort s =
     (case last_colon s of
        None \<Rightarrow> None
      | Some (host, port) \<Rightarrow>
          if HasPrefix s ''['' then
            (let inner = takeWhile (\<lambda>c. c \<noteq> CHR '']'') (tl s) in
             if host \<noteq> CHR ''['' # inner @ '']'' then None
             else if CHR ''['' \<in> set (tl s) \<or> CHR '']'' \<in> set port then None
             else Some inner)
          else if CHR '':'' \<in> set host then None
          else if CHR ''['' \<in> set s \<or> CHR '']'' \<in> set s then None
          else Some host)"

definition requestSource :: "gw_server \<Rightarrow> web_request \<Rightarrow> string" where
  "requestSource sv r =
     (case SplitHostPort (RemoteAddr r) of
        None \<Rightarrow> ''unknown''
      | Some host \<Rightarrow>
          (let forwarded = TrimSpace (hd (SplitOn CHR '','' (headerGet r ''X-Forwarded-For''))) in
           if gs_trustProxy sv \<and> gs_isIP sv forwarded then forwarded else host))"

subsection \<open>Routing\<close>

definition gw_not_allowed :: "string \<Rightarrow> web_request \<Rightarrow> web_response" where
  "gw_not_allowed rid r = gw_problem rid r [] 405 ''method_not_allowed'' ''Method not allowed''"

definition gw_not_found :: "string \<Rightarrow> web_request \<Rightarrow> web_response" where
  "gw_not_found rid r = gw_problem rid r [] 404 ''not_found'' ''Route not found''"

definition get_only :: "string \<Rightarrow> web_request \<Rightarrow> web_response gact \<Rightarrow> web_response gact" where
  "get_only rid r k = (if Method r \<noteq> ''GET'' then ret (gw_not_allowed rid r) else k)"

definition forward_request_of :: "string \<Rightarrow> string \<Rightarrow> web_request \<Rightarrow> route_policy \<Rightarrow> string \<Rightarrow> forward_request" where
  "forward_request_of rid cid r p body =
     \<lparr>fr_Method = Method r, fr_Path = Path r, fr_Route = rp_Pattern p, fr_RawQuery = RawQuery r,
      fr_Body = body, fr_ContentType = headerGet r ''Content-Type'', fr_RequestID = rid,
      fr_CorrelationID = cid, fr_IdempotencyKey = headerGet r ''Idempotency-Key''\<rparr>"

text \<open>A request with its policy: validation, authorization, body, forwarding, response.\<close>

definition proxy :: "gw_server \<Rightarrow> string \<Rightarrow> string \<Rightarrow> web_request \<Rightarrow> route_policy \<Rightarrow> web_response gact" where
  "proxy sv rid cid r p =
     (case validateRequest rid r p of
        Some resp \<Rightarrow> ret resp
      | None \<Rightarrow>
          bindA (tryA (Authorize (gs_ops sv) r p (requestSource sv r))) (\<lambda>res.
          case res of
            Inl e \<Rightarrow> ret (writeServiceError rid r e)
          | Inr (actor, _) \<Rightarrow>
              (case readBody r (rp_MaxBodyBytes p) of
                 None \<Rightarrow> ret (gw_problem rid r [] 413 ''payload_too_large'' ''Request body is too large'')
               | Some body \<Rightarrow>
                   bindA (tryA (Service_Forward (gs_ops sv) (rp_Owner p) (actorPointer actor)
                            (forward_request_of rid cid r p body) p)) (\<lambda>res.
                   ret (case res of
                          Inl e \<Rightarrow> writeServiceError rid r e
                        | Inr resp \<Rightarrow> writeResponse sv rid r resp)))))"

definition gw_route :: "gw_server \<Rightarrow> string \<Rightarrow> string \<Rightarrow> web_request \<Rightarrow> web_response gact" where
  "gw_route sv rid cid r =
     (if Path r = ''/health/live'' then get_only rid r (ret (gw_health ''ok''))
      else if Path r = ''/health/ready'' then get_only rid r (gw_ready sv rid r)
      else if Path r = ''/v1/docs'' then get_only rid r gw_docs
      else if Path r = ''/v1/openapi.yaml'' then get_only rid r (ret (gw_openapi sv rid r))
      else case matchPolicy DefaultPolicies (Method r) (Path r) of
        None \<Rightarrow>
          ret (if matchPolicy DefaultPolicies '''' (Path r) \<noteq> None then gw_not_allowed rid r
               else gw_not_found rid r)
      | Some p \<Rightarrow>
          if rp_Pattern p = ''/.well-known/register'' \<and> \<not> gs_demoRegistration sv
          then ret (gw_not_found rid r)
          else proxy sv rid cid r p)"

definition gw_mux :: "gw_server \<Rightarrow> string \<Rightarrow> string \<Rightarrow> web_request \<Rightarrow> web_response gact" where
  "gw_mux sv rid cid r =
     (if Path r = ''/metrics'' then get_only rid r (ret (gs_metrics sv)) else gw_route sv rid cid r)"

definition isKnownRoute :: "string \<Rightarrow> bool" where
  "isKnownRoute p \<longleftrightarrow>
     p \<in> {''/metrics'', ''/health/live'', ''/health/ready'', ''/v1/docs'', ''/v1/openapi.yaml''}
     \<or> matchPolicy DefaultPolicies '''' p \<noteq> None"

definition cors_headers :: "string \<Rightarrow> (string \<times> string) list" where
  "cors_headers origin =
     [(''Access-Control-Allow-Origin'', origin), (''Vary'', ''Origin''),
      (''Access-Control-Allow-Credentials'', ''true'')]"

definition preflight_headers :: "(string \<times> string) list" where
  "preflight_headers =
     [(''Access-Control-Allow-Methods'', ''GET,POST,OPTIONS''),
      (''Access-Control-Allow-Headers'', ''Authorization,Content-Type,Idempotency-Key,X-Request-ID,X-Correlation-ID'')]"

definition with_headers :: "(string \<times> string) list \<Rightarrow> web_response \<Rightarrow> web_response" where
  "with_headers hs resp = resp\<lparr>Headers := hs @ Headers resp\<rparr>"

definition cors :: "gw_server \<Rightarrow> string \<Rightarrow> web_request \<Rightarrow> web_response gact \<Rightarrow> web_response gact" where
  "cors sv rid r serve =
     (let origin = TrimSpace (headerGet r ''Origin'');
          allowed = (origin \<in> set (filter (\<lambda>v. v \<noteq> '''') (map TrimSpace (gs_corsOrigins sv)))) in
      if origin = '''' then serve
      else if \<not> allowed then
        (if Method r = ''OPTIONS'' then ret (gw_problem rid r [] 403 ''forbidden'' ''Origin is not allowed'')
         else serve)
      else if Method r = ''OPTIONS'' \<and> isKnownRoute (Path r)
      then ret \<lparr>Code = 204, Headers = cors_headers origin @ preflight_headers, Content = NoBody\<rparr>
      else bindA serve (\<lambda>resp. ret (with_headers (cors_headers origin) resp)))"

definition validID :: "string \<Rightarrow> bool" where
  "validID v = class_between key_char 1 128 v"

definition makeRequestID :: "string gact" where
  "makeRequestID = bindA newUUID (\<lambda>u. ret (''sw_'' @ u))"

definition gw_serve :: "gw_server \<Rightarrow> web_request \<Rightarrow> web_response gact" where
  "gw_serve sv r =
     (let given = headerGet r ''X-Request-Id''; correlation = headerGet r ''X-Correlation-Id'' in
      bindA (if validID given then ret given else makeRequestID) (\<lambda>rid.
      let cid = (if validID correlation then correlation else rid) in
      bindA (cors sv rid r (gw_mux sv rid cid r)) (\<lambda>resp.
      ret (with_headers [(''X-Request-Id'', rid), (''X-Correlation-Id'', cid)] resp))))"

text \<open>The server as \<^verbatim>\<open>cmd/api\<close> wires it.\<close>

definition gateway_server ::
  "gateway_cfg \<Rightarrow> string option \<Rightarrow> bool \<Rightarrow> bool \<Rightarrow> string list \<Rightarrow> web_response
   \<Rightarrow> (string \<Rightarrow> (string \<times> string \<times> string) option) \<Rightarrow> (string \<Rightarrow> bool) \<Rightarrow> gw_server" where
  "gateway_server gc file demo trustProxy origins page parse isIP =
     \<lparr>gs_ops = adapter_ops gc, gs_VerifierCheck = Verifier_Check (gc_net gc) (gc_verifier gc),
      gs_LimiterCheck = Limiter_Check, gs_openapi = file, gs_demoRegistration = demo,
      gs_trustProxy = trustProxy, gs_corsOrigins = origins, gs_metrics = page,
      gs_lib = vc_lib (gc_verifier gc), gs_urlParse = parse, gs_isIP = isIP\<rparr>"

end
