(* ===== verification/Gateway_Demo.thy ===== *)
theory Gateway_Demo
  imports Gateway_HTTP
begin

section \<open>Gateway: a concrete instance\<close>

text \<open>
  A gateway with one cached key, a static service token and a network whose replies are
  scripted, on which the properties of the gateway are evaluated.
\<close>

definition gdemo_time :: gotime where
  "gdemo_time = \<lparr>instant = 62135596805000000000, utc = True\<rparr>"

definition gdemo_env :: env where
  "gdemo_env =
     \<lparr>failAt = (\<lambda>_. None), ackLost = (\<lambda>_. False), uuidAt = nat_text, nowAt = (\<lambda>_. gdemo_time),
      httpAt = (\<lambda>_. None), brokerErr = (\<lambda>_. None), randAt = (\<lambda>_ n. replicate n CHR ''0''),
      pgTime = (\<lambda>t. t), scanUTC = True\<rparr>"

definition gdemo_lib :: golib where
  "gdemo_lib =
     \<lparr>jsonParse = (\<lambda>_. None), jsonPrint = (\<lambda>_. ''{}''), sha256 = (\<lambda>t. t), hmac256 = (\<lambda>k t. k),
      edVerify = (\<lambda>pk m s. pk = s), timeText = (\<lambda>_. ''now''), jsonTime = (\<lambda>_. None),
      parseRFC3339Nano = (\<lambda>_. None)\<rparr>"

definition gdemo_claims :: token_claims where
  "gdemo_claims =
     \<lparr>tc_Issuer = ''i'', tc_Subject = ''usr_1'', tc_Audience = [''a''], tc_TokenKind = ''human'',
      tc_Scopes = [''orders:write:self'', ''orders:read:self''], tc_Roles = [], tc_SessionID = ''s1'', tc_ID = ''j1'',
      tc_IssuedAt = Some gdemo_time, tc_NotBefore = Some gdemo_time, tc_ExpiresAt = Some gdemo_time\<rparr>"

definition gdemo_verifier :: verifier_cfg where
  "gdemo_verifier =
     \<lparr>vc_lib = gdemo_lib,
      vc_jwt = \<lparr>jwtDecode = (\<lambda>raw. if raw = ''tok'' then Some (''EdDSA'', Some ''k1'', gdemo_claims) else None),
                jwtVerify = (\<lambda>_ pk _ _ _ _. pk = ''pk'')\<rparr>,
      vc_uuid = (\<lambda>_. True), vc_issuer = ''i'', vc_audience = ''a'', vc_refreshAfter = minutes 5,
      vc_maxStale = minutes 15\<rparr>"

definition gdemo_net :: network where
  "gdemo_net =
     \<lparr>nw_jwks = (\<lambda>_. None), nw_token = (\<lambda>_ _. None), nw_slot = (\<lambda>_. None),
      nw_join = (\<lambda>b p. Some (b @ p)), nw_request = (\<lambda>_ _. True),
      nw_reply = (\<lambda>n _. if even n then NoAnswer None else Answered 202 [(''Content-Type'', [''application/json''])] (Some ''{}''))\<rparr>"

definition gdemo_cfg :: gateway_cfg where
  "gdemo_cfg =
     \<lparr>gc_net = gdemo_net, gc_verifier = gdemo_verifier,
      gc_upstream = \<lparr>uc_URLs = (\<lambda>owner. Some (''http://'' @ owner)), uc_MaxResponseSize = 100\<rparr>,
      gc_tokens = \<lparr>tk_lib = gdemo_lib, tk_clientID = ''g'', tk_secret = ''x'', tk_scopes = []\<rparr>,
      gc_static = ''svc''\<rparr>"

definition gdemo_server :: gw_server where
  "gdemo_server = gateway_server gdemo_cfg None False False [] (json_response 200 JNull) (\<lambda>_. None) (\<lambda>_. False)"

definition gdemo_state :: gw_state where
  "gdemo_state =
     \<lparr>work = \<lparr>counters = Map.empty\<rparr>, durable = \<lparr>counters = Map.empty\<rparr>, tick = 0,
      vk_keys = [(''k1'', ''pk'')], vk_loaded = gdemo_time, vk_age = minutes 5,
      st_token = '''', st_expires = zero_time, g_sent = []\<rparr>"

definition gdemo_request :: "string \<Rightarrow> string \<Rightarrow> web_request" where
  "gdemo_request m p =
     \<lparr>Method = m, Path = p, Query = (\<lambda>_. []), RawQuery = '''',
      Header = (\<lambda>n. if n = ''Authorization'' then [''Bearer tok''] else if n = ''X-Request-Id'' then [''r1'']
        else if n = ''Content-Type'' then [''application/json'']
        else if n = ''Idempotency-Key'' then [''key-0123456789abcdef''] else []),
      Body = ''{}'', ContentLength = 2, RemoteAddr = ''10.0.0.1:80''\<rparr>"

definition gserved :: "web_request \<Rightarrow> (gw_error + web_response) \<times> gw_state" where
  "gserved r = gw_serve gdemo_server r gdemo_env gdemo_state"

end
