(* ===== verification/Gateway_Limits.thy ===== *)
theory Gateway_Limits
  imports Gateway_Demo
begin

section \<open>Gateway: rate limits\<close>

text \<open>
  However calls interleave, fail or lose their acknowledgement, the counters on Redis admit at
  most the limit of a class in a window and at most its burst in a second.
\<close>

subsection \<open>Keys\<close>

lemma hex_not_u: "CHR ''u'' \<notin> set (hex_encode s)"
proof -
  have "byte (hex_digit n) < 103" if "n < 16" for n
    using that by (simp add: hex_digit_def)
  then have u: "hex_digit n \<noteq> CHR ''u''" if "n < 16" for n
    using that by fastforce
  moreover have "byte c div 16 < 16" "byte c mod 16 < 16" for c
  proof -
    have "byte c < 256" by (rule nat_of_char_less_256)
    then show "byte c div 16 < 16" by (simp add: less_mult_imp_div_less)
    show "byte c mod 16 < 16" by simp
  qed
  ultimately show ?thesis by (auto simp: hex_encode_def dest!: sym [of "CHR ''u''"])
qed

lemma burst_prefix: "CHR ''u'' \<notin> set d \<Longrightarrow> d @ CHR '':'' # x \<noteq> ''burst:'' @ y"
  by (cases d; cases "tl d") auto

lemma window_not_burst: "windowKey gl k c t \<noteq> burstKey gl k' c' t'"
  using burst_prefix [OF hex_not_u] by (auto simp: windowKey_def burstKey_def digest_def)

subsection \<open>Calls\<close>

text \<open>A sequence of calls of \<^const>\<open>Allow\<close>, with their results.\<close>

fun allow_all :: "golib \<Rightarrow> (string \<times> string) list \<Rightarrow> bool option list gact" where
  "allow_all gl [] = ret []"
| "allow_all gl ((k, cl) # calls) =
     bindA (Allow gl k cl) (\<lambda>x. bindA (allow_all gl calls) (\<lambda>xs. ret (x # xs)))"

definition admitted :: "string \<times> string \<Rightarrow> (string \<times> string) list \<Rightarrow> bool option list \<Rightarrow> nat" where
  "admitted call calls rs = length (filter (\<lambda>(c, x). c = call \<and> x = Some True) (zip calls rs))"

lemma admitted_simps [simp]:
  "admitted call [] rs = 0"
  "admitted call (c # calls) (x # rs)
     = (if c = call \<and> x = Some True then Suc (admitted call calls rs) else admitted call calls rs)"
  by (simp_all add: admitted_def)

text \<open>The end of the window with a given index, in nanoseconds of Go's clock.\<close>

definition window_end :: "int \<Rightarrow> int \<Rightarrow> int" where
  "window_end w i = seconds ((i + 1) * w + 62135596800)"

lemma window_times:
  assumes "0 \<le> Unix t" "0 < w" "go_div (Unix t) w = i"
  shows "instant t < window_end w i" "window_end w i \<le> instant t + seconds w"
proof -
  define P where "P = i * w"
  define q where "q = instant t div 1000000000"
  have "i = Unix t div w" using assms by (simp add: go_div_def)
  then have u: "Unix t = P + Unix t mod w" "0 \<le> Unix t mod w" "Unix t mod w < w"
    using assms(2) by (simp_all add: P_def)
  have n: "instant t = q * 1000000000 + instant t mod 1000000000" "0 \<le> instant t mod 1000000000"
    "instant t mod 1000000000 < 1000000000" by (simp_all add: q_def)
  have "Unix t = q - 62135596800" by (simp add: Unix_def q_def)
  moreover have "window_end w i = (P + w + 62135596800) * 1000000000"
    by (simp add: window_end_def seconds_def P_def distrib_right)
  ultimately show "instant t < window_end w i" "window_end w i \<le> instant t + seconds w"
    using u n by (simp_all add: seconds_def)
qed

lemma script_held:
  assumes "held K e n db" "instant now < e" "wk \<noteq> bk"
    and "wk = K \<Longrightarrow> e \<le> instant now + seconds (rc_Window c)"
    and "bk = K \<Longrightarrow> e \<le> instant now + seconds (rc_BurstWindow c)"
    and "allowScript wk bk c env now db = Inr (ok, db')"
  shows "held K e n db'" and "wk = K \<or> bk = K \<Longrightarrow> held K e (Suc n) db'"
    and "ok \<Longrightarrow> wk = K \<Longrightarrow> int (Suc n) \<le> rc_Limit c"
    and "ok \<Longrightarrow> bk = K \<Longrightarrow> int (Suc n) \<le> rc_Burst c"
proof -
  let ?t = "instant now"
  let ?d1 = "incr_expire ?t wk (rc_Window c) db"
  have db': "db' = incr_expire ?t bk (rc_BurstWindow c) ?d1"
    and ok: "ok \<Longrightarrow> live ?t ?d1 wk \<le> rc_Limit c \<and> live ?t db' bk \<le> rc_Burst c"
    using assms(6) by (auto simp: allowScript_def Let_def)
  have one: "held K e n ?d1" if "wk \<noteq> K" using that assms(1) by (simp add: held_other)
  have two: "held K e (Suc n) ?d1" "int (Suc n) \<le> live ?t ?d1 K" if "wk = K"
    using that held_incr [OF assms(1,2) assms(4)] by auto
  have three: "held K e (Suc n) db'" "int (Suc n) \<le> live ?t db' K" if "bk = K"
    using that one held_incr [OF one assms(2) assms(5)] assms(3) db' by auto
  show "held K e (Suc n) db'" if "wk = K \<or> bk = K"
    using that two three assms(3) by (auto simp: db' held_other)
  then show "held K e n db'"
    using one assms(3) held_less by (cases "wk = K \<or> bk = K") (auto simp: db' held_other)
  show "ok \<Longrightarrow> wk = K \<Longrightarrow> int (Suc n) \<le> rc_Limit c" using ok two by force
  show "ok \<Longrightarrow> bk = K \<Longrightarrow> int (Suc n) \<le> rc_Burst c" using ok three by force
qed

text \<open>
  A counter that one call increments, whose limit is \<open>L\<close>, and which lives until after
  every clock reading.
\<close>

definition limited_call ::
  "golib \<Rightarrow> env \<Rightarrow> string \<Rightarrow> string \<Rightarrow> rate_class \<Rightarrow> string \<Rightarrow> int \<Rightarrow> int \<Rightarrow> bool" where
  "limited_call gl env key cl0 c0 K e L =
     (classes cl0 = Some c0
      \<and> (\<forall>m. instant (nowAt env m) < e)
      \<and> (\<forall>cl c k m m'. classes cl = Some c \<longrightarrow> windowKey gl k c (nowAt env m) = K \<longrightarrow>
           e \<le> instant (nowAt env m') + seconds (rc_Window c))
      \<and> (\<forall>cl c k m m'. classes cl = Some c \<longrightarrow> burstKey gl k c (nowAt env m) = K \<longrightarrow>
           e \<le> instant (nowAt env m') + seconds (rc_BurstWindow c))
      \<and> (\<forall>m. windowKey gl key c0 (nowAt env m) = K \<and> L = rc_Limit c0
           \<or> burstKey gl key c0 (nowAt env m) = K \<and> L = rc_Burst c0))"

lemma Allow_counts:
  assumes lc: "limited_call gl env key cl0 c0 K e L" and h0: "held K e n (durable s)"
  shows "wp env (Allow gl k cl) (\<lambda>x s'.
      if (k, cl) = (key, cl0) \<and> x = Some True then held K e (Suc n) (durable s') \<and> int (Suc n) \<le> L
      else held K e n (durable s')) (\<lambda>_ _. False) s"
proof -
  have cl0: "classes cl0 = Some c0"
    and before: "\<And>m. instant (nowAt env m) < e"
    and window: "\<And>cl c k m m'. classes cl = Some c \<Longrightarrow> windowKey gl k c (nowAt env m) = K \<Longrightarrow>
      e \<le> instant (nowAt env m') + seconds (rc_Window c)"
    and burst: "\<And>cl c k m m'. classes cl = Some c \<Longrightarrow> burstKey gl k c (nowAt env m) = K \<Longrightarrow>
      e \<le> instant (nowAt env m') + seconds (rc_BurstWindow c)"
    and counts: "\<And>m. windowKey gl key c0 (nowAt env m) = K \<and> L = rc_Limit c0
      \<or> burstKey gl key c0 (nowAt env m) = K \<and> L = rc_Burst c0"
    using lc unfolding limited_call_def by (blast, blast, blast, blast, simp)
  have limited: "cl0 \<noteq> ''health'' \<and> cl0 \<noteq> ''metrics''" using cl0 by (auto simp: classes_def)
  let ?Q = "\<lambda>x s'. if (k, cl) = (key, cl0) \<and> x = Some True then held K e (Suc n) (durable s') \<and> int (Suc n) \<le> L
      else held K e n (durable s')"
  have script: "wp env (tryA (autoQ id (allowScript (windowKey gl k c t) (burstKey gl k c t) c)))
      (\<lambda>res. ?Q (case res of Inl _ \<Rightarrow> None | Inr ok \<Rightarrow> Some ok)) (\<lambda>_ _. False) s'"
    if c: "classes cl = Some c" and h: "held K e n (durable s')" and t: "t = nowAt env m" for c t m s'
    unfolding wp_tryA
  proof (rule wp_autoQ)
    fix ok db'
    assume q: "allowScript (windowKey gl k c t) (burstKey gl k c t) c env (nowAt env (tick s')) (durable s')
      = Inr (ok, db')"
    note r = script_held [OF h before window_not_burst _ _ q]
    have w: "windowKey gl k c t = K \<Longrightarrow> e \<le> instant (nowAt env (tick s')) + seconds (rc_Window c)"
      using window [OF c] t by blast
    have b: "burstKey gl k c t = K \<Longrightarrow> e \<le> instant (nowAt env (tick s')) + seconds (rc_BurstWindow c)"
      using burst [OF c] t by blast
    have kept: "held K e n db'" by (rule r(1)) (use w b in auto)
    have hit: "held K e (Suc n) db' \<and> int (Suc n) \<le> L" if "ok" "(k, cl) = (key, cl0)"
    proof -
      have "c = c0" using c cl0 that(2) by simp
      then show ?thesis
        using counts [of m] r(2-4) w b that t by auto
    qed
    show "?Q (case Inr ok of Inl _ \<Rightarrow> None | Inr ok \<Rightarrow> Some ok) (tickOn (s'\<lparr>durable := db'\<rparr>)) \<and>
      (\<forall>d. ?Q (case Inl (id d) of Inl _ \<Rightarrow> None | Inr ok \<Rightarrow> Some ok) (tickOn (s'\<lparr>durable := db'\<rparr>)))"
      using kept hit by auto
  qed (use h in auto)
  have rest: "wp env (bindA clockNow (\<lambda>now. bindA (tryA (autoQ id
        (allowScript (windowKey gl k c now) (burstKey gl k c now) c))) (\<lambda>res.
        ret (case res of Inl _ \<Rightarrow> None | Inr ok \<Rightarrow> Some ok)))) ?Q (\<lambda>_ _. False) s'"
    if "classes cl = Some c" "held K e n (durable s')" for c s'
    unfolding wp_bindA wp_clockNow
    by (rule wp_mono [OF script [OF that(1) _ refl]]) (use that in \<open>auto simp: wp_ret\<close>)
  have up: "wp env Limiter_Check (\<lambda>_ s'. held K e n (durable s')) (\<lambda>_ _. False) s"
    unfolding Limiter_Check_def
    by (rule wp_tag) (auto simp: wp_tryA h0 intro!: wp_autoQ)
  show ?thesis
  proof (cases "cl = ''health'' \<or> cl = ''metrics''")
    case True
    then show ?thesis using limited h0 by (auto simp: Allow_def wp_ret)
  next
    case False
    show ?thesis
    proof (cases "classes cl")
      case None
      then show ?thesis using False h0 by (auto simp: Allow_def wp_ret)
    next
      case (Some c)
      show ?thesis
        unfolding Allow_def if_not_P [OF False] Some option.case wp_bindA [of _ Limiter_Check]
      proof (rule wp_mono [OF up])
        fix ok s'
        assume h: "held K e n (durable s')"
        show "wp env (if \<not> ok then ret None else bindA clockNow (\<lambda>now. bindA (tryA (autoQ id
          (allowScript (windowKey gl k c now) (burstKey gl k c now) c))) (\<lambda>res.
          ret (case res of Inl _ \<Rightarrow> None | Inr ok \<Rightarrow> Some ok)))) ?Q (\<lambda>_ _. False) s'"
          using rest [OF Some h] h by (cases ok) (auto simp: wp_ret)
      qed simp
    qed
  qed
qed

lemma allow_all_bounded:
  "limited_call gl env key cl0 c0 K e L \<Longrightarrow> held K e n (durable s) \<Longrightarrow> int n \<le> L \<Longrightarrow>
   wp env (allow_all gl calls) (\<lambda>rs _. length rs = length calls
     \<and> int (n + admitted (key, cl0) calls rs) \<le> L) (\<lambda>_ _. False) s"
proof (induction calls arbitrary: n s)
  case (Cons call calls)
  obtain k cl where call: "call = (k, cl)" by fastforce
  show ?case
    unfolding call allow_all.simps wp_bindA [of _ "Allow gl k cl"]
  proof (rule wp_mono [OF Allow_counts [OF Cons.prems(1,2)]])
    fix x and s' :: gw_state
    assume x: "if (k, cl) = (key, cl0) \<and> x = Some True then held K e (Suc n) (durable s') \<and> int (Suc n) \<le> L
      else held K e n (durable s')"
    define n' where "n' = (if (k, cl) = (key, cl0) \<and> x = Some True then Suc n else n)"
    have "held K e n' (durable s')" "int n' \<le> L" using x Cons.prems by (auto simp: n'_def split: if_splits)
    from Cons.IH [OF Cons.prems(1) this]
    show "wp env (bindA (allow_all gl calls) (\<lambda>xs. ret (x # xs)))
      (\<lambda>rs _. length rs = length ((k, cl) # calls) \<and> int (n + admitted (key, cl0) ((k, cl) # calls) rs) \<le> L)
      (\<lambda>_ _. False) s'"
      unfolding wp_bindA by (rule wp_mono) (auto simp: wp_ret n'_def split: if_splits)
  qed simp
qed (simp add: wp_ret)

lemma class_windows: "classes cl = Some c \<Longrightarrow> rc_Window c = 60 \<and> rc_BurstWindow c = 1 \<and> 0 \<le> rc_Limit c \<and> 0 \<le> rc_Burst c"
  by (auto simp: classes_def split: if_splits)

lemma limited_window:
  assumes c: "classes cl = Some c"
    and t: "\<And>m. 0 \<le> Unix (nowAt env m) \<and> go_div (Unix (nowAt env m)) (rc_Window c) = i"
  shows "limited_call gl env key cl c (windowKey gl key c (nowAt env 0)) (window_end (rc_Window c) i) (rc_Limit c)"
proof -
  have w: "rc_Window c' = rc_Window c" if "classes cl' = Some c'" for cl' c'
    using class_windows [OF c] class_windows [OF that] by simp
  have "0 < rc_Window c" using class_windows [OF c] by simp
  note times = window_times [OF conjunct1 [OF t] this conjunct2 [OF t]]
  show ?thesis
    unfolding limited_call_def
  proof (intro conjI allI impI disjI1)
    show "windowKey gl key c (nowAt env m) = windowKey gl key c (nowAt env 0)" for m
      by (simp add: windowKey_def t)
  qed (use c times w window_not_burst in \<open>metis+\<close>)
qed

lemma limited_burst:
  assumes c: "classes cl = Some c"
    and t: "\<And>m. 0 \<le> Unix (nowAt env m) \<and> go_div (Unix (nowAt env m)) (rc_BurstWindow c) = i"
  shows "limited_call gl env key cl c (burstKey gl key c (nowAt env 0)) (window_end (rc_BurstWindow c) i) (rc_Burst c)"
proof -
  have w: "rc_BurstWindow c' = rc_BurstWindow c" if "classes cl' = Some c'" for cl' c'
    using class_windows [OF c] class_windows [OF that] by simp
  have "0 < rc_BurstWindow c" using class_windows [OF c] by simp
  note times = window_times [OF conjunct1 [OF t] this conjunct2 [OF t]]
  show ?thesis
    unfolding limited_call_def
  proof (intro conjI allI impI disjI2)
    show "burstKey gl key c (nowAt env m) = burstKey gl key c (nowAt env 0)" for m
      by (simp add: burstKey_def t)
  qed (use c times w window_not_burst in \<open>metis+\<close>)
qed

lemma admitted_total:
  assumes "limited_call gl env key cl c K e L" "counters (durable s) K = None" "0 \<le> L"
  shows "\<exists>rs s'. allow_all gl calls env s = (Inr rs, s') \<and> length rs = length calls \<and>
    int (admitted (key, cl) calls rs) \<le> L"
  using allow_all_bounded [OF assms(1), of 0 s calls] assms(2,3)
  by (auto simp: held_def wp_def split: prod.splits sum.splits)

text \<open>
  C31.  While the clock stays in one window of a class, any sequence of calls of the limiter, of
  any keys and classes, with failures of Redis and lost acknowledgements anywhere, returns a
  decision for every call and admits at most the class's limit of calls for a key whose window
  counter was fresh; within one second it also admits at most the class's burst.
\<close>

theorem rate_limit_enforced:
  assumes "classes cl = Some c"
    and "\<forall>m. 0 \<le> Unix (nowAt env m) \<and> go_div (Unix (nowAt env m)) (rc_Window c) = i"
    and "counters (durable s) (windowKey gl key c (nowAt env 0)) = None"
  shows "\<exists>rs s'. allow_all gl calls env s = (Inr rs, s') \<and> length rs = length calls
    \<and> int (admitted (key, cl) calls rs) \<le> rc_Limit c
    \<and> ((\<forall>m. Unix (nowAt env m) = u) \<and> counters (durable s) (burstKey gl key c (nowAt env 0)) = None
        \<longrightarrow> int (admitted (key, cl) calls rs) \<le> rc_Burst c)"
proof -
  note pos = class_windows [OF assms(1)]
  obtain rs s' where r: "allow_all gl calls env s = (Inr rs, s')" "length rs = length calls"
      "int (admitted (key, cl) calls rs) \<le> rc_Limit c"
    using admitted_total [OF limited_window assms(3)] assms(1,2) pos by blast
  have "int (admitted (key, cl) calls rs) \<le> rc_Burst c"
    if u: "\<forall>m. Unix (nowAt env m) = u" and k: "counters (durable s) (burstKey gl key c (nowAt env 0)) = None"
  proof -
    have "0 \<le> Unix (nowAt env m) \<and> go_div (Unix (nowAt env m)) (rc_BurstWindow c) = go_div u (rc_BurstWindow c)" for m
      using assms(2) u by metis
    from admitted_total [OF limited_burst [OF assms(1) this] k, of calls] show ?thesis
      using pos r(1) by auto
  qed
  with r show ?thesis by (intro exI [of _ rs] exI [of _ s']) simp
qed

theorem rate_limit_enforced_witness:
  "\<exists>rs s'. allow_all gdemo_lib (replicate 4 (''k'', ''demo-registration'')) gdemo_env gdemo_state = (Inr rs, s')
    \<and> length rs = 4 \<and> admitted (''k'', ''demo-registration'') (replicate 4 (''k'', ''demo-registration'')) rs \<le> 2"
proof -
  have c: "classes ''demo-registration'' = Some \<lparr>rc_Limit = 5, rc_Window = 60, rc_Burst = 2, rc_BurstWindow = 1\<rparr>"
    by (simp add: classes_def)
  have u: "\<forall>m. 0 \<le> Unix (nowAt gdemo_env m) \<and> go_div (Unix (nowAt gdemo_env m))
      (rc_Window \<lparr>rc_Limit = 5, rc_Window = 60, rc_Burst = 2, rc_BurstWindow = 1\<rparr>) = 0"
    by (simp add: gdemo_env_def gdemo_time_def Unix_def go_div_def)
  have s: "counters (durable gdemo_state) K = None" for K by (simp add: gdemo_state_def)
  have second: "\<forall>m. Unix (nowAt gdemo_env m) = 5"
    by (simp add: gdemo_env_def gdemo_time_def Unix_def)
  show ?thesis
    using rate_limit_enforced [OF c u s, where gl = gdemo_lib and key = "''k''"
        and calls = "replicate 4 (''k'', ''demo-registration'')" and u = 5] s second
    by auto
qed

end
