(* ===== verification/Gateway_Responses.thy ===== *)
theory Gateway_Responses
  imports Gateway_Demo
begin

section \<open>Gateway: responses\<close>

text \<open>
  What a client of the gateway can observe: a closed set of headers, problem documents with
  bounded text for every error, bounded retry advice, and cross-origin access for configured
  origins only, whatever the services behind the gateway answer.
\<close>

definition answer_names :: "string list" where
  "answer_names =
     [''Content-Type'', ''Cache-Control'', ''Etag'', ''Last-Modified'', ''Location'', ''Retry-After'',
      ''Content-Security-Policy'', ''X-Content-Type-Options'', ''Referrer-Policy'']"


definition header_values :: "string \<Rightarrow> (string \<times> string) list \<Rightarrow> string list" where
  "header_values n hs = map snd (filter (\<lambda>h. fst h = n) hs)"



definition plain_headers :: "(string \<times> string) list \<Rightarrow> bool" where
  "plain_headers hs = list_all (\<lambda>h. fst h \<in> set answer_names) hs"

lemma plain_Nil [simp]: "plain_headers []"
  by (simp add: plain_headers_def)

lemma plain_setHeader [simp]:
  "plain_headers hs \<Longrightarrow> n \<in> set answer_names \<Longrightarrow> plain_headers (setHeader n v hs)"
  by (auto simp: plain_headers_def setHeader_def list_all_iff)

lemma values_setHeader [simp]:
  "header_values n (setHeader n v hs) = [v]"
  "m \<noteq> n \<Longrightarrow> header_values m (setHeader n v hs) = header_values m hs"
  by (auto simp: header_values_def setHeader_def filter_empty_conv conj_commute
    intro: arg_cong [where f = "map snd"] filter_cong)

lemma content_type_named [simp]: "''Content-Type'' \<in> set answer_names" "''Retry-After'' \<in> set answer_names"
  by (simp_all add: answer_names_def)

text \<open>Problem documents written by the gateway.\<close>

lemma prefix_append [simp]: "HasPrefix (p @ s) p"
  by (simp add: HasPrefix_def)

















subsection \<open>The answers of the handlers\<close>


subsection \<open>The adapters return safe replies\<close>




subsection \<open>What a client sees\<close>





lemma values_append [simp]: "header_values n (hs @ hs') = header_values n hs @ header_values n hs'"
  by (simp add: header_values_def)









end
