(* ===== verification/Gateway_Refresh.thy ===== *)
theory Gateway_Refresh
  imports Gateway_Demo
begin

section \<open>Gateway: concurrent refreshes\<close>









subsection \<open>The invariant\<close>














subsection \<open>Progress\<close>














end
