(* ===== verification/Gateway_Theorems.thy ===== *)
theory Gateway_Theorems
  imports Gateway_Demo
begin

section \<open>Gateway: what the server guarantees\<close>

text \<open>
  What leaves the gateway towards the services, how often, and on whose behalf; the rate
  limits; and what clients see of upstream responses.
\<close>

subsection \<open>Policies\<close>

lemmas policy_defs = DefaultPolicies_def gateway_policy_def public_write_def session_write_def
  bearer_read_def order_write_def

lemma matchPolicy_member:
  assumes "matchPolicy ps m p = Some q"
  shows "q \<in> set ps" "m \<noteq> '''' \<Longrightarrow> rp_Method q = m" "routeMatches (rp_Pattern q) p"
  using assms by (auto simp: matchPolicy_def find_Some_iff split: if_splits)

lemma mutation_policy:
  "p \<in> set DefaultPolicies \<Longrightarrow> IsMutation p \<Longrightarrow> rp_Method p = ''POST'' \<and> \<not> rp_RetrySafeRead p"
proof -
  have "list_all (\<lambda>p. IsMutation p \<longrightarrow> rp_Method p = ''POST'' \<and> \<not> rp_RetrySafeRead p) DefaultPolicies"
    by code_simp
  then show "p \<in> set DefaultPolicies \<Longrightarrow> IsMutation p \<Longrightarrow> rp_Method p = ''POST'' \<and> \<not> rp_RetrySafeRead p"
    by (auto simp: list_all_iff)
qed

text \<open>How often the gateway may send a request of a policy upstream.\<close>

definition send_bound :: "route_policy \<Rightarrow> nat" where
  "send_bound p = (if IsMutation p then 1 else 4)"

lemma policy_bound:
  assumes "matchPolicy DefaultPolicies (Method r) (Path r) = Some p" "fr_Method req = Method r"
  shows "(if rp_RetrySafeRead p then 2 else 1) * request_bound req \<le> send_bound p"
proof (cases "IsMutation p")
  case True
  then have "rp_Method p = ''POST''" "\<not> rp_RetrySafeRead p"
    using mutation_policy matchPolicy_member(1) [OF assms(1)] by auto
  moreover have "Method r = '''' \<or> Method r = rp_Method p"
    using matchPolicy_member(2) [OF assms(1)] by metis
  ultimately show ?thesis using assms(2) by (auto simp: request_bound_def send_bound_def)
next
  case False
  then show ?thesis by (simp add: send_bound_def request_bound_def)
qed

subsection \<open>Forwarded requests\<close>

text \<open>
  What a request may have caused upstream: nothing, or a bounded number of copies of it for
  the owner of its route; on routes that need a person, on behalf of the person their token
  was verified for at \<open>s0\<close>.
\<close>

definition forwarded_for ::
  "(gw_state \<Rightarrow> string \<Rightarrow> gactor \<Rightarrow> bool) \<Rightarrow> web_request \<Rightarrow> gw_state \<Rightarrow> gw_state \<Rightarrow> bool" where
  "forwarded_for verified r s s' \<longleftrightarrow>
     g_sent s' = g_sent s
     \<or> (\<exists>p actor req. matchPolicy DefaultPolicies (Method r) (Path r) = Some p
          \<and> sends_upstream (send_bound p) (rp_Owner p) actor req s s'
          \<and> (\<exists>rid cid body. req = forward_request_of rid cid r p body)
          \<and> (rp_Auth p = AuthBearer \<longrightarrow>
               (\<exists>raw v s0. bearerToken (headerGet r ''Authorization'') = Some raw
                  \<and> s0 \<in> {s, tickOn s} \<and> verified s0 raw v \<and> actor = Some (Normalized v)
                  \<and> ac_Type (Normalized v) = ''human'' \<and> Allows p (ac_Scopes (Normalized v)))))"

lemma quiet_ready:
  assumes "keeps quiet (gs_VerifierCheck sv)" "keeps quiet (gs_LimiterCheck sv)"
  shows "keeps quiet (gw_ready sv rid r)"
  unfolding gw_ready_def by (intro qf.keeps_rules assms)

lemma quiet_checks: "keeps quiet (Verifier_Check nw vc)" "keeps quiet Limiter_Check"
  unfolding Verifier_Check_def Limiter_Check_def
  by (intro quiet_refresh qf.keeps_rules quiet_tryQ)+

lemma keeps_anywhere: "keeps R m \<Longrightarrow> wp env (tryA m) (\<lambda>_. R s) (\<lambda>_ _. False) s"
  unfolding wp_tryA by (rule keeps_wp)

context gateway_ports
begin

lemma proxy_forwards:
  assumes ops: "gs_ops sv = ops" and p: "matchPolicy DefaultPolicies (Method r) (Path r) = Some p"
    and s: "s \<in> {s0, tickOn s0}"
  shows "wp env (proxy sv rid cid r p) (\<lambda>_. forwarded_for (verified env) r s0) (\<lambda>_ _. False) s"
proof -
  have sent: "g_sent s = g_sent s0" using s by (auto simp: tickOn_def)
  have none: "forwarded_for (verified env) r s0 t" if "quiet s t" for t
    using that sent by (simp add: forwarded_for_def quiet_def)
  have auth: "wp env (Authorize ops r p source) (\<lambda>x t. quiet s t \<and> (case rp_Auth p of
        AuthNone \<Rightarrow> fst x = no_actor
      | AuthBearer \<Rightarrow> \<exists>v. bearerToken (headerGet r ''Authorization'') = Some (snd x)
          \<and> verified env s (snd x) v \<and> fst x = Normalized v \<and> ac_Subject (fst x) \<noteq> []
          \<and> ac_Type (fst x) = ''human'' \<and> Allows p (ac_Scopes (fst x)))) (\<lambda>_. quiet s) s" for source
    using wp_conj [OF keeps_wp [OF authorize_quiet] authorize_sound]
    by (rule wp_mono) (auto split: auth_mode.splits)
  have fwd: "wp env (tryA (Service_Forward ops (rp_Owner p) actor req p))
      (\<lambda>_. sends_upstream (send_bound p) (rp_Owner p) actor req s) (\<lambda>_ _. False) t"
    if "quiet s t" "req = forward_request_of rid cid r p body" for actor req body t
  proof (rule wp_mono [OF keeps_anywhere [OF forward_bounded]])
    fix u
    assume "sends_upstream ((if rp_RetrySafeRead p then 2 else 1) * request_bound req)
      (rp_Owner p) actor req t u"
    then have "sends_upstream ((if rp_RetrySafeRead p then 2 else 1) * request_bound req)
      (rp_Owner p) actor req s u" by (rule quiet_sends [OF that(1)])
    moreover have "fr_Method req = Method r" using that(2) by (simp add: forward_request_of_def)
    ultimately show "sends_upstream (send_bound p) (rp_Owner p) actor req s u"
      using policy_bound [OF p] sends_upstream_mono by blast
  qed
  have done_for: "forwarded_for (verified env) r s0 u"
    if "sends_upstream (send_bound p) (rp_Owner p) (actorPointer a) (forward_request_of rid cid r p body) s u"
      "case rp_Auth p of AuthNone \<Rightarrow> a = no_actor
      | AuthBearer \<Rightarrow> \<exists>v. bearerToken (headerGet r ''Authorization'') = Some raw
          \<and> verified env s raw v \<and> a = Normalized v \<and> ac_Subject a \<noteq> '''' \<and> ac_Type a = ''human''
          \<and> Allows p (ac_Scopes a)" for a raw body u
  proof -
    have "sends_upstream (send_bound p) (rp_Owner p) (actorPointer a)
        (forward_request_of rid cid r p body) s0 u"
      using that(1) sent by (simp add: sends_upstream_def)
    then show ?thesis
      using that(2) p s unfolding forwarded_for_def
      by (intro disjI2 exI [of _ p] exI [of _ "actorPointer a"] exI [of _ "forward_request_of rid cid r p body"])
         (auto simp: actorPointer_def, blast+)
  qed
  show ?thesis
  proof (cases "validateRequest rid r p")
    case None
    show ?thesis
      unfolding proxy_def None option.case ops wp_bindA [of _ "tryA (Authorize _ _ _ _)"] wp_tryA
    proof (rule wp_mono [OF auth])
      fix x t
      assume x: "quiet s t \<and> (case rp_Auth p of AuthNone \<Rightarrow> fst x = no_actor
        | AuthBearer \<Rightarrow> \<exists>v. bearerToken (headerGet r ''Authorization'') = Some (snd x)
          \<and> verified env s (snd x) v \<and> fst x = Normalized v \<and> ac_Subject (fst x) \<noteq> []
          \<and> ac_Type (fst x) = ''human'' \<and> Allows p (ac_Scopes (fst x)))"
      obtain a raw where xa: "x = (a, raw)" by (cases x)
      from x have q: "quiet s t" by simp
      have xc: "case rp_Auth p of AuthNone \<Rightarrow> a = no_actor
        | AuthBearer \<Rightarrow> \<exists>v. bearerToken (headerGet r ''Authorization'') = Some raw
          \<and> verified env s raw v \<and> a = Normalized v \<and> ac_Subject a \<noteq> '''' \<and> ac_Type a = ''human''
          \<and> Allows p (ac_Scopes a)"
        using conjunct2 [OF x] unfolding xa fst_conv snd_conv .
      have "wp env (bindA (tryA (Service_Forward ops (rp_Owner p) (actorPointer a)
            (forward_request_of rid cid r p body) p)) (\<lambda>res. ret (case res of
              Inl e \<Rightarrow> writeServiceError rid r e | Inr resp \<Rightarrow> writeResponse sv rid r resp)))
          (\<lambda>_. forwarded_for (verified env) r s0) (\<lambda>_ _. False) t" for body
        unfolding wp_bindA
        by (rule wp_mono [OF fwd [OF q refl]]) (auto simp: wp_ret intro: done_for [OF _ xc])
      then show "wp env (case Inr x of Inl e \<Rightarrow> ret (writeServiceError rid r e)
        | Inr (actor, _) \<Rightarrow> (case readBody r (rp_MaxBodyBytes p) of
            None \<Rightarrow> ret (gw_problem rid r [] 413 ''payload_too_large'' ''Request body is too large'')
          | Some body \<Rightarrow> bindA (tryA (Service_Forward ops (rp_Owner p) (actorPointer actor)
              (forward_request_of rid cid r p body) p)) (\<lambda>res. ret (case res of
                Inl e \<Rightarrow> writeServiceError rid r e | Inr resp \<Rightarrow> writeResponse sv rid r resp))))
          (\<lambda>_. forwarded_for (verified env) r s0) (\<lambda>_ _. False) t"
        using none [OF q] by (auto simp: xa wp_ret split: option.splits)
    qed (auto simp: wp_ret none)
  qed (simp add: proxy_def wp_rules none [unfolded quiet_def])
qed

end

context gateway_ports
begin

lemma route_forwards:
  assumes sv: "gs_ops sv = ops" "keeps quiet (gs_VerifierCheck sv)" "keeps quiet (gs_LimiterCheck sv)"
    "\<And>env s. wp env (gs_VerifierCheck sv) (\<lambda>_ _. True) (\<lambda>_ _. False) s"
    "\<And>env s. wp env (gs_LimiterCheck sv) (\<lambda>_ _. True) (\<lambda>_ _. False) s"
    and s: "s \<in> {s0, tickOn s0}"
  shows "wp env (gw_mux sv rid cid r) (\<lambda>_. forwarded_for (verified env) r s0) (\<lambda>_ _. False) s"
proof -
  have none: "forwarded_for (verified env) r s0 t" if "g_sent t = g_sent s" for t
    using that s by (auto simp: forwarded_for_def tickOn_def)
  have tot: "wp env (gw_ready sv rid r) (\<lambda>_ _. True) (\<lambda>_ _. False) s"
    unfolding gw_ready_def wp_bindA
    by (rule wp_mono [OF sv(4)]) (auto simp: wp_rules intro!: wp_mono [OF sv(5)])
  have ready: "wp env (gw_ready sv rid r) (\<lambda>_. forwarded_for (verified env) r s0) (\<lambda>_ _. False) s"
    using wp_conj [OF keeps_wp [OF quiet_ready [OF sv(2,3)]] tot]
    by (rule wp_mono) (auto simp: quiet_def none)
  have docs: "wp env gw_docs (\<lambda>_. forwarded_for (verified env) r s0) (\<lambda>_ _. False) s"
    by (simp add: gw_docs_def wp_rules Let_def none)
  show ?thesis
    unfolding gw_mux_def gw_route_def get_only_def
    using ready docs none proxy_forwards [OF sv(1) _ s]
    by (auto simp: wp_ret split: option.splits)
qed

lemma serve_forwards:
  assumes sv: "gs_ops sv = ops" "keeps quiet (gs_VerifierCheck sv)" "keeps quiet (gs_LimiterCheck sv)"
    "\<And>env s. wp env (gs_VerifierCheck sv) (\<lambda>_ _. True) (\<lambda>_ _. False) s"
    "\<And>env s. wp env (gs_LimiterCheck sv) (\<lambda>_ _. True) (\<lambda>_ _. False) s"
  shows "wp env (gw_serve sv r) (\<lambda>_. forwarded_for (verified env) r s) (\<lambda>_ _. False) s"
proof -
  have none: "forwarded_for (verified env) r s t" if "g_sent t = g_sent s" for t
    using that by (simp add: forwarded_for_def)
  have corsed: "wp env (cors sv rid r (gw_mux sv rid cid r)) (\<lambda>_. forwarded_for (verified env) r s) (\<lambda>_ _. False) t"
    if "t \<in> {s, tickOn s}" for rid cid t
  proof -
    have "g_sent t = g_sent s" using that by (auto simp: tickOn_def)
    then show ?thesis
      using route_forwards [OF sv that]
      by (auto simp: cors_def Let_def wp_ret none intro!: wp_tag)
  qed
  show ?thesis
    unfolding gw_serve_def makeRequestID_def Let_def
    by (auto simp: wp_ret wp_newUUID wp_bindA [of _ "bindA _ _"] wp_bindA [of _ "ret _"] wp_bindA [of _ newUUID]
      intro!: wp_tag corsed)
qed

end

lemma checks_total:
  "wp env (Verifier_Check nw vc) (\<lambda>_ _. True) (\<lambda>_ _. False) s"
  "wp env Limiter_Check (\<lambda>_ _. True) (\<lambda>_ _. False) s"
  unfolding Verifier_Check_def Limiter_Check_def
  by (rule wp_mono [OF wp_refresh], simp_all) (rule wp_tag, simp add: wp_tryA)

lemma gateway_forwards:
  "wp env (gw_serve (gateway_server gc file demo trust origins page parse isIP) r)
     (\<lambda>_. forwarded_for (token_verified (gc_net gc) (gc_verifier gc) env) r s) (\<lambda>_ _. False) s"
  by (rule gp.serve_forwards) (simp_all add: gateway_server_def quiet_checks checks_total)

text \<open>
  C30.  Nothing reaches the services but bounded copies of authorized requests.  Every request
  is answered; what it sends upstream goes to the owner of the one policy its method and path
  match, at most once for a policy that changes state and at most four times for a read; and on
  routes that require a person it is sent on behalf of the person for whom the presented bearer
  token was verified (Ed25519, issuer, audience, complete claims, key from a document at most
  the configured staleness old or just fetched), who has one of the scopes the policy asks for.
\<close>

theorem forwarded_requests_authorized:
  assumes "gw_serve (gateway_server gc file demo trust origins page parse isIP) r env s = (res, s')"
  shows "(\<exists>resp. res = Inr resp)
    \<and> forwarded_for (token_verified (gc_net gc) (gc_verifier gc) env) r s s'"
  using wp_cases [OF gateway_forwards assms] by auto

theorem forwarded_requests_authorized_witness:
  "map or_Target (g_sent (snd (gserved (gdemo_request ''POST'' ''/v1/orders'')))) = [''http://orders/v1/orders'']
   \<and> forwarded_for (token_verified gdemo_net gdemo_verifier gdemo_env)
       (gdemo_request ''POST'' ''/v1/orders'') gdemo_state (snd (gserved (gdemo_request ''POST'' ''/v1/orders'')))"
proof -
  let ?r = "gdemo_request ''POST'' ''/v1/orders''"
  have "map or_Target (g_sent (snd (gserved ?r))) = [''http://orders/v1/orders'']" by code_simp
  moreover have "gserved ?r = (fst (gserved ?r), snd (gserved ?r))" by simp
  from forwarded_requests_authorized [OF this [unfolded gserved_def gdemo_server_def]]
  have "forwarded_for (token_verified gdemo_net gdemo_verifier gdemo_env) ?r gdemo_state (snd (gserved ?r))"
    by (simp add: gserved_def gdemo_server_def gdemo_cfg_def)
  ultimately show ?thesis by blast
qed

end
