(* ===== verification/Gateway_Config.thy ===== *)
theory Gateway_Config
  imports Settings Gateway_Theorems
begin

section \<open>Gateway: configuration\<close>

text \<open>
  \<^verbatim>\<open>apps/gateway/internal/platform/config/config.go\<close> and the wiring of
  \<^verbatim>\<open>cmd/api/main.go\<close>: the configuration, its loading and validation, the
  server built from it, and what an accepted configuration guarantees for that server.
\<close>

record gateway_config =
  gg_HTTPAddr :: string
  gg_Environment :: string
  gg_LogLevel :: string
  gg_MetricsPath :: string
  gg_OpenAPIPath :: string
  gg_ShutdownTimeout :: int
  gg_ReadinessTimeout :: int
  gg_IdentityURL :: string
  gg_OrdersURL :: string
  gg_JWKSURL :: string
  gg_Issuer :: string
  gg_HumanAudience :: string
  gg_RedisURL :: string
  gg_ServiceClientID :: string
  gg_ServiceClientSecret :: string
  gg_ServiceScopes :: "string list"
  gg_StaticServiceToken :: string
  gg_TrustProxyHeaders :: bool
  gg_MaxResponseBytes :: int
  gg_OTelEndpoint :: string
  gg_OTelInsecure :: bool
  gg_CORSOrigins :: "string list"

definition default_service_scopes :: "string list" where
  "default_service_scopes =
     [''orders:read:self'', ''orders:read:any'', ''orders:write:self'', ''orders:write:any'',
      ''orders:cancel:self'', ''orders:cancel:any'', ''identity:sessions:read'', ''identity:sessions:write'']"

definition gateway_settings :: "netlib \<Rightarrow> settings \<Rightarrow> gateway_config" where
  "gateway_settings nl source =
     \<lparr>gg_HTTPAddr = setting source ''GATEWAY_HTTP_ADDR'' '':8080'',
      gg_Environment = setting source ''GATEWAY_ENVIRONMENT'' ''development'',
      gg_LogLevel = setting source ''GATEWAY_LOG_LEVEL'' ''info'',
      gg_MetricsPath = setting source ''GATEWAY_METRICS_PATH'' ''/metrics'',
      gg_OpenAPIPath = setting source ''GATEWAY_OPENAPI_PATH'' ''contracts/openapi/gateway.openapi.yaml'',
      gg_ShutdownTimeout = duration_setting nl source ''GATEWAY_SHUTDOWN_TIMEOUT'' (seconds 10),
      gg_ReadinessTimeout = duration_setting nl source ''GATEWAY_READINESS_TIMEOUT'' (seconds 2),
      gg_IdentityURL = setting source ''GATEWAY_IDENTITY_URL'' ''http://localhost:8080'',
      gg_OrdersURL = setting source ''GATEWAY_ORDERS_URL'' ''http://localhost:8082'',
      gg_JWKSURL = setting source ''GATEWAY_JWKS_URL'' ''http://localhost:8080/.well-known/jwks.json'',
      gg_Issuer = setting source ''GATEWAY_ISSUER'' ''identity.local'',
      gg_HumanAudience = setting source ''GATEWAY_HUMAN_AUDIENCE'' ''platform-api'',
      gg_RedisURL = setting source ''GATEWAY_REDIS_URL'' ''redis://localhost:6379/1'',
      gg_ServiceClientID = setting source ''GATEWAY_SERVICE_CLIENT_ID'' '''',
      gg_ServiceClientSecret = setting source ''GATEWAY_SERVICE_CLIENT_SECRET'' '''',
      gg_ServiceScopes = csv_setting source ''GATEWAY_SERVICE_SCOPES'' default_service_scopes,
      gg_StaticServiceToken = setting source ''GATEWAY_SERVICE_TOKEN'' '''',
      gg_TrustProxyHeaders = boolean_setting source ''GATEWAY_TRUST_PROXY_HEADERS'' False,
      gg_MaxResponseBytes = integer_setting source ''GATEWAY_MAX_RESPONSE_BYTES'' 4194304,
      gg_OTelEndpoint = setting source ''GATEWAY_OTEL_ENDPOINT'' '''',
      gg_OTelInsecure = boolean_setting source ''GATEWAY_OTEL_INSECURE'' False,
      gg_CORSOrigins = csv_setting source ''GATEWAY_CORS_ORIGINS'' []\<rparr>"

definition contains_trimmed :: "string list \<Rightarrow> string \<Rightarrow> bool" where
  "contains_trimmed values wanted = list_ex (\<lambda>v. TrimSpace v = wanted) values"

text \<open>Validation: the checks in the order of the source.\<close>

definition gateway_Validate :: "netlib \<Rightarrow> gateway_config \<Rightarrow> string option" where
  "gateway_Validate nl c =
     (let dev = (gg_Environment c = ''development'');
          tls = (isHTTPS (gg_IdentityURL c) \<and> isHTTPS (gg_OrdersURL c) \<and> isHTTPS (gg_JWKSURL c)) in
      first_error
        [(blank (gg_HTTPAddr c), ''GATEWAY_HTTP_ADDR must not be empty''),
         (gg_Environment c \<notin> {''development'', ''staging'', ''production''},
          ''GATEWAY_ENVIRONMENT must be development, staging, or production''),
         (gg_ShutdownTimeout c \<le> 0 \<or> gg_ReadinessTimeout c \<le> 0, ''Gateway timeouts must be positive''),
         (gg_MetricsPath c \<noteq> ''/metrics'', ''GATEWAY_METRICS_PATH must be /metrics''),
         (bad_http_url nl (gg_IdentityURL c), ''GATEWAY_IDENTITY_URL must be an HTTP or HTTPS URL''),
         (bad_http_url nl (gg_OrdersURL c), ''GATEWAY_ORDERS_URL must be an HTTP or HTTPS URL''),
         (bad_http_url nl (gg_JWKSURL c), ''GATEWAY_JWKS_URL must be an HTTP or HTTPS URL''),
         (blank (gg_Issuer c) \<or> blank (gg_HumanAudience c), ''Gateway issuer and human audience are required''),
         (gg_MaxResponseBytes c \<le> 0 \<or> 16777216 < gg_MaxResponseBytes c,
          ''GATEWAY_MAX_RESPONSE_BYTES must be between 1 and 16777216''),
         (gg_ServiceScopes c = [], ''GATEWAY_SERVICE_SCOPES must not be empty''),
         (\<not> dev \<and> (blank (gg_ServiceClientID c) \<or> blank (gg_ServiceClientSecret c)),
          ''service client credentials are required outside development''),
         (\<not> dev \<and> gg_StaticServiceToken c \<noteq> '''', ''static service token is allowed only in development''),
         (gg_Environment c = ''production'' \<and> \<not> tls,
          ''internal HTTP and JWKS URLs must use HTTPS in production''),
         (gg_Environment c = ''production'' \<and> \<not> isRediss (gg_RedisURL c),
          ''GATEWAY_REDIS_URL must use rediss:// in production''),
         (gg_Environment c = ''staging'' \<and> (\<not> tls \<or> \<not> isRediss (gg_RedisURL c)),
          ''staging internal HTTP and Redis URLs must use TLS''),
         (\<not> dev \<and> blank (gg_OTelEndpoint c), ''GATEWAY_OTEL_ENDPOINT is required outside development''),
         (\<not> dev \<and> gg_OTelInsecure c, ''GATEWAY_OTEL_INSECURE must be false outside development''),
         (\<not> dev \<and> gg_StaticServiceToken c \<noteq> '''', ''static service token is allowed only in development''),
         (gg_CORSOrigins c \<noteq> [] \<and> contains_trimmed (gg_CORSOrigins c) ''*'',
          ''wildcard CORS origin is not allowed'')])"

definition gateway_Load :: "netlib \<Rightarrow> settings \<Rightarrow> string + gateway_config" where
  "gateway_Load nl source =
     (let c = gateway_settings nl source in
      case validateBoolean source ''GATEWAY_TRUST_PROXY_HEADERS'' of
        Some e \<Rightarrow> Inl e
      | None \<Rightarrow>
          (case validateBoolean source ''GATEWAY_OTEL_INSECURE'' of
             Some e \<Rightarrow> Inl e
           | None \<Rightarrow> (case gateway_Validate nl c of Some e \<Rightarrow> Inl e | None \<Rightarrow> Inr c)))"

subsection \<open>Starting the gateway\<close>

text \<open>
  What the process gets from its environment: the network, the libraries, the OpenAPI file, the
  page of the metrics handler, and URL and IP address parsing.
\<close>

record gateway_parts =
  pt_net :: network
  pt_lib :: golib
  pt_jwt :: jwtlib
  pt_uuid :: "string \<Rightarrow> bool"
  pt_file :: "string \<Rightarrow> string option"
  pt_page :: web_response
  pt_parse :: "string \<Rightarrow> (string \<times> string \<times> string) option"
  pt_isIP :: "string \<Rightarrow> bool"

definition gateway_cfg_of :: "gateway_parts \<Rightarrow> gateway_config \<Rightarrow> gateway_cfg" where
  "gateway_cfg_of pt c =
     \<lparr>gc_net = pt_net pt,
      gc_verifier =
        \<lparr>vc_lib = pt_lib pt, vc_jwt = pt_jwt pt, vc_uuid = pt_uuid pt, vc_issuer = gg_Issuer c,
         vc_audience = gg_HumanAudience c, vc_refreshAfter = minutes 5, vc_maxStale = minutes 15\<rparr>,
      gc_upstream =
        \<lparr>uc_URLs = [''identity'' \<mapsto> gg_IdentityURL c, ''orders'' \<mapsto> gg_OrdersURL c],
         uc_MaxResponseSize = (if gg_MaxResponseBytes c \<le> 0 then 4194304 else gg_MaxResponseBytes c)\<rparr>,
      gc_tokens =
        \<lparr>tk_lib = pt_lib pt, tk_clientID = gg_ServiceClientID c, tk_secret = gg_ServiceClientSecret c,
         tk_scopes = gg_ServiceScopes c\<rparr>,
      gc_static = gg_StaticServiceToken c\<rparr>"

definition server_of :: "gateway_parts \<Rightarrow> gateway_config \<Rightarrow> gw_server" where
  "server_of pt c =
     gateway_server (gateway_cfg_of pt c) (pt_file pt (gg_OpenAPIPath c)) (gg_Environment c = ''development'')
       (gg_TrustProxyHeaders c) (gg_CORSOrigins c) (pt_page pt) (pt_parse pt) (pt_isIP pt)"

text \<open>\<^verbatim>\<open>run\<close> up to the start of the listener; \<open>None\<close> is an error that ends the process.\<close>

definition gateway_run :: "gateway_parts \<Rightarrow> gateway_config \<Rightarrow> gw_server option gact" where
  "gateway_run pt c =
     (if blank (gg_Issuer c) \<or> blank (gg_HumanAudience c) then ret None
      else
        bindA (Verifier_Check (pt_net pt) (gc_verifier (gateway_cfg_of pt c))) (\<lambda>keys.
        if \<not> keys then ret None
        else
          bindA Limiter_Check (\<lambda>redis.
          if \<not> redis then ret None
          else if gg_StaticServiceToken c = '''' \<and>
            (blank (gg_IdentityURL c) \<or> blank (gg_ServiceClientID c) \<or> blank (gg_ServiceClientSecret c)
             \<or> gg_ServiceScopes c = []) then ret None
          else if gg_MetricsPath c \<noteq> ''/metrics'' then ret None
          else ret (Some (server_of pt c)))))"

lemma run_server:
  assumes "gateway_run pt c env s = (Inr (Some sv), s')"
  shows "sv = server_of pt c"
proof -
  have "wp env (gateway_run pt c) (\<lambda>x _. x = None \<or> x = Some (server_of pt c)) (\<lambda>_ _. False) s"
    unfolding gateway_run_def
    by (auto simp: wp_rules intro!: wp_mono [OF checks_total(1)] wp_mono [OF checks_total(2)])
  from wp_cases [OF this assms] show ?thesis by simp
qed

text \<open>
  C36.  A gateway that starts outside development talks to protected services only: its loaded
  configuration passed validation, every upstream address and the key document's address use
  HTTPS, Redis uses TLS, service tokens come from Identity and not from a static setting, demo
  registration is off, upstream responses are limited to 16 MiB, and no request is ever granted
  a wildcard cross-origin answer.
\<close>

theorem gateway_config_secured:
  assumes "gateway_Load nl source = Inr c" "gg_Environment c \<noteq> ''development''"
    and "gateway_run pt c env s = (Inr (Some sv), s')"
  shows "(\<forall>owner base. uc_URLs (gc_upstream (gateway_cfg_of pt c)) owner = Some base \<longrightarrow> isHTTPS base)
    \<and> isHTTPS (gg_JWKSURL c) \<and> isRediss (gg_RedisURL c)
    \<and> go_Token (gs_ops sv) = Token (pt_net pt) (gc_tokens (gateway_cfg_of pt c))
    \<and> \<not> gs_demoRegistration sv
    \<and> 0 < uc_MaxResponseSize (gc_upstream (gateway_cfg_of pt c))
    \<and> uc_MaxResponseSize (gc_upstream (gateway_cfg_of pt c)) \<le> 16777216
    \<and> ''*'' \<notin> set (map TrimSpace (gs_corsOrigins sv))"
proof -
  have v: "gateway_Validate nl c = None"
    using assms(1) by (auto simp: gateway_Load_def Let_def split: option.splits)
  have env: "gg_Environment c = ''staging'' \<or> gg_Environment c = ''production''"
    and tls: "isHTTPS (gg_IdentityURL c)" "isHTTPS (gg_OrdersURL c)" "isHTTPS (gg_JWKSURL c)"
      "isRediss (gg_RedisURL c)" "gg_StaticServiceToken c = ''''"
    and rest: "0 < gg_MaxResponseBytes c" "gg_MaxResponseBytes c \<le> 16777216"
      "\<not> contains_trimmed (gg_CORSOrigins c) ''*''"
    using v assms(2)
    by (auto simp: gateway_Validate_def Let_def first_error_None contains_trimmed_def)
  have sv: "sv = server_of pt c" by (rule run_server [OF assms(3)])
  show ?thesis
    using tls rest assms(2)
    by (auto simp: sv server_of_def gateway_server_def gateway_cfg_of_def adapter_ops_def contains_trimmed_def
      list_ex_iff split: if_splits)
qed

definition gdemo_settings :: settings where
  "gdemo_settings =
     map_of [(''GATEWAY_ENVIRONMENT'', ''production''), (''GATEWAY_IDENTITY_URL'', ''https://id''),
             (''GATEWAY_ORDERS_URL'', ''https://orders''), (''GATEWAY_JWKS_URL'', ''https://id/jwks''),
             (''GATEWAY_REDIS_URL'', ''rediss://r''), (''GATEWAY_SERVICE_CLIENT_ID'', ''svc_gateway''),
             (''GATEWAY_SERVICE_CLIENT_SECRET'', ''secret''), (''GATEWAY_OTEL_ENDPOINT'', ''otel:4317''),
             (''GATEWAY_MAX_RESPONSE_BYTES'', ''100'')]"

definition gdemo_netlib :: netlib where
  "gdemo_netlib =
     \<lparr>urlParse = (\<lambda>_. Some \<lparr>Scheme = ''https'', Host = ''h'', URLQuery = (\<lambda>_. [])\<rparr>),
      durationParse = (\<lambda>_. None), mailAddress = (\<lambda>_. None)\<rparr>"

definition gdemo_parts :: gateway_parts where
  "gdemo_parts =
     \<lparr>pt_net = gdemo_net, pt_lib = gdemo_lib, pt_jwt = vc_jwt gdemo_verifier, pt_uuid = (\<lambda>_. True),
      pt_file = (\<lambda>_. None), pt_page = json_response 200 JNull, pt_parse = (\<lambda>_. None), pt_isIP = (\<lambda>_. False)\<rparr>"

theorem gateway_config_secured_witness:
  "\<exists>c sv s'. gateway_Load gdemo_netlib gdemo_settings = Inr c
     \<and> gateway_run gdemo_parts c gdemo_env gdemo_state = (Inr (Some sv), s')
     \<and> isHTTPS (gg_JWKSURL c) \<and> \<not> gs_demoRegistration sv"
proof -
  have "(case gateway_Load gdemo_netlib gdemo_settings of
      Inr c \<Rightarrow> gg_Environment c = ''production''
        \<and> (case gateway_run gdemo_parts c gdemo_env gdemo_state of (Inr (Some _), _) \<Rightarrow> True | _ \<Rightarrow> False)
      | Inl _ \<Rightarrow> False)"
    by code_simp
  then obtain c sv s' where c: "gateway_Load gdemo_netlib gdemo_settings = Inr c" "gg_Environment c = ''production''"
    "gateway_run gdemo_parts c gdemo_env gdemo_state = (Inr (Some sv), s')"
    by (auto split: sum.splits prod.splits option.splits)
  then show ?thesis using gateway_config_secured [OF c(1) _ c(3)] by auto
qed

end
