(* ===== verification/Platform.thy ===== *)
theory Platform
  imports Orders_API Gateway_Config
begin

section \<open>The gateway and Orders together\<close>

text \<open>
  The requests the gateway sends, received by Orders: the trusted headers transport the
  verified person and their scopes, so that a change of the Orders tables that comes through
  the gateway was asked for by the person whose token the gateway verified.
\<close>

lemma plain_chars: "is_lower c \<or> is_digit c \<or> c \<in> {CHR '':'', CHR ''_'', CHR ''-''} \<Longrightarrow> plain_char c"
  by (auto simp: plain_char_def utf8_spaces_def is_lower_def is_digit_def between_def)

lemma scope_word: "scopePattern w \<Longrightarrow> list_all plain_char w \<and> w \<noteq> []"
  unfolding scopePattern_def class_between_def list_all_iff
  by (intro conjI ballI plain_chars) auto

lemma words_of_words: "(\<And>w. w \<in> set ws \<Longrightarrow> Fields w = [w]) \<Longrightarrow> concat (map Fields ws) = ws"
  by (induction ws) auto

subsection \<open>The trusted headers\<close>

definition delivered_headers :: "out_request \<Rightarrow> headers" where
  "delivered_headers q n = map snd (filter (\<lambda>h. fst h = n) (or_Headers q))"

lemma uniqueSorted_idem [simp]: "uniqueSorted (uniqueSorted vs) = uniqueSorted vs"
proof -
  have "TrimSpace ` set (uniqueSorted vs) - {''''} = TrimSpace ` set vs - {''''}"
    unfolding uniqueSorted_set by (auto intro!: rev_image_eqI)
  then show ?thesis by (metis uniqueSorted_canonical)
qed

lemma Normalized_idem [simp]: "Normalized (Normalized a) = Normalized a"
  by (simp add: Normalized_def)

text \<open>
  C37.  Normalizing an actor computes a canonical form: the one-pass loop over the scopes yields
  the sorted list of the set of trimmed, non-blank scopes, normalizing again changes nothing,
  and two actors whose scopes differ only in order, repetition or surrounding space are allowed
  by the same policies.
\<close>

theorem normalized_canonical:
  "ac_Scopes (Normalized a) = sorted_list_of_set (TrimSpace ` set (ac_Scopes a) - {[]})
   \<and> ac_Roles (Normalized a) = sorted_list_of_set (TrimSpace ` set (ac_Roles a) - {[]})
   \<and> Normalized (Normalized a) = Normalized a
   \<and> (TrimSpace ` set (ac_Scopes a) = TrimSpace ` set (ac_Scopes b)
        \<longrightarrow> Allows p (ac_Scopes (Normalized a)) = Allows p (ac_Scopes (Normalized b)))"
proof -
  have "ac_Scopes (Normalized c) = sorted_list_of_set (TrimSpace ` set (ac_Scopes c) - {[]})"
    "ac_Roles (Normalized c) = sorted_list_of_set (TrimSpace ` set (ac_Roles c) - {[]})" for c
    by (simp_all add: Normalized_def uniqueSorted_canonical)
  then show ?thesis by (metis Normalized_idem)
qed

lemma delivered_actor:
  assumes "q = upstream_request owner target tok (Some a) req"
  shows "delivered_headers q ''X-Streamweave-Actor-Id'' = [ac_Subject (Normalized a)]"
    and "delivered_headers q ''X-Streamweave-Actor-Type'' = [ac_Type (Normalized a)]"
    and "delivered_headers q ''X-Streamweave-Scopes'' = [JoinWith '' '' (ac_Scopes (Normalized a))]"
  by (simp_all add: assms delivered_headers_def upstream_request_def actor_headers_def Let_def)

lemma trusted_delivered:
  assumes "q = upstream_request owner target tok (Some a) req" "trustedActor (delivered_headers q) = Some x"
  shows "Subject x = TrimSpace (ac_Subject a) \<and> Type x = ''human'' \<and> TrimSpace (ac_Type a) = ''human''
    \<and> Scopes x = concat (map Fields (uniqueSorted (ac_Scopes a)))"
  using assms(2) unfolding trustedActor_def delivered_actor [OF assms(1)]
  by (auto simp: first_value_def Fields_JoinWith Normalized_def Let_def split: if_splits)

text \<open>
  C33.  The gateway's trusted headers carry a person to Orders without loss: Orders reads from
  the headers of a request the gateway sends exactly the trimmed subject and the sorted,
  duplicate-free scopes of the actor it was sent for, when the subject is a customer id and the
  scopes have the form Orders accepts.
\<close>

theorem actor_transported:
  assumes "ValidCustomerID (TrimSpace (ac_Subject a))" "TrimSpace (ac_Type a) = ''human''"
    and "\<forall>w \<in> set (ac_Scopes a). scopePattern w"
  shows "trustedActor (delivered_headers (upstream_request owner target tok (Some a) req))
    = Some \<lparr>Subject = TrimSpace (ac_Subject a), Type = ''human'', Scopes = uniqueSorted (ac_Scopes a)\<rparr>"
proof -
  let ?q = "upstream_request owner target tok (Some a) req"
  have word: "TrimSpace w = w" if "w \<in> set (ac_Scopes a)" for w
    using assms(3) that scope_word TrimSpace_word by blast
  then have scopes: "scopePattern w" if "w \<in> set (uniqueSorted (ac_Scopes a))" for w
    using that assms(3) by (auto simp: uniqueSorted_set)
  have "Fields w = [w]" if "w \<in> set (uniqueSorted (ac_Scopes a))" for w
    using scope_word [OF scopes [OF that]] by (simp add: Fields_word)
  then have "concat (map Fields (uniqueSorted (ac_Scopes a))) = uniqueSorted (ac_Scopes a)"
    by (rule words_of_words)
  then show ?thesis
    unfolding trustedActor_def delivered_actor [OF refl]
    using assms(1,2) TrimSpace_idem [of "ac_Type a"] scopes
    by (simp add: first_value_def Fields_JoinWith Normalized_def Let_def list_all_iff)
qed

definition pdemo_actor :: gactor where
  "pdemo_actor =
     \<lparr>ac_Subject = '' usr_1'', ac_Type = ''human'', ac_Roles = [],
      ac_Scopes = [''orders:write:self'', ''orders:read:self'', ''orders:write:self''], ac_SessionID = ''''\<rparr>"

theorem actor_transported_witness:
  "trustedActor (delivered_headers (upstream_request ''orders'' ''t'' ''tok'' (Some pdemo_actor)
      (forward_request_of ''r'' ''c'' (gdemo_request ''GET'' ''/v1/orders'') (hd DefaultPolicies) '''')))
   = Some \<lparr>Subject = ''usr_1'', Type = ''human'', Scopes = [''orders:read:self'', ''orders:write:self'']\<rparr>"
proof -
  have "ValidCustomerID (TrimSpace (ac_Subject pdemo_actor))" "TrimSpace (ac_Type pdemo_actor) = ''human''"
    "\<forall>w \<in> set (ac_Scopes pdemo_actor). scopePattern w" "TrimSpace (ac_Subject pdemo_actor) = ''usr_1''"
    "uniqueSorted (ac_Scopes pdemo_actor) = [''orders:read:self'', ''orders:write:self'']"
    by code_simp+
  then show ?thesis using actor_transported [of pdemo_actor] by simp
qed

subsection \<open>From the client to the tables\<close>

lemma orders_bearer: "p \<in> set DefaultPolicies \<Longrightarrow> rp_Owner p = ''orders'' \<Longrightarrow> rp_Auth p = AuthBearer"
proof -
  have "list_all (\<lambda>p. rp_Owner p = ''orders'' \<longrightarrow> rp_Auth p = AuthBearer) DefaultPolicies" by code_simp
  then show "p \<in> set DefaultPolicies \<Longrightarrow> rp_Owner p = ''orders'' \<Longrightarrow> rp_Auth p = AuthBearer"
    by (simp add: list_all_iff)
qed

lemma matched_member: "matchPolicy ps m p = Some q \<Longrightarrow> q \<in> set ps"
  by (auto simp: matchPolicy_def find_Some_iff split: if_splits)

text \<open>
  C32.  A change of the Orders tables that comes through the gateway belongs to the person who
  asked for it: if Orders changes its tables while serving a request the gateway sent to it,
  then the client's request presented a token the gateway verified, and Orders found its holder,
  with scopes the token carries, entitled to that creation or cancellation.
\<close>

theorem changes_attributable:
  assumes "gw_serve (gateway_server gc gfile demo trust origins gpage parse isIP) r genv g = (gres, g')"
    and "q \<in> set (drop (length (g_sent g)) (g_sent g'))" "or_Owner q = ''orders''"
    and "serveHTTP (api_server cfg jl ga file page) r2 env s = (res, s')"
    and "Header r2 = delivered_headers q" "api_db s' \<noteq> api_db s"
  shows "\<exists>raw v g0 a. bearerToken (headerGet r ''Authorization'') = Some raw \<and> g0 \<in> {g, tickOn g}
    \<and> token_verified (gc_net gc) (gc_verifier gc) genv g0 raw v
    \<and> Subject a = TrimSpace (ac_Subject v) \<and> set (Scopes a) \<subseteq> (\<Union>w \<in> set (ac_Scopes v). set (Fields (TrimSpace w)))
    \<and> request_entitled (lib cfg) (api_db s) r2 a"
proof -
  obtain p actor req where p: "matchPolicy DefaultPolicies (Method r) (Path r) = Some p"
    and sent: "sends_upstream (send_bound p) (rp_Owner p) actor req g g'"
    and auth: "rp_Auth p = AuthBearer \<Longrightarrow> \<exists>raw v s0. bearerToken (headerGet r ''Authorization'') = Some raw
      \<and> s0 \<in> {g, tickOn g} \<and> token_verified (gc_net gc) (gc_verifier gc) genv s0 raw v \<and> actor = Some (Normalized v)"
    using wp_cases [OF gateway_forwards assms(1)] assms(2) unfolding forwarded_for_def by fastforce
  obtain target tok where q: "q = upstream_request (rp_Owner p) target tok actor req"
    using sent assms(2) unfolding sends_upstream_def by fastforce
  then have "rp_Owner p = ''orders''" using assms(3) by (simp add: upstream_request_def)
  then have "rp_Auth p = AuthBearer" using orders_bearer matched_member [OF p] by blast
  from auth [OF this] obtain raw v g0 where v: "bearerToken (headerGet r ''Authorization'') = Some raw"
    "g0 \<in> {g, tickOn g}" "token_verified (gc_net gc) (gc_verifier gc) genv g0 raw v" "actor = Some (Normalized v)"
    by blast
  obtain a where a: "trustedActor (Header r2) = Some a" "request_entitled (lib cfg) (api_db s) r2 a"
    using api_entitled [OF assms(4)] assms(6) by blast
  from trusted_delivered [OF q [unfolded v(4)] a(1) [unfolded assms(5)]]
  have "Subject a = TrimSpace (ac_Subject v)" "Scopes a = concat (map Fields (uniqueSorted (ac_Scopes v)))"
    by (simp_all add: Normalized_def)
  with v a(2) show ?thesis by (intro exI [of _ raw] exI [of _ v] exI [of _ g0] exI [of _ a])
    (auto simp: uniqueSorted_set)
qed

definition pdemo_cfg :: gateway_cfg where
  "pdemo_cfg =
     gdemo_cfg\<lparr>gc_verifier := gdemo_verifier\<lparr>vc_jwt :=
       \<lparr>jwtDecode = (\<lambda>raw. if raw = ''tok'' then Some (''EdDSA'', Some ''k1'',
          gdemo_claims\<lparr>tc_Scopes := [''orders:cancel:self'']\<rparr>) else None),
        jwtVerify = (\<lambda>_ pk _ _ _ _. pk = ''pk'')\<rparr>\<rparr>, gc_static := ''dev-token''\<rparr>"

definition pdemo_gateway :: "(gw_error + web_response) \<times> gw_state" where
  "pdemo_gateway =
     gw_serve (gateway_server pdemo_cfg None False False [] (json_response 200 JNull) (\<lambda>_. None) (\<lambda>_. False))
       (gdemo_request ''POST'' ''/v1/orders/ord_1/cancel'') gdemo_env gdemo_state"

definition pdemo_sent :: out_request where
  "pdemo_sent =
     \<lparr>or_Owner = ''orders'', or_Method = ''POST'', or_Target = ''http://orders/v1/orders/ord_1/cancel'',
      or_RawQuery = [],
      or_Headers =
        [(''Authorization'', ''Bearer dev-token''), (''X-Request-Id'', ''r1''), (''X-Correlation-Id'', ''r1''),
         (''Content-Type'', ''application/json''), (''Idempotency-Key'', ''key-0123456789abcdef''),
         (''X-Streamweave-Actor-Id'', ''usr_1''), (''X-Streamweave-Actor-Type'', ''human''),
         (''X-Streamweave-Scopes'', ''orders:cancel:self''), (''X-Streamweave-Actor-Session-Id'', ''s1'')],
      or_Body = ''{}''\<rparr>"

definition pdemo_request :: web_request where
  "pdemo_request = (demo_request ''POST'' ''/v1/orders/ord_1/cancel'')\<lparr>Header := delivered_headers pdemo_sent\<rparr>"

theorem changes_attributable_witness:
  "map o_status (orders (api_db (snd (served pdemo_request)))) = [''CANCEL_REQUESTED'']
   \<and> (\<exists>raw v g0 a. bearerToken ''Bearer tok'' = Some raw
        \<and> token_verified gdemo_net (gc_verifier pdemo_cfg) gdemo_env g0 raw v
        \<and> Subject a = TrimSpace (ac_Subject v) \<and> request_entitled (lib (demo_cfg JNull)) demo_db pdemo_request a)"
proof -
  have st: "map o_status (orders (api_db (snd (served pdemo_request)))) = [''CANCEL_REQUESTED'']" by code_simp
  have "map o_status (orders (api_db demo_api)) = [''PENDING'']" by code_simp
  with st have ch: "api_db (snd (served pdemo_request)) \<noteq> api_db demo_api" by auto
  have "g_sent (snd pdemo_gateway) = [pdemo_sent]" by code_simp
  then have q: "pdemo_sent \<in> set (drop (length (g_sent gdemo_state)) (g_sent (snd pdemo_gateway)))"
    by (simp add: gdemo_state_def)
  have owner: "or_Owner pdemo_sent = ''orders''" by (simp add: pdemo_sent_def)
  obtain gres g' where g: "pdemo_gateway = (gres, g')" by fastforce
  obtain res s' where o2: "served pdemo_request = (res, s')" by fastforce
  have h: "Header pdemo_request = delivered_headers pdemo_sent" by (simp add: pdemo_request_def)
  have auth: "headerGet (gdemo_request ''POST'' ''/v1/orders/ord_1/cancel'') ''Authorization'' = ''Bearer tok''"
    by (simp add: headerGet_def gdemo_request_def first_value_def)
  have db: "api_db demo_api = demo_db" by (simp add: demo_api_def demo_session_def)
  have net: "gc_net pdemo_cfg = gdemo_net" by (simp add: pdemo_cfg_def gdemo_cfg_def)
  have q': "pdemo_sent \<in> set (drop (length (g_sent gdemo_state)) (g_sent g'))" using q unfolding g snd_conv .
  have ch': "api_db s' \<noteq> api_db demo_api" using ch unfolding o2 snd_conv .
  obtain raw v g0 a where
    "bearerToken (headerGet (gdemo_request ''POST'' ''/v1/orders/ord_1/cancel'') ''Authorization'') = Some raw"
    "token_verified (gc_net pdemo_cfg) (gc_verifier pdemo_cfg) gdemo_env g0 raw v"
    "Subject a = TrimSpace (ac_Subject v)"
    "request_entitled (lib (demo_cfg JNull)) (api_db demo_api) pdemo_request a"
    using changes_attributable [OF g [unfolded pdemo_gateway_def] q' owner
      o2 [unfolded served_def demo_server_def] h ch'] by (elim exE conjE)
  then show ?thesis
    unfolding auth db net
    by (intro conjI st exI [of _ raw] exI [of _ v] exI [of _ g0] exI [of _ a])
qed

subsection \<open>The scopes of the gateway's own token\<close>





theorem normalized_canonical_witness:
  "Allows (order_write ''/v1/orders'' [''orders:write:self''] 0 True) (ac_Scopes (Normalized pdemo_actor))
   = Allows (order_write ''/v1/orders'' [''orders:write:self''] 0 True)
       (ac_Scopes (Normalized (pdemo_actor\<lparr>ac_Scopes := [''orders:read:self'', '' orders:write:self'']\<rparr>)))"
proof -
  have "set (map TrimSpace (ac_Scopes pdemo_actor))
      = set (map TrimSpace (ac_Scopes (pdemo_actor\<lparr>ac_Scopes := [''orders:read:self'', '' orders:write:self'']\<rparr>)))"
    by code_simp
  then show ?thesis unfolding set_map
    by (rule normalized_canonical [THEN conjunct2, THEN conjunct2, THEN conjunct2, THEN mp])
qed

end
