(* ===== verification/Identity_Domain.thy ===== *)
theory Identity_Domain
  imports Effects
begin

section \<open>Identity: domain\<close>

text \<open>
  \<^verbatim>\<open>apps/identity/internal/domain/identity\<close>: users, sessions, the grants of
  roles, service principals and one-time tokens, with the sentinel errors.  Statuses are
  strings, as in the Go types; UUIDs are their canonical text.
\<close>

datatype identity_error =
    ErrInvalidCredentials | ErrRefreshReuse | ErrForbidden | ErrNotFound | ErrConflict
  | ErrRateLimited | ErrExpired | ErrAlreadyUsed | ErrDependency | ErrInvalidInput

type_synonym ierr = "identity_error goerr"

definition sentinel_text :: "identity_error \<Rightarrow> string" where
  "sentinel_text k =
     (case k of
        ErrInvalidCredentials \<Rightarrow> ''invalid credentials''
      | ErrRefreshReuse \<Rightarrow> ''refresh token reuse detected''
      | ErrForbidden \<Rightarrow> ''forbidden''
      | ErrNotFound \<Rightarrow> ''not found''
      | ErrConflict \<Rightarrow> ''conflict''
      | ErrRateLimited \<Rightarrow> ''rate limit exceeded''
      | ErrExpired \<Rightarrow> ''expired''
      | ErrAlreadyUsed \<Rightarrow> ''already used''
      | ErrDependency \<Rightarrow> ''dependency unavailable''
      | ErrInvalidInput \<Rightarrow> ''invalid input'')"

definition idErr :: "identity_error \<Rightarrow> ierr" where
  "idErr k = GoErr [k] (sentinel_text k)"

text \<open>\<^verbatim>\<open>fmt.Errorf("%w: %w", a, b)\<close>, and an error of another package.\<close>

definition wrapErr :: "ierr \<Rightarrow> ierr \<Rightarrow> ierr" where
  "wrapErr a b = GoErr (sentinels a @ sentinels b) (errText a @ '': '' @ errText b)"

definition otherErr :: "string \<Rightarrow> ierr" where
  "otherErr t = GoErr [] t"

lemma errIs_idErr [simp]: "errIs (idErr k) k' \<longleftrightarrow> k' = k"
  by (simp add: idErr_def)

lemma errIs_wrapErr [simp]: "errIs (wrapErr a b) k \<longleftrightarrow> errIs a k \<or> errIs b k"
  by (simp add: wrapErr_def errIs_def)

lemma errIs_otherErr [simp]: "\<not> errIs (otherErr t) k"
  by (simp add: otherErr_def)

subsection \<open>Users\<close>

definition UserActive :: string where "UserActive = ''ACTIVE''"
definition UserDisabled :: string where "UserDisabled = ''DISABLED''"
definition UserPendingVerification :: string where
  "UserPendingVerification = ''PENDING_VERIFICATION''"

record user =
  us_ID :: string
  us_Email :: string
  us_EmailNormalized :: string
  us_PasswordHash :: string
  us_Status :: string
  us_EmailVerifiedAt :: "gotime option"
  us_CreatedAt :: gotime
  us_UpdatedAt :: gotime

definition NormalizeEmail :: "string \<Rightarrow> string" where
  "NormalizeEmail email = ToLower (TrimSpace email)"

subsection \<open>Sessions\<close>

definition SessionActive :: string where "SessionActive = ''ACTIVE''"
definition SessionRotated :: string where "SessionRotated = ''ROTATED''"
definition SessionRevoked :: string where "SessionRevoked = ''REVOKED''"

record login_session =
  se_ID :: string
  se_FamilyID :: string
  se_UserID :: string
  se_Status :: string
  se_RotatedFromSessionID :: "string option"
  se_ExpiresAt :: gotime
  se_RevokedAt :: "gotime option"
  se_CreatedAt :: gotime
  se_LastUsedAt :: "gotime option"

definition session_IsUsable :: "login_session \<Rightarrow> gotime \<Rightarrow> bool" where
  "session_IsUsable s now \<longleftrightarrow> se_Status s = SessionActive \<and> Before now (se_ExpiresAt s)"

lemmas status_consts = UserActive_def UserDisabled_def UserPendingVerification_def
  SessionActive_def SessionRotated_def SessionRevoked_def

subsection \<open>Grants, service principals and one-time tokens\<close>

record role_permission =
  gr_Role :: string
  gr_Scope :: string

record service_principal =
  sp_ID :: string
  sp_ClientID :: string
  sp_Status :: string
  sp_Scopes :: "string list"
  sp_Audience :: string

record service_credential =
  sc_ID :: string
  sc_ServicePrincipalID :: string
  sc_SecretHash :: string
  sc_Status :: string
  sc_ValidFrom :: gotime
  sc_RetiredAt :: "gotime option"

record one_time_token =
  ot_ID :: string
  ot_UserID :: string
  ot_ExpiresAt :: gotime
  ot_ConsumedAt :: "gotime option"

definition token_IsUsable :: "one_time_token \<Rightarrow> gotime \<Rightarrow> bool" where
  "token_IsUsable t now \<longleftrightarrow> ot_ConsumedAt t = None \<and> Before now (ot_ExpiresAt t)"

end
