(* ===== verification/Identity_Queries.thy ===== *)
theory Identity_Queries
  imports Identity_Domain Codec Keyset "HOL-Library.Product_Lexorder"
begin

section \<open>Identity: tables and queries\<close>

text \<open>
  \<^verbatim>\<open>apps/identity/internal/adapters/outbound/postgres/generated\<close>: the rows of
  \<^verbatim>\<open>models.go\<close> and one query per statement of
  \<^verbatim>\<open>identity.sql.go\<close>, over the tables and constraints of
  \<^verbatim>\<open>database/identity/migrations\<close>, in the manner of the Orders queries.  Text
  and UUIDs are ordered by bytes; the service sorts role and scope names again, so another
  collation of the server changes no result that depends on them.
\<close>

subsection \<open>Rows\<close>

record user_row =
  ut_id :: string
  ut_email :: string
  ut_email_normalized :: string
  ut_password_hash :: string
  ut_status :: string
  ut_email_verified_at :: "int option"
  ut_created_at :: int
  ut_updated_at :: int

record role_row =
  ro_id :: string
  ro_name :: string
  ro_description :: string
  ro_status :: string
  ro_created_at :: int
  ro_updated_at :: int

record permission_row =
  pm_id :: string
  pm_name :: string
  pm_description :: string
  pm_created_at :: int

record role_permission_row =
  rp_role_id :: string
  rp_permission_id :: string

record user_role_row =
  ur_user_id :: string
  ur_role_id :: string
  ur_assigned_at :: int
  ur_assigned_by :: "string option"

record session_row =
  st_id :: string
  st_family_id :: string
  st_user_id :: string
  st_refresh_token_hash :: string
  st_status :: string
  st_expires_at :: int
  st_revoked_at :: "int option"
  st_revoked_reason :: "string option"
  st_rotated_from :: "string option"
  st_replaced_by :: "string option"
  st_created_at :: int
  st_last_used_at :: "int option"
  st_user_agent_hash :: "string option"
  st_ip_prefix_hash :: "string option"

text \<open>The rows of \<^verbatim>\<open>reset_tokens\<close> and \<^verbatim>\<open>verification_tokens\<close>.\<close>

record token_row =
  tk_id :: string
  tk_user_id :: string
  tk_token_hash :: string
  tk_expires_at :: int
  tk_consumed_at :: "int option"
  tk_created_at :: int

record principal_row =
  pr_id :: string
  pr_client_id :: string
  pr_status :: string
  pr_scopes :: json
  pr_audience :: string
  pr_created_at :: int
  pr_updated_at :: int
  pr_last_used_at :: "int option"

record credential_row =
  cr_id :: string
  cr_service_principal_id :: string
  cr_secret_hash :: string
  cr_status :: string
  cr_valid_from :: int
  cr_retired_at :: "int option"
  cr_created_at :: int
  cr_last_used_at :: "int option"

record audit_row =
  au_id :: string
  au_actor_id :: "string option"
  au_actor_type :: "string option"
  au_action :: string
  au_target_type :: "string option"
  au_target_id :: "string option"
  au_metadata :: json
  au_correlation_id :: string
  au_occurred_at :: int

record event_row =
  ev_id :: string
  ev_event_type :: string
  ev_aggregate_type :: string
  ev_aggregate_id :: string
  ev_payload :: json
  ev_headers :: json
  ev_created_at :: int
  ev_published_at :: "int option"
  ev_attempts :: int
  ev_last_error :: "string option"

record identity_db =
  users :: "user_row list"
  roles :: "role_row list"
  permissions :: "permission_row list"
  role_permissions :: "role_permission_row list"
  user_roles :: "user_role_row list"
  sessions :: "session_row list"
  reset_tokens :: "token_row list"
  verification_tokens :: "token_row list"
  service_principals :: "principal_row list"
  service_credentials :: "credential_row list"
  security_audit :: "audit_row list"
  audit_events :: "event_row list"

subsection \<open>Users\<close>

definition user_check :: "user_row \<Rightarrow> bool" where
  "user_check r \<longleftrightarrow> ut_status r \<in> {''ACTIVE'', ''DISABLED'', ''PENDING_VERIFICATION''}"

definition has_user :: "identity_db \<Rightarrow> string \<Rightarrow> bool" where
  "has_user db uid \<longleftrightarrow> select_one (\<lambda>r. ut_id r = uid) (users db) \<noteq> None"

definition iq_CreateUser ::
  "string \<Rightarrow> string \<Rightarrow> string \<Rightarrow> string \<Rightarrow> string \<Rightarrow> gotime \<Rightarrow> (identity_db, user_row) query" where
  "iq_CreateUser uid email emailNormalized passwordHash status createdAt = (\<lambda>env now db.
     let r = \<lparr>ut_id = uid, ut_email = email, ut_email_normalized = emailNormalized,
              ut_password_hash = passwordHash, ut_status = status, ut_email_verified_at = None,
              ut_created_at = ts env createdAt, ut_updated_at = ts env createdAt\<rparr>
     in if \<not> user_check r then Inl check_violation
        else if has_user db uid
             \<or> select_one (\<lambda>x. ut_email_normalized x = emailNormalized) (users db) \<noteq> None
          then Inl unique_violation
        else Inr (r, db\<lparr>users := users db @ [r]\<rparr>))"

definition iq_GetUserByEmail :: "string \<Rightarrow> (identity_db, user_row) query" where
  "iq_GetUserByEmail email = (\<lambda>env now db.
     case select_one (\<lambda>r. ut_email_normalized r = email) (users db) of
       None \<Rightarrow> Inl ErrNoRows | Some r \<Rightarrow> Inr (r, db))"

definition iq_GetUserByID :: "string \<Rightarrow> (identity_db, user_row) query" where
  "iq_GetUserByID uid = (\<lambda>env now db.
     case select_one (\<lambda>r. ut_id r = uid) (users db) of
       None \<Rightarrow> Inl ErrNoRows | Some r \<Rightarrow> Inr (r, db))"

definition iq_UpdateUserStatus :: "string \<Rightarrow> string \<Rightarrow> gotime \<Rightarrow> (identity_db, int) query" where
  "iq_UpdateUserStatus uid status at = (\<lambda>env now db.
     let p = (\<lambda>r. ut_id r = uid); f = (\<lambda>r. r\<lparr>ut_status := status, ut_updated_at := ts env at\<rparr>)
     in if list_all (\<lambda>r. user_check (f r)) (filter p (users db))
        then Inr (int (count_where p (users db)), db\<lparr>users := update_where p f (users db)\<rparr>)
        else Inl check_violation)"

definition iq_UpdatePassword :: "string \<Rightarrow> string \<Rightarrow> gotime \<Rightarrow> (identity_db, unit) query" where
  "iq_UpdatePassword uid hash at = (\<lambda>env now db.
     Inr ((), db\<lparr>users := update_where (\<lambda>r. ut_id r = uid)
       (\<lambda>r. r\<lparr>ut_password_hash := hash, ut_updated_at := ts env at\<rparr>) (users db)\<rparr>))"

definition iq_MarkEmailVerified :: "string \<Rightarrow> gotime \<Rightarrow> (identity_db, int) query" where
  "iq_MarkEmailVerified uid at = (\<lambda>env now db.
     let p = (\<lambda>r. ut_id r = uid \<and> ut_status r = ''PENDING_VERIFICATION'')
     in Inr (int (count_where p (users db)),
             db\<lparr>users := update_where p
               (\<lambda>r. r\<lparr>ut_email_verified_at := Some (ts env at), ut_status := ''ACTIVE'',
                      ut_updated_at := ts env at\<rparr>) (users db)\<rparr>))"

subsection \<open>Roles\<close>

definition role_joined :: "identity_db \<Rightarrow> (user_role_row \<times> role_row) list" where
  "role_joined db =
     concat (map (\<lambda>u. map (\<lambda>r. (u, r)) (filter (\<lambda>r. ro_id r = ur_role_id u) (roles db)))
       (user_roles db))"

definition iq_AssignRole ::
  "string \<Rightarrow> string \<Rightarrow> gotime \<Rightarrow> string option \<Rightarrow> (identity_db, int) query" where
  "iq_AssignRole uid name at assignedBy = (\<lambda>env now db.
     case select_one (\<lambda>r. ro_name r = name \<and> ro_status r = ''ACTIVE'') (roles db) of
       None \<Rightarrow> Inr (0, db)
     | Some r \<Rightarrow>
         if select_one (\<lambda>u. ur_user_id u = uid \<and> ur_role_id u = ro_id r) (user_roles db) \<noteq> None
         then Inr (0, db)
         else if \<not> has_user db uid
              \<or> (case assignedBy of None \<Rightarrow> False | Some b \<Rightarrow> \<not> has_user db b) then Inl fk_violation
         else Inr (1, db\<lparr>user_roles := user_roles db @
                [\<lparr>ur_user_id = uid, ur_role_id = ro_id r, ur_assigned_at = ts env at,
                  ur_assigned_by = assignedBy\<rparr>]\<rparr>))"

definition iq_RemoveRole :: "string \<Rightarrow> string \<Rightarrow> (identity_db, int) query" where
  "iq_RemoveRole uid name = (\<lambda>env now db.
     let p = (\<lambda>u. ur_user_id u = uid
                  \<and> select_one (\<lambda>r. ro_id r = ur_role_id u \<and> ro_name r = name) (roles db) \<noteq> None)
     in Inr (int (count_where p (user_roles db)),
             db\<lparr>user_roles := filter (\<lambda>u. \<not> p u) (user_roles db)\<rparr>))"

definition iq_HasActiveRole :: "string \<Rightarrow> string \<Rightarrow> (identity_db, bool) query" where
  "iq_HasActiveRole uid name = (\<lambda>env now db.
     Inr (list_ex (\<lambda>(u, r). ur_user_id u = uid \<and> ro_name r = name \<and> ro_status r = ''ACTIVE'')
            (role_joined db), db))"

definition iq_CountActiveAdministrators :: "(identity_db, int) query" where
  "iq_CountActiveAdministrators = (\<lambda>env now db.
     Inr (int (count_where (\<lambda>(u, r). ro_name r = ''admin'' \<and> ro_status r = ''ACTIVE'')
            (role_joined db)), db))"

definition iq_GetRoleByName :: "string \<Rightarrow> (identity_db, role_row) query" where
  "iq_GetRoleByName name = (\<lambda>env now db.
     case select_one (\<lambda>r. ro_name r = name \<and> ro_status r = ''ACTIVE'') (roles db) of
       None \<Rightarrow> Inl ErrNoRows | Some r \<Rightarrow> Inr (r, db))"

text \<open>The role and permission names of a user.\<close>

definition role_grants :: "identity_db \<Rightarrow> role_row \<Rightarrow> (string \<times> string) list" where
  "role_grants db r =
     concat (map (\<lambda>g. map (\<lambda>p. (ro_name r, pm_name p))
                        (filter (\<lambda>p. pm_id p = rp_permission_id g) (permissions db)))
       (filter (\<lambda>g. rp_role_id g = ro_id r) (role_permissions db)))"

definition iq_ListUserRoles :: "string \<Rightarrow> (identity_db, (string \<times> string) list) query" where
  "iq_ListUserRoles uid = (\<lambda>env now db.
     Inr (sort (concat (map (\<lambda>(u, r). role_grants db r)
                  (filter (\<lambda>(u, r). ur_user_id u = uid \<and> ro_status r = ''ACTIVE'')
                     (role_joined db)))), db))"

definition iq_ListUserRoleNames :: "string list \<Rightarrow> (identity_db, (string \<times> string) list) query" where
  "iq_ListUserRoleNames ids = (\<lambda>env now db.
     Inr (sort (map (\<lambda>(u, r). (ur_user_id u, ro_name r))
                  (filter (\<lambda>(u, r). ur_user_id u \<in> set ids \<and> ro_status r = ''ACTIVE'')
                     (role_joined db))), db))"

subsection \<open>Sessions\<close>

definition has_session :: "identity_db \<Rightarrow> string \<Rightarrow> bool" where
  "has_session db sid \<longleftrightarrow> select_one (\<lambda>r. st_id r = sid) (sessions db) \<noteq> None"

definition iq_CreateSession ::
  "string \<Rightarrow> string \<Rightarrow> string \<Rightarrow> string \<Rightarrow> gotime \<Rightarrow> gotime \<Rightarrow> string option \<Rightarrow> string option
   \<Rightarrow> string option \<Rightarrow> (identity_db, session_row) query" where
  "iq_CreateSession sid familyID uid refreshHash expiresAt createdAt userAgentHash ipPrefixHash
     rotatedFrom = (\<lambda>env now db.
     let r = \<lparr>st_id = sid, st_family_id = familyID, st_user_id = uid,
              st_refresh_token_hash = refreshHash, st_status = ''ACTIVE'',
              st_expires_at = ts env expiresAt, st_revoked_at = None, st_revoked_reason = None,
              st_rotated_from = rotatedFrom, st_replaced_by = None,
              st_created_at = ts env createdAt, st_last_used_at = Some (ts env createdAt),
              st_user_agent_hash = userAgentHash, st_ip_prefix_hash = ipPrefixHash\<rparr>
     in if has_session db sid
           \<or> select_one (\<lambda>x. st_refresh_token_hash x = refreshHash) (sessions db) \<noteq> None
          then Inl unique_violation
        else if \<not> has_user db uid
             \<or> (case rotatedFrom of None \<Rightarrow> False | Some i \<Rightarrow> i \<noteq> sid \<and> \<not> has_session db i)
          then Inl fk_violation
        else Inr (r, db\<lparr>sessions := sessions db @ [r]\<rparr>))"

definition iq_GetSessionByRefreshHash :: "string \<Rightarrow> (identity_db, session_row) query" where
  "iq_GetSessionByRefreshHash hash = (\<lambda>env now db.
     case select_one (\<lambda>r. st_refresh_token_hash r = hash) (sessions db) of
       None \<Rightarrow> Inl ErrNoRows | Some r \<Rightarrow> Inr (r, db))"

definition iq_GetSessionByID :: "string \<Rightarrow> (identity_db, session_row) query" where
  "iq_GetSessionByID sid = (\<lambda>env now db.
     case select_one (\<lambda>r. st_id r = sid) (sessions db) of
       None \<Rightarrow> Inl ErrNoRows | Some r \<Rightarrow> Inr (r, db))"

definition iq_LockActiveSession :: "string \<Rightarrow> (identity_db, string) query" where
  "iq_LockActiveSession sid = (\<lambda>env now db.
     case select_one (\<lambda>r. st_id r = sid \<and> st_status r = ''ACTIVE'') (sessions db) of
       None \<Rightarrow> Inl ErrNoRows | Some r \<Rightarrow> Inr (st_id r, db))"

definition iq_RotateSession :: "string \<Rightarrow> string \<Rightarrow> gotime \<Rightarrow> (identity_db, int) query" where
  "iq_RotateSession sid replacementID at = (\<lambda>env now db.
     let p = (\<lambda>r. st_id r = sid \<and> st_status r = ''ACTIVE'') in
     if count_where p (sessions db) \<noteq> 0 \<and> \<not> has_session db replacementID then Inl fk_violation
     else Inr (int (count_where p (sessions db)),
               db\<lparr>sessions := update_where p
                 (\<lambda>r. r\<lparr>st_status := ''ROTATED'', st_replaced_by := Some replacementID,
                        st_last_used_at := Some (ts env at)\<rparr>) (sessions db)\<rparr>))"

text \<open>The three \<^verbatim>\<open>UPDATE sessions SET status = 'REVOKED'\<close> statements.\<close>

definition revoke_where ::
  "(session_row \<Rightarrow> bool) \<Rightarrow> gotime \<Rightarrow> string \<Rightarrow> (identity_db, unit) query" where
  "revoke_where p at reason = (\<lambda>env now db.
     Inr ((), db\<lparr>sessions := update_where (\<lambda>r. p r \<and> st_status r \<noteq> ''REVOKED'')
       (\<lambda>r. r\<lparr>st_status := ''REVOKED'', st_revoked_at := Some (ts env at),
              st_revoked_reason := Some reason\<rparr>) (sessions db)\<rparr>))"

definition iq_RevokeSessionByID :: "string \<Rightarrow> gotime \<Rightarrow> string \<Rightarrow> (identity_db, unit) query" where
  "iq_RevokeSessionByID sid at reason = revoke_where (\<lambda>r. st_id r = sid) at reason"

definition iq_RevokeSessionFamily :: "string \<Rightarrow> gotime \<Rightarrow> string \<Rightarrow> (identity_db, unit) query" where
  "iq_RevokeSessionFamily familyID at reason = revoke_where (\<lambda>r. st_family_id r = familyID) at reason"

definition iq_RevokeUserSessions :: "string \<Rightarrow> gotime \<Rightarrow> string \<Rightarrow> (identity_db, unit) query" where
  "iq_RevokeUserSessions uid at reason = revoke_where (\<lambda>r. st_user_id r = uid) at reason"

definition iq_ListUserSessions :: "string \<Rightarrow> (identity_db, session_row list) query" where
  "iq_ListUserSessions uid = (\<lambda>env now db.
     Inr (sort_key (\<lambda>r. - st_created_at r) (filter (\<lambda>r. st_user_id r = uid) (sessions db)), db))"

text \<open>
  The keyset condition of the two paged queries: \<^verbatim>\<open>(created_at, id)\<close> before the
  cursor; with a time and no id the comparison of a row created at that time is not true.
\<close>

definition before_key :: "int option \<Rightarrow> string option \<Rightarrow> int \<times> string \<Rightarrow> bool" where
  "before_key at cid k =
     (case at of
        None \<Rightarrow> True
      | Some t \<Rightarrow> fst k < t \<or> (fst k = t \<and> (case cid of None \<Rightarrow> False | Some i \<Rightarrow> snd k < i)))"

definition session_key :: "session_row \<Rightarrow> int \<times> string" where
  "session_key r = (st_created_at r, st_id r)"

definition user_key :: "user_row \<Rightarrow> int \<times> string" where
  "user_key r = (ut_created_at r, ut_id r)"

definition iq_ListUserSessionsPage ::
  "string \<Rightarrow> gotime option \<Rightarrow> string option \<Rightarrow> int \<Rightarrow> (identity_db, session_row list) query" where
  "iq_ListUserSessionsPage uid cursorAt cursorID pageSize = (\<lambda>env now db.
     if pageSize < 0 then Inl bad_limit
     else Inr (take (nat pageSize)
                 (newest_first session_key
                    (filter (\<lambda>r. st_user_id r = uid
                                 \<and> before_key (map_option (ts env) cursorAt) cursorID (session_key r))
                       (sessions db))), db))"

text \<open>
  \<^verbatim>\<open>LIKE pattern ESCAPE '\'\<close> on UTF-8 text: \<open>_\<close> stands for one
  character, so it skips the continuation bytes after the first.
\<close>

definition continuation :: "char \<Rightarrow> bool" where
  "continuation c \<longleftrightarrow> between (CHR 0x80) (CHR 0xBF) c"

function like :: "string \<Rightarrow> string \<Rightarrow> bool" where
  "like [] s = (s = [])"
| "like (p # ps) s =
     (if p = CHR ''%'' then (if like ps s then True else case s of [] \<Rightarrow> False | c # cs \<Rightarrow> like (p # ps) cs)
      else if p = CHR ''_'' then
        (case s of [] \<Rightarrow> False | c # cs \<Rightarrow> like ps (dropWhile continuation cs))
      else if p = CHR 0x5C then
        (case ps of
           [] \<Rightarrow> False
         | q # qs \<Rightarrow> (case s of [] \<Rightarrow> False | c # cs \<Rightarrow> if c = q then like qs cs else False))
      else (case s of [] \<Rightarrow> False | c # cs \<Rightarrow> if c = p then like ps cs else False))"
  by pat_completeness auto
termination
proof (relation "measure (\<lambda>(p, s). length p + length s)")
  show "wf (measure (\<lambda>(p, s). length p + length s))" by simp
qed (auto intro: le_imp_less_Suc le_SucI le_trans [OF length_dropWhile_le])

definition iq_ListUsersPage ::
  "string \<Rightarrow> string \<Rightarrow> string \<Rightarrow> gotime option \<Rightarrow> string option \<Rightarrow> int
   \<Rightarrow> (identity_db, user_row list) query" where
  "iq_ListUsersPage status role emailPrefix cursorAt cursorID pageSize = (\<lambda>env now db.
     if pageSize < 0 then Inl bad_limit
     else Inr (take (nat pageSize)
                 (newest_first user_key
                    (filter (\<lambda>u. (status = '''' \<or> ut_status u = status)
                        \<and> (role = '''' \<or> list_ex (\<lambda>(x, r). ur_user_id x = ut_id u \<and> ro_name r = role
                                                  \<and> ro_status r = ''ACTIVE'') (role_joined db))
                        \<and> (emailPrefix = '''' \<or> like (emailPrefix @ ''%'') (ut_email_normalized u))
                        \<and> before_key (map_option (ts env) cursorAt) cursorID (user_key u))
                       (users db))), db))"

subsection \<open>One-time tokens\<close>

definition insert_token :: "identity_db \<Rightarrow> token_row \<Rightarrow> token_row list \<Rightarrow> dberr + token_row list" where
  "insert_token db r t =
     (if select_one (\<lambda>x. tk_id x = tk_id r) t \<noteq> None
         \<or> select_one (\<lambda>x. tk_token_hash x = tk_token_hash r) t \<noteq> None then Inl unique_violation
      else if \<not> has_user db (tk_user_id r) then Inl fk_violation
      else Inr (t @ [r]))"

definition new_token :: "env \<Rightarrow> string \<Rightarrow> string \<Rightarrow> string \<Rightarrow> gotime \<Rightarrow> gotime \<Rightarrow> token_row" where
  "new_token env tid uid hash expiresAt createdAt =
     \<lparr>tk_id = tid, tk_user_id = uid, tk_token_hash = hash, tk_expires_at = ts env expiresAt,
      tk_consumed_at = None, tk_created_at = ts env createdAt\<rparr>"

definition iq_CreateResetToken ::
  "string \<Rightarrow> string \<Rightarrow> string \<Rightarrow> gotime \<Rightarrow> gotime \<Rightarrow> (identity_db, unit) query" where
  "iq_CreateResetToken tid uid hash expiresAt createdAt = (\<lambda>env now db.
     case insert_token db (new_token env tid uid hash expiresAt createdAt) (reset_tokens db) of
       Inl d \<Rightarrow> Inl d | Inr t \<Rightarrow> Inr ((), db\<lparr>reset_tokens := t\<rparr>))"

definition iq_CreateVerificationToken ::
  "string \<Rightarrow> string \<Rightarrow> string \<Rightarrow> gotime \<Rightarrow> gotime \<Rightarrow> (identity_db, unit) query" where
  "iq_CreateVerificationToken tid uid hash expiresAt createdAt = (\<lambda>env now db.
     case insert_token db (new_token env tid uid hash expiresAt createdAt)
            (verification_tokens db) of
       Inl d \<Rightarrow> Inl d | Inr t \<Rightarrow> Inr ((), db\<lparr>verification_tokens := t\<rparr>))"

definition iq_GetResetToken :: "string \<Rightarrow> (identity_db, token_row) query" where
  "iq_GetResetToken hash = (\<lambda>env now db.
     case select_one (\<lambda>r. tk_token_hash r = hash) (reset_tokens db) of
       None \<Rightarrow> Inl ErrNoRows | Some r \<Rightarrow> Inr (r, db))"

definition iq_GetVerificationToken :: "string \<Rightarrow> (identity_db, token_row) query" where
  "iq_GetVerificationToken hash = (\<lambda>env now db.
     case select_one (\<lambda>r. tk_token_hash r = hash) (verification_tokens db) of
       None \<Rightarrow> Inl ErrNoRows | Some r \<Rightarrow> Inr (r, db))"

definition unconsumed :: "string \<Rightarrow> token_row \<Rightarrow> bool" where
  "unconsumed tid r \<longleftrightarrow> tk_id r = tid \<and> tk_consumed_at r = None"

definition iq_ConsumeResetToken :: "string \<Rightarrow> gotime \<Rightarrow> (identity_db, int) query" where
  "iq_ConsumeResetToken tid at = (\<lambda>env now db.
     Inr (int (count_where (unconsumed tid) (reset_tokens db)),
          db\<lparr>reset_tokens := update_where (unconsumed tid)
               (\<lambda>r. r\<lparr>tk_consumed_at := Some (ts env at)\<rparr>) (reset_tokens db)\<rparr>))"

definition iq_ConsumeVerificationToken :: "string \<Rightarrow> gotime \<Rightarrow> (identity_db, int) query" where
  "iq_ConsumeVerificationToken tid at = (\<lambda>env now db.
     Inr (int (count_where (unconsumed tid) (verification_tokens db)),
          db\<lparr>verification_tokens := update_where (unconsumed tid)
               (\<lambda>r. r\<lparr>tk_consumed_at := Some (ts env at)\<rparr>) (verification_tokens db)\<rparr>))"

subsection \<open>Service principals\<close>

definition iq_GetServicePrincipal :: "string \<Rightarrow> (identity_db, principal_row) query" where
  "iq_GetServicePrincipal clientID = (\<lambda>env now db.
     case select_one (\<lambda>r. pr_client_id r = clientID) (service_principals db) of
       None \<Rightarrow> Inl ErrNoRows | Some r \<Rightarrow> Inr (r, db))"

definition iq_ListActiveServiceCredentials ::
  "string \<Rightarrow> gotime \<Rightarrow> (identity_db, credential_row list) query" where
  "iq_ListActiveServiceCredentials principalID validFrom = (\<lambda>env now db.
     Inr (sort_key (\<lambda>r. - cr_valid_from r)
            (filter (\<lambda>r. cr_service_principal_id r = principalID \<and> cr_status r = ''ACTIVE''
                         \<and> cr_valid_from r \<le> ts env validFrom \<and> cr_retired_at r = None)
               (service_credentials db)), db))"

definition iq_MarkServicePrincipalUsed :: "string \<Rightarrow> gotime \<Rightarrow> (identity_db, unit) query" where
  "iq_MarkServicePrincipalUsed pid at = (\<lambda>env now db.
     Inr ((), db\<lparr>service_principals := update_where (\<lambda>r. pr_id r = pid)
       (\<lambda>r. r\<lparr>pr_last_used_at := Some (ts env at)\<rparr>) (service_principals db)\<rparr>))"

subsection \<open>Audit and outbox\<close>

definition iq_InsertSecurityAudit :: "audit_row \<Rightarrow> (identity_db, unit) query" where
  "iq_InsertSecurityAudit r = (\<lambda>env now db.
     if select_one (\<lambda>x. au_id x = au_id r) (security_audit db) \<noteq> None then Inl unique_violation
     else Inr ((), db\<lparr>security_audit := security_audit db @ [r]\<rparr>))"

definition iq_InsertOutboxEvent ::
  "string \<Rightarrow> string \<Rightarrow> string \<Rightarrow> string \<Rightarrow> json \<Rightarrow> json \<Rightarrow> gotime \<Rightarrow> (identity_db, unit) query" where
  "iq_InsertOutboxEvent xid eventType aggregateType aggregateID payload headers createdAt =
     (\<lambda>env now db.
     if select_one (\<lambda>x. ev_id x = xid) (audit_events db) \<noteq> None then Inl unique_violation
     else Inr ((), db\<lparr>audit_events := audit_events db @
            [\<lparr>ev_id = xid, ev_event_type = eventType, ev_aggregate_type = aggregateType,
              ev_aggregate_id = aggregateID, ev_payload = payload, ev_headers = headers,
              ev_created_at = ts env createdAt, ev_published_at = None, ev_attempts = 0,
              ev_last_error = None\<rparr>]\<rparr>))"

definition iq_CountPendingOutbox :: "(identity_db, int) query" where
  "iq_CountPendingOutbox = (\<lambda>env now db.
     Inr (int (count_where (\<lambda>r. ev_published_at r = None) (audit_events db)), db))"

definition iq_ListPendingOutbox :: "int \<Rightarrow> (identity_db, event_row list) query" where
  "iq_ListPendingOutbox limit = (\<lambda>env now db.
     if limit < 0 then Inl bad_limit
     else Inr (take (nat limit) (sort_key ev_created_at
                 (filter (\<lambda>r. ev_published_at r = None) (audit_events db))), db))"

text \<open>An update of an event that counts one attempt.\<close>

definition update_event ::
  "string \<Rightarrow> (event_row \<Rightarrow> event_row) \<Rightarrow> identity_db \<Rightarrow> dberr + (unit \<times> identity_db)" where
  "update_event xid f db =
     (let p = (\<lambda>r. ev_id r = xid)
      in if list_all (\<lambda>r. in_int32 (ev_attempts r + 1)) (filter p (audit_events db))
         then Inr ((), db\<lparr>audit_events :=
                update_where p (\<lambda>r. (f r)\<lparr>ev_attempts := ev_attempts r + 1\<rparr>) (audit_events db)\<rparr>)
         else Inl out_of_range)"

definition iq_MarkOutboxPublished :: "string \<Rightarrow> gotime \<Rightarrow> (identity_db, unit) query" where
  "iq_MarkOutboxPublished xid at = (\<lambda>env now db.
     update_event xid (\<lambda>r. r\<lparr>ev_published_at := Some (ts env at), ev_last_error := None\<rparr>) db)"

definition iq_MarkOutboxFailed :: "string \<Rightarrow> string \<Rightarrow> (identity_db, unit) query" where
  "iq_MarkOutboxFailed xid lastError = (\<lambda>env now db.
     update_event xid (\<lambda>r. r\<lparr>ev_last_error := Some lastError\<rparr>) db)"

end
