(* ===== verification/Identity_Store.thy ===== *)
theory Identity_Store
  imports Identity_Queries Counters
begin

section \<open>Identity: the Postgres store\<close>

text \<open>
  \<^verbatim>\<open>apps/identity/internal/adapters/outbound/postgres/store.go\<close>: the reads, the
  transaction wrapper and the methods of an open transaction.  The state of the service is
  the database session, the counters and marks in Redis, and the mail handed to the mailer.
\<close>

record id_state = "identity_db session" +
  rates :: redis_db
  revoked_marks :: "(string \<times> int) list"
  outgoing :: "(string \<times> string \<times> string) list"

type_synonym 'a iact = "(id_state, ierr, 'a) act"

subsection \<open>Conversions\<close>

definition uuidNil :: string where
  "uuidNil = ''00000000-0000-0000-0000-000000000000''"

definition mapDatabaseError :: "dberr \<Rightarrow> ierr" where
  "mapDatabaseError d =
     (case d of
        ErrNoRows \<Rightarrow> idErr ErrNotFound
      | PgError code message \<Rightarrow>
          if code = ''23505'' then idErr ErrConflict
          else wrapErr (idErr ErrDependency) (otherErr message)
      | DriverError message \<Rightarrow> wrapErr (idErr ErrDependency) (otherErr message))"

definition nullableTime :: "env \<Rightarrow> int option \<Rightarrow> gotime option" where
  "nullableTime env v = map_option (scan_ts env) v"

definition nullableTimeValue :: "gotime option \<Rightarrow> gotime option" where
  "nullableTimeValue v = map_option UTC v"

definition nullableUUIDValue :: "string \<Rightarrow> string option" where
  "nullableUUIDValue v = (if v = uuidNil then None else Some v)"

definition mapUser :: "env \<Rightarrow> user_row \<Rightarrow> user" where
  "mapUser env r =
     \<lparr>us_ID = ut_id r, us_Email = ut_email r, us_EmailNormalized = ut_email_normalized r,
      us_PasswordHash = ut_password_hash r, us_Status = ut_status r,
      us_EmailVerifiedAt = nullableTime env (ut_email_verified_at r),
      us_CreatedAt = scan_ts env (ut_created_at r), us_UpdatedAt = scan_ts env (ut_updated_at r)\<rparr>"

definition mapSession :: "env \<Rightarrow> session_row \<Rightarrow> login_session" where
  "mapSession env r =
     \<lparr>se_ID = st_id r, se_FamilyID = st_family_id r, se_UserID = st_user_id r,
      se_Status = st_status r, se_RotatedFromSessionID = None,
      se_ExpiresAt = scan_ts env (st_expires_at r), se_RevokedAt = nullableTime env (st_revoked_at r),
      se_CreatedAt = scan_ts env (st_created_at r),
      se_LastUsedAt = nullableTime env (st_last_used_at r)\<rparr>"

definition mapToken :: "env \<Rightarrow> token_row \<Rightarrow> one_time_token" where
  "mapToken env r =
     \<lparr>ot_ID = tk_id r, ot_UserID = tk_user_id r, ot_ExpiresAt = scan_ts env (tk_expires_at r),
      ot_ConsumedAt = nullableTime env (tk_consumed_at r)\<rparr>"

definition mapCredential :: "env \<Rightarrow> credential_row \<Rightarrow> service_credential" where
  "mapCredential env r =
     \<lparr>sc_ID = cr_id r, sc_ServicePrincipalID = cr_service_principal_id r,
      sc_SecretHash = cr_secret_hash r, sc_Status = cr_status r,
      sc_ValidFrom = scan_ts env (cr_valid_from r), sc_RetiredAt = nullableTime env (cr_retired_at r)\<rparr>"

text \<open>\<^verbatim>\<open>json.Unmarshal\<close> into a \<^verbatim>\<open>[]string\<close>.\<close>

definition unmarshal_string :: "json \<Rightarrow> string option" where
  "unmarshal_string j = (case j of JStr s \<Rightarrow> Some s | JNull \<Rightarrow> Some '''' | _ \<Rightarrow> None)"

definition unmarshal_strings :: "json \<Rightarrow> string list option" where
  "unmarshal_strings j =
     (case j of JArr js \<Rightarrow> traverse unmarshal_string js | JNull \<Rightarrow> Some [] | _ \<Rightarrow> None)"

subsection \<open>Reads\<close>

definition readQ :: "(identity_db, 'a) query \<Rightarrow> (env \<Rightarrow> 'a \<Rightarrow> 'b) \<Rightarrow> 'b iact" where
  "readQ q f = bindA getEnv (\<lambda>env. bindA (autoQ mapDatabaseError q) (\<lambda>r. ret (f env r)))"

definition FindUserByEmail :: "string \<Rightarrow> user iact" where
  "FindUserByEmail email = readQ (iq_GetUserByEmail email) mapUser"

definition FindUser :: "string \<Rightarrow> user iact" where
  "FindUser uid = readQ (iq_GetUserByID uid) mapUser"

definition UserRoles :: "string \<Rightarrow> role_permission list iact" where
  "UserRoles uid =
     readQ (iq_ListUserRoles uid) (\<lambda>_. map (\<lambda>(role, scope). \<lparr>gr_Role = role, gr_Scope = scope\<rparr>))"

definition FindRole :: "string \<Rightarrow> unit iact" where
  "FindRole name = readQ (iq_GetRoleByName name) (\<lambda>_ _. ())"

definition FindSessionByRefreshHash :: "string \<Rightarrow> login_session iact" where
  "FindSessionByRefreshHash hash = readQ (iq_GetSessionByRefreshHash hash) mapSession"

definition FindSessionByID :: "string \<Rightarrow> login_session iact" where
  "FindSessionByID sid = readQ (iq_GetSessionByID sid) mapSession"

definition ListSessions :: "string \<Rightarrow> login_session list iact" where
  "ListSessions uid = readQ (iq_ListUserSessions uid) (\<lambda>env. map (mapSession env))"

definition FindResetToken :: "string \<Rightarrow> one_time_token iact" where
  "FindResetToken hash = readQ (iq_GetResetToken hash) mapToken"

definition FindVerificationToken :: "string \<Rightarrow> one_time_token iact" where
  "FindVerificationToken hash = readQ (iq_GetVerificationToken hash) mapToken"

definition FindServicePrincipal :: "string \<Rightarrow> service_principal iact" where
  "FindServicePrincipal clientID =
     bindA (autoQ mapDatabaseError (iq_GetServicePrincipal clientID)) (\<lambda>r.
     case unmarshal_strings (pr_scopes r) of
       None \<Rightarrow> throw (otherErr ''decode machine scopes'')
     | Some scopes \<Rightarrow>
         ret \<lparr>sp_ID = pr_id r, sp_ClientID = pr_client_id r, sp_Status = pr_status r,
              sp_Scopes = scopes, sp_Audience = pr_audience r\<rparr>)"

definition ActiveServiceCredentials :: "string \<Rightarrow> gotime \<Rightarrow> service_credential list iact" where
  "ActiveServiceCredentials principalID now =
     readQ (iq_ListActiveServiceCredentials principalID now) (\<lambda>env. map (mapCredential env))"

subsection \<open>Pages\<close>

record session_page_query =
  sq_CursorCreatedAt :: "gotime option"
  sq_CursorID :: string
  sq_Limit :: int

record session_page =
  sg_Items :: "login_session list"
  sg_HasMore :: bool
  sg_LastCreated :: gotime
  sg_LastID :: string

record user_page_query =
  uq_Status :: string
  uq_Role :: string
  uq_EmailPrefix :: string
  uq_CursorCreatedAt :: "gotime option"
  uq_CursorID :: string
  uq_Limit :: int

record user_page =
  ug_Items :: "(user \<times> string list) list"
  ug_HasMore :: bool
  ug_LastCreated :: gotime
  ug_LastID :: string

text \<open>The callers pass limits between 1 and 100; a negative limit would not slice in Go.\<close>

definition ListSessionsPage :: "string \<Rightarrow> session_page_query \<Rightarrow> session_page iact" where
  "ListSessionsPage uid query =
     bindA (readQ (iq_ListUserSessionsPage uid (nullableTimeValue (sq_CursorCreatedAt query))
              (nullableUUIDValue (sq_CursorID query)) (wrap32 (sq_Limit query + 1)))
             (\<lambda>env. map (mapSession env))) (\<lambda>found.
     let more = sq_Limit query < int (length found);
         items = (if more then take (nat (sq_Limit query)) found else found)
     in ret \<lparr>sg_Items = items, sg_HasMore = more,
             sg_LastCreated = (if items = [] then zero_time else se_CreatedAt (last items)),
             sg_LastID = (if items = [] then uuidNil else se_ID (last items))\<rparr>)"

definition ListUsersPage :: "user_page_query \<Rightarrow> user_page iact" where
  "ListUsersPage query =
     bindA getEnv (\<lambda>env.
     bindA (autoQ mapDatabaseError (iq_ListUsersPage (uq_Status query) (uq_Role query)
              (uq_EmailPrefix query) (nullableTimeValue (uq_CursorCreatedAt query))
              (nullableUUIDValue (uq_CursorID query)) (wrap32 (uq_Limit query + 1)))) (\<lambda>found.
     let more = uq_Limit query < int (length found);
         rows = (if more then take (nat (uq_Limit query)) found else found) in
     bindA (autoQ mapDatabaseError (iq_ListUserRoleNames (map ut_id rows))) (\<lambda>roleRows.
     let items = map (\<lambda>r. (mapUser env r, map snd (filter (\<lambda>x. fst x = ut_id r) roleRows))) rows
     in ret \<lparr>ug_Items = items, ug_HasMore = more,
             ug_LastCreated = (if items = [] then zero_time else us_CreatedAt (fst (last items))),
             ug_LastID = (if items = [] then uuidNil else us_ID (fst (last items)))\<rparr>)))"

subsection \<open>Transactions\<close>

definition WithTransaction :: "'a iact \<Rightarrow> 'a iact" where
  "WithTransaction fn =
     bindA (beginTx mapDatabaseError) (\<lambda>_.
     bindA fn (\<lambda>x.
     bindA (commitTx mapDatabaseError) (\<lambda>_.
     ret x)))"

definition txQ :: "(identity_db, 'a) query \<Rightarrow> 'a iact" where
  "txQ q = stmt mapDatabaseError q"

definition tx_CreateUser :: "user \<Rightarrow> user iact" where
  "tx_CreateUser u =
     bindA getEnv (\<lambda>env.
     bindA (txQ (iq_CreateUser (us_ID u) (us_Email u) (us_EmailNormalized u) (us_PasswordHash u)
              (us_Status u) (us_CreatedAt u))) (\<lambda>r.
     ret (mapUser env r)))"

definition tx_CreateSession ::
  "login_session \<Rightarrow> string \<Rightarrow> string option \<Rightarrow> string option \<Rightarrow> unit iact" where
  "tx_CreateSession s refreshHash userAgentHash ipPrefixHash =
     bindA (txQ (iq_CreateSession (se_ID s) (se_FamilyID s) (se_UserID s) refreshHash
              (se_ExpiresAt s) (se_CreatedAt s) userAgentHash ipPrefixHash
              (se_RotatedFromSessionID s))) (\<lambda>_. ret ())"

definition tx_LockActiveSession :: "string \<Rightarrow> bool iact" where
  "tx_LockActiveSession sid =
     bindA (txQ (iq_LockActiveSession sid)) (\<lambda>_. ret True)"

definition tx_RotateSession :: "string \<Rightarrow> string \<Rightarrow> gotime \<Rightarrow> int iact" where
  "tx_RotateSession sid replacementID now = txQ (iq_RotateSession sid replacementID now)"

definition tx_RevokeSessionFamily :: "string \<Rightarrow> gotime \<Rightarrow> string \<Rightarrow> unit iact" where
  "tx_RevokeSessionFamily familyID now reason = txQ (iq_RevokeSessionFamily familyID now reason)"

definition tx_RevokeSession :: "string \<Rightarrow> gotime \<Rightarrow> string \<Rightarrow> unit iact" where
  "tx_RevokeSession sid now reason = txQ (iq_RevokeSessionByID sid now reason)"

definition tx_RevokeUserSessions :: "string \<Rightarrow> gotime \<Rightarrow> string \<Rightarrow> unit iact" where
  "tx_RevokeUserSessions uid now reason = txQ (iq_RevokeUserSessions uid now reason)"

definition tx_UpdateUserStatus :: "string \<Rightarrow> string \<Rightarrow> gotime \<Rightarrow> int iact" where
  "tx_UpdateUserStatus uid status now = txQ (iq_UpdateUserStatus uid status now)"

definition tx_UpdatePassword :: "string \<Rightarrow> string \<Rightarrow> gotime \<Rightarrow> unit iact" where
  "tx_UpdatePassword uid hash now = txQ (iq_UpdatePassword uid hash now)"

definition tx_AssignRole :: "string \<Rightarrow> string \<Rightarrow> gotime \<Rightarrow> string option \<Rightarrow> int iact" where
  "tx_AssignRole uid role now assignedBy = txQ (iq_AssignRole uid role now assignedBy)"

definition tx_RemoveRole :: "string \<Rightarrow> string \<Rightarrow> int iact" where
  "tx_RemoveRole uid role = txQ (iq_RemoveRole uid role)"

definition tx_HasActiveRole :: "string \<Rightarrow> string \<Rightarrow> bool iact" where
  "tx_HasActiveRole uid role = txQ (iq_HasActiveRole uid role)"

definition tx_CountActiveAdministrators :: "int iact" where
  "tx_CountActiveAdministrators = txQ iq_CountActiveAdministrators"

definition tx_CreateResetToken :: "string \<Rightarrow> string \<Rightarrow> string \<Rightarrow> gotime \<Rightarrow> gotime \<Rightarrow> unit iact" where
  "tx_CreateResetToken tid uid hash expiresAt createdAt =
     txQ (iq_CreateResetToken tid uid hash expiresAt createdAt)"

definition tx_ConsumeResetToken :: "string \<Rightarrow> gotime \<Rightarrow> int iact" where
  "tx_ConsumeResetToken tid now = txQ (iq_ConsumeResetToken tid now)"

definition tx_CreateVerificationToken ::
  "string \<Rightarrow> string \<Rightarrow> string \<Rightarrow> gotime \<Rightarrow> gotime \<Rightarrow> unit iact" where
  "tx_CreateVerificationToken tid uid hash expiresAt createdAt =
     txQ (iq_CreateVerificationToken tid uid hash expiresAt createdAt)"

definition tx_ConsumeVerificationToken :: "string \<Rightarrow> gotime \<Rightarrow> int iact" where
  "tx_ConsumeVerificationToken tid now = txQ (iq_ConsumeVerificationToken tid now)"

definition tx_MarkEmailVerified :: "string \<Rightarrow> gotime \<Rightarrow> int iact" where
  "tx_MarkEmailVerified uid now = txQ (iq_MarkEmailVerified uid now)"

definition tx_MarkServicePrincipalUsed :: "string \<Rightarrow> gotime \<Rightarrow> unit iact" where
  "tx_MarkServicePrincipalUsed pid now = txQ (iq_MarkServicePrincipalUsed pid now)"

record audit_record =
  ad_ID :: string
  ad_ActorID :: "string option"
  ad_ActorType :: "string option"
  ad_Action :: string
  ad_TargetType :: "string option"
  ad_TargetID :: "string option"
  ad_Metadata :: json
  ad_CorrelationID :: string
  ad_OccurredAt :: gotime

record outbox_record =
  ox_ID :: string
  ox_EventType :: string
  ox_AggregateType :: string
  ox_AggregateID :: string
  ox_Payload :: json
  ox_Headers :: json
  ox_CreatedAt :: gotime

definition tx_RecordAudit :: "audit_record \<Rightarrow> unit iact" where
  "tx_RecordAudit a =
     bindA getEnv (\<lambda>env.
     txQ (iq_InsertSecurityAudit
       \<lparr>au_id = ad_ID a, au_actor_id = ad_ActorID a, au_actor_type = ad_ActorType a,
        au_action = ad_Action a, au_target_type = ad_TargetType a, au_target_id = ad_TargetID a,
        au_metadata = ad_Metadata a, au_correlation_id = ad_CorrelationID a,
        au_occurred_at = ts env (ad_OccurredAt a)\<rparr>))"

definition tx_RecordOutbox :: "outbox_record \<Rightarrow> unit iact" where
  "tx_RecordOutbox x =
     txQ (iq_InsertOutboxEvent (ox_ID x) (ox_EventType x) (ox_AggregateType x) (ox_AggregateID x)
       (ox_Payload x) (ox_Headers x) (ox_CreatedAt x))"

subsection \<open>Outbox of the publisher\<close>

definition PendingOutboxCount :: "int iact" where
  "PendingOutboxCount = autoQ mapDatabaseError iq_CountPendingOutbox"

definition PendingOutbox :: "int \<Rightarrow> event_row list iact" where
  "PendingOutbox limit = autoQ mapDatabaseError (iq_ListPendingOutbox limit)"

definition id_MarkOutboxPublished :: "string \<Rightarrow> gotime \<Rightarrow> unit iact" where
  "id_MarkOutboxPublished xid at = autoQ mapDatabaseError (iq_MarkOutboxPublished xid at)"

definition id_MarkOutboxFailed :: "string \<Rightarrow> string \<Rightarrow> unit iact" where
  "id_MarkOutboxFailed xid reason = autoQ mapDatabaseError (iq_MarkOutboxFailed xid reason)"

end
