(* ===== verification/Identity_Crypto.thy ===== *)
theory Identity_Crypto
  imports Identity_Store Web "HOL-Library.AList"
begin

section \<open>Identity: passwords and tokens\<close>

text \<open>
  \<^verbatim>\<open>apps/identity/internal/adapters/outbound/crypto\<close>: the password hasher, opaque
  tokens and the signer of access tokens.  The key derivation function, the signature, the
  parsers of key files and the JWT library are parameters.
\<close>

datatype pem_key = Ed25519Key string | OtherKey

record id_lib =
  il_go :: golib
  il_jwt :: jwtlib
  il_sign :: "string \<Rightarrow> string \<Rightarrow> token_claims \<Rightarrow> string option"
  il_public :: "string \<Rightarrow> string"
  il_argon :: "string \<Rightarrow> string \<Rightarrow> nat \<Rightarrow> nat \<Rightarrow> nat \<Rightarrow> nat \<Rightarrow> string"
  il_address :: "string \<Rightarrow> string option"
  il_pem :: "string \<Rightarrow> string option"
  il_pkcs8 :: "string \<Rightarrow> pem_key option"
  il_pkix :: "string \<Rightarrow> pem_key option"

subsection \<open>Standard base64 without padding\<close>

definition std_of_url :: "char \<Rightarrow> char" where
  "std_of_url c = (if c = CHR ''-'' then CHR ''+'' else if c = CHR ''_'' then CHR ''/'' else c)"

definition url_of_std :: "char \<Rightarrow> char" where
  "url_of_std c = (if c = CHR ''+'' then CHR ''-'' else if c = CHR ''/'' then CHR ''_'' else c)"

definition raw_std_encode :: "string \<Rightarrow> string" where
  "raw_std_encode s = map std_of_url (b64_encode s)"

definition raw_std_decode :: "string \<Rightarrow> string option" where
  "raw_std_decode s =
     (if CHR ''-'' \<in> set s \<or> CHR ''_'' \<in> set s then None else b64_decode (map url_of_std s))"

lemma b64_encode_value: "c \<in> set (b64_encode s) \<Longrightarrow> b64_value c \<noteq> None"
  using b64_groups_small [of "map of_char s"] by (auto simp: b64_encode_def b64_value_char)

lemma raw_std_roundtrip: "raw_std_decode (raw_std_encode s) = Some s"
proof -
  have "url_of_std (std_of_url c) = c" if "c \<in> set (b64_encode s)" for c
    using b64_encode_value [OF that]
    by (auto simp: std_of_url_def url_of_std_def b64_value_def is_upper_def is_lower_def is_digit_def
        between_def)
  then have "map url_of_std (raw_std_encode s) = b64_encode s"
    by (simp add: raw_std_encode_def map_idI)
  moreover have "CHR ''-'' \<notin> set (raw_std_encode s)" "CHR ''_'' \<notin> set (raw_std_encode s)"
    by (auto simp: raw_std_encode_def std_of_url_def split: if_splits)
  ultimately show ?thesis by (simp add: raw_std_decode_def b64_decode_encode)
qed

lemma raw_std_encode_chars: "CHR ''$'' \<notin> set (raw_std_encode s)"
  using b64_encode_value [of _ s]
  by (fastforce simp: raw_std_encode_def std_of_url_def b64_value_def is_upper_def is_lower_def
      is_digit_def between_def split: if_splits)

subsection \<open>Passwords\<close>

record password_hasher =
  ph_time :: nat
  ph_memory :: nat
  ph_threads :: nat
  ph_keyLen :: nat

definition NewPasswordHasher :: password_hasher where
  "NewPasswordHasher = \<lparr>ph_time = 3, ph_memory = 65536, ph_threads = 2, ph_keyLen = 32\<rparr>"

definition encoded_hash :: "id_lib \<Rightarrow> password_hasher \<Rightarrow> string \<Rightarrow> string \<Rightarrow> string" where
  "encoded_hash lb h password salt =
     ''$argon2id$v=19$m='' @ nat_text (ph_memory h) @ '',t='' @ nat_text (ph_time h) @ '',p=''
     @ nat_text (ph_threads h) @ ''$'' @ raw_std_encode salt @ ''$''
     @ raw_std_encode (il_argon lb password salt (ph_time h) (ph_memory h) (ph_threads h) (ph_keyLen h))"

definition Hash :: "id_lib \<Rightarrow> password_hasher \<Rightarrow> string \<Rightarrow> string iact" where
  "Hash lb h password = bindA (randBytes 16) (\<lambda>salt. ret (encoded_hash lb h password salt))"

text \<open>\<^verbatim>\<open>strings.Cut\<close> at the first equals sign.\<close>

definition cut_equals :: "string \<Rightarrow> (string \<times> string) option" where
  "cut_equals s =
     (if CHR ''='' \<in> set s then
        Some (takeWhile (\<lambda>c. c \<noteq> CHR ''='') s, tl (dropWhile (\<lambda>c. c \<noteq> CHR ''='') s))
      else None)"

fun argon_parameters :: "string list \<Rightarrow> (string \<Rightarrow> nat option) \<Rightarrow> (string \<Rightarrow> nat option) option" where
  "argon_parameters [] m = Some m"
| "argon_parameters (p # ps) m =
     (case cut_equals p of
        None \<Rightarrow> None
      | Some (key, value) \<Rightarrow>
          (case ParseNat value of
             None \<Rightarrow> None
           | Some n \<Rightarrow> if n < 2 ^ 32 then argon_parameters ps (m(key \<mapsto> n)) else None))"

definition argon_bounds :: "nat \<Rightarrow> nat \<Rightarrow> nat \<Rightarrow> bool" where
  "argon_bounds memory iterations threads \<longleftrightarrow>
     memory \<noteq> 0 \<and> memory \<le> 256 * 1024 \<and> iterations \<noteq> 0 \<and> iterations \<le> 10
     \<and> threads \<noteq> 0 \<and> threads \<le> 32"

definition password_Verify :: "id_lib \<Rightarrow> string \<Rightarrow> string \<Rightarrow> bool" where
  "password_Verify lb password encoded =
     (case SplitOn CHR ''$'' encoded of
        [p0, p1, p2, p3, saltText, hashText] \<Rightarrow>
          if p1 \<noteq> ''argon2id'' \<or> p2 \<noteq> ''v=19'' then False
          else (case argon_parameters (SplitOn CHR '','' p3) Map.empty of
                  None \<Rightarrow> False
                | Some ps \<Rightarrow>
                    (case (ps ''m'', ps ''t'', ps ''p'') of
                       (Some memory, Some iterations, Some threads) \<Rightarrow>
                         if \<not> argon_bounds memory iterations threads then False
                         else (case (raw_std_decode saltText, raw_std_decode hashText) of
                                 (Some salt, Some expected) \<Rightarrow>
                                   if length salt < 8 \<or> 64 < length salt \<or> length expected < 16
                                      \<or> 64 < length expected then False
                                   else il_argon lb password salt iterations memory threads
                                          (length expected) = expected
                               | _ \<Rightarrow> False)
                     | _ \<Rightarrow> False))
      | _ \<Rightarrow> False)"

subsection \<open>Opaque tokens\<close>

definition HashOpaque :: "id_lib \<Rightarrow> string \<Rightarrow> string" where
  "HashOpaque lb value = sha256 (il_go lb) value"

definition NewOpaque :: "id_lib \<Rightarrow> nat \<Rightarrow> (string \<times> string) iact" where
  "NewOpaque lb n =
     (if n < 32 then throw (otherErr ''opaque token size must be at least 32 bytes'')
      else bindA (randBytes n) (\<lambda>raw.
           let value = hex_encode raw in ret (value, HashOpaque lb value)))"

text \<open>\<^verbatim>\<open>opaque.go\<close>: the same with another encoding, without a lower bound.\<close>

definition NewOpaqueToken :: "id_lib \<Rightarrow> nat \<Rightarrow> (string \<times> string) iact" where
  "NewOpaqueToken lb n =
     bindA (randBytes n) (\<lambda>raw.
     let token = b64_encode raw in ret (token, sha256 (il_go lb) token))"

subsection \<open>The signer\<close>

record signer =
  sg_privateKey :: string
  sg_publicKey :: string
  sg_publicKeys :: "(string \<times> string) list"
  sg_kid :: string
  sg_issuer :: string

definition NewSigner :: "id_lib \<Rightarrow> string \<Rightarrow> string \<Rightarrow> string \<Rightarrow> signer option" where
  "NewSigner lb privateKey kid issuer =
     (if length privateKey \<noteq> 64 \<or> kid = '''' \<or> issuer = '''' then None
      else Some \<lparr>sg_privateKey = privateKey, sg_publicKey = il_public lb privateKey,
                 sg_publicKeys = [(kid, il_public lb privateKey)],
                 sg_kid = kid, sg_issuer = issuer\<rparr>)"

text \<open>
  The directory listing of the key history: name, whether it is a directory, and the contents
  if the file can be read.
\<close>

fun load_history ::
  "id_lib \<Rightarrow> (string \<times> bool \<times> string option) list \<Rightarrow> signer \<Rightarrow> signer option" where
  "load_history lb [] s = Some s"
| "load_history lb ((name, isDir, contents) # entries) s =
     (if isDir \<or> \<not> HasSuffix name ''.pub.pem'' then load_history lb entries s
      else
        (let historyID = TrimSuffix name ''.pub.pem'' in
         if historyID = '''' \<or> historyID = sg_kid s then None
         else (case contents of None \<Rightarrow> None | Some data \<Rightarrow>
              (case il_pem lb data of None \<Rightarrow> None | Some block \<Rightarrow>
              (case il_pkix lb block of
                 Some (Ed25519Key key) \<Rightarrow>
                   load_history lb entries
                     (s\<lparr>sg_publicKeys := AList.update historyID key (sg_publicKeys s)\<rparr>)
               | _ \<Rightarrow> None)))))"

definition LoadSignerWithHistory ::
  "id_lib \<Rightarrow> string option \<Rightarrow> string \<Rightarrow> string \<Rightarrow> string
   \<Rightarrow> (string \<times> bool \<times> string option) list option \<Rightarrow> signer option" where
  "LoadSignerWithHistory lb file kid issuer historyDir listing =
     (case file of None \<Rightarrow> None | Some data \<Rightarrow>
     (case il_pem lb data of None \<Rightarrow> None | Some block \<Rightarrow>
     (case il_pkcs8 lb block of
        Some (Ed25519Key key) \<Rightarrow>
          (case NewSigner lb key kid issuer of None \<Rightarrow> None | Some s \<Rightarrow>
           if TrimSpace historyDir = '''' then Some s
           else (case listing of None \<Rightarrow> None | Some entries \<Rightarrow> load_history lb entries s))
      | _ \<Rightarrow> None)))"

text \<open>\<^verbatim>\<open>jwt.NewNumericDate\<close> truncates to seconds.\<close>

definition numeric_date :: "gotime \<Rightarrow> gotime" where
  "numeric_date t = t\<lparr>instant := instant t - instant t mod 1000000000\<rparr>"

definition signed_claims ::
  "signer \<Rightarrow> string \<Rightarrow> string \<Rightarrow> string \<Rightarrow> string \<Rightarrow> string list \<Rightarrow> string list \<Rightarrow> int \<Rightarrow> gotime \<Rightarrow> string
   \<Rightarrow> token_claims" where
  "signed_claims s subject audience kind sessionID roleNames scopes ttl now jti =
     \<lparr>tc_Issuer = sg_issuer s, tc_Subject = subject, tc_Audience = [audience], tc_TokenKind = kind,
      tc_Scopes = scopes, tc_Roles = roleNames, tc_SessionID = sessionID, tc_ID = jti,
      tc_IssuedAt = Some (numeric_date now), tc_NotBefore = Some (numeric_date now),
      tc_ExpiresAt = Some (numeric_date (plus_ns now ttl))\<rparr>"

definition Sign ::
  "id_lib \<Rightarrow> signer \<Rightarrow> string \<Rightarrow> string \<Rightarrow> string \<Rightarrow> string \<Rightarrow> string list \<Rightarrow> string list \<Rightarrow> int
   \<Rightarrow> string iact" where
  "Sign lb s subject audience kind sessionID roleNames scopes ttl =
     bindA clockNow (\<lambda>t. let now = UTC t in
     bindA newUUID (\<lambda>jti.
     case il_sign lb (sg_privateKey s) (sg_kid s)
            (signed_claims s subject audience kind sessionID roleNames scopes ttl now jti) of
       None \<Rightarrow> throw (otherErr ''sign token'')
     | Some token \<Rightarrow> ret token))"

text \<open>The signer's \<^verbatim>\<open>Verify\<close>: None is the error.\<close>

definition signer_Verify :: "id_lib \<Rightarrow> signer \<Rightarrow> string \<Rightarrow> string \<Rightarrow> token_claims option iact" where
  "signer_Verify lb s raw audience =
     bindA clockNow (\<lambda>now.
     ret (case jwtDecode (il_jwt lb) raw of
            None \<Rightarrow> None
          | Some (alg, kid, claims) \<Rightarrow>
              if alg \<noteq> ''EdDSA'' then None
              else (case Option.bind kid (map_of (sg_publicKeys s)) of
                      None \<Rightarrow> None
                    | Some key \<Rightarrow>
                        if jwtVerify (il_jwt lb) raw key (sg_issuer s) audience 0 now
                        then Some claims else None)))"

definition JWKS :: "signer \<Rightarrow> json" where
  "JWKS s =
     JObj [(''keys'', JArr (map (\<lambda>i.
       JObj [(''alg'', JStr ''EdDSA''), (''crv'', JStr ''Ed25519''), (''kid'', JStr i),
             (''kty'', JStr ''OKP''), (''use'', JStr ''sig''),
             (''x'', JStr (b64_encode (the (map_of (sg_publicKeys s) i))))])
       (sort (map fst (sg_publicKeys s)))))]"

subsection \<open>Facts\<close>

lemma nat_text_no: "c \<in> set (nat_text n) \<Longrightarrow> is_digit c"
  using nat_text_digits [of n] by (auto simp: list_all_iff)

lemma nat_text_sep: "CHR ''$'' \<notin> set (nat_text n)" "CHR '','' \<notin> set (nat_text n)" "CHR ''='' \<notin> set (nat_text n)"
  using nat_text_no [of _ n] by (fastforce simp: is_digit_def between_def)+

lemma argon_parameters_text:
  assumes "m < 2 ^ 32" "t < 2 ^ 32" "p < 2 ^ 32"
  shows "argon_parameters (SplitOn CHR '','' (''m='' @ nat_text m @ '',t='' @ nat_text t @ '',p='' @ nat_text p))
    Map.empty = Some [''m'' \<mapsto> m, ''t'' \<mapsto> t, ''p'' \<mapsto> p]"
proof -
  have "''m='' @ nat_text m @ '',t='' @ nat_text t @ '',p='' @ nat_text p
      = (''m='' @ nat_text m) @ CHR '','' # (''t='' @ nat_text t) @ CHR '','' # (''p='' @ nat_text p)"
    by simp
  moreover have "SplitOn CHR '','' \<dots> = [''m='' @ nat_text m, ''t='' @ nat_text t, ''p='' @ nat_text p]"
    by (subst SplitOn_append; simp add: nat_text_sep del: append_assoc)+
       (simp add: SplitOn_no_sep nat_text_sep)
  ultimately show ?thesis using assms by (simp add: cut_equals_def ParseNat_nat_text)
qed

lemma encoded_hash_parts:
  "SplitOn CHR ''$'' (encoded_hash lb h password salt) =
     ['''', ''argon2id'', ''v=19'',
      ''m='' @ nat_text (ph_memory h) @ '',t='' @ nat_text (ph_time h) @ '',p='' @ nat_text (ph_threads h),
      raw_std_encode salt,
      raw_std_encode (il_argon lb password salt (ph_time h) (ph_memory h) (ph_threads h) (ph_keyLen h))]"
proof -
  define ps where "ps = ''m='' @ nat_text (ph_memory h) @ '',t='' @ nat_text (ph_time h) @ '',p='' @ nat_text (ph_threads h)"
  define key where "key = raw_std_encode (il_argon lb password salt (ph_time h) (ph_memory h) (ph_threads h) (ph_keyLen h))"
  have "encoded_hash lb h password salt
      = [] @ CHR ''$'' # ''argon2id'' @ CHR ''$'' # ''v=19'' @ CHR ''$'' # ps @ CHR ''$'' # raw_std_encode salt @ CHR ''$'' # key"
    by (simp add: encoded_hash_def ps_def key_def)
  moreover have "CHR ''$'' \<notin> set ps" "CHR ''$'' \<notin> set key"
    by (simp_all add: ps_def key_def nat_text_sep raw_std_encode_chars)
  ultimately have "SplitOn CHR ''$'' (encoded_hash lb h password salt)
      = ['''', ''argon2id'', ''v=19'', ps, raw_std_encode salt, key]"
    using SplitOn_append [of "CHR ''$''" "''argon2id''"] SplitOn_append [of "CHR ''$''" "''v=19''"]
    by (simp add: SplitOn_append SplitOn_no_sep raw_std_encode_chars)
  then show ?thesis by (simp add: ps_def key_def)
qed

lemma verify_encoded:
  assumes "argon_bounds (ph_memory h) (ph_time h) (ph_threads h)"
    and "8 \<le> length salt" "length salt \<le> 64" "16 \<le> ph_keyLen h" "ph_keyLen h \<le> 64"
    and "length (il_argon lb password salt (ph_time h) (ph_memory h) (ph_threads h) (ph_keyLen h)) = ph_keyLen h"
  shows "password_Verify lb candidate (encoded_hash lb h password salt) \<longleftrightarrow>
    il_argon lb candidate salt (ph_time h) (ph_memory h) (ph_threads h) (ph_keyLen h)
      = il_argon lb password salt (ph_time h) (ph_memory h) (ph_threads h) (ph_keyLen h)"
proof -
  have "ph_memory h < 2 ^ 32" "ph_time h < 2 ^ 32" "ph_threads h < 2 ^ 32"
    using assms(1) by (simp_all add: argon_bounds_def)
  from argon_parameters_text [OF this] show ?thesis
    using assms unfolding password_Verify_def encoded_hash_parts
    by (simp add: raw_std_roundtrip not_less)
qed

end
