(* ===== verification/Identity_Limiter.thy ===== *)
theory Identity_Limiter
  imports Identity_Store
begin

section \<open>Identity: rate limiter and revocation marks\<close>

text \<open>
  \<^verbatim>\<open>apps/identity/internal/adapters/outbound/redis\<close>: the limits of the dimensions,
  the script that counts several keys at once, and the marks of revoked tokens.  A call to
  Redis is one atomic statement that may fail, applied or not.
\<close>

definition onRedis :: "(redis_db session, 'e, 'a) act \<Rightarrow> (id_state, 'e, 'a) act" where
  "onRedis m =
     zoom (\<lambda>s. \<lparr>work = rates s, durable = rates s, tick = tick s\<rparr>)
       (\<lambda>t s. s\<lparr>rates := durable t, tick := tick t\<rparr>) m"

text \<open>The maximum and the window, in nanoseconds, of a dimension.\<close>

type_synonym rate_limits = "string \<Rightarrow> (int \<times> int) option"

definition NewRateLimiterWithSources ::
  "int \<Rightarrow> int \<Rightarrow> int \<Rightarrow> int \<Rightarrow> int \<Rightarrow> int \<Rightarrow> int \<Rightarrow> int \<Rightarrow> rate_limits" where
  "NewRateLimiterWithSources login refresh reset service loginSource refreshSource resetSource
     serviceSource =
     [''login-account'' \<mapsto> (login, minutes 15), ''login-source'' \<mapsto> (loginSource, minutes 15),
      ''refresh-account'' \<mapsto> (refresh, minutes 1), ''refresh-source'' \<mapsto> (refreshSource, minutes 1),
      ''reset-account'' \<mapsto> (reset, hours 1), ''reset-source'' \<mapsto> (resetSource, hours 1),
      ''service-token-account'' \<mapsto> (service, minutes 1),
      ''service-token-source'' \<mapsto> (serviceSource, minutes 1),
      ''register-account'' \<mapsto> (login, minutes 15), ''register-source'' \<mapsto> (loginSource, minutes 15),
      ''login-global'' \<mapsto> (loginSource * 10, minutes 15),
      ''register-global'' \<mapsto> (loginSource * 10, minutes 15),
      ''refresh-global'' \<mapsto> (refreshSource * 10, minutes 1),
      ''reset-global'' \<mapsto> (resetSource * 10, hours 1),
      ''service-token-global'' \<mapsto> (serviceSource * 10, minutes 1)]"

definition limit_of :: "rate_limits \<Rightarrow> string \<Rightarrow> int \<times> int" where
  "limit_of limits key =
     (case limits (takeWhile (\<lambda>c. c \<noteq> CHR '':'') key) of None \<Rightarrow> (30, minutes 1) | Some l \<Rightarrow> l)"

definition rate_key :: "golib \<Rightarrow> string \<Rightarrow> string" where
  "rate_key gl key = ''identity:rate:'' @ digest gl key"

text \<open>\<^verbatim>\<open>Client.Allow\<close>: increment, expiry if there is none, and the comparison.\<close>

definition client_Allow :: "golib \<Rightarrow> string \<Rightarrow> int \<Rightarrow> int \<Rightarrow> (redis_db, bool) query" where
  "client_Allow gl key limit window = (\<lambda>env now db.
     let db' = incr_expire (instant now) (rate_key gl key) (window div 1000000000) db
     in Inr (live (instant now) db' (rate_key gl key) \<le> limit, db'))"

text \<open>The loop of the script: key, limit and window in seconds.\<close>

fun count_all :: "int \<Rightarrow> (string \<times> int \<times> int) list \<Rightarrow> redis_db \<Rightarrow> bool \<times> redis_db" where
  "count_all now [] db = (True, db)"
| "count_all now ((key, limit, window) # rest) db =
     (let db' = incr_expire now key window db;
          (ok, db'') = count_all now rest db'
      in (live now db' key \<le> limit \<and> ok, db''))"

definition allowManyScript :: "(string \<times> int \<times> int) list \<Rightarrow> (redis_db, bool) query" where
  "allowManyScript requests = (\<lambda>env now db. Inr (count_all (instant now) requests db))"

definition limiter_Allow :: "golib \<Rightarrow> rate_limits \<Rightarrow> string \<Rightarrow> bool iact" where
  "limiter_Allow gl limits key =
     (case limit_of limits key of
        (limit, window) \<Rightarrow> onRedis (autoQ mapDatabaseError (client_Allow gl key limit window)))"

definition rate_request :: "golib \<Rightarrow> rate_limits \<Rightarrow> string \<Rightarrow> string \<times> int \<times> int" where
  "rate_request gl limits key =
     (case limit_of limits key of (limit, window) \<Rightarrow> (rate_key gl key, limit, window div 1000000000))"

definition AllowMany :: "golib \<Rightarrow> rate_limits \<Rightarrow> string list \<Rightarrow> bool iact" where
  "AllowMany gl limits keys =
     (if keys = [] then ret True
      else onRedis (autoQ mapDatabaseError (allowManyScript (map (rate_request gl limits) keys))))"

subsection \<open>Revocation marks\<close>

text \<open>
  \<^verbatim>\<open>SET key 1\<close> with an expiry, and \<^verbatim>\<open>EXISTS\<close>; one effect each, that may
  fail.
\<close>

definition revoked_key :: "golib \<Rightarrow> string \<Rightarrow> string" where
  "revoked_key gl jti = ''identity:revoked:'' @ digest gl jti"

definition Revoke :: "golib \<Rightarrow> string \<Rightarrow> int \<Rightarrow> unit iact" where
  "Revoke gl jti ttl =
     (if ttl \<le> 0 then ret ()
      else (\<lambda>env s.
        let s' = s\<lparr>revoked_marks := (revoked_key gl jti, instant (nowAt env (tick s)) + ttl) # revoked_marks s\<rparr>
        in case failAt env (tick s) of
             None \<Rightarrow> (Inr (), tickOn s')
           | Some f \<Rightarrow> (Inl (mapDatabaseError (db_fault f)), tickOn (if ackLost env (tick s) then s' else s))))"

definition IsRevoked :: "golib \<Rightarrow> string \<Rightarrow> bool iact" where
  "IsRevoked gl jti = (\<lambda>env s.
     case failAt env (tick s) of
       Some f \<Rightarrow> (Inl (mapDatabaseError (db_fault f)), tickOn s)
     | None \<Rightarrow>
         (Inr (case map_of (revoked_marks s) (revoked_key gl jti) of
                 None \<Rightarrow> False | Some e \<Rightarrow> instant (nowAt env (tick s)) < e), tickOn s))"

end
