(* ===== verification/Identity_Service.thy ===== *)
theory Identity_Service
  imports Identity_Crypto Identity_Limiter
begin

section \<open>Identity: the application service\<close>

text \<open>
  \<^verbatim>\<open>apps/identity/internal/application/identity/service.go\<close>: registration, login,
  rotation of refresh tokens, logout, administration of users and roles, recovery, and the
  tokens of services.  The body of every transaction is a definition of its own, so that the
  interleavings of concurrent requests can be stated over them.  The limiter and the mailer
  are interfaces.
\<close>

record id_limiter =
  lm_Allow :: "string \<Rightarrow> bool iact"
  lm_AllowMany :: "(string list \<Rightarrow> bool iact) option"

record id_service =
  is_lib :: id_lib
  is_hasher :: password_hasher
  is_signer :: "signer option"
  is_limiter :: "id_limiter option"
  is_mailer :: "(string \<Rightarrow> string \<Rightarrow> string \<Rightarrow> unit iact) option"
  is_humanAudience :: string
  is_machineAudience :: string

definition accessTokenTTL :: int where "accessTokenTTL = minutes 10"
definition machineTokenTTL :: int where "machineTokenTTL = minutes 5"
definition refreshTokenTTL :: int where "refreshTokenTTL = hours (30 * 24)"
definition resetTokenTTL :: int where "resetTokenTTL = minutes 30"
definition verifyTokenTTL :: int where "verifyTokenTTL = hours 24"

definition ttl_seconds :: "int \<Rightarrow> int" where
  "ttl_seconds ttl = ttl div 1000000000"

record credentials =
  cd_AccessToken :: string
  cd_RefreshToken :: string
  cd_AccessTokenExpiresIn :: int
  cd_RefreshExpiresIn :: int

record machine_credentials =
  mc_AccessToken :: string
  mc_ExpiresIn :: int

subsection \<open>Helpers\<close>

definition userRef :: "string \<Rightarrow> string" where
  "userRef uid = ''usr_'' @ filter (\<lambda>c. c \<noteq> CHR ''-'') uid"

fun first_seen :: "string list \<Rightarrow> string list \<Rightarrow> string list" where
  "first_seen seen [] = []"
| "first_seen seen (x # xs) =
     (if x \<in> set seen then first_seen seen xs else x # first_seen (x # seen) xs)"

definition roleNames :: "role_permission list \<Rightarrow> string list" where
  "roleNames values = sort (first_seen [] (map gr_Role values))"

definition scopeNames :: "role_permission list \<Rightarrow> string list" where
  "scopeNames values = sort (first_seen [] (map gr_Scope values))"

definition identityKey :: "id_lib \<Rightarrow> string \<Rightarrow> string" where
  "identityKey lb v = hex_encode (sha256 (il_go lb) v)"

definition optional :: "string \<Rightarrow> string option" where
  "optional v = (if v = '''' then None else Some v)"

definition nullableValue :: "string \<Rightarrow> json" where
  "nullableValue v = (if v = '''' then JNull else JStr v)"

definition validateEmail :: "id_lib \<Rightarrow> string \<Rightarrow> ierr option" where
  "validateEmail lb email =
     (let normalized = NormalizeEmail email in
      case il_address lb normalized of
        None \<Rightarrow> Some (idErr ErrInvalidInput)
      | Some address \<Rightarrow>
          if address \<noteq> normalized \<or> 320 < length normalized then Some (idErr ErrInvalidInput) else None)"

definition bad_password :: "string \<Rightarrow> bool" where
  "bad_password password \<longleftrightarrow> length password < 12 \<or> 128 < length password"

definition validateCredentials :: "id_lib \<Rightarrow> string \<Rightarrow> string \<Rightarrow> ierr option" where
  "validateCredentials lb email password =
     (if validateEmail lb email \<noteq> None \<or> bad_password password then Some (idErr ErrConflict) else None)"

definition allow :: "id_service \<Rightarrow> string \<Rightarrow> unit iact" where
  "allow sv key =
     (case is_limiter sv of
        None \<Rightarrow> ret ()
      | Some l \<Rightarrow>
          bindA (tryA (lm_Allow l key)) (\<lambda>r.
          case r of
            Inl _ \<Rightarrow> throw (idErr ErrDependency)
          | Inr ok \<Rightarrow> if ok then ret () else throw (idErr ErrRateLimited)))"

definition dimension_keys :: "id_lib \<Rightarrow> string \<Rightarrow> string \<Rightarrow> string \<Rightarrow> string list" where
  "dimension_keys lb kind account source =
     [kind @ ''-account:'' @ identityKey lb account, kind @ ''-global:'' @ kind]
     @ (if TrimSpace source \<noteq> '''' then [kind @ ''-source:'' @ identityKey lb source] else [])"

definition allowDimensions :: "id_service \<Rightarrow> string \<Rightarrow> string \<Rightarrow> string \<Rightarrow> unit iact" where
  "allowDimensions sv kind account source =
     (let keys = dimension_keys (is_lib sv) kind account source in
      case Option.bind (is_limiter sv) lm_AllowMany of
        Some many \<Rightarrow>
          bindA (tryA (many keys)) (\<lambda>r.
          case r of
            Inl _ \<Rightarrow> throw (idErr ErrDependency)
          | Inr ok \<Rightarrow> if ok then ret () else throw (idErr ErrRateLimited))
      | None \<Rightarrow> forA keys (allow sv))"

definition nowUTC :: "gotime iact" where
  "nowUTC = bindA clockNow (\<lambda>t. ret (UTC t))"

definition service_Sign ::
  "id_service \<Rightarrow> string \<Rightarrow> string \<Rightarrow> string \<Rightarrow> string \<Rightarrow> string list \<Rightarrow> string list \<Rightarrow> int \<Rightarrow> string iact" where
  "service_Sign sv subject audience kind sessionID rs scopes ttl =
     (case is_signer sv of
        None \<Rightarrow> throw (otherErr ''token signer is not configured'')
      | Some s \<Rightarrow> Sign (is_lib sv) s subject audience kind sessionID rs scopes ttl)"

text \<open>A failed lookup is a wrong credential when nothing was found, else a failed dependency.\<close>

definition lookup_failed :: "ierr \<Rightarrow> ierr" where
  "lookup_failed e = (if errIs e ErrNotFound then idErr ErrInvalidCredentials else idErr ErrDependency)"

subsection \<open>Audit\<close>

record audit_input =
  ai_Action :: string
  ai_Outcome :: string
  ai_ActorID :: string
  ai_ActorType :: string
  ai_TargetID :: string
  ai_CorrelationID :: string
  ai_Role :: string
  ai_At :: gotime

definition audit_payload :: "golib \<Rightarrow> audit_input \<Rightarrow> string \<Rightarrow> string \<Rightarrow> json" where
  "audit_payload gl inp aggregateID eventID =
     JObj [(''aggregate_id'', JStr aggregateID), (''aggregate_type'', JStr ''security_audit''),
           (''causation_id'', JNull), (''correlation_id'', JStr (ai_CorrelationID inp)),
           (''data'',
            JObj [(''action'', JStr (ai_Action inp)), (''actor_id'', nullableValue (ai_ActorID inp)),
                  (''actor_type'', nullableValue (ai_ActorType inp)), (''outcome'', JStr (ai_Outcome inp)),
                  (''reason_code'', JNull), (''role'', nullableValue (ai_Role inp)),
                  (''target_id'', nullableValue (ai_TargetID inp)), (''target_type'', nullableValue ''user'')]),
           (''event_id'', JStr eventID), (''event_type'', JStr ''commerce.security.audit.v1''),
           (''occurred_at'', JStr (timeText gl (ai_At inp))), (''producer'', JStr ''identity''),
           (''schema_version'', jint 1)]"

definition plain_id :: "string \<Rightarrow> string" where
  "plain_id uid = filter (\<lambda>c. c \<noteq> CHR ''-'') uid"

definition recordAudit :: "id_service \<Rightarrow> audit_input \<Rightarrow> unit iact" where
  "recordAudit sv inp0 =
     (let inp = (if ai_CorrelationID inp0 = '''' then inp0\<lparr>ai_CorrelationID := ''identity''\<rparr> else inp0) in
      bindA newUUID (\<lambda>auditID. let aggregateID = ''aud_'' @ plain_id auditID in
      bindA newUUID (\<lambda>outboxID. let eventID = ''evt_'' @ plain_id outboxID in
      bindA (tx_RecordAudit
        \<lparr>ad_ID = auditID, ad_ActorID = optional (ai_ActorID inp), ad_ActorType = optional (ai_ActorType inp),
         ad_Action = ai_Action inp, ad_TargetType = optional ''user'', ad_TargetID = optional (ai_TargetID inp),
         ad_Metadata = JObj [], ad_CorrelationID = ai_CorrelationID inp, ad_OccurredAt = ai_At inp\<rparr>) (\<lambda>_.
      tx_RecordOutbox
        \<lparr>ox_ID = outboxID, ox_EventType = ''commerce.security.audit.v1'', ox_AggregateType = ''security_audit'',
         ox_AggregateID = aggregateID,
         ox_Payload = audit_payload (il_go (is_lib sv)) inp aggregateID eventID,
         ox_Headers = JObj [(''event_id'', JStr eventID)], ox_CreatedAt = ai_At inp\<rparr>))))"

definition audit ::
  "string \<Rightarrow> string \<Rightarrow> string \<Rightarrow> string \<Rightarrow> string \<Rightarrow> string \<Rightarrow> string \<Rightarrow> gotime \<Rightarrow> audit_input" where
  "audit action outcome actorID actorType targetID correlationID role at =
     \<lparr>ai_Action = action, ai_Outcome = outcome, ai_ActorID = actorID, ai_ActorType = actorType,
      ai_TargetID = targetID, ai_CorrelationID = correlationID, ai_Role = role, ai_At = at\<rparr>"

subsection \<open>Registration\<close>

record register_input =
  ri_Email :: string
  ri_Password :: string
  ri_SourceKey :: string
  ri_CorrelationID :: string

definition register_tx ::
  "id_service \<Rightarrow> user \<Rightarrow> string \<Rightarrow> string \<Rightarrow> string \<Rightarrow> gotime \<Rightarrow> user iact" where
  "register_tx sv u verificationID verificationHash correlationID now =
     bindA (tx_CreateUser u) (\<lambda>created.
     bindA (tx_AssignRole (us_ID created) ''customer'' now None) (\<lambda>_.
     bindA (tx_CreateVerificationToken verificationID (us_ID created) verificationHash
              (plus_ns now verifyTokenTTL) now) (\<lambda>_.
     bindA (recordAudit sv (audit ''register.succeeded'' ''success'' '''' '''' (userRef (us_ID created))
              correlationID '''' now)) (\<lambda>_.
     ret created))))"

definition send_mail :: "id_service \<Rightarrow> string \<Rightarrow> string \<Rightarrow> string \<Rightarrow> unit iact" where
  "send_mail sv kind recipient token =
     (case is_mailer sv of None \<Rightarrow> ret () | Some send \<Rightarrow> send kind recipient token)"

definition Register :: "id_service \<Rightarrow> register_input \<Rightarrow> user iact" where
  "Register sv inp =
     (case validateCredentials (is_lib sv) (ri_Email inp) (ri_Password inp) of
        Some e \<Rightarrow> throw e
      | None \<Rightarrow>
          bindA (allowDimensions sv ''register'' (NormalizeEmail (ri_Email inp)) (ri_SourceKey inp)) (\<lambda>_.
          bindA (Hash (is_lib sv) (is_hasher sv) (ri_Password inp)) (\<lambda>hash.
          bindA (NewOpaque (is_lib sv) 32) (\<lambda>(verificationToken, verificationHash).
          bindA nowUTC (\<lambda>now.
          bindA newUUID (\<lambda>userID.
          bindA newUUID (\<lambda>verificationID.
          let u = \<lparr>us_ID = userID, us_Email = TrimSpace (ri_Email inp),
                   us_EmailNormalized = NormalizeEmail (ri_Email inp), us_PasswordHash = hash,
                   us_Status = UserPendingVerification, us_EmailVerifiedAt = None,
                   us_CreatedAt = now, us_UpdatedAt = now\<rparr> in
          bindA (WithTransaction (register_tx sv u verificationID verificationHash
                   (ri_CorrelationID inp) now)) (\<lambda>created.
          bindA (send_mail sv ''email-verification'' (us_Email created) verificationToken) (\<lambda>_.
          ret created)))))))))"

subsection \<open>Login and refresh\<close>

definition session_tx ::
  "id_service \<Rightarrow> login_session \<Rightarrow> string \<Rightarrow> string \<Rightarrow> string \<Rightarrow> gotime \<Rightarrow> unit iact" where
  "session_tx sv s refreshHash correlationID action now =
     bindA (tx_CreateSession s refreshHash None None) (\<lambda>_.
     recordAudit sv (audit action ''success'' (userRef (se_UserID s)) ''user'' (userRef (se_ID s))
       correlationID '''' now))"

definition new_session :: "string \<Rightarrow> string \<Rightarrow> string \<Rightarrow> string option \<Rightarrow> gotime \<Rightarrow> login_session" where
  "new_session sid familyID uid rotatedFrom now =
     \<lparr>se_ID = sid, se_FamilyID = familyID, se_UserID = uid, se_Status = SessionActive,
      se_RotatedFromSessionID = rotatedFrom, se_ExpiresAt = plus_ns now refreshTokenTTL,
      se_RevokedAt = None, se_CreatedAt = now, se_LastUsedAt = Some now\<rparr>"

definition issued :: "string \<Rightarrow> string \<Rightarrow> credentials" where
  "issued access refresh =
     \<lparr>cd_AccessToken = access, cd_RefreshToken = refresh,
      cd_AccessTokenExpiresIn = ttl_seconds accessTokenTTL,
      cd_RefreshExpiresIn = ttl_seconds refreshTokenTTL\<rparr>"

definition createSession ::
  "id_service \<Rightarrow> user \<Rightarrow> role_permission list \<Rightarrow> string \<Rightarrow> string \<Rightarrow> credentials iact" where
  "createSession sv u rs correlationID action =
     bindA nowUTC (\<lambda>now.
     bindA newUUID (\<lambda>sessionID.
     bindA newUUID (\<lambda>familyID.
     bindA (NewOpaque (is_lib sv) 32) (\<lambda>(refresh, refreshHash).
     bindA (service_Sign sv (userRef (us_ID u)) (is_humanAudience sv) ''human'' sessionID (roleNames rs)
              (scopeNames rs) accessTokenTTL) (\<lambda>access.
     bindA (WithTransaction (session_tx sv (new_session sessionID familyID (us_ID u) None now)
              refreshHash correlationID action now)) (\<lambda>_.
     ret (issued access refresh)))))))"

record login_input =
  lg_Email :: string
  lg_Password :: string
  lg_CorrelationID :: string
  lg_SourceKey :: string

definition may_login :: "id_service \<Rightarrow> user \<Rightarrow> string \<Rightarrow> bool" where
  "may_login sv u password \<longleftrightarrow>
     us_Status u = UserActive \<and> us_EmailVerifiedAt u \<noteq> None
     \<and> password_Verify (is_lib sv) password (us_PasswordHash u)"

definition Login ::
  "id_service \<Rightarrow> login_input \<Rightarrow> (credentials \<times> user \<times> role_permission list) iact" where
  "Login sv inp =
     (if validateCredentials (is_lib sv) (lg_Email inp) (lg_Password inp) \<noteq> None
      then throw (idErr ErrInvalidCredentials)
      else
        bindA (allowDimensions sv ''login'' (NormalizeEmail (lg_Email inp)) (lg_SourceKey inp)) (\<lambda>_.
        bindA (onErr lookup_failed (FindUserByEmail (NormalizeEmail (lg_Email inp)))) (\<lambda>u.
        if \<not> may_login sv u (lg_Password inp) then throw (idErr ErrInvalidCredentials)
        else
          bindA (UserRoles (us_ID u)) (\<lambda>rs.
          bindA (createSession sv u rs (lg_CorrelationID inp) ''login.succeeded'') (\<lambda>c.
          ret (c, u, rs))))))"

definition reuse_error :: ierr where
  "reuse_error = wrapErr (idErr ErrInvalidCredentials) (idErr ErrRefreshReuse)"

text \<open>The reaction to a token that is used again: revoke the family.\<close>

definition reuse_tx :: "id_service \<Rightarrow> user \<Rightarrow> login_session \<Rightarrow> string \<Rightarrow> gotime \<Rightarrow> unit iact" where
  "reuse_tx sv u s correlationID now =
     bindA (tx_RevokeSessionFamily (se_FamilyID s) now ''refresh_reuse'') (\<lambda>_.
     recordAudit sv (audit ''refresh.reuse_detected'' ''failure'' (userRef (us_ID u)) ''user''
       (userRef (se_ID s)) correlationID '''' now))"

text \<open>The rotation; the result tells whether reuse was detected.\<close>

definition rotate_tx ::
  "id_service \<Rightarrow> user \<Rightarrow> login_session \<Rightarrow> string \<Rightarrow> string \<Rightarrow> string \<Rightarrow> gotime \<Rightarrow> bool iact" where
  "rotate_tx sv u s replacementID refreshHash correlationID now =
     bindA (tryA (tx_LockActiveSession (se_ID s))) (\<lambda>lock.
     case lock of
       Inl e \<Rightarrow>
         if \<not> errIs e ErrNotFound then throw e
         else bindA (reuse_tx sv u s correlationID now) (\<lambda>_. ret True)
     | Inr _ \<Rightarrow>
         bindA (tx_CreateSession
                  (new_session replacementID (se_FamilyID s) (us_ID u) (Some (se_ID s)) now)
                  refreshHash None None) (\<lambda>_.
         bindA (tx_RotateSession (se_ID s) replacementID now) (\<lambda>rotated.
         if rotated \<noteq> 1 then bindA (reuse_tx sv u s correlationID now) (\<lambda>_. ret True)
         else
           bindA (recordAudit sv (audit ''refresh.succeeded'' ''success'' (userRef (us_ID u)) ''user''
                    (userRef (se_ID s)) correlationID '''' now)) (\<lambda>_.
           ret False))))"

record refresh_input =
  rf_RefreshToken :: string
  rf_CorrelationID :: string
  rf_SourceKey :: string

definition Refresh ::
  "id_service \<Rightarrow> refresh_input \<Rightarrow> (credentials \<times> user \<times> role_permission list) iact" where
  "Refresh sv inp =
     (if rf_RefreshToken inp = '''' then throw (idErr ErrInvalidCredentials)
      else
        bindA (allowDimensions sv ''refresh'' (rf_RefreshToken inp) (rf_SourceKey inp)) (\<lambda>_.
        bindA (onErr lookup_failed
                 (FindSessionByRefreshHash (HashOpaque (is_lib sv) (rf_RefreshToken inp)))) (\<lambda>s.
        bindA nowUTC (\<lambda>now.
        bindA (onErr lookup_failed (FindUser (se_UserID s))) (\<lambda>u.
        if \<not> session_IsUsable s now \<or> us_Status u \<noteq> UserActive then
          bindA (onErr (\<lambda>_. idErr ErrDependency)
                   (WithTransaction (reuse_tx sv u s (rf_CorrelationID inp) now))) (\<lambda>_.
          throw reuse_error)
        else
          bindA (UserRoles (us_ID u)) (\<lambda>rs.
          bindA (NewOpaque (is_lib sv) 32) (\<lambda>(refresh, refreshHash).
          bindA newUUID (\<lambda>replacementID.
          bindA (service_Sign sv (userRef (us_ID u)) (is_humanAudience sv) ''human'' replacementID
                   (roleNames rs) (scopeNames rs) accessTokenTTL) (\<lambda>access.
          bindA (WithTransaction (rotate_tx sv u s replacementID refreshHash (rf_CorrelationID inp) now))
            (\<lambda>reuseDetected.
          if reuseDetected then throw reuse_error
          else ret (issued access refresh, u, rs)))))))))))"

subsection \<open>Sessions\<close>

definition logout_tx :: "id_service \<Rightarrow> string \<Rightarrow> string \<Rightarrow> string \<Rightarrow> gotime \<Rightarrow> unit iact" where
  "logout_tx sv userID sessionID correlationID now =
     bindA (tx_RevokeSession sessionID now ''logout'') (\<lambda>_.
     recordAudit sv (audit ''logout.succeeded'' ''success'' (userRef userID) ''user'' (userRef sessionID)
       correlationID '''' now))"

definition Logout :: "id_service \<Rightarrow> string \<Rightarrow> string \<Rightarrow> string \<Rightarrow> unit iact" where
  "Logout sv userID sessionID correlationID =
     bindA nowUTC (\<lambda>now. WithTransaction (logout_tx sv userID sessionID correlationID now))"

definition logout_all_tx :: "id_service \<Rightarrow> string \<Rightarrow> string \<Rightarrow> gotime \<Rightarrow> unit iact" where
  "logout_all_tx sv userID correlationID now =
     bindA (tx_RevokeUserSessions userID now ''logout_all'') (\<lambda>_.
     recordAudit sv (audit ''logout_all.succeeded'' ''success'' (userRef userID) ''user'' (userRef userID)
       correlationID '''' now))"

definition LogoutAll :: "id_service \<Rightarrow> string \<Rightarrow> string \<Rightarrow> unit iact" where
  "LogoutAll sv userID correlationID =
     bindA nowUTC (\<lambda>now. WithTransaction (logout_all_tx sv userID correlationID now))"

definition Sessions :: "string \<Rightarrow> login_session list iact" where
  "Sessions userID = ListSessions userID"

definition SessionsPage :: "string \<Rightarrow> session_page_query \<Rightarrow> session_page iact" where
  "SessionsPage userID query = ListSessionsPage userID query"

definition UsersPage :: "user_page_query \<Rightarrow> user_page iact" where
  "UsersPage query = ListUsersPage query"

definition IsSessionActive :: "string \<Rightarrow> bool iact" where
  "IsSessionActive sessionID =
     bindA (FindSessionByID sessionID) (\<lambda>s.
     bindA clockNow (\<lambda>now.
     ret (session_IsUsable s now)))"

definition Service_User :: "string \<Rightarrow> (user \<times> role_permission list) iact" where
  "Service_User userID =
     bindA (FindUser userID) (\<lambda>u. bindA (UserRoles userID) (\<lambda>rs. ret (u, rs)))"

subsection \<open>Administration\<close>

text \<open>An administrator may be taken away only if another one is left.\<close>

definition guard_administrators :: "string \<Rightarrow> unit iact" where
  "guard_administrators targetID =
     bindA (tx_HasActiveRole targetID ''admin'') (\<lambda>isAdmin.
     if isAdmin then
       bindA tx_CountActiveAdministrators (\<lambda>administrators.
       if administrators \<le> 1 then throw (idErr ErrConflict) else ret ())
     else ret ())"

definition status_tx ::
  "id_service \<Rightarrow> string \<Rightarrow> string \<Rightarrow> string \<Rightarrow> string \<Rightarrow> gotime \<Rightarrow> unit iact" where
  "status_tx sv targetID status actorID correlationID now =
     bindA (if status = UserDisabled then guard_administrators targetID else ret ()) (\<lambda>_.
     bindA (tx_UpdateUserStatus targetID status now) (\<lambda>updated.
     if updated = 0 then throw (idErr ErrNotFound)
     else
       bindA (if status = UserDisabled then tx_RevokeUserSessions targetID now ''user_disabled''
              else ret ()) (\<lambda>_.
       recordAudit sv (audit (if status = UserDisabled then ''user.disabled'' else ''user.enabled'')
         ''success'' (userRef actorID) ''user'' (userRef targetID) correlationID '''' now))))"

definition ChangeUserStatus :: "id_service \<Rightarrow> string \<Rightarrow> string \<Rightarrow> string \<Rightarrow> string \<Rightarrow> unit iact" where
  "ChangeUserStatus sv targetID status actorID correlationID =
     (if status \<noteq> UserActive \<and> status \<noteq> UserDisabled then throw (idErr ErrConflict)
      else bindA nowUTC (\<lambda>now.
           WithTransaction (status_tx sv targetID status actorID correlationID now)))"

definition assign_tx ::
  "id_service \<Rightarrow> string \<Rightarrow> string \<Rightarrow> string \<Rightarrow> string \<Rightarrow> gotime \<Rightarrow> unit iact" where
  "assign_tx sv targetID actorID role correlationID now =
     bindA (tx_AssignRole targetID role now (Some actorID)) (\<lambda>assigned.
     if assigned = 0 then throw (idErr ErrNotFound)
     else recordAudit sv (audit ''role.assigned'' ''success'' (userRef actorID) ''user''
            (userRef targetID) correlationID role now))"

definition AssignRole :: "id_service \<Rightarrow> string \<Rightarrow> string \<Rightarrow> string \<Rightarrow> string \<Rightarrow> unit iact" where
  "AssignRole sv targetID actorID role correlationID =
     bindA (FindRole role) (\<lambda>_.
     bindA nowUTC (\<lambda>now.
     WithTransaction (assign_tx sv targetID actorID role correlationID now)))"

definition remove_tx ::
  "id_service \<Rightarrow> string \<Rightarrow> string \<Rightarrow> string \<Rightarrow> string \<Rightarrow> gotime \<Rightarrow> unit iact" where
  "remove_tx sv targetID actorID role correlationID now =
     bindA (if role = ''admin'' then guard_administrators targetID else ret ()) (\<lambda>_.
     bindA (tx_RemoveRole targetID role) (\<lambda>removed.
     if removed = 0 then throw (idErr ErrNotFound)
     else recordAudit sv (audit ''role.removed'' ''success'' (userRef actorID) ''user''
            (userRef targetID) correlationID role now)))"

definition RemoveRole :: "id_service \<Rightarrow> string \<Rightarrow> string \<Rightarrow> string \<Rightarrow> string \<Rightarrow> unit iact" where
  "RemoveRole sv targetID actorID role correlationID =
     bindA nowUTC (\<lambda>now.
     WithTransaction (remove_tx sv targetID actorID role correlationID now))"

subsection \<open>Recovery\<close>

definition reset_request_tx ::
  "id_service \<Rightarrow> string \<Rightarrow> string \<Rightarrow> string \<Rightarrow> string \<Rightarrow> gotime \<Rightarrow> unit iact" where
  "reset_request_tx sv tokenID userID hash correlationID now =
     bindA (tx_CreateResetToken tokenID userID hash (plus_ns now resetTokenTTL) now) (\<lambda>_.
     recordAudit sv (audit ''password_reset.requested'' ''success'' '''' '''' (userRef userID)
       correlationID '''' now))"

definition requestPasswordReset :: "id_service \<Rightarrow> string \<Rightarrow> string \<Rightarrow> string \<Rightarrow> unit iact" where
  "requestPasswordReset sv email sourceKey correlationID =
     (case validateEmail (is_lib sv) email of
        Some e \<Rightarrow> throw e
      | None \<Rightarrow>
          bindA (allowDimensions sv ''reset'' (NormalizeEmail email) sourceKey) (\<lambda>_.
          bindA (tryA (FindUserByEmail (NormalizeEmail email))) (\<lambda>found.
          case found of
            Inl e \<Rightarrow> if errIs e ErrNotFound then ret () else throw e
          | Inr u \<Rightarrow>
              bindA (NewOpaque (is_lib sv) 32) (\<lambda>(token, hash).
              bindA nowUTC (\<lambda>now.
              bindA newUUID (\<lambda>tokenID.
              bindA (WithTransaction (reset_request_tx sv tokenID (us_ID u) hash correlationID now)) (\<lambda>_.
              send_mail sv ''password-reset'' (us_Email u) token)))))))"

definition reset_confirm_tx ::
  "id_service \<Rightarrow> one_time_token \<Rightarrow> string \<Rightarrow> string \<Rightarrow> gotime \<Rightarrow> unit iact" where
  "reset_confirm_tx sv reset hash correlationID now =
     bindA (tx_UpdatePassword (ot_UserID reset) hash now) (\<lambda>_.
     bindA (tx_RevokeUserSessions (ot_UserID reset) now ''password_reset'') (\<lambda>_.
     bindA (tx_ConsumeResetToken (ot_ID reset) now) (\<lambda>consumed.
     if consumed \<noteq> 1 then throw (idErr ErrAlreadyUsed)
     else recordAudit sv (audit ''password_reset.completed'' ''success'' '''' ''''
            (userRef (ot_UserID reset)) correlationID '''' now))))"

text \<open>A failed lookup of a one-time token, whatever its reason, is an invalid credential.\<close>

definition usable_token :: "one_time_token iact \<Rightarrow> one_time_token iact" where
  "usable_token lookup =
     bindA (onErr (\<lambda>_. idErr ErrInvalidCredentials) lookup) (\<lambda>t.
     bindA clockNow (\<lambda>now.
     if token_IsUsable t now then ret t else throw (idErr ErrInvalidCredentials)))"

definition ConfirmPasswordReset :: "id_service \<Rightarrow> string \<Rightarrow> string \<Rightarrow> string \<Rightarrow> unit iact" where
  "ConfirmPasswordReset sv token password correlationID =
     (if bad_password password then throw (idErr ErrConflict)
      else
        bindA (usable_token (FindResetToken (HashOpaque (is_lib sv) token))) (\<lambda>reset.
        bindA (Hash (is_lib sv) (is_hasher sv) password) (\<lambda>hash.
        bindA nowUTC (\<lambda>now.
        WithTransaction (reset_confirm_tx sv reset hash correlationID now)))))"

definition verify_tx :: "id_service \<Rightarrow> one_time_token \<Rightarrow> string \<Rightarrow> gotime \<Rightarrow> unit iact" where
  "verify_tx sv verification correlationID now =
     bindA (tx_ConsumeVerificationToken (ot_ID verification) now) (\<lambda>consumed.
     if consumed \<noteq> 1 then throw (idErr ErrAlreadyUsed)
     else
       bindA (tx_MarkEmailVerified (ot_UserID verification) now) (\<lambda>updated.
       if updated = 0 then throw (idErr ErrInvalidCredentials)
       else recordAudit sv (audit ''email_verification.completed'' ''success'' '''' ''''
              (userRef (ot_UserID verification)) correlationID '''' now)))"

definition ConfirmEmail :: "id_service \<Rightarrow> string \<Rightarrow> string \<Rightarrow> unit iact" where
  "ConfirmEmail sv token correlationID =
     bindA (usable_token (FindVerificationToken (HashOpaque (is_lib sv) token))) (\<lambda>verification.
     bindA nowUTC (\<lambda>now.
     WithTransaction (verify_tx sv verification correlationID now)))"

subsection \<open>Service tokens\<close>

definition machine_tx :: "id_service \<Rightarrow> service_principal \<Rightarrow> string \<Rightarrow> gotime \<Rightarrow> unit iact" where
  "machine_tx sv caller correlationID now =
     bindA (tx_MarkServicePrincipalUsed (sp_ID caller) now) (\<lambda>_.
     recordAudit sv (audit ''service_token.issued'' ''success'' (''svc_'' @ sp_ClientID caller)
       ''service'' '''' correlationID '''' now))"

definition serviceToken ::
  "id_service \<Rightarrow> string \<Rightarrow> string \<Rightarrow> string list \<Rightarrow> string \<Rightarrow> string \<Rightarrow> machine_credentials iact" where
  "serviceToken sv clientID secret requested sourceKey correlationID =
     (if TrimSpace clientID = '''' \<or> secret = '''' \<or> requested = []
      then throw (idErr ErrInvalidCredentials)
      else
        bindA (allowDimensions sv ''service-token'' clientID sourceKey) (\<lambda>_.
        bindA (onErr lookup_failed (FindServicePrincipal clientID)) (\<lambda>caller.
        if sp_Status caller \<noteq> ''ACTIVE'' then throw (idErr ErrInvalidCredentials)
        else
          bindA clockNow (\<lambda>at.
          bindA (onErr lookup_failed (ActiveServiceCredentials (sp_ID caller) at)) (\<lambda>creds.
          if \<not> list_ex (\<lambda>c. password_Verify (is_lib sv) secret (sc_SecretHash c)) creds
          then throw (idErr ErrInvalidCredentials)
          else if \<not> list_all (\<lambda>scope. scope \<in> set (sp_Scopes caller)) requested
          then throw (idErr ErrForbidden)
          else
            bindA (service_Sign sv (''svc_'' @ sp_ClientID caller) (sp_Audience caller) ''service''
                     '''' [] requested machineTokenTTL) (\<lambda>access.
            bindA nowUTC (\<lambda>now.
            bindA (WithTransaction (machine_tx sv caller correlationID now)) (\<lambda>_.
            ret \<lparr>mc_AccessToken = access, mc_ExpiresIn = ttl_seconds machineTokenTTL\<rparr>))))))))"

end
