(* ===== verification/Identity_Transactions.thy ===== *)
theory Identity_Transactions
  imports Identity_Service
begin

section \<open>Identity: transactions\<close>

text \<open>
  What a committed transaction did.  A body runs only statements of the open transaction, so
  a call of \<^verbatim>\<open>WithTransaction\<close> leaves the tables alone or replaces them by what one
  complete run of the body made of them, whatever fails and whichever acknowledgement is lost.
\<close>

named_theorems tx_frames \<open>bodies of transactions touch only the tables they see\<close>

definition tx_frame :: "id_state \<Rightarrow> id_state \<Rightarrow> bool" where
  "tx_frame s t \<longleftrightarrow>
     durable t = durable s \<and> rates t = rates s \<and> revoked_marks t = revoked_marks s
     \<and> outgoing t = outgoing s"

interpretation xf: session_frame tx_frame
  by unfold_locales (auto simp: tx_frame_def)

lemma tickOn_ports [simp]:
  "rates (tickOn s) = rates s" "revoked_marks (tickOn s) = revoked_marks s"
  "outgoing (tickOn s) = outgoing s"
  by (simp_all add: tickOn_def)

lemma tx_frame_effects [tx_frames]:
  "keeps tx_frame (txQ q)" "keeps tx_frame newUUID" "keeps tx_frame clockNow"
  "keeps tx_frame getEnv"
  by (auto intro!: keepsI wp_stmt simp: txQ_def tx_frame_def wp_newUUID wp_clockNow wp_getEnv)

lemmas tx_methods = tx_CreateUser_def tx_CreateSession_def tx_LockActiveSession_def
  tx_RotateSession_def tx_RevokeSessionFamily_def tx_RevokeSession_def tx_RevokeUserSessions_def
  tx_UpdateUserStatus_def tx_UpdatePassword_def tx_AssignRole_def tx_RemoveRole_def
  tx_HasActiveRole_def tx_CountActiveAdministrators_def tx_CreateResetToken_def
  tx_ConsumeResetToken_def tx_CreateVerificationToken_def tx_ConsumeVerificationToken_def
  tx_MarkEmailVerified_def tx_MarkServicePrincipalUsed_def tx_RecordAudit_def tx_RecordOutbox_def

lemma recordAudit_frame [tx_frames]: "keeps tx_frame (recordAudit sv inp)"
  unfolding recordAudit_def tx_methods Let_def by (intro xf.keeps_rules tx_frames)

lemma reuse_tx_frame [tx_frames]: "keeps tx_frame (reuse_tx sv u s c now)"
  unfolding reuse_tx_def tx_methods by (intro xf.keeps_rules tx_frames)

lemma guard_administrators_frame [tx_frames]: "keeps tx_frame (guard_administrators i)"
  unfolding guard_administrators_def tx_methods by (intro xf.keeps_rules tx_frames)

lemma bodies_frame [tx_frames]:
  "keeps tx_frame (register_tx sv u vid vh c now)"
  "keeps tx_frame (session_tx sv s h c act now)"
  "keeps tx_frame (rotate_tx sv u s rid h c now)"
  "keeps tx_frame (logout_tx sv uid sid c now)"
  "keeps tx_frame (logout_all_tx sv uid c now)"
  "keeps tx_frame (status_tx sv i st by' c now)"
  "keeps tx_frame (assign_tx sv i by' role c now)"
  "keeps tx_frame (remove_tx sv i by' role c now)"
  "keeps tx_frame (reset_request_tx sv tid uid h c now)"
  "keeps tx_frame (reset_confirm_tx sv rst h c now)"
  "keeps tx_frame (verify_tx sv rst c now)"
  "keeps tx_frame (machine_tx sv p c now)"
  subgoal unfolding register_tx_def tx_methods by (intro xf.keeps_rules tx_frames)
  subgoal unfolding session_tx_def tx_methods by (intro xf.keeps_rules tx_frames)
  subgoal unfolding rotate_tx_def tx_methods by (intro xf.keeps_rules tx_frames)
  subgoal unfolding logout_tx_def tx_methods by (intro xf.keeps_rules tx_frames)
  subgoal unfolding logout_all_tx_def tx_methods by (intro xf.keeps_rules tx_frames)
  subgoal unfolding status_tx_def tx_methods by (intro xf.keeps_rules tx_frames)
  subgoal unfolding assign_tx_def tx_methods by (intro xf.keeps_rules tx_frames)
  subgoal unfolding remove_tx_def tx_methods by (intro xf.keeps_rules tx_frames)
  subgoal unfolding reset_request_tx_def tx_methods by (intro xf.keeps_rules tx_frames)
  subgoal unfolding reset_confirm_tx_def tx_methods by (intro xf.keeps_rules tx_frames)
  subgoal unfolding verify_tx_def tx_methods by (intro xf.keeps_rules tx_frames)
  subgoal unfolding machine_tx_def tx_methods by (intro xf.keeps_rules tx_frames)
  done

subsection \<open>Commits\<close>

definition committed :: "'a iact \<Rightarrow> identity_db \<Rightarrow> 'a \<Rightarrow> identity_db \<Rightarrow> bool" where
  "committed tx db x db' \<longleftrightarrow> (\<exists>env s t. work s = db \<and> tx env s = (Inr x, t) \<and> work t = db')"

lemma committed_wp:
  assumes "committed tx db x db'"
    and "\<And>env s. work s = db \<Longrightarrow> wp env tx (\<lambda>x t. P x (work t)) (\<lambda>_ _. True) s"
  shows "P x db'"
proof -
  obtain env s t where r: "work s = db" "tx env s = (Inr x, t)" "work t = db'"
    using assms(1) by (auto simp: committed_def)
  from wp_run [OF assms(2) [OF r(1)] r(2)] show ?thesis by (simp add: r(3))
qed

text \<open>\<open>ports s t\<close>: everything but the database and the counter of effects is the same.\<close>

definition ports :: "id_state \<Rightarrow> id_state \<Rightarrow> bool" where
  "ports s t \<longleftrightarrow>
     rates t = rates s \<and> revoked_marks t = revoked_marks s \<and> outgoing t = outgoing s"

lemma WithTransaction_wp:
  assumes "keeps tx_frame tx"
  shows "wp env (WithTransaction tx)
    (\<lambda>x t. committed tx (durable s) x (durable t) \<and> ports s t)
    (\<lambda>_ t. (durable t = durable s \<or> (\<exists>x. committed tx (durable s) x (durable t))) \<and> ports s t) s"
  unfolding WithTransaction_def wp_bindA wp_ret
proof (rule wp_beginTx)
  let ?s = "tickOn (s\<lparr>work := durable s\<rparr>)"
  show "wp env tx (\<lambda>x. wp env (commitTx mapDatabaseError)
      (\<lambda>_ t. committed tx (durable s) x (durable t) \<and> ports s t)
      (\<lambda>_ t. (durable t = durable s \<or> (\<exists>x. committed tx (durable s) x (durable t))) \<and> ports s t))
    (\<lambda>_ t. (durable t = durable s \<or> (\<exists>x. committed tx (durable s) x (durable t))) \<and> ports s t) ?s"
  proof (rule wp_I)
    fix x t
    assume run: "tx env ?s = (Inr x, t)"
    have "committed tx (durable s) x (work t)"
      unfolding committed_def using run by (intro exI [of _ env] exI [of _ ?s] exI [of _ t]) simp
    moreover have "tx_frame ?s t" by (rule keepsD [OF assms run])
    ultimately show "wp env (commitTx mapDatabaseError)
      (\<lambda>_ t. committed tx (durable s) x (durable t) \<and> ports s t)
      (\<lambda>_ t. (durable t = durable s \<or> (\<exists>x. committed tx (durable s) x (durable t))) \<and> ports s t) t"
      by (intro wp_commitTx) (auto simp: tx_frame_def ports_def tickOn_def)
  next
    fix e t
    assume "tx env ?s = (Inl e, t)"
    then have "tx_frame ?s t" by (rule keepsD [OF assms])
    then show "(durable t = durable s \<or> (\<exists>x. committed tx (durable s) x (durable t))) \<and> ports s t"
      by (simp add: tx_frame_def ports_def)
  qed
qed (simp add: ports_def)

subsection \<open>Effects of the bodies\<close>

lemma wp_txQ:
  "(\<And>x w. q env (nowAt env (tick s)) (work s) = Inr (x, w) \<Longrightarrow> Q x (tickOn (s\<lparr>work := w\<rparr>))) \<Longrightarrow>
   wp env (txQ q) Q (\<lambda>_ _. True) s"
  unfolding txQ_def by (rule wp_stmt) simp_all

text \<open>One audit record and one event, for the same action.\<close>

definition audited :: "audit_input \<Rightarrow> identity_db \<Rightarrow> identity_db \<Rightarrow> bool" where
  "audited inp db db' \<longleftrightarrow>
     (\<exists>a e. db' = db\<lparr>security_audit := security_audit db @ [a], audit_events := audit_events db @ [e]\<rparr>
        \<and> au_action a = ai_Action inp \<and> au_actor_id a = optional (ai_ActorID inp)
        \<and> au_target_id a = optional (ai_TargetID inp)
        \<and> ev_event_type e = ''commerce.security.audit.v1''
        \<and> ev_aggregate_id e = ''aud_'' @ plain_id (au_id a) \<and> ev_published_at e = None)"

lemma auditedI:
  "au_action a = ai_Action inp \<Longrightarrow> au_actor_id a = optional (ai_ActorID inp) \<Longrightarrow>
   au_target_id a = optional (ai_TargetID inp) \<Longrightarrow> ev_event_type e = ''commerce.security.audit.v1'' \<Longrightarrow>
   ev_aggregate_id e = ''aud_'' @ plain_id (au_id a) \<Longrightarrow> ev_published_at e = None \<Longrightarrow>
   audited inp db (db\<lparr>security_audit := security_audit db @ [a], audit_events := audit_events db @ [e]\<rparr>)"
  unfolding audited_def by blast

lemma recordAudit_post:

  assumes "\<And>t. audited inp (work s) (work t) \<Longrightarrow> Q () t"
  shows "wp env (recordAudit sv inp) Q (\<lambda>_ _. True) s"
proof -
  have "wp env (recordAudit sv inp) (\<lambda>_ t. audited inp (work s) (work t)) (\<lambda>_ _. True) s"
    unfolding recordAudit_def Let_def tx_RecordAudit_def tx_RecordOutbox_def wp_bindA wp_newUUID wp_getEnv
    by (intro wp_txQ)
      (auto simp: iq_InsertSecurityAudit_def iq_InsertOutboxEvent_def split: if_splits intro!: auditedI)
  then show ?thesis by (rule wp_mono) (use assms in auto)
qed

text \<open>\<open>exec q db x db'\<close>: the statement \<open>q\<close> takes the tables to \<open>db'\<close> and returns \<open>x\<close>.\<close>

definition exec :: "(identity_db, 'a) query \<Rightarrow> identity_db \<Rightarrow> 'a \<Rightarrow> identity_db \<Rightarrow> bool" where
  "exec q db x db' \<longleftrightarrow> (\<exists>env n. q env n db = Inr (x, db'))"

lemma wp_exec:
  "(\<And>x t. exec q (work s) x (work t) \<Longrightarrow> Q x t) \<Longrightarrow> wp env (txQ q) Q (\<lambda>_ _. True) s"
  by (rule wp_txQ) (simp add: exec_def, metis tickOn_simps(1) session.select_convs(1) session.surjective session.update_convs(1))

lemma session_tx_post:
  assumes "committed (session_tx sv s h c act now) db x db'"
  shows "\<exists>r w. exec (iq_CreateSession (se_ID s) (se_FamilyID s) (se_UserID s) h (se_ExpiresAt s)
      (se_CreatedAt s) None None (se_RotatedFromSessionID s)) db r w
    \<and> audited (audit act ''success'' (userRef (se_UserID s)) ''user'' (userRef (se_ID s)) c '''' now) w db'"
  using assms by (rule committed_wp)
    (unfold session_tx_def tx_methods wp_bindA wp_ret, intro wp_exec recordAudit_post, blast)

lemma reuse_tx_wp:
  assumes "\<And>t. \<exists>w. exec (iq_RevokeSessionFamily (se_FamilyID s) now ''refresh_reuse'') (work st) () w
      \<and> audited (audit ''refresh.reuse_detected'' ''failure'' (userRef (us_ID u)) ''user''
          (userRef (se_ID s)) c '''' now) w (work t) \<Longrightarrow> Q () t"
  shows "wp env (reuse_tx sv u s c now) Q (\<lambda>_ _. True) st"
  unfolding reuse_tx_def tx_methods wp_bindA
  by (intro wp_exec recordAudit_post assms) force

lemma reuse_tx_post:
  assumes "committed (reuse_tx sv u s c now) db x db'"
  shows "\<exists>w. exec (iq_RevokeSessionFamily (se_FamilyID s) now ''refresh_reuse'') db () w
    \<and> audited (audit ''refresh.reuse_detected'' ''failure'' (userRef (us_ID u)) ''user''
        (userRef (se_ID s)) c '''' now) w db'"
  using assms by (rule committed_wp) (intro reuse_tx_wp, blast)

text \<open>The outcomes of the rotation: a family revoked, or the session replaced.\<close>

definition family_revoked :: "user \<Rightarrow> login_session \<Rightarrow> string \<Rightarrow> gotime \<Rightarrow> identity_db \<Rightarrow> identity_db \<Rightarrow> bool" where
  "family_revoked u s c now db db' \<longleftrightarrow>
     (\<exists>w. exec (iq_RevokeSessionFamily (se_FamilyID s) now ''refresh_reuse'') db () w
        \<and> audited (audit ''refresh.reuse_detected'' ''failure'' (userRef (us_ID u)) ''user''
            (userRef (se_ID s)) c '''' now) w db')"

definition replaced ::
  "user \<Rightarrow> login_session \<Rightarrow> string \<Rightarrow> string \<Rightarrow> gotime \<Rightarrow> identity_db \<Rightarrow> int \<Rightarrow> identity_db \<Rightarrow> bool" where
  "replaced u s rid h now db n db' \<longleftrightarrow>
     (\<exists>i r w. exec (iq_LockActiveSession (se_ID s)) db i db
        \<and> exec (iq_CreateSession rid (se_FamilyID s) (us_ID u) h (plus_ns now refreshTokenTTL) now None None
             (Some (se_ID s))) db r w
        \<and> exec (iq_RotateSession (se_ID s) rid now) w n db')"

lemma lock_same: "exec (iq_LockActiveSession i) db x db' \<Longrightarrow> db' = db"
  by (auto simp: exec_def iq_LockActiveSession_def split: option.splits)

definition rotation ::
  "user \<Rightarrow> login_session \<Rightarrow> string \<Rightarrow> string \<Rightarrow> string \<Rightarrow> gotime \<Rightarrow> identity_db \<Rightarrow> bool \<Rightarrow> identity_db \<Rightarrow> bool" where
  "rotation u s rid h c now db reuse db' \<longleftrightarrow>
     (if reuse then \<exists>db0. (db0 = db \<or> (\<exists>n. n \<noteq> 1 \<and> replaced u s rid h now db n db0))
                        \<and> family_revoked u s c now db0 db'
      else \<exists>w. replaced u s rid h now db 1 w
             \<and> audited (audit ''refresh.succeeded'' ''success'' (userRef (us_ID u)) ''user''
                 (userRef (se_ID s)) c [] now) w db')"

lemma rotate_tx_post:
  assumes "committed (rotate_tx sv u s rid h c now) db x db'"
  shows "rotation u s rid h c now db x db'"
  using assms
proof (rule committed_wp)
  fix env and st :: id_state
  assume w: "work st = db"
  let ?Q = "\<lambda>x t. rotation u s rid h c now db x (work t)"
  have reuse: "wp env (bindA (reuse_tx sv u s c now) (\<lambda>_. ret True)) ?Q (\<lambda>_ _. True) t"
    if "work t = db \<or> (\<exists>n. n \<noteq> 1 \<and> replaced u s rid h now db n (work t))" for t
    unfolding wp_bindA wp_ret
    by (rule reuse_tx_wp) (use that in \<open>auto simp: rotation_def family_revoked_def\<close>)
  have recorded: "wp env (bindA (recordAudit sv (audit ''refresh.succeeded'' ''success'' (userRef (us_ID u))
      ''user'' (userRef (se_ID s)) c [] now)) (\<lambda>_. ret False)) ?Q (\<lambda>_ _. True) t"
    if "replaced u s rid h now db 1 (work t)" for t
    unfolding wp_bindA wp_ret by (rule recordAudit_post) (use that in \<open>auto simp: rotation_def\<close>)
  have make: "wp env (bindA (tx_CreateSession
      (new_session rid (se_FamilyID s) (us_ID u) (Some (se_ID s)) now) h None None) (\<lambda>_.
      bindA (tx_RotateSession (se_ID s) rid now) (\<lambda>rotated.
      if rotated \<noteq> 1 then bindA (reuse_tx sv u s c now) (\<lambda>_. ret True)
      else bindA (recordAudit sv (audit ''refresh.succeeded'' ''success'' (userRef (us_ID u)) ''user''
          (userRef (se_ID s)) c [] now)) (\<lambda>_. ret False)))) ?Q (\<lambda>_ _. True) t"
    if "exec (iq_LockActiveSession (se_ID s)) db i (work t)" for i t
    unfolding tx_CreateSession_def tx_RotateSession_def wp_bindA [of _ "bindA _ _"] wp_bindA [of _ "txQ _"] wp_ret
  proof (intro wp_exec, goal_cases)
    case (1 r t1 n t2)
    moreover have "work t = db" using lock_same [OF that] .
    ultimately have "replaced u s rid h now db n (work t2)"
      using that unfolding replaced_def by (auto simp: new_session_def)
    then show ?case using reuse [of t2] recorded [of t2] by (cases "n = 1") auto
  qed
  have "wp env (tx_LockActiveSession (se_ID s)) (\<lambda>_ t. \<exists>i. exec (iq_LockActiveSession (se_ID s)) db i (work t))
      (\<lambda>_ t. work t = db) st"
    unfolding tx_LockActiveSession_def txQ_def wp_bindA wp_ret
    by (rule wp_stmt) (use w in \<open>auto simp: exec_def\<close>)
  then show "wp env (rotate_tx sv u s rid h c now) ?Q (\<lambda>_ _. True) st"
    unfolding rotate_tx_def wp_bindA [of _ "tryA _"] wp_tryA
    by (rule wp_mono) (use make reuse in \<open>auto simp: wp_throw\<close>)
qed

lemma logout_tx_post:
  assumes "committed (logout_tx sv uid sid c now) db x db'"
  shows "\<exists>w. exec (iq_RevokeSessionByID sid now ''logout'') db () w
    \<and> audited (audit ''logout.succeeded'' ''success'' (userRef uid) ''user'' (userRef sid) c [] now) w db'"
  using assms by (rule committed_wp)
    (unfold logout_tx_def tx_methods wp_bindA, intro wp_exec recordAudit_post, force)

lemma logout_all_tx_post:
  assumes "committed (logout_all_tx sv uid c now) db x db'"
  shows "\<exists>w. exec (iq_RevokeUserSessions uid now ''logout_all'') db () w
    \<and> audited (audit ''logout_all.succeeded'' ''success'' (userRef uid) ''user'' (userRef uid) c [] now) w db'"
  using assms by (rule committed_wp)
    (unfold logout_all_tx_def tx_methods wp_bindA, intro wp_exec recordAudit_post, force)

text \<open>Administrators, counted by their assignments as the code counts them.\<close>

definition holds_role :: "identity_db \<Rightarrow> string \<Rightarrow> string \<Rightarrow> bool" where
  "holds_role db uid name =
     list_ex (\<lambda>(u, r). ur_user_id u = uid \<and> ro_name r = name \<and> ro_status r = ''ACTIVE'') (role_joined db)"

definition administrators :: "identity_db \<Rightarrow> nat" where
  "administrators db = count_where (\<lambda>(u, r). ro_name r = ''admin'' \<and> ro_status r = ''ACTIVE'') (role_joined db)"

lemma guard_administrators_wp:
  assumes "\<And>t. work t = work s \<Longrightarrow> (holds_role (work s) uid ''admin'' \<longrightarrow> 1 < administrators (work s)) \<Longrightarrow> Q () t"
  shows "wp env (guard_administrators uid) Q (\<lambda>_ _. True) s"
  unfolding guard_administrators_def tx_methods wp_bindA
proof (rule wp_exec, goal_cases)
  case (1 isAdmin t)
  then have t: "work t = work s" "isAdmin = holds_role (work s) uid ''admin''"
    by (auto simp: exec_def iq_HasActiveRole_def holds_role_def)
  show ?case
  proof (cases isAdmin)
    case True
    have "wp env (txQ iq_CountActiveAdministrators) (\<lambda>n. wp env
        (if n \<le> 1 then throw (idErr ErrConflict) else ret ()) Q (\<lambda>_ _. True)) (\<lambda>_ _. True) t"
    proof (rule wp_exec, goal_cases)
      case (1 n t')
      then have "work t' = work s" "n = int (administrators (work s))"
        using t by (auto simp: exec_def iq_CountActiveAdministrators_def administrators_def)
      then show ?case using assms [of t'] by (auto simp: wp_throw wp_ret)
    qed
    then show ?thesis using True by (simp add: wp_bindA)
  qed (use t assms [of t] in \<open>auto simp: wp_ret\<close>)
qed

lemma wp_guard_if:
  assumes "\<And>t. work t = work s \<Longrightarrow>
    (b \<longrightarrow> holds_role (work s) uid ''admin'' \<longrightarrow> 1 < administrators (work s)) \<Longrightarrow> Q () t"
  shows "wp env (if b then guard_administrators uid else ret ()) Q (\<lambda>_ _. True) s"
  using assms by (cases b) (auto simp: wp_ret intro!: guard_administrators_wp)

lemma status_tx_post:
  assumes "committed (status_tx sv uid st by' c now) db x db'"
  shows "\<exists>n w w'. (st = UserDisabled \<longrightarrow> holds_role db uid ''admin'' \<longrightarrow> 1 < administrators db)
    \<and> exec (iq_UpdateUserStatus uid st now) db n w \<and> n \<noteq> 0
    \<and> (if st = UserDisabled then exec (iq_RevokeUserSessions uid now ''user_disabled'') w () w' else w' = w)
    \<and> audited (audit (if st = UserDisabled then ''user.disabled'' else ''user.enabled'') ''success''
        (userRef by') ''user'' (userRef uid) c [] now) w' db'"
    (is "?P x db'")
  using assms
proof (rule committed_wp)
  fix env and s :: id_state
  assume w: "work s = db"
  have rest: "wp env (bindA (tx_UpdateUserStatus uid st now) (\<lambda>updated.
      if updated = 0 then throw (idErr ErrNotFound)
      else bindA (if st = UserDisabled then tx_RevokeUserSessions uid now ''user_disabled'' else ret ()) (\<lambda>_.
        recordAudit sv (audit (if st = UserDisabled then ''user.disabled'' else ''user.enabled'')
          ''success'' (userRef by') ''user'' (userRef uid) c [] now)))) (\<lambda>x t. ?P x (work t)) (\<lambda>_ _. True) t"
    if t: "work t = db" and g: "st = UserDisabled \<longrightarrow> holds_role db uid ''admin'' \<longrightarrow> 1 < administrators db" for t
    unfolding wp_bindA tx_methods
  proof (rule wp_exec, goal_cases)
    case (1 n t1)
    show ?case
    proof (cases "n = 0 \<or> st \<noteq> UserDisabled")
      case True
      then show ?thesis
        using 1 t g by (cases "n = 0") (auto simp: wp_throw wp_bindA wp_ret intro!: recordAudit_post)
    next
      case False
      then show ?thesis
        unfolding wp_bindA
        by (simp add: wp_bindA, intro wp_exec recordAudit_post) (use 1 t g in force)
    qed
  qed
  show "wp env (status_tx sv uid st by' c now) (\<lambda>x t. ?P x (work t)) (\<lambda>_ _. True) s"
    unfolding status_tx_def wp_bindA [of _ "if _ then _ else _"]
    by (rule wp_guard_if, rule rest) (use w in auto)
qed

lemma assign_tx_post:
  assumes "committed (assign_tx sv uid by' role c now) db x db'"
  shows "\<exists>n w. exec (iq_AssignRole uid role now (Some by')) db n w \<and> n \<noteq> 0
    \<and> audited (audit ''role.assigned'' ''success'' (userRef by') ''user'' (userRef uid) c role now) w db'"
    (is "?P x db'")
  using assms
proof (rule committed_wp)
  fix env and s :: id_state
  assume "work s = db"
  then show "wp env (assign_tx sv uid by' role c now) (\<lambda>x t. ?P x (work t)) (\<lambda>_ _. True) s"
    unfolding assign_tx_def tx_methods wp_bindA
    by (intro wp_exec) (auto simp: wp_throw intro!: recordAudit_post)
qed

lemma remove_tx_post:
  assumes "committed (remove_tx sv uid by' role c now) db x db'"
  shows "\<exists>n w. (role = ''admin'' \<longrightarrow> holds_role db uid ''admin'' \<longrightarrow> 1 < administrators db)
    \<and> exec (iq_RemoveRole uid role) db n w \<and> n \<noteq> 0
    \<and> audited (audit ''role.removed'' ''success'' (userRef by') ''user'' (userRef uid) c role now) w db'"
    (is "?P x db'")
  using assms
proof (rule committed_wp)
  fix env and s :: id_state
  assume w: "work s = db"
  have rest: "wp env (bindA (tx_RemoveRole uid role) (\<lambda>removed.
      if removed = 0 then throw (idErr ErrNotFound)
      else recordAudit sv (audit ''role.removed'' ''success'' (userRef by') ''user''
            (userRef uid) c role now))) (\<lambda>x t. ?P x (work t)) (\<lambda>_ _. True) t"
    if "work t = db" "role = ''admin'' \<longrightarrow> holds_role db uid ''admin'' \<longrightarrow> 1 < administrators db" for t
    unfolding wp_bindA tx_methods
    by (intro wp_exec) (use that in \<open>auto simp: wp_throw intro!: recordAudit_post\<close>)
  show "wp env (remove_tx sv uid by' role c now) (\<lambda>x t. ?P x (work t)) (\<lambda>_ _. True) s"
    unfolding remove_tx_def wp_bindA [of _ "if _ then _ else _"]
    by (rule wp_guard_if, rule rest) (use w in auto)
qed

lemma reset_request_tx_post:
  assumes "committed (reset_request_tx sv tid uid h c now) db x db'"
  shows "\<exists>w. exec (iq_CreateResetToken tid uid h (plus_ns now resetTokenTTL) now) db () w
    \<and> audited (audit ''password_reset.requested'' ''success'' [] [] (userRef uid) c [] now) w db'"
  using assms by (rule committed_wp)
    (unfold reset_request_tx_def tx_methods wp_bindA, intro wp_exec recordAudit_post, force)

lemma reset_confirm_tx_post:
  assumes "committed (reset_confirm_tx sv rst h c now) db x db'"
  shows "\<exists>w1 w2 w3. exec (iq_UpdatePassword (ot_UserID rst) h now) db () w1
    \<and> exec (iq_RevokeUserSessions (ot_UserID rst) now ''password_reset'') w1 () w2
    \<and> exec (iq_ConsumeResetToken (ot_ID rst) now) w2 1 w3
    \<and> audited (audit ''password_reset.completed'' ''success'' [] [] (userRef (ot_UserID rst)) c [] now) w3 db'"
    (is "?P x db'")
  using assms
proof (rule committed_wp)
  fix env and s :: id_state
  assume w: "work s = db"
  show "wp env (reset_confirm_tx sv rst h c now) (\<lambda>x t. ?P x (work t)) (\<lambda>_ _. True) s"
    unfolding reset_confirm_tx_def tx_methods wp_bindA
  proof (intro wp_exec, goal_cases)
    case (1 x1 t1 x2 t2 n t3)
    then show ?case
      using w by (cases "n = 1") (simp_all add: wp_throw, intro recordAudit_post, force)
  qed
qed

lemma verify_tx_post:
  assumes "committed (verify_tx sv rst c now) db x db'"
  shows "\<exists>w1 n w2. exec (iq_ConsumeVerificationToken (ot_ID rst) now) db 1 w1
    \<and> exec (iq_MarkEmailVerified (ot_UserID rst) now) w1 n w2 \<and> n \<noteq> 0
    \<and> audited (audit ''email_verification.completed'' ''success'' [] [] (userRef (ot_UserID rst)) c [] now) w2 db'"
    (is "?P x db'")
  using assms
proof (rule committed_wp)
  fix env and s :: id_state
  assume w: "work s = db"
  show "wp env (verify_tx sv rst c now) (\<lambda>x t. ?P x (work t)) (\<lambda>_ _. True) s"
    unfolding verify_tx_def tx_methods wp_bindA [of _ "txQ (iq_ConsumeVerificationToken _ _)"]
  proof (intro wp_exec, goal_cases)
    case (1 k t1)
    show ?case
    proof (cases "k = 1")
      case True
      then show ?thesis
        by (simp add: wp_bindA, intro wp_exec) (use 1 w in \<open>auto simp: wp_throw intro!: recordAudit_post\<close>)
    qed (simp add: wp_throw)
  qed
qed

lemma machine_tx_post:
  assumes "committed (machine_tx sv p c now) db x db'"
  shows "\<exists>w. exec (iq_MarkServicePrincipalUsed (sp_ID p) now) db () w
    \<and> audited (audit ''service_token.issued'' ''success'' (''svc_'' @ sp_ClientID p) ''service'' [] c [] now) w db'"
  using assms by (rule committed_wp)
    (unfold machine_tx_def tx_methods wp_bindA, intro wp_exec recordAudit_post, force)

lemma register_tx_post:
  assumes "committed (register_tx sv u vid vh c now) db x db'"
  shows "\<exists>r w1 n w2 w3. exec (iq_CreateUser (us_ID u) (us_Email u) (us_EmailNormalized u) (us_PasswordHash u)
        (us_Status u) (us_CreatedAt u)) db r w1
    \<and> us_ID x = ut_id r \<and> us_Email x = ut_email r
    \<and> exec (iq_AssignRole (ut_id r) ''customer'' now None) w1 n w2
    \<and> exec (iq_CreateVerificationToken vid (ut_id r) vh (plus_ns now verifyTokenTTL) now) w2 () w3
    \<and> audited (audit ''register.succeeded'' ''success'' [] [] (userRef (ut_id r)) c [] now) w3 db'"
    (is "?P x db'")
  using assms
proof (rule committed_wp)
  fix env and s :: id_state
  assume w: "work s = db"
  show "wp env (register_tx sv u vid vh c now) (\<lambda>x t. ?P x (work t)) (\<lambda>_ _. True) s"
    unfolding register_tx_def tx_methods wp_bindA wp_getEnv wp_ret
  proof (intro wp_exec recordAudit_post, goal_cases)
    case (1 r t1 n t2 z t3 t4)
    then have "exec (iq_CreateVerificationToken vid (ut_id r) vh (plus_ns now verifyTokenTTL) now) (work t2) () (work t3)"
      by (simp add: mapUser_def)
    with 1 w show ?case
      by (intro exI [of _ r] exI [of _ "work t1"] exI [of _ n] exI [of _ "work t2"] exI [of _ "work t3"])
        (simp add: mapUser_def)
  qed
qed

end
