(* ===== verification/Identity_Sessions.thy ===== *)
theory Identity_Sessions
  imports Identity_Transactions
begin

section \<open>Identity: histories of concurrent requests\<close>

text \<open>
  Requests run concurrently: a request reads rows outside its transaction and commits later,
  when the tables may have changed.  A history is the sequence of committed tables, newest
  first; a transaction may use rows as they were at any earlier point of the history.  The
  theorems below hold for every interleaving.
\<close>

datatype id_tx =
    TxRegister user string string
  | TxLogin string string string string string
  | TxReuse user login_session
  | TxRotate user login_session string string
  | TxLogout string string
  | TxLogoutAll string
  | TxStatus string string string
  | TxAssign string string string
  | TxRemove string string string
  | TxResetRequest string string string
  | TxResetConfirm one_time_token string
  | TxVerify one_time_token
  | TxMachine service_principal

fun tx_commits :: "id_service \<Rightarrow> string \<Rightarrow> gotime \<Rightarrow> id_tx \<Rightarrow> identity_db \<Rightarrow> identity_db \<Rightarrow> bool" where
  "tx_commits sv c now (TxRegister u vid vh) db db' =
     (\<exists>x. committed (register_tx sv u vid vh c now) db x db')"
| "tx_commits sv c now (TxLogin sid fid uid h act) db db' =
     (\<exists>x. committed (session_tx sv (new_session sid fid uid None now) h c act now) db x db')"
| "tx_commits sv c now (TxReuse u s) db db' = (\<exists>x. committed (reuse_tx sv u s c now) db x db')"
| "tx_commits sv c now (TxRotate u s rid h) db db' =
     (\<exists>x. committed (rotate_tx sv u s rid h c now) db x db')"
| "tx_commits sv c now (TxLogout uid sid) db db' = (\<exists>x. committed (logout_tx sv uid sid c now) db x db')"
| "tx_commits sv c now (TxLogoutAll uid) db db' = (\<exists>x. committed (logout_all_tx sv uid c now) db x db')"
| "tx_commits sv c now (TxStatus uid st by') db db' =
     (\<exists>x. committed (status_tx sv uid st by' c now) db x db')"
| "tx_commits sv c now (TxAssign uid by' role) db db' =
     (\<exists>x. committed (assign_tx sv uid by' role c now) db x db')"
| "tx_commits sv c now (TxRemove uid by' role) db db' =
     (\<exists>x. committed (remove_tx sv uid by' role c now) db x db')"
| "tx_commits sv c now (TxResetRequest tid uid h) db db' =
     (\<exists>x. committed (reset_request_tx sv tid uid h c now) db x db')"
| "tx_commits sv c now (TxResetConfirm t h) db db' =
     (\<exists>x. committed (reset_confirm_tx sv t h c now) db x db')"
| "tx_commits sv c now (TxVerify t) db db' = (\<exists>x. committed (verify_tx sv t c now) db x db')"
| "tx_commits sv c now (TxMachine p) db db' = (\<exists>x. committed (machine_tx sv p c now) db x db')"

text \<open>
  What the requests know when they commit: rows read at some point of the history, a generated
  family id that no session has, the statuses the service accepts.
\<close>

definition read_session :: "identity_db list \<Rightarrow> user \<Rightarrow> login_session \<Rightarrow> bool" where
  "read_session h u s \<longleftrightarrow>
     (\<exists>d \<in> set h. \<exists>r \<in> set (sessions d).
        se_ID s = st_id r \<and> se_FamilyID s = st_family_id r \<and> us_ID u = st_user_id r)"

definition read_token :: "(identity_db \<Rightarrow> token_row list) \<Rightarrow> identity_db list \<Rightarrow> one_time_token \<Rightarrow> bool" where
  "read_token table h t \<longleftrightarrow>
     (\<exists>d \<in> set h. \<exists>r \<in> set (table d).
        ot_ID t = tk_id r \<and> ot_UserID t = tk_user_id r \<and> tk_consumed_at r = None)"

fun admissible :: "identity_db list \<Rightarrow> id_tx \<Rightarrow> bool" where
  "admissible h (TxRegister u vid vh) = (us_Status u = UserPendingVerification)"
| "admissible h (TxLogin sid fid uid k act) = (\<forall>r \<in> set (sessions (hd h)). st_family_id r \<noteq> fid)"
| "admissible h (TxReuse u s) = read_session h u s"
| "admissible h (TxRotate u s rid k) = read_session h u s"
| "admissible h (TxStatus uid st by') = (st = UserActive \<or> st = UserDisabled)"
| "admissible h (TxResetConfirm t k) = read_token reset_tokens h t"
| "admissible h (TxVerify t) = read_token verification_tokens h t"
| "admissible h tx = True"

inductive id_history :: "id_service \<Rightarrow> identity_db \<Rightarrow> identity_db list \<Rightarrow> bool" for sv db0 where
  start: "id_history sv db0 [db0]"
| commit: "id_history sv db0 (db # h) \<Longrightarrow> admissible (db # h) tx \<Longrightarrow> tx_commits sv c now tx db db' \<Longrightarrow>
    id_history sv db0 (db' # db # h)"
| published: "id_history sv db0 (db # h) \<Longrightarrow> exec (iq_MarkOutboxPublished xid at) db () db' \<Longrightarrow>
    id_history sv db0 (db' # db # h)"
| failed: "id_history sv db0 (db # h) \<Longrightarrow> exec (iq_MarkOutboxFailed xid reason) db () db' \<Longrightarrow>
    id_history sv db0 (db' # db # h)"

subsection \<open>Families of sessions\<close>

definition active :: "session_row \<Rightarrow> bool" where
  "active r \<longleftrightarrow> st_status r = ''ACTIVE''"

definition sess_ok :: "session_row list \<Rightarrow> bool" where
  "sess_ok t \<longleftrightarrow>
     keyed st_id t \<and> keyed st_refresh_token_hash t
     \<and> (\<forall>a \<in> set t. \<forall>b \<in> set t. st_family_id a = st_family_id b \<longrightarrow> st_user_id a = st_user_id b)
     \<and> (\<forall>a \<in> set t. \<forall>b \<in> set t. st_family_id a = st_family_id b \<and> active a \<and> active b \<longrightarrow> st_id a = st_id b)
     \<and> (\<forall>a \<in> set t. \<forall>i. st_rotated_from a = Some i \<longrightarrow>
          (\<exists>p \<in> set t. st_id p = i \<and> st_family_id p = st_family_id a \<and> \<not> active p))
     \<and> (\<forall>a \<in> set t. \<forall>b \<in> set t. st_rotated_from a \<noteq> None \<and> st_rotated_from a = st_rotated_from b \<longrightarrow>
          st_id a = st_id b)"

definition core :: "session_row \<Rightarrow> string \<times> string \<times> string \<times> string \<times> string option" where
  "core r = (st_id r, st_family_id r, st_user_id r, st_refresh_token_hash r, st_rotated_from r)"

definition spends :: "(session_row \<Rightarrow> session_row) \<Rightarrow> bool" where
  "spends f \<longleftrightarrow> (\<forall>r. core (f r) = core r \<and> (active (f r) \<longrightarrow> active r))"

text \<open>\<open>persists t t'\<close>: no session is lost or renamed, and a spent one stays spent.\<close>

definition persists :: "session_row list \<Rightarrow> session_row list \<Rightarrow> bool" where
  "persists t t' \<longleftrightarrow> (\<forall>r \<in> set t. \<exists>r' \<in> set t'. core r' = core r \<and> (active r' \<longrightarrow> active r))"

lemma persists_refl [simp]: "persists t t"
  by (auto simp: persists_def)

lemma persists_trans: "persists t u \<Longrightarrow> persists u v \<Longrightarrow> persists t v"
  unfolding persists_def by metis

lemma persists_update:
  assumes "spends f"
  shows "persists t (update_where p f t)"
  unfolding persists_def
proof
  fix r assume "r \<in> set t"
  then have "(if p r then f r else r) \<in> set (update_where p f t)" by (auto simp: update_where_def)
  then show "\<exists>r' \<in> set (update_where p f t). core r' = core r \<and> (active r' \<longrightarrow> active r)"
    using assms by (intro bexI) (auto simp: spends_def)
qed

lemma persists_append: "persists t (t @ u)"
  by (auto simp: persists_def)

lemma core_fields:
  assumes "core a = core b"
  shows "st_id a = st_id b" "st_family_id a = st_family_id b" "st_user_id a = st_user_id b"
    "st_refresh_token_hash a = st_refresh_token_hash b" "st_rotated_from a = st_rotated_from b"
  using assms by (simp_all add: core_def)

lemma sess_ok_keys: "sess_ok t \<Longrightarrow> keyed st_id t \<and> keyed st_refresh_token_hash t"
  and sess_ok_user: "sess_ok t \<Longrightarrow> a \<in> set t \<Longrightarrow> b \<in> set t \<Longrightarrow> st_family_id a = st_family_id b \<Longrightarrow>
    st_user_id a = st_user_id b"
  and sess_ok_single: "sess_ok t \<Longrightarrow> a \<in> set t \<Longrightarrow> b \<in> set t \<Longrightarrow> st_family_id a = st_family_id b \<Longrightarrow>
    active a \<Longrightarrow> active b \<Longrightarrow> st_id a = st_id b"
  and sess_ok_parent: "sess_ok t \<Longrightarrow> a \<in> set t \<Longrightarrow> st_rotated_from a = Some i \<Longrightarrow>
    \<exists>p \<in> set t. st_id p = i \<and> st_family_id p = st_family_id a \<and> \<not> active p"
  and sess_ok_child: "sess_ok t \<Longrightarrow> a \<in> set t \<Longrightarrow> b \<in> set t \<Longrightarrow> st_rotated_from a \<noteq> None \<Longrightarrow>
    st_rotated_from a = st_rotated_from b \<Longrightarrow> st_id a = st_id b"
  unfolding sess_ok_def by blast+

lemma sess_ok_update:
  assumes ok: "sess_ok t" and f: "spends f"
  shows "sess_ok (update_where p f t)"
proof -
  let ?g = "\<lambda>r. if p r then f r else r" and ?u = "update_where p f t"
  have g: "core (?g r) = core r" "active (?g r) \<Longrightarrow> active r" for r
    using f by (auto simp: spends_def split: if_splits)
  have c: "core (f r) = core r" for r using f by (simp add: spends_def)
  have keys: "keyed st_id ?u = keyed st_id t" "keyed st_refresh_token_hash ?u = keyed st_refresh_token_hash t"
    by (rule keyed_update_where, rule core_fields [OF c])+
  have old: "\<exists>r \<in> set t. core a = core r \<and> (active a \<longrightarrow> active r)" if "a \<in> set ?u" for a
  proof -
    from that obtain r where "r \<in> set t" "a = ?g r" unfolding set_update_where by blast
    then show ?thesis using g [of r] by metis
  qed
  have new: "\<exists>a \<in> set ?u. core a = core r \<and> (active a \<longrightarrow> active r)" if "r \<in> set t" for r
    using persists_update [OF f] that by (auto simp: persists_def)
  show ?thesis
    unfolding sess_ok_def keys
  proof (intro conjI ballI allI impI, goal_cases)
    case (3 a b)
    obtain x y where "x \<in> set t" "core a = core x" "y \<in> set t" "core b = core y" using old 3 by meson
    then show ?case using sess_ok_user [OF ok, of x y] 3 by (simp add: core_def)
  next
    case (4 a b)
    obtain x y where "x \<in> set t" "core a = core x" "active x" "y \<in> set t" "core b = core y" "active y"
      using old 4 by meson
    then show ?case using sess_ok_single [OF ok, of x y] 4 by (simp add: core_def)
  next
    case (5 a i)
    obtain x where x: "x \<in> set t" "core a = core x" using old 5 by meson
    then obtain q where q: "q \<in> set t" "st_id q = i" "st_family_id q = st_family_id x" "\<not> active q"
      using sess_ok_parent [OF ok x(1), of i] 5 by (auto simp: core_def)
    obtain c where "c \<in> set ?u" "core c = core q" "active c \<longrightarrow> active q" using new [OF q(1)] by blast
    then show ?case using q x by (intro bexI [of _ c]) (auto simp: core_def)
  next
    case (6 a b)
    obtain x y where x: "x \<in> set t" "core a = core x" and y: "y \<in> set t" "core b = core y" using old 6 by meson
    then show ?case
      using sess_ok_child [OF ok x(1) y(1)] 6 core_fields(1,5) [OF x(2)] core_fields(1,5) [OF y(2)] by metis
  qed (use sess_ok_keys [OF ok] in auto)
qed

lemma keyed_fresh: "keyed k t \<Longrightarrow> k r \<notin> k ` set t \<Longrightarrow> keyed k (t @ [r])"
  by (simp add: keyed_def)

lemma sess_ok_login:
  assumes "sess_ok t" "st_id r \<notin> st_id ` set t" "st_refresh_token_hash r \<notin> st_refresh_token_hash ` set t"
    "st_family_id r \<notin> st_family_id ` set t" "st_rotated_from r = None"
  shows "sess_ok (t @ [r])"
proof -
  have other: "st_family_id x \<noteq> st_family_id r" if "x \<in> set t" for x
    using assms(4) that by (metis imageI)
  show ?thesis
    unfolding sess_ok_def
  proof (intro conjI ballI allI impI, goal_cases)
    case 1 then show ?case using sess_ok_keys [OF assms(1)] assms(2) by (simp add: keyed_fresh)
  next
    case 2 then show ?case using sess_ok_keys [OF assms(1)] assms(3) by (simp add: keyed_fresh)
  next
    case (3 a b)
    then show ?case using sess_ok_user [OF assms(1), of a b] other [of a] other [of b] by auto
  next
    case (4 a b)
    then show ?case using sess_ok_single [OF assms(1), of a b] other [of a] other [of b] by auto
  next
    case (5 a i)
    then have "a \<in> set t" using assms(5) by auto
    then show ?case using sess_ok_parent [OF assms(1) _ 5(2)] by auto
  next
    case (6 a b)
    then have "a \<in> set t" "b \<in> set t" using assms(5) by auto
    then show ?case using sess_ok_child [OF assms(1), of a b] 6 by blast
  qed
qed

lemma sess_ok_rotate:
  assumes ok: "sess_ok t" and p: "p \<in> set t" "active p"
    and fresh: "st_id r \<notin> st_id ` set t" "st_refresh_token_hash r \<notin> st_refresh_token_hash ` set t"
    and r: "st_family_id r = st_family_id p" "st_user_id r = st_user_id p" "st_rotated_from r = Some (st_id p)"
    and f: "spends f" "\<And>x. \<not> active (f x)"
  shows "sess_ok (update_where (\<lambda>x. st_id x = st_id p \<and> active x) f (t @ [r]))"
proof -
  let ?P = "\<lambda>x. st_id x = st_id p \<and> active x"
  let ?u = "update_where ?P f t"
  have other: "st_id r \<noteq> st_id p" using fresh(1) p(1) by (metis imageI)
  then have split: "update_where ?P f (t @ [r]) = ?u @ [r]" by (simp add: update_where_def)
  have u: "sess_ok ?u" by (rule sess_ok_update [OF ok f(1)])
  have old: "\<exists>x \<in> set t. core a = core x \<and> (active a \<longrightarrow> active x \<and> st_id x \<noteq> st_id p)" if "a \<in> set ?u" for a
  proof -
    from that obtain x where x: "x \<in> set t" "a = (if ?P x then f x else x)"
      unfolding set_update_where by blast
    show ?thesis
      by (rule bexI [OF _ x(1)]) (use x(2) f in \<open>auto simp: spends_def split: if_splits\<close>)
  qed
  have gp: "\<exists>q \<in> set ?u. st_id q = st_id p \<and> st_family_id q = st_family_id p \<and> \<not> active q"
  proof (rule bexI [of _ "f p"])
    show "f p \<in> set ?u" using p by (auto simp: update_where_def)
    show "st_id (f p) = st_id p \<and> st_family_id (f p) = st_family_id p \<and> \<not> active (f p)"
      using f core_fields [of "f p" p] by (simp add: spends_def)
  qed
  have user: "st_user_id a = st_user_id r" if "a \<in> set ?u" "st_family_id a = st_family_id r" for a
    using old [OF that(1)] sess_ok_user [OF ok _ p(1)] that(2) r core_fields by metis
  have single: "\<not> active a" if "a \<in> set ?u" "st_family_id a = st_family_id r" for a
    using old [OF that(1)] sess_ok_single [OF ok _ p(1)] that(2) r core_fields p(2) by metis
  have child: "st_rotated_from a \<noteq> st_rotated_from r" if a: "a \<in> set ?u" for a
  proof
    assume "st_rotated_from a = st_rotated_from r"
    then obtain x where "x \<in> set t" "st_rotated_from x = Some (st_id p)"
      using old [OF a] r(3) core_fields(5) by metis
    then obtain q where "q \<in> set t" "st_id q = st_id p" "\<not> active q" using sess_ok_parent [OF ok] by blast
    then show False using keyed_inj [of st_id t q p] sess_ok_keys [OF ok] p by blast
  qed
  have c: "core (f x) = core x" for x using f(1) by (simp add: spends_def)
  have "map st_id ?u = map st_id t" "map st_refresh_token_hash ?u = map st_refresh_token_hash t"
    by (rule map_update_where, rule core_fields [OF c])+
  then have new: "st_id r \<notin> st_id ` set ?u" "st_refresh_token_hash r \<notin> st_refresh_token_hash ` set ?u"
    using fresh by (metis set_map)+
  show ?thesis
    unfolding split sess_ok_def
  proof (intro conjI ballI allI impI, goal_cases)
    case 1 then show ?case using sess_ok_keys [OF u] new(1) by (simp add: keyed_fresh)
  next
    case 2 then show ?case using sess_ok_keys [OF u] new(2) by (simp add: keyed_fresh)
  next
    case (3 a b)
    then show ?case using sess_ok_user [OF u, of a b] user [of a] user [of b] by auto
  next
    case (4 a b)
    then show ?case using sess_ok_single [OF u, of a b] single [of a] single [of b] by auto
  next
    case (5 a i)
    then show ?case using sess_ok_parent [OF u, of a i] gp r by auto
  next
    case (6 a b)
    then obtain i where "st_rotated_from a = Some i" "st_rotated_from b = Some i" by (metis option.exhaust)
    then show ?case using 6(1,2) sess_ok_child [OF u, of a b] child [of a] child [of b] by auto
  qed
qed

subsection \<open>Statements and families\<close>

text \<open>\<open>kept_sessions t t'\<close>: a step from \<open>t\<close> to \<open>t'\<close> keeps the invariant and every session.\<close>

definition kept_sessions :: "session_row list \<Rightarrow> session_row list \<Rightarrow> bool" where
  "kept_sessions t t' \<longleftrightarrow> (sess_ok t \<longrightarrow> sess_ok t') \<and> persists t t'"

lemma kept_refl [simp]: "kept_sessions t t"
  by (simp add: kept_sessions_def)

lemma kept_trans: "kept_sessions t u \<Longrightarrow> kept_sessions u v \<Longrightarrow> kept_sessions t v"
  unfolding kept_sessions_def by (blast intro: persists_trans)

lemma kept_update: "spends f \<Longrightarrow> kept_sessions t (update_where p f t)"
  by (simp add: kept_sessions_def sess_ok_update persists_update)

lemma spends_revoke:
  "spends (\<lambda>r. r\<lparr>st_status := ''REVOKED'', st_revoked_at := a, st_revoked_reason := b\<rparr>)"
  by (simp add: spends_def core_def active_def)

lemma spends_rotate:
  "spends (\<lambda>r. r\<lparr>st_status := ''ROTATED'', st_replaced_by := a, st_last_used_at := b\<rparr>)"
  by (simp add: spends_def core_def active_def)

lemma audited_sessions: "audited i db db' \<Longrightarrow> sessions db' = sessions db"
  by (auto simp: audited_def)

lemma revoke_kept:
  "exec (iq_RevokeSessionByID i at reason) db x db' \<Longrightarrow> kept_sessions (sessions db) (sessions db')"
  "exec (iq_RevokeSessionFamily i at reason) db x db' \<Longrightarrow> kept_sessions (sessions db) (sessions db')"
  "exec (iq_RevokeUserSessions i at reason) db x db' \<Longrightarrow> kept_sessions (sessions db) (sessions db')"
  by (auto simp: exec_def iq_RevokeSessionByID_def iq_RevokeSessionFamily_def iq_RevokeUserSessions_def
      revoke_where_def intro!: kept_update spends_revoke)

lemma quiet_statements:
  "exec (iq_CreateUser a1 a2 a4 a5 a7 t2) db x1 db' \<Longrightarrow> sessions db' = sessions db"
  "exec (iq_UpdateUserStatus a1 a2 t1) db x2 db' \<Longrightarrow> sessions db' = sessions db"
  "exec (iq_UpdatePassword a1 a2 t1) db x3 db' \<Longrightarrow> sessions db' = sessions db"
  "exec (iq_MarkEmailVerified a1 t1) db x2 db' \<Longrightarrow> sessions db' = sessions db"
  "exec (iq_AssignRole a1 a2 t1 b) db x2 db' \<Longrightarrow> sessions db' = sessions db"
  "exec (iq_RemoveRole a1 a2) db x2 db' \<Longrightarrow> sessions db' = sessions db"
  "exec (iq_CreateResetToken a1 a2 a4 t1 t2) db x3 db' \<Longrightarrow> sessions db' = sessions db"
  "exec (iq_CreateVerificationToken a1 a2 a4 t1 t2) db x3 db' \<Longrightarrow> sessions db' = sessions db"
  "exec (iq_ConsumeResetToken a1 t1) db x2 db' \<Longrightarrow> sessions db' = sessions db"
  "exec (iq_ConsumeVerificationToken a1 t1) db x2 db' \<Longrightarrow> sessions db' = sessions db"
  "exec (iq_MarkServicePrincipalUsed a1 t1) db x3 db' \<Longrightarrow> sessions db' = sessions db"
  "exec (iq_MarkOutboxPublished a1 t1) db x3 db' \<Longrightarrow> sessions db' = sessions db"
  "exec (iq_MarkOutboxFailed a1 a2) db x3 db' \<Longrightarrow> sessions db' = sessions db"
  by (auto simp: exec_def iq_CreateUser_def iq_UpdateUserStatus_def iq_UpdatePassword_def
      iq_MarkEmailVerified_def iq_AssignRole_def iq_RemoveRole_def iq_CreateResetToken_def
      iq_CreateVerificationToken_def iq_ConsumeResetToken_def iq_ConsumeVerificationToken_def
      iq_MarkServicePrincipalUsed_def iq_MarkOutboxPublished_def iq_MarkOutboxFailed_def update_event_def
      insert_token_def Let_def split: if_splits option.splits)

lemma create_session_row:
  assumes "exec (iq_CreateSession sid fid uid h expires created ua ip rf) db r db'"
  shows "sessions db' = sessions db @ [r]" "st_id r = sid" "st_family_id r = fid" "st_user_id r = uid"
    "st_refresh_token_hash r = h" "st_rotated_from r = rf" "active r"
    "sid \<notin> st_id ` set (sessions db)" "h \<notin> st_refresh_token_hash ` set (sessions db)"
  using assms
  by (auto simp: exec_def iq_CreateSession_def has_session_def row_simps active_def Let_def split: if_splits)

lemma locked_row:
  assumes "exec (iq_LockActiveSession sid) db x db'"
  shows "\<exists>p \<in> set (sessions db). st_id p = sid \<and> active p"
  using assms by (auto simp: exec_def iq_LockActiveSession_def active_def split: option.splits dest: select_one_Some)

lemma rotated_rows:
  assumes "exec (iq_RotateSession sid rid at) db n db'"
  shows "\<exists>f. spends f \<and> (\<forall>x. \<not> active (f x)) \<and> n = int (count_where (\<lambda>x. st_id x = sid \<and> active x) (sessions db))
    \<and> sessions db' = update_where (\<lambda>x. st_id x = sid \<and> active x) f (sessions db)"
proof -
  obtain env where "n = int (count_where (\<lambda>r. st_id r = sid \<and> st_status r = ''ACTIVE'') (sessions db))"
      "sessions db' = update_where (\<lambda>r. st_id r = sid \<and> st_status r = ''ACTIVE'')
         (\<lambda>r. r\<lparr>st_status := ''ROTATED'', st_replaced_by := Some rid, st_last_used_at := Some (ts env at)\<rparr>) (sessions db)"
    using assms by (auto simp: exec_def iq_RotateSession_def Let_def split: if_splits)
  then show ?thesis
    by (intro exI [of _ "\<lambda>r. r\<lparr>st_status := ''ROTATED'', st_replaced_by := Some rid,
          st_last_used_at := Some (ts env at)\<rparr>"])
      (auto simp: spends_rotate active_def)
qed

lemma replaced_sessions:
  assumes ok: "sess_ok (sessions db)" and r: "replaced u s rid h now db n db'"
    and snap: "\<exists>q \<in> set (sessions db). st_id q = se_ID s \<and> st_family_id q = se_FamilyID s \<and> st_user_id q = us_ID u"
  shows "n = 1" "sess_ok (sessions db')" "persists (sessions db) (sessions db')"
    "\<exists>q \<in> set (sessions db). st_id q = se_ID s \<and> active q"
    "\<forall>q \<in> set (sessions db'). st_id q = se_ID s \<longrightarrow> \<not> active q"
    "\<exists>q \<in> set (sessions db'). st_id q = rid \<and> st_refresh_token_hash q = h \<and> st_user_id q = us_ID u
       \<and> st_family_id q = se_FamilyID s \<and> active q"
proof -
  obtain i x w where lock: "exec (iq_LockActiveSession (se_ID s)) db i db"
    and new: "exec (iq_CreateSession rid (se_FamilyID s) (us_ID u) h (plus_ns now refreshTokenTTL) now None None
      (Some (se_ID s))) db x w"
    and rot: "exec (iq_RotateSession (se_ID s) rid now) w n db'"
    using r by (auto simp: replaced_def)
  note row = create_session_row [OF new]
  obtain p where p: "p \<in> set (sessions db)" "st_id p = se_ID s" "active p" using locked_row [OF lock] by blast
  have same: "q = p" if "q \<in> set (sessions db)" "st_id q = se_ID s" for q
    using keyed_inj [of st_id "sessions db" q p] sess_ok_keys [OF ok] p that by simp
  have fam: "st_family_id p = se_FamilyID s" "st_user_id p = us_ID u" using snap same by blast+
  obtain f where f: "spends f" "\<And>y. \<not> active (f y)"
    and n: "n = int (count_where (\<lambda>y. st_id y = st_id p \<and> active y) (sessions w))"
    and t: "sessions db' = update_where (\<lambda>y. st_id y = st_id p \<and> active y) f (sessions db @ [x])"
    using rotated_rows [OF rot] p(2) row(1) by auto
  have xp: "st_id x \<noteq> st_id p" using row(2,8) p(1) by (metis imageI)
  have xid: "st_id x \<notin> st_id ` set (sessions db)" "st_refresh_token_hash x \<notin> st_refresh_token_hash ` set (sessions db)"
    using row by simp_all
  show "sess_ok (sessions db')"
    unfolding t by (rule sess_ok_rotate [OF ok p(1,3) xid _ _ _ f]) (use row fam p(2) in simp_all)
  have "keyed st_id (sessions w)" unfolding row(1) by (rule keyed_fresh) (use sess_ok_keys [OF ok] xid in auto)
  then have "count_where (\<lambda>y. st_id y = st_id p \<and> active y) (sessions w) \<le> 1"
    by (rule count_where_key) simp
  moreover have "count_where (\<lambda>y. st_id y = st_id p \<and> active y) (sessions w) \<noteq> 0"
    unfolding count_where_update row(1) using p by auto
  ultimately show "n = 1" using n by simp
  show "persists (sessions db) (sessions db')"
    unfolding t by (rule persists_trans [OF persists_append persists_update [OF f(1)]])
  show "\<exists>q \<in> set (sessions db). st_id q = se_ID s \<and> active q" using p by blast
  show "\<forall>q \<in> set (sessions db'). st_id q = se_ID s \<longrightarrow> \<not> active q"
  proof (intro ballI impI)
    fix q assume q: "q \<in> set (sessions db')" "st_id q = se_ID s"
    then obtain y where y: "y \<in> set (sessions db @ [x])"
        "q = (if st_id y = st_id p \<and> active y then f y else y)"
      unfolding t set_update_where by blast
    have "st_id y = st_id p"
      using y(2) q(2) p(2) core_fields(1) [of "f y" y] f(1) by (auto simp: spends_def split: if_splits)
    then show "\<not> active q" using y(2) f(2) by auto
  qed
  have "x \<in> set (sessions db')" unfolding t set_update_where using xp by auto
  then show "\<exists>q \<in> set (sessions db'). st_id q = rid \<and> st_refresh_token_hash q = h \<and> st_user_id q = us_ID u
       \<and> st_family_id q = se_FamilyID s \<and> active q"
    using row by blast
qed

text \<open>Every committed transaction keeps the invariant and the sessions.\<close>

lemma revoked_kept:
  assumes "family_revoked u s c now db db'"
  shows "kept_sessions (sessions db) (sessions db')"
  using assms unfolding family_revoked_def by (auto dest!: audited_sessions dest: revoke_kept)

lemma rotation_kept:
  assumes ok: "sess_ok (sessions db)" and r: "rotation u s rid h c now db x db'"
    and snap: "\<exists>q \<in> set (sessions db). st_id q = se_ID s \<and> st_family_id q = se_FamilyID s \<and> st_user_id q = us_ID u"
  shows "sess_ok (sessions db') \<and> persists (sessions db) (sessions db')"
proof (cases x)
  case True
  then have "family_revoked u s c now db db'"
    using r replaced_sessions(1) [OF ok _ snap] by (auto simp: rotation_def)
  then show ?thesis using revoked_kept ok by (simp add: kept_sessions_def)
next
  case False
  then obtain w where w: "replaced u s rid h now db 1 w" "sessions db' = sessions w"
    using r by (auto simp: rotation_def dest: audited_sessions)
  then show ?thesis using replaced_sessions(2,3) [OF ok w(1) snap] by simp
qed

lemma quiet_tx:
  assumes "tx_commits sv c now tx db db'"
    and "case tx of TxLogin _ _ _ _ _ \<Rightarrow> False | TxRotate _ _ _ _ \<Rightarrow> False | _ \<Rightarrow> True"
  shows "kept_sessions (sessions db) (sessions db')"
proof (cases tx)
  case (TxRegister u vid vh)
  then obtain x where "committed (register_tx sv u vid vh c now) db x db'" using assms by auto
  from register_tx_post [OF this] show ?thesis by (auto dest!: audited_sessions quiet_statements)
next
  case (TxReuse u s)
  then obtain x where "committed (reuse_tx sv u s c now) db x db'" using assms by auto
  from reuse_tx_post [OF this] show ?thesis by (auto dest!: audited_sessions dest: revoke_kept)
next
  case (TxLogout uid sid)
  then obtain x where "committed (logout_tx sv uid sid c now) db x db'" using assms by auto
  from logout_tx_post [OF this] show ?thesis by (auto dest!: audited_sessions dest: revoke_kept)
next
  case (TxLogoutAll uid)
  then obtain x where "committed (logout_all_tx sv uid c now) db x db'" using assms by auto
  from logout_all_tx_post [OF this] show ?thesis by (auto dest!: audited_sessions dest: revoke_kept)
next
  case (TxStatus uid st by')
  then obtain x where "committed (status_tx sv uid st by' c now) db x db'" using assms by auto
  from status_tx_post [OF this] obtain n w w' where w: "exec (iq_UpdateUserStatus uid st now) db n w"
      "if st = UserDisabled then exec (iq_RevokeUserSessions uid now ''user_disabled'') w () w' else w' = w"
      "sessions db' = sessions w'"
    using audited_sessions by blast
  show ?thesis
  proof (cases "st = UserDisabled")
    case True
    then have "kept_sessions (sessions w) (sessions w')" using w(2) revoke_kept(3) by simp
    then show ?thesis using quiet_statements(2) [OF w(1)] w(3) by simp
  qed (use quiet_statements(2) [OF w(1)] w in simp)
next
  case (TxAssign uid by' role)
  then obtain x where "committed (assign_tx sv uid by' role c now) db x db'" using assms by auto
  from assign_tx_post [OF this] show ?thesis by (auto dest!: audited_sessions quiet_statements)
next
  case (TxRemove uid by' role)
  then obtain x where "committed (remove_tx sv uid by' role c now) db x db'" using assms by auto
  from remove_tx_post [OF this] show ?thesis by (auto dest!: audited_sessions quiet_statements)
next
  case (TxResetRequest tid uid h)
  then obtain x where "committed (reset_request_tx sv tid uid h c now) db x db'" using assms by auto
  from reset_request_tx_post [OF this] show ?thesis by (auto dest!: audited_sessions quiet_statements)
next
  case (TxResetConfirm t h)
  then obtain x where "committed (reset_confirm_tx sv t h c now) db x db'" using assms by auto
  from reset_confirm_tx_post [OF this] obtain w1 w2 w3 i where w: "exec (iq_UpdatePassword (ot_UserID t) h now) db () w1"
      "exec (iq_RevokeUserSessions (ot_UserID t) now ''password_reset'') w1 () w2"
      "exec (iq_ConsumeResetToken (ot_ID t) now) w2 1 w3" "audited i w3 db'"
    by blast
  from revoke_kept(3) [OF w(2)] show ?thesis
    using quiet_statements(3) [OF w(1)] quiet_statements(9) [OF w(3)] audited_sessions [OF w(4)] by simp
next
  case (TxVerify t)
  then obtain x where "committed (verify_tx sv t c now) db x db'" using assms by auto
  from verify_tx_post [OF this] show ?thesis by (auto dest!: audited_sessions quiet_statements)
next
  case (TxMachine p)
  then obtain x where "committed (machine_tx sv p c now) db x db'" using assms by auto
  from machine_tx_post [OF this] show ?thesis by (auto dest!: audited_sessions quiet_statements)
qed (use assms in simp_all)

lemma read_session_row:
  assumes "read_session h u s" "\<forall>d \<in> set h. persists (sessions d) t"
  shows "\<exists>q \<in> set t. st_id q = se_ID s \<and> st_family_id q = se_FamilyID s \<and> st_user_id q = us_ID u"
proof -
  obtain d r where "d \<in> set h" "r \<in> set (sessions d)" "se_ID s = st_id r" "se_FamilyID s = st_family_id r"
      "us_ID u = st_user_id r"
    using assms(1) by (auto simp: read_session_def)
  moreover from this obtain q where "q \<in> set t" "core q = core r" using assms(2) by (meson persists_def)
  ultimately show ?thesis using core_fields [of q r] by auto
qed

lemma tx_kept:
  assumes ok: "sess_ok (sessions db)" and "admissible (db # h) tx" "tx_commits sv c now tx db db'"
    and past: "\<forall>d \<in> set (db # h). persists (sessions d) (sessions db)"
  shows "sess_ok (sessions db') \<and> persists (sessions db) (sessions db')"
proof (cases "case tx of TxLogin _ _ _ _ _ \<Rightarrow> False | TxRotate _ _ _ _ \<Rightarrow> False | _ \<Rightarrow> True")
  case True
  then show ?thesis using quiet_tx [OF assms(3)] ok by (simp add: kept_sessions_def)
next
  case False
  then consider (login) sid fid uid k act where "tx = TxLogin sid fid uid k act"
    | (rotate) u s rid k where "tx = TxRotate u s rid k" by (cases tx) auto
  then show ?thesis
  proof cases
    case login
    then obtain x where "committed (session_tx sv (new_session sid fid uid None now) k c act now) db x db'"
      using assms(3) by auto
    from session_tx_post [OF this] obtain r w where r: "exec (iq_CreateSession sid fid uid k
        (plus_ns now refreshTokenTTL) now None None None) db r w" "sessions db' = sessions w"
      by (auto simp: new_session_def dest: audited_sessions)
    note row = create_session_row [OF r(1)]
    have "st_family_id r \<notin> st_family_id ` set (sessions db)" using assms(2) login row(3) by auto
    then show ?thesis
      using sess_ok_login [OF ok, of r] row r(2) by (simp add: persists_append)
  next
    case rotate
    then obtain x where x: "committed (rotate_tx sv u s rid k c now) db x db'" using assms(3) by auto
    have "read_session (db # h) u s" using assms(2) rotate by simp
    then show ?thesis using rotation_kept [OF ok rotate_tx_post [OF x]] read_session_row past by blast
  qed
qed

lemma history_kept:
  assumes "id_history sv db0 h" "sess_ok (sessions db0)"
  shows "h \<noteq> [] \<and> sess_ok (sessions (hd h)) \<and> (\<forall>d \<in> set h. persists (sessions d) (sessions (hd h)))"
  using assms(1)
proof (induction rule: id_history.induct)
  case start
  then show ?case using assms(2) by simp
next
  case (commit db h tx c now db')
  then have "sess_ok (sessions db') \<and> persists (sessions db) (sessions db')" using tx_kept [of db h] by simp
  then show ?case using commit.IH persists_trans by (metis list.distinct(1) list.sel(1) persists_refl set_ConsD)
next
  case (published db h xid at db')
  then show ?case using quiet_statements(12) [OF published.hyps(2)] by simp
next
  case (failed db h xid reason db')
  then show ?case using quiet_statements(13) [OF failed.hyps(2)] by simp
qed

end
