(* ===== verification/Spec2Isabelle.thy ===== *)
theory Spec2Isabelle
  imports Orders_Config Gateway_Limits Gateway_Responses Gateway_Refresh Platform
    Identity_Sessions
begin

text \<open>
  \<^bold>\<open>StreamWeave\<close> is a set of Go services for order processing
  (\<^verbatim>\<open>src/apps\<close>).  The \<^emph>\<open>gateway\<close> is the only service clients reach: it verifies their
  access token, decides by a table of route policies whether the person may call the route,
  limits the rate of calls, and forwards the request with its own service token and the
  identity of the person in headers.  \<^emph>\<open>Orders\<close> holds the order aggregate in Postgres and
  drives a saga: every change writes commands or events to an outbox table in the same
  transaction, a relay process publishes the outbox to Kafka and applies the facts of the
  other services (inventory, payments, fulfillment) through an inbox table.

  \<^bold>\<open>Foundations.\<close>
  \<^item> \<open>Prelude\<close>: Go strings as byte lists (\<^verbatim>\<open>strings.TrimSpace\<close>, \<^verbatim>\<open>Fields\<close>, \<^verbatim>\<open>Split\<close>),
    patterns, 64-bit wrap-around, times, the table operations of the queries.
  \<^item> \<open>Effects\<close>: computations with explicit state.  A session has the committed tables, the
    tables of the open transaction and a counter; the environment decides for every effect
    whether it fails, whether the acknowledgement of a failed commit was only lost, what the
    clock shows and what the network returns.  The weakest preconditions and the frames
    (locale \<open>session_frame\<close>) carry the proofs about all adapters.
  \<^item> \<open>Codec\<close>: JSON values, struct decoding, base64url and hexadecimal, with the Go library
    functions the code relies on (parsing, printing, hashes) in a record of parameters.
  \<^item> \<open>Web\<close>, \<open>Settings\<close>: HTTP requests and responses, environment variables.
  \<^item> \<open>Keyset\<close>: pages of a sorted table by the key of the last row.

  \<^bold>\<open>Orders\<close> (\<^verbatim>\<open>apps/orders\<close>).
  \<^item> \<open>Orders_Domain\<close>: the aggregate (\<^verbatim>\<open>domain/orders/models.go\<close>); well-formedness is an
    invariant of all operations, pricing is exact below the limit.
  \<^item> \<open>Orders_Queries\<close>, \<open>Orders_Store\<close>: the statements of \<^verbatim>\<open>orders.sql.go\<close> over tables with
    the constraints of the migrations, and the methods of \<^verbatim>\<open>store.go\<close>.
  \<^item> \<open>Orders_Quote\<close>: signed price quotes (\<^verbatim>\<open>quote.go\<close>).
  \<^item> \<open>Orders_Transactions\<close>, \<open>Orders_Integrity\<close>, \<open>Orders_Delivery\<close>: atomicity, the
    integrity of the tables under any interleaving of store calls and faults, and the
    delivery of outbox rows and facts.
  \<^item> \<open>Orders_Ports\<close>, \<open>Orders_Service\<close>, \<open>Orders_Listing\<close>, \<open>Orders_Access\<close>: the application
    service over the locale of its store, authorization, cursors and pages.
  \<^item> \<open>Orders_Relay\<close>: \<^verbatim>\<open>cmd/relay/main.go\<close>, publication and consumption.
  \<^item> \<open>Orders_HTTP\<close>, \<open>Orders_API\<close>, \<open>Orders_Config\<close>: the handlers and authentication of
    \<^verbatim>\<open>adapters/inbound/http\<close>, the health checks, and the configuration.
  \<^item> \<open>Orders_Theorems\<close>: the properties of the aggregate, the store and the relay.

  \<^bold>\<open>Gateway\<close> (\<^verbatim>\<open>apps/gateway\<close>).
  \<^item> \<open>Gateway_Domain\<close>: actors, policies and errors (\<^verbatim>\<open>domain/gateway\<close>).
  \<^item> \<open>Gateway_Adapters\<close>: token verification with the key cache, the Redis limiter, the service
    token client and the upstream client (\<^verbatim>\<open>adapters/outbound\<close>).
  \<^item> \<open>Gateway_Service\<close>, \<open>Gateway_HTTP\<close>: the service over the locales of its ports, and
    \<^verbatim>\<open>server.go\<close>.  \<open>Gateway_Demo\<close> has the concrete gateway of the witnesses.
  \<^item> \<open>Gateway_Theorems\<close>: only authorized requests are forwarded, a bounded number of times.
  \<^item> \<open>Gateway_Limits\<close>: the limiter admits no more than its limits in any window.
  \<^item> \<open>Gateway_Responses\<close>: what clients see of upstream answers.
  \<^item> \<open>Gateway_Refresh\<close>: concurrent key refreshes as a transition system.
  \<^item> \<open>Gateway_Config\<close>: \<^verbatim>\<open>platform/config\<close> and the wiring of \<^verbatim>\<open>main.go\<close>.
  \<^item> \<open>Platform\<close>: the gateway and Orders together; the person the gateway verified is the one
    Orders records.

  \<^bold>\<open>Bounds.\<close>  Go's integers are kept at their width: versions are 64-bit words, other
  integers are wrapped where the code computes with them.  All loops are structural
  recursions over the data of the code: the retry loop of the gateway counts its attempts,
  the consume loop of the relay runs for a given number of rounds, of which eight are proved
  to be enough.  No definition uses fuel in place of a termination argument.

  \<^bold>\<open>Not modelled.\<close>  Metrics, traces and logs, which do not influence any result; the generated
  connection plumbing (\<^verbatim>\<open>db.go\<close>, \<^verbatim>\<open>querier.go\<close>); listeners, signal handling, tickers and
  client construction in the \<^verbatim>\<open>main\<close> packages; the SQL migrations, except that their
  constraints are part of the queries; the Swagger pages.  Concurrent transactions are
  serialized: a transaction sees the tables as they were at its begin, and statements of
  other processes take effect between transactions.  Postgres, Redis, Kafka, the JSON and
  JWT libraries, hashes and signatures are parameters or environment choices.
\<close>

end
